(* ===== verification/Go_Prelude.thy ===== *)
theory Go_Prelude
  imports Main "HOL-Library.Word" "HOL-Library.AList" "HOL-Library.Multiset"
begin

text \<open>
  What every component uses of the Go language and its standard library: the machine
  integers, the decimal and hexadecimal printing of \<^verbatim>\<open>strconv\<close> and \<^verbatim>\<open>fmt\<close>, nil-able pointers,
  the flow of a statement that can panic, and the generic lemmas on lists and association
  lists that the component theories share.  The collection \<open>go_defs\<close> gathers the small
  conversion functions that proofs unfold together.
\<close>

named_theorems go_defs \<open>definitions of small Go conversions, unfolded together\<close>

section \<open>Integers, bytes and pointers\<close>

type_synonym uint8 = "8 word"
type_synonym int32 = "32 word"   \<comment> \<open>read with \<open>sint\<close>\<close>
type_synonym uint32 = "32 word"  \<comment> \<open>read with \<open>uint\<close> or \<open>unat\<close>\<close>
type_synonym int64 = "64 word"
type_synonym uint64 = "64 word"

text \<open>A \<^verbatim>\<open>[]byte\<close>; a Go string is a sequence of bytes too and is a HOL \<open>string\<close>.\<close>

type_synonym bytes = "uint8 list"

definition bytes_of_string :: "string \<Rightarrow> bytes" where
  "bytes_of_string s = map of_char s"

text \<open>A pointer that is only read is an \<open>option\<close>: \<open>None\<close> is nil.\<close>

text \<open>A call that can panic; the value of a call that returns is in \<open>Ret\<close>.\<close>

datatype 'a flow = Panic | Ret 'a

text \<open>Conversions between integer types of different width or signedness.\<close>

definition uint32_to_int64 :: "uint32 \<Rightarrow> int64" where
  "uint32_to_int64 w = ucast w"

definition int64_of_int :: "int \<Rightarrow> int64" where
  "int64_of_int i = word_of_int i"

lemma int64_sint_inject: "sint (a::int64) = sint b \<Longrightarrow> a = b"
  by (rule signed_word_eqI)

section \<open>Decimal printing\<close>

definition digit_char :: "nat \<Rightarrow> char" where
  "digit_char d = ''0123456789'' ! d"

fun dec :: "nat \<Rightarrow> string" where
  "dec n = (if n < 10 then [digit_char n] else dec (n div 10) @ [digit_char (n mod 10)])"

declare dec.simps [simp del]

text \<open>\<^verbatim>\<open>strconv.AppendInt(_, v, 10)\<close>, \<^verbatim>\<open>strconv.Itoa\<close> and \<^verbatim>\<open>%d\<close>.\<close>

definition dec_int :: "int \<Rightarrow> string" where
  "dec_int i = (if i < 0 then CHR ''-'' # dec (nat (- i)) else dec (nat i))"

text \<open>\<^verbatim>\<open>%02d\<close> on a value that is not negative.\<close>

definition dec02 :: "nat \<Rightarrow> string" where
  "dec02 n = replicate (2 - length (dec n)) (CHR ''0'') @ dec n"

definition is_digit :: "char \<Rightarrow> bool" where
  "is_digit c \<longleftrightarrow> c \<in> set ''0123456789''"

text \<open>The reading of a digit and of a digit string, to state that printing loses nothing.\<close>

definition digit_val :: "char \<Rightarrow> nat" where
  "digit_val c = of_char c - 48"

definition undec :: "string \<Rightarrow> nat" where
  "undec s = foldl (\<lambda>a c. 10 * a + digit_val c) 0 s"

lemma less_10_cases: "(d::nat) < 10 \<Longrightarrow> d \<in> {0, 1, 2, 3, 4, 5, 6, 7, 8, 9}"
  by auto

lemma digit_char_is_digit [simp]: "d < 10 \<Longrightarrow> is_digit (digit_char d)"
  unfolding digit_char_def is_digit_def by (drule less_10_cases) auto

lemma digit_val_char [simp]: "d < 10 \<Longrightarrow> digit_val (digit_char d) = d"
  unfolding digit_char_def digit_val_def by (drule less_10_cases) auto

lemma dec_nonempty [simp]: "dec n \<noteq> []"
  by (subst dec.simps) simp

lemma dec_digits: "c \<in> set (dec n) \<Longrightarrow> is_digit c"
proof (induction n rule: dec.induct)
  case (1 n)
  then show ?case
    by (cases "n < 10") (auto simp: dec.simps [of n])
qed

lemma undec_snoc [simp]: "undec (s @ [c]) = 10 * undec s + digit_val c"
  by (simp add: undec_def)

lemma undec_dec [simp]: "undec (dec n) = n"
proof (induction n rule: dec.induct)
  case (1 n)
  then show ?case
    by (cases "n < 10") (simp_all add: dec.simps [of n] undec_def)
qed

lemma dec_inject [simp]: "dec m = dec n \<longleftrightarrow> m = n"
  by (metis undec_dec)

text \<open>No printed number holds a separator: what makes a key of several fields readable.\<close>

lemma dec_no_sep: "\<not> is_digit c \<Longrightarrow> c \<notin> set (dec n)"
  using dec_digits by blast

lemma dec_int_no_sep: "\<not> is_digit c \<Longrightarrow> c \<noteq> CHR ''-'' \<Longrightarrow> c \<notin> set (dec_int i)"
  by (auto simp: dec_int_def dec_no_sep)

lemma dec_not_minus: "dec n \<noteq> CHR ''-'' # s"
proof
  assume "dec n = CHR ''-'' # s"
  then have "is_digit (CHR ''-'')" using dec_digits [of "CHR ''-''" n] by simp
  then show False by (simp add: is_digit_def)
qed

lemma dec_int_inject [simp]: "dec_int i = dec_int j \<longleftrightarrow> i = j"
  using dec_not_minus by (auto simp: dec_int_def dest: sym)

lemma seps_not_digits [simp]:
  "\<not> is_digit (CHR ''_'')" "\<not> is_digit (CHR '':'')" "\<not> is_digit (CHR ''-'')"
  by (simp_all add: is_digit_def)

lemma dec_length_pos: "0 < length (dec n)"
  by simp

lemma dec_length_1: "length (dec n) = 1 \<longleftrightarrow> n < 10"
  by (cases "n < 10") (auto simp: dec.simps [of n])

lemma dec02_two: "n < 100 \<Longrightarrow> length (dec02 n) = 2"
proof -
  assume "n < 100"
  then have "length (dec n) = (if n < 10 then 1 else 2)"
    by (auto simp: dec.simps [of n] dec.simps [of "n div 10"])
  then show ?thesis by (auto simp: dec02_def)
qed

lemma undec_zeros: "undec (replicate k (CHR ''0'') @ s) = undec s"
proof (induction k)
  case (Suc k)
  then show ?case by (simp add: undec_def digit_val_def)
qed simp

lemma undec_dec02 [simp]: "undec (dec02 n) = n"
  by (simp add: dec02_def undec_zeros)

section \<open>Hexadecimal printing\<close>

definition hex_char :: "nat \<Rightarrow> char" where
  "hex_char d = ''0123456789abcdef'' ! d"

text \<open>\<^verbatim>\<open>%x\<close> on a byte slice: two lower-case digits a byte.\<close>

definition hex_byte :: "uint8 \<Rightarrow> string" where
  "hex_byte b = [hex_char (unat b div 16), hex_char (unat b mod 16)]"

definition hex_string :: "bytes \<Rightarrow> string" where
  "hex_string bs = concat (map hex_byte bs)"

definition hex_val :: "char \<Rightarrow> nat" where
  "hex_val c = (if is_digit c then digit_val c else of_char c - 87)"

fun unhex :: "string \<Rightarrow> bytes" where
  "unhex (a # b # s) = of_nat (16 * hex_val a + hex_val b) # unhex s"
| "unhex _ = []"

lemma less_16_cases: "(d::nat) < 16 \<Longrightarrow> d \<in> {0,1,2,3,4,5,6,7,8,9,10,11,12,13,14,15}"
  unfolding insert_iff empty_iff by presburger

lemma hex_val_char [simp]: "d < 16 \<Longrightarrow> hex_val (hex_char d) = d"
  unfolding hex_char_def hex_val_def digit_val_def is_digit_def
  by (drule less_16_cases) auto

lemma unat_byte_less: "unat (b::uint8) < 256"
  using unsigned_less [of b, where 'a = nat] by simp

lemma unhex_hex_string [simp]: "unhex (hex_string bs) = bs"
proof (induction bs)
  case Nil
  then show ?case by (simp add: hex_string_def)
next
  case (Cons b bs)
  have "unat b div 16 < 16" using unat_byte_less [of b] by simp
  moreover have "16 * (unat b div 16) + unat b mod 16 = unat b" by simp
  ultimately show ?case using Cons by (simp add: hex_string_def hex_byte_def)
qed

lemma length_hex_string [simp]: "length (hex_string bs) = 2 * length bs"
  by (induction bs) (simp_all add: hex_string_def hex_byte_def)

section \<open>Splitting at a separator\<close>

text \<open>
  The text before the first separator is determined by the whole, when it holds no
  separator itself; symmetrically for the text after the last one.
\<close>

lemma append_sep_inject:
  assumes "x @ c # y = x' @ c # y'" and "c \<notin> set x" and "c \<notin> set x'"
  shows "x = x' \<and> y = y'"
  using assms
proof (induction x arbitrary: x')
  case Nil
  then show ?case by (cases x') auto
next
  case (Cons a x)
  then show ?case by (cases x') auto
qed

lemma append_sep_inject_last:
  assumes "x @ c # y = x' @ c # y'" and "c \<notin> set y" and "c \<notin> set y'"
  shows "x = x' \<and> y = y'"
proof -
  have "rev y @ c # rev x = rev y' @ c # rev x'"
    using arg_cong [OF assms(1), of rev] by simp
  then have "rev y = rev y' \<and> rev x = rev x'"
    using assms(2,3) by (intro append_sep_inject) auto
  then show ?thesis by simp
qed

section \<open>Lists\<close>

lemma list_update_split:
  "i < length xs \<Longrightarrow> xs[i := y] = take i xs @ y # drop (Suc i) xs"
  by (rule upd_conv_take_nth_drop)

lemma sum_list_update_nat:
  "i < length xs \<Longrightarrow> sum_list (map f (xs[i := y])) + f (xs ! i) = sum_list (map f xs) + (f y :: nat)"
proof (induction xs arbitrary: i)
  case (Cons a xs)
  then show ?case by (cases i) (auto simp: add_ac)
qed simp

lemma concat_update_mset:
  "i < length xs \<Longrightarrow>
   mset (concat (map f (xs[i := y]))) + mset (f (xs ! i)) = mset (concat (map f xs)) + mset (f y)"
proof (induction xs arbitrary: i)
  case (Cons a xs)
  then show ?case by (cases i) (auto simp: add_ac)
qed simp

lemma mset_eq_imp_set: "mset xs = mset ys \<Longrightarrow> set xs = set ys"
  by (metis set_mset_mset)

end
