(* ===== verification/Go_Time.thy ===== *)
theory Go_Time
  imports Go_Prelude
begin

text \<open>
  The instants of \<^verbatim>\<open>time.Time\<close> the collector uses.  An instant is the second since the
  Unix epoch and the nanosecond within it, as \<^verbatim>\<open>Unix()\<close> and \<^verbatim>\<open>Nanosecond()\<close> read it; the location
  is left out, since every operation used here (\<^verbatim>\<open>After\<close>, \<^verbatim>\<open>Sub\<close>, \<^verbatim>\<open>IsZero\<close>, \<^verbatim>\<open>Truncate\<close>, \<^verbatim>\<open>Unix\<close>) is
  about the instant.  A duration is a count of nanoseconds.
\<close>

record gtime =
  unix_sec :: int
  nanosec :: int

type_synonym duration = int

definition second_dur :: duration where "second_dur = 1000000000"
definition minute_dur :: duration where "minute_dur = 60 * second_dur"

text \<open>\<^verbatim>\<open>time.Unix(sec, nsec)\<close> carries whole seconds out of the nanoseconds.\<close>

definition time_Unix :: "int \<Rightarrow> int \<Rightarrow> gtime" where
  "time_Unix s n = \<lparr>unix_sec = s + n div 1000000000, nanosec = n mod 1000000000\<rparr>"

definition time_UnixMilli :: "int \<Rightarrow> gtime" where
  "time_UnixMilli ms = time_Unix (ms div 1000) ((ms mod 1000) * 1000000)"

text \<open>The zero value of \<^verbatim>\<open>time.Time\<close> is the first instant of year 1.\<close>

definition zero_time :: gtime where
  "zero_time = \<lparr>unix_sec = -62135596800, nanosec = 0\<rparr>"

definition time_IsZero :: "gtime \<Rightarrow> bool" where
  "time_IsZero t \<longleftrightarrow> unix_sec t = -62135596800 \<and> nanosec t = 0"

definition time_After :: "gtime \<Rightarrow> gtime \<Rightarrow> bool" where
  "time_After t u \<longleftrightarrow> unix_sec t > unix_sec u \<or> (unix_sec t = unix_sec u \<and> nanosec t > nanosec u)"

text \<open>\<^verbatim>\<open>Truncate(time.Second)\<close> rounds down to a whole second.\<close>

definition truncate_second :: "gtime \<Rightarrow> gtime" where
  "truncate_second t = t\<lparr>nanosec := 0\<rparr>"

definition nanos_of :: "gtime \<Rightarrow> int" where
  "nanos_of t = unix_sec t * 1000000000 + nanosec t"

text \<open>\<^verbatim>\<open>Sub\<close> saturates at the ends of the int64 range.\<close>

definition time_Sub :: "gtime \<Rightarrow> gtime \<Rightarrow> duration" where
  "time_Sub t u = max (- (2 ^ 63)) (min (2 ^ 63 - 1) (nanos_of t - nanos_of u))"

definition gtime_wf :: "gtime \<Rightarrow> bool" where
  "gtime_wf t \<longleftrightarrow> 0 \<le> nanosec t \<and> nanosec t < 1000000000"

lemma time_Unix_wf [simp]: "gtime_wf (time_Unix s n)"
  by (simp add: gtime_wf_def time_Unix_def)

lemma time_UnixMilli_wf [simp]: "gtime_wf (time_UnixMilli ms)"
  by (simp add: time_UnixMilli_def)

lemma nanos_of_time_Unix [simp]: "nanos_of (time_Unix s n) = s * 1000000000 + n"
  by (simp add: nanos_of_def time_Unix_def algebra_simps)

lemma nanos_of_time_UnixMilli [simp]: "nanos_of (time_UnixMilli ms) = ms * 1000000"
proof -
  have "ms div 1000 * 1000 + ms mod 1000 = ms" by simp
  then show ?thesis unfolding time_UnixMilli_def nanos_of_time_Unix by linarith
qed

lemma nanos_unique:
  fixes a b x y k :: int
  assumes "0 \<le> x" "x < k" "0 \<le> y" "y < k"
  shows "a * k + x = b * k + y \<longleftrightarrow> a = b \<and> x = y"
proof
  assume eq: "a * k + x = b * k + y"
  have "a = (a * k + x) div k" using assms by simp
  also have "\<dots> = (b * k + y) div k" by (simp add: eq)
  also have "\<dots> = b" using assms by simp
  finally show "a = b \<and> x = y" using eq by simp
qed simp

lemma nanos_of_inject:
  "gtime_wf t \<Longrightarrow> gtime_wf u \<Longrightarrow> nanos_of t = nanos_of u \<longleftrightarrow> t = u"
  unfolding gtime_wf_def nanos_of_def by (cases t; cases u) (simp add: nanos_unique)

lemma time_After_iff_nanos:
  "gtime_wf t \<Longrightarrow> gtime_wf u \<Longrightarrow> time_After t u \<longleftrightarrow> nanos_of t > nanos_of u"
  unfolding gtime_wf_def nanos_of_def time_After_def by auto

lemma time_After_irrefl [simp]: "\<not> time_After t t"
  by (simp add: time_After_def)

lemma time_After_trans: "time_After t u \<Longrightarrow> time_After u v \<Longrightarrow> time_After t v"
  by (auto simp: time_After_def)

text \<open>The later of two instants, as the merges of the buffer keep it.\<close>

definition later :: "gtime \<Rightarrow> gtime \<Rightarrow> gtime" where
  "later existing new = (if time_After new existing then new else existing)"

lemma later_cases: "later e n = e \<or> later e n = n"
  by (simp add: later_def)

lemma truncate_later:
  "truncate_second e = truncate_second n \<Longrightarrow> truncate_second (later e n) = truncate_second e"
  by (simp add: later_def)

lemma nanosec_truncate [simp]: "nanosec (truncate_second t) = 0"
  and unix_sec_truncate [simp]: "unix_sec (truncate_second t) = unix_sec t"
  by (simp_all add: truncate_second_def)

lemma nanos_of_later:
  "gtime_wf e \<Longrightarrow> gtime_wf n \<Longrightarrow> nanos_of (later e n) = max (nanos_of e) (nanos_of n)"
  by (auto simp: later_def time_After_iff_nanos max_def)

end
