(* ===== verification/Buffer_Interface.thy ===== *)
theory Buffer_Interface
  imports Go_Time "HOL-Library.List_Lexorder" "HOL-Library.Char_ord"
begin

text \<open>
  The contract between the buffer manager (\<^verbatim>\<open>internal/buffer/buffer_manager.go\<close>) and the maps it
  buffers metrics in (\<^verbatim>\<open>internal/buffer/sharded_map.go\<close>), and the contract between the manager and a
  kind of metric.  \<open>agg_loop\<close> is the loop of the \<^verbatim>\<open>Add...Metrics\<close> methods over any map; the locales
  state what it relies on and prove what it does, once for all kinds of metric and for every
  map that keeps the laws.  \<open>Sharded_Map\<close> interprets \<open>keyed_buffer\<close> and \<open>Buffer_Merge\<close> the other
  locales, on the definitions of the model.
\<close>

section \<open>Iteration order and values of a map\<close>

text \<open>Go leaves the order of \<^verbatim>\<open>range\<close> over a map open: any permutation of the entries.\<close>

definition range_order :: "((string \<times> 'v) list \<Rightarrow> (string \<times> 'v) list) \<Rightarrow> bool" where
  "range_order ord \<longleftrightarrow> (\<forall>xs. mset (ord xs) = mset xs)"

lemma range_order_id [simp]: "range_order (\<lambda>xs. xs)"
  and range_order_rev [simp]: "range_order rev"
  by (simp_all add: range_order_def)

text \<open>The values of a map, each once for its key.\<close>

definition map_values :: "('k \<Rightarrow> 'v option) \<Rightarrow> 'v multiset" where
  "map_values f = image_mset (\<lambda>k. the (f k)) (mset_set (dom f))"

lemma map_values_empty [simp]: "map_values Map.empty = {#}"
  by (simp add: map_values_def)

lemma map_values_map_of:
  assumes "distinct (map fst xs)"
  shows "map_values (map_of xs) = mset (map snd xs)"
proof -
  have "mset_set (dom (map_of xs)) = mset (map fst xs)"
    using assms by (metis dom_map_of_conv_image_fst list.set_map mset_set_set)
  moreover have "map (\<lambda>k. the (map_of xs k)) (map fst xs) = map snd xs"
    using assms by (auto simp: map_of_is_SomeI)
  ultimately show ?thesis
    unfolding map_values_def by (metis mset_map)
qed

lemma map_values_insert:
  assumes "finite (dom f)" and "f k = None"
  shows "map_values (f(k \<mapsto> v)) = add_mset v (map_values f)"
proof -
  have nk: "k \<notin> dom f" using assms(2) by auto
  have "image_mset (\<lambda>x. the ((f(k \<mapsto> v)) x)) (mset_set (dom f)) =
      image_mset (\<lambda>x. the (f x)) (mset_set (dom f))"
    using assms(1) nk by (intro image_mset_cong) auto
  then show ?thesis
    unfolding map_values_def using assms(1) nk by simp
qed

lemma size_map_values: "size (map_values f) = card (dom f)"
  by (simp add: map_values_def)

lemma in_map_values: "finite (dom f) \<Longrightarrow> v \<in># map_values f \<longleftrightarrow> (\<exists>k. f k = Some v)"
  by (auto simp: map_values_def image_iff dom_def)

section \<open>The adding loop and its specification\<close>

text \<open>
  For each metric in turn: merge it into the entry of its key if there is one (and count a key
  collision), else store a copy of it.
\<close>

fun agg_loop ::
  "('m \<Rightarrow> string \<Rightarrow> 'v option) \<Rightarrow> (string \<Rightarrow> 'v \<Rightarrow> 'm \<Rightarrow> 'm) \<Rightarrow> ('v \<Rightarrow> string) \<Rightarrow> ('v \<Rightarrow> 'v \<Rightarrow> 'v) \<Rightarrow>
   'v list \<Rightarrow> 'm \<Rightarrow> nat \<Rightarrow> 'm \<times> nat"
where
  "agg_loop get put key merge [] m collisions = (m, collisions)"
| "agg_loop get put key merge (x # xs) m collisions =
     (case get m (key x) of
        Some existing \<Rightarrow>
          agg_loop get put key merge xs (put (key x) (merge existing x) m) (Suc collisions)
      | None \<Rightarrow> agg_loop get put key merge xs (put (key x) x m) collisions)"

text \<open>
  What a batch does to the entry of one key: the metrics of that key are merged into it in
  order, the first one being stored as it is when there was no entry.
\<close>

fun merged_at :: "('v \<Rightarrow> string) \<Rightarrow> ('v \<Rightarrow> 'v \<Rightarrow> 'v) \<Rightarrow> string \<Rightarrow> 'v list \<Rightarrow> 'v option \<Rightarrow> 'v option" where
  "merged_at key merge k [] e = e"
| "merged_at key merge k (x # xs) e =
     merged_at key merge k xs
       (if key x = k then Some (case e of None \<Rightarrow> x | Some v \<Rightarrow> merge v x) else e)"

lemma merged_at_other: "\<forall>x \<in> set xs. key x \<noteq> k \<Longrightarrow> merged_at key merge k xs e = e"
  by (induction xs) simp_all

lemma merged_at_filter:
  "merged_at key merge k xs e = merged_at key merge k (filter (\<lambda>x. key x = k) xs) e"
  by (induction xs arbitrary: e) simp_all

lemma merged_at_append:
  "merged_at key merge k (xs @ ys) e = merged_at key merge k ys (merged_at key merge k xs e)"
  by (induction xs arbitrary: e) simp_all

lemma merged_at_None_iff:
  "merged_at key merge k xs e = None \<longleftrightarrow> e = None \<and> (\<forall>x \<in> set xs. key x \<noteq> k)"
  by (induction xs arbitrary: e) auto

text \<open>When a merge is a replacement the last metric of a key wins.\<close>

lemma merged_at_replace:
  "merged_at key (\<lambda>e n. n) k xs e =
     (case filter (\<lambda>x. key x = k) xs of [] \<Rightarrow> e | ys \<Rightarrow> Some (last ys))"
proof (induction xs arbitrary: e)
  case (Cons x xs)
  show ?case
    by (cases "key x = k")
      (auto simp: Cons.IH split: option.splits list.splits)
qed simp

section \<open>The map a manager buffers in\<close>

locale keyed_buffer =
  fixes new :: 'm
    and look :: "'m \<Rightarrow> string \<Rightarrow> 'v option"
    and put :: "string \<Rightarrow> 'v \<Rightarrow> 'm \<Rightarrow> 'm"
    and len :: "'m \<Rightarrow> nat"
    and drain :: "((string \<times> 'v) list \<Rightarrow> (string \<times> 'v) list) \<Rightarrow> 'm \<Rightarrow> 'v list \<times> 'm"
    and invar :: "'m \<Rightarrow> bool"
  assumes invar_new: "invar new"
    and look_new: "look new = Map.empty"
    and invar_put: "invar m \<Longrightarrow> invar (put k v m)"
    and look_put: "invar m \<Longrightarrow> look (put k v m) = (look m)(k \<mapsto> v)"
    and finite_look: "invar m \<Longrightarrow> finite (dom (look m))"
    and len_look: "invar m \<Longrightarrow> len m = card (dom (look m))"
    and invar_drain: "invar m \<Longrightarrow> range_order ord \<Longrightarrow> invar (snd (drain ord m))"
    and look_drain: "invar m \<Longrightarrow> range_order ord \<Longrightarrow> look (snd (drain ord m)) = Map.empty"
    and drain_values: "invar m \<Longrightarrow> range_order ord \<Longrightarrow> mset (fst (drain ord m)) = map_values (look m)"
begin

lemma invar_agg: "invar m \<Longrightarrow> invar (fst (agg_loop look put key merge xs m c))"
  by (induction xs arbitrary: m c) (auto simp: invar_put split: option.split)

lemma look_agg:
  "invar m \<Longrightarrow>
   look (fst (agg_loop look put key merge xs m c)) k = merged_at key merge k xs (look m k)"
  by (induction xs arbitrary: m c) (auto simp: invar_put look_put split: option.split)

lemma dom_agg:
  "invar m \<Longrightarrow> dom (look (fst (agg_loop look put key merge xs m c))) = dom (look m) \<union> key ` set xs"
  by (auto simp: dom_def look_agg merged_at_None_iff)

text \<open>No metric disappears uncounted: each one is a new entry or a collision.\<close>

lemma len_put:
  assumes "invar m"
  shows "len (put k v m) = (case look m k of None \<Rightarrow> Suc (len m) | Some _ \<Rightarrow> len m)"
  using assms
  by (auto simp: len_look invar_put look_put finite_look insert_absorb domI domIff
      split: option.split)

lemma agg_conservation:
  assumes "invar m"
  shows "len (fst (agg_loop look put key merge xs m c)) + snd (agg_loop look put key merge xs m c) =
         len m + c + length xs"
  using assms
proof (induction xs arbitrary: m c)
  case (Cons x xs)
  then show ?case
    by (cases "look m (key x)") (simp_all add: invar_put len_put)
qed simp

lemma drain_len: "invar m \<Longrightarrow> range_order ord \<Longrightarrow> length (fst (drain ord m)) = len m"
  using drain_values [of m ord] by (metis len_look size_map_values size_mset)

lemma len_drained: "invar m \<Longrightarrow> range_order ord \<Longrightarrow> len (snd (drain ord m)) = 0"
  by (simp add: len_look invar_drain look_drain)

lemma set_drain:
  "invar m \<Longrightarrow> range_order ord \<Longrightarrow> v \<in> set (fst (drain ord m)) \<longleftrightarrow> (\<exists>k. look m k = Some v)"
  by (metis drain_values finite_look in_map_values set_mset_mset)

text \<open>
  Adding a batch in two parts is adding it in one: how the parser cuts its messages into batches
  does not change what is buffered.
\<close>

lemma agg_append:
  "agg_loop look put key merge (xs @ ys) m c =
   (case agg_loop look put key merge xs m c of (m', c') \<Rightarrow> agg_loop look put key merge ys m' c')"
  by (induction xs arbitrary: m c) (simp_all split: option.split)

end

section \<open>A kind of metric\<close>

text \<open>Merging two metrics of one key gives a metric of that key.\<close>

locale metric_kind =
  fixes key :: "'v \<Rightarrow> string" and merge :: "'v \<Rightarrow> 'v \<Rightarrow> 'v"
  assumes key_merge: "key e = key n \<Longrightarrow> key (merge e n) = key e"
begin

lemma key_merged_at:
  "(case e of None \<Rightarrow> True | Some v \<Rightarrow> key v = k) \<Longrightarrow> merged_at key merge k xs e = Some v \<Longrightarrow> key v = k"
proof (induction xs arbitrary: e)
  case (Cons x xs)
  show ?case
    by (rule Cons.IH [OF _ Cons.prems(2) [unfolded merged_at.simps]])
      (use Cons.prems(1) key_merge in \<open>auto split: option.splits\<close>)
qed simp

end

text \<open>A kind whose merge keeps the later of the two instants.\<close>

locale timed_kind = metric_kind +
  fixes stamp :: "'a \<Rightarrow> gtime"
  assumes stamp_merge: "stamp (merge e n) = later (stamp e) (stamp n)"
begin

lemma stamp_merged_at:
  "merged_at key merge k xs e = Some v \<Longrightarrow>
   stamp v \<in> stamp ` ({x \<in> set xs. key x = k} \<union> set_option e)"
proof (induction xs arbitrary: e)
  case (Cons x xs)
  show ?case
  proof (cases "key x = k")
    case True
    have "stamp v \<in> stamp ` ({x \<in> set xs. key x = k} \<union>
        set_option (Some (case e of None \<Rightarrow> x | Some v \<Rightarrow> merge v x)))"
      by (rule Cons.IH) (use Cons.prems True in simp)
    moreover have "stamp (case e of None \<Rightarrow> x | Some v \<Rightarrow> merge v x) \<in> stamp ` ({x} \<union> set_option e)"
      using later_cases by (fastforce simp: stamp_merge split: option.split)
    ultimately show ?thesis using True by auto
  next
    case False
    then show ?thesis using Cons.IH [of e] Cons.prems by auto
  qed
qed auto

lemma stamp_merged_at_ge:
  assumes "merged_at key merge k xs e = Some v" and "x \<in> set xs" and "key x = k"
  shows "\<not> time_After (stamp x) (stamp v)"
  using assms
proof (induction xs arbitrary: e v rule: rev_induct)
  case (snoc y ys)
  let ?e = "merged_at key merge k ys e"
  show ?case
  proof (cases "key y = k")
    case False
    with snoc show ?thesis by (auto simp: merged_at_append)
  next
    case True
    with snoc.prems(1) have v: "v = (case ?e of None \<Rightarrow> y | Some w \<Rightarrow> merge w y)"
      by (simp add: merged_at_append)
    show ?thesis
    proof (cases ?e)
      case None
      with snoc.prems v True show ?thesis by (auto simp: merged_at_None_iff)
    next
      case (Some w)
      have s: "stamp v = later (stamp w) (stamp y)" using v Some by (simp add: stamp_merge)
      from snoc.prems(2) consider "x = y" | "x \<in> set ys" by auto
      then show ?thesis
      proof cases
        case 1
        then show ?thesis by (simp add: s later_def)
      next
        case 2
        then have "\<not> time_After (stamp x) (stamp w)"
          using snoc.IH [OF Some] snoc.prems(3) by simp
        then show ?thesis by (auto simp: s later_def time_After_def)
      qed
    qed
  qed
qed simp

end

section \<open>A kind of metric buffered in a map\<close>

locale aggregating_buffer = keyed_buffer new look put len drain invar + metric_kind key merge
  for new :: 'm and look :: "'m \<Rightarrow> string \<Rightarrow> 'v option" and put len drain invar
    and key :: "'v \<Rightarrow> string" and merge
begin

text \<open>Every buffered metric lies under its own key.\<close>

lemma keyed_agg:
  assumes "invar m" and "\<And>k v. look m k = Some v \<Longrightarrow> key v = k"
    and "look (fst (agg_loop look put key merge xs m c)) k = Some v"
  shows "key v = k"
  by (rule key_merged_at [where e = "look m k" and xs = xs])
    (use assms in \<open>auto simp: look_agg split: option.splits\<close>)

lemma keyed_new: "look new k = Some v \<Longrightarrow> key v = k"
  by (simp add: look_new)

text \<open>So a drain never returns two metrics of one key.\<close>

lemma drain_distinct_keys:
  assumes "invar m" and "\<And>k v. look m k = Some v \<Longrightarrow> key v = k" and "range_order ord"
  shows "distinct (map key (fst (drain ord m)))"
proof -
  have "mset (map key (fst (drain ord m))) = image_mset key (map_values (look m))"
    using drain_values [OF assms(1,3)] by (metis mset_map)
  also have "\<dots> = image_mset (\<lambda>k. key (the (look m k))) (mset_set (dom (look m)))"
    by (simp add: map_values_def image_mset.compositionality comp_def)
  also have "\<dots> = image_mset (\<lambda>k. k) (mset_set (dom (look m)))"
    using assms(2) finite_look [OF assms(1)] by (intro image_mset_cong) auto
  finally have "mset (map key (fst (drain ord m))) = mset_set (dom (look m))" by simp
  then have "mset (map key (fst (drain ord m))) = mset (sorted_list_of_set (dom (look m)))"
    by (metis mset_set_set assms(1) finite_look distinct_sorted_list_of_set set_sorted_list_of_set)
  then show ?thesis by (metis mset_eq_imp_distinct_iff distinct_sorted_list_of_set)
qed

end

end
