(* ===== verification/Go_Float.thy ===== *)
theory Go_Float
  imports Go_Prelude Complex_Main "HOL-Library.Log_Nat"
begin

text \<open>
  The floating-point values of the collector.  A value is a class of IEEE 754: not a
  number, an infinity with its sign, negative zero, or a finite value, held as the exact
  rational it denotes.  \<open>is_float32\<close> says which finite values a \<^verbatim>\<open>float32\<close> can hold;
  \<open>f64_round\<close> is the rounding (to nearest, ties to even, with overflow to infinity and
  gradual underflow) of the \<^verbatim>\<open>float64\<close> operations, and \<open>fmt_2f\<close> the \<^verbatim>\<open>%.2f\<close> of \<^verbatim>\<open>fmt\<close>, which rounds
  the exact value to two decimals.  The sections end with the facts the parser rests on:
  a \<^verbatim>\<open>float32\<close> widened and multiplied by 100 is exact, so no rounding is lost before the print.
\<close>

datatype gofloat = F_NaN | F_Inf bool | F_NegZero | F_Num rat
  \<comment> \<open>\<open>F_Inf True\<close> is minus infinity\<close>

section \<open>Rounding\<close>

definition round_half_even :: "rat \<Rightarrow> int" where
  "round_half_even q =
     (let f = \<lfloor>q\<rfloor>; d = q - of_int f
      in if d < 1 / 2 then f else if 1 / 2 < d then f + 1 else if even f then f else f + 1)"

text \<open>The exponent of the leading bit of a positive rational.\<close>

definition ilog2 :: "rat \<Rightarrow> int" where
  "ilog2 q =
     (let (n, d) = quotient_of q; k = int (floorlog 2 (nat n)) - int (floorlog 2 (nat d))
      in if 2 powi k \<le> q then k else k - 1)"

definition f64_round :: "rat \<Rightarrow> gofloat" where
  "f64_round q =
     (if q = 0 then F_Num 0
      else let e = max (ilog2 \<bar>q\<bar> - 52) (- 1074);
               m = round_half_even (q / 2 powi e);
               r = of_int m * 2 powi e
           in if m = 0 then (if q < 0 then F_NegZero else F_Num 0)
              else if 2 ^ 1024 \<le> \<bar>r\<bar> then F_Inf (q < 0)
              else F_Num r)"

definition is_f32_rat :: "rat \<Rightarrow> bool" where
  "is_f32_rat q \<longleftrightarrow> (\<exists>m e. q = of_int m * 2 powi e \<and> \<bar>m\<bar> < 2 ^ 24 \<and> - 149 \<le> e \<and> e \<le> 104)"

definition is_float32 :: "gofloat \<Rightarrow> bool" where
  "is_float32 x \<longleftrightarrow> (case x of F_Num q \<Rightarrow> is_f32_rat q | _ \<Rightarrow> True)"

text \<open>\<^verbatim>\<open>float64(v)\<close> of a \<^verbatim>\<open>float32\<close> and of an unsigned 32-bit integer: both exact.\<close>

definition float64_of_float32 :: "gofloat \<Rightarrow> gofloat" where
  "float64_of_float32 x = x"

definition float64_of_uint32 :: "uint32 \<Rightarrow> gofloat" where
  "float64_of_uint32 w = F_Num (of_int (uint w))"

definition float64_of_int :: "int \<Rightarrow> gofloat" where
  "float64_of_int i = f64_round (of_int i)"

text \<open>Multiplication by a positive finite constant, as the source multiplies by 100.\<close>

definition f64_mul_pos :: "gofloat \<Rightarrow> rat \<Rightarrow> gofloat" where
  "f64_mul_pos x c =
     (case x of F_Num q \<Rightarrow> f64_round (q * c) | _ \<Rightarrow> x)"

text \<open>\<^verbatim>\<open>v == 0.0\<close>: both zeros are equal, not-a-number is not.\<close>

definition f_is_zero :: "gofloat \<Rightarrow> bool" where
  "f_is_zero x \<longleftrightarrow> x = F_NegZero \<or> x = F_Num 0"

section \<open>Printing with two decimals\<close>

definition fmt_2f_rat :: "bool \<Rightarrow> rat \<Rightarrow> string" where
  "fmt_2f_rat neg a =
     (let n = nat (round_half_even (a * 100))
      in (if neg then ''-'' else []) @ dec (n div 100) @ ''.'' @ dec02 (n mod 100))"

definition fmt_2f :: "gofloat \<Rightarrow> string" where
  "fmt_2f x =
     (case x of
        F_NaN \<Rightarrow> ''NaN''
      | F_Inf neg \<Rightarrow> (if neg then ''-Inf'' else ''+Inf'')
      | F_NegZero \<Rightarrow> ''-0.00''
      | F_Num q \<Rightarrow> fmt_2f_rat (q < 0) \<bar>q\<bar>)"

lemma fmt_2f_nonempty [simp]: "fmt_2f x \<noteq> []"
  by (simp add: fmt_2f_def fmt_2f_rat_def Let_def split: gofloat.splits)

section \<open>Rounding is exact on what fits\<close>

lemma round_half_even_of_int [simp]: "round_half_even (of_int i) = i"
  by (simp add: round_half_even_def Let_def)

lemma round_half_even_error: "\<bar>of_int (round_half_even q) - q\<bar> \<le> 1 / 2"
proof -
  define f :: rat where "f = of_int \<lfloor>q\<rfloor>"
  have "f \<le> q" and "q < f + 1" unfolding f_def by linarith+
  moreover have "of_int (round_half_even q) =
      (if q - f < 1 / 2 then f else if 1 / 2 < q - f then f + 1 else if even \<lfloor>q\<rfloor> then f else f + 1)"
    by (simp add: round_half_even_def Let_def f_def)
  ultimately show ?thesis by (auto simp: abs_if)
qed

lemma round_half_even_nonneg: "0 \<le> q \<Longrightarrow> 0 \<le> round_half_even q"
  using zero_le_floor [of q] by (auto simp: round_half_even_def Let_def)

lemma floorlog_powi_bounds:
  assumes "0 < (n::int)"
  shows "2 powi (int (floorlog 2 (nat n)) - 1) \<le> (of_int n :: rat)"
    and "(of_int n :: rat) < 2 powi int (floorlog 2 (nat n))"
proof -
  let ?k = "floorlog 2 (nat n)"
  have k: "0 < ?k" using assms by (simp add: floorlog_def)
  have "2 ^ (?k - 1) \<le> nat n \<and> nat n < 2 ^ ?k"
    using floorlog_bounds [of "nat n" 2] assms by simp
  then have "(2::int) ^ (?k - 1) \<le> n \<and> n < 2 ^ ?k"
    using assms by (metis nat_less_iff nat_le_eq_zle nat_numeral nat_power_eq le_nat_iff less_imp_le
        of_nat_le_iff of_nat_less_iff of_nat_numeral of_nat_power int_nat_eq)
  then have "(2::rat) ^ (?k - 1) \<le> of_int n \<and> of_int n < (2::rat) ^ ?k"
    by (metis of_int_le_iff of_int_less_iff of_int_numeral of_int_power)
  moreover have "(2::rat) powi (int ?k - 1) = 2 ^ (?k - 1)"
    using k by (simp add: power_int_def nat_diff_distrib)
  ultimately show "2 powi (int ?k - 1) \<le> (of_int n :: rat)" and "(of_int n :: rat) < 2 powi int ?k"
    by (simp_all add: power_int_def)
qed

lemma ilog2_bounds:
  assumes "0 < q"
  shows "2 powi ilog2 q \<le> q" and "q < 2 powi (ilog2 q + 1)"
proof -
  obtain n d where nd: "quotient_of q = (n, d)" by (cases "quotient_of q")
  have d: "0 < d" using quotient_of_denom_pos [OF nd] .
  have q: "q = of_int n / of_int d" using quotient_of_div [OF nd] .
  have n: "0 < n" using assms d by (simp add: q zero_less_divide_iff)
  define a b where "a = int (floorlog 2 (nat n))" and "b = int (floorlog 2 (nat d))"
  note bn = floorlog_powi_bounds [OF n] and bd = floorlog_powi_bounds [OF d]
  have dpos: "0 < (of_int d :: rat)" using d by simp
  have "(2::rat) powi (a - b - 1) = 2 powi (a - 1) / 2 powi b"
    by (simp add: power_int_diff)
  also have "\<dots> \<le> q"
    unfolding q using bn(1) bd(2) n dpos
    by (intro frac_le) (auto simp: a_def b_def)
  finally have lo: "(2::rat) powi (a - b - 1) \<le> q" .
  have "q < 2 powi a / 2 powi (b - 1)"
    unfolding q using bn(2) bd(1) n dpos
    by (intro frac_less) (auto simp: a_def b_def)
  also have "\<dots> = (2::rat) powi (a - b + 1)"
    by (simp add: power_int_diff power_int_add)
  finally have hi: "q < 2 powi (a - b + 1)" .
  have il: "ilog2 q = (if 2 powi (a - b) \<le> q then a - b else a - b - 1)"
    by (simp add: ilog2_def nd a_def b_def Let_def)
  show "2 powi ilog2 q \<le> q" and "q < 2 powi (ilog2 q + 1)"
    using lo hi by (auto simp: il)
qed

lemma powi_less_iff: "(2::rat) powi i < 2 powi j \<longleftrightarrow> i < j"
  by (metis less_irrefl linorder_neqE less_trans numeral_less_iff one_less_numeral_iff
      power_int_strict_increasing semiring_norm(76))

text \<open>A rational with at most 53 significant bits in the exponent range is its own rounding.\<close>

theorem f64_round_exact:
  assumes q: "q = of_int m * 2 powi e" and m: "\<bar>m\<bar> < 2 ^ 53" and e: "- 1074 \<le> e"
    and small: "\<bar>q\<bar> < 2 ^ 1024"
  shows "f64_round q = F_Num q"
proof (cases "q = 0")
  case True
  then show ?thesis by (simp add: f64_round_def)
next
  case False
  define f where "f = max (ilog2 \<bar>q\<bar> - 52) (- 1074)"
  have pos: "0 < \<bar>q\<bar>" using False by simp
  have "\<bar>q\<bar> = of_int \<bar>m\<bar> * 2 powi e" by (simp add: q abs_mult)
  also have "\<dots> < 2 ^ 53 * 2 powi e"
    using m by (metis mult_strict_right_mono of_int_less_iff of_int_numeral of_int_power
        power_int_eq_0_iff zero_less_numeral zero_less_power_int zero_neq_numeral)
  also have "\<dots> = 2 powi (53 + e)"
    by (simp add: power_int_add)
  finally have "2 powi ilog2 \<bar>q\<bar> < (2::rat) powi (53 + e)"
    using ilog2_bounds(1) [OF pos] by linarith
  then have fe: "f \<le> e" using e by (simp add: powi_less_iff f_def)
  have "q / 2 powi f = of_int m * 2 powi (e - f)"
    by (simp add: q power_int_diff)
  also have "\<dots> = of_int (m * 2 ^ nat (e - f))"
    using fe by (simp add: power_int_def)
  finally have int: "q / 2 powi f = of_int (m * 2 ^ nat (e - f))" .
  have m0: "m \<noteq> 0" using False q by auto
  have restore: "of_int (m * 2 ^ nat (e - f)) * 2 powi f = q"
    unfolding int [symmetric] by simp
  have "f64_round q =
      (let m' = m * 2 ^ nat (e - f); r = of_int m' * 2 powi f
       in if m' = 0 then (if q < 0 then F_NegZero else F_Num 0)
          else if 2 ^ 1024 \<le> \<bar>r\<bar> then F_Inf (q < 0) else F_Num r)"
    using False by (simp add: f64_round_def f_def [symmetric] int Let_def del: of_int_mult)
  then show ?thesis
    using m0 small by (simp only: Let_def restore) simp
qed

lemma f32_bound:
  assumes "is_f32_rat q"
  shows "\<bar>q\<bar> < 2 ^ 128"
proof -
  from assms obtain m e where q: "q = of_int m * 2 powi e" and m: "\<bar>m\<bar> < 2 ^ 24" and e: "e \<le> 104"
    by (auto simp: is_f32_rat_def)
  have "\<bar>q\<bar> = of_int \<bar>m\<bar> * 2 powi e" by (simp add: q abs_mult)
  also have "\<dots> \<le> of_int \<bar>m\<bar> * 2 powi 104"
    using e by (intro mult_left_mono power_int_increasing) auto
  also have "\<dots> < 2 ^ 24 * 2 powi 104"
    using m by (intro mult_strict_right_mono) (metis of_int_less_iff of_int_numeral of_int_power, simp)
  also have "\<dots> = 2 ^ 128" by simp
  finally show ?thesis .
qed

text \<open>Widening a \<^verbatim>\<open>float32\<close> and multiplying by 100 loses nothing.\<close>

theorem f64_mul_100_exact:
  assumes "is_f32_rat q"
  shows "f64_mul_pos (float64_of_float32 (F_Num q)) 100 = F_Num (q * 100)"
proof -
  from assms obtain m e where q: "q = of_int m * 2 powi e" and m: "\<bar>m\<bar> < 2 ^ 24" and e: "- 149 \<le> e"
    by (auto simp: is_f32_rat_def)
  have "f64_round (q * 100) = F_Num (q * 100)"
  proof (rule f64_round_exact)
    show "q * 100 = of_int (m * 100) * 2 powi e" by (simp add: q)
    show "\<bar>m * 100\<bar> < 2 ^ 53" using m by (simp add: abs_mult)
    show "- 1074 \<le> e" using e by simp
    have "\<bar>q * 100\<bar> = \<bar>q\<bar> * 100" by (simp add: abs_mult)
    also have "\<dots> < 2 ^ 128 * 100" using f32_bound [OF assms] by simp
    also have "\<dots> < 2 ^ 1024" by simp
    finally show "\<bar>q * 100\<bar> < 2 ^ 1024" .
  qed
  then show ?thesis by (simp add: f64_mul_pos_def float64_of_float32_def)
qed

end
