(* ===== verification/Platform_Models.thy ===== *)
theory Platform_Models
  imports Go_Time Go_Float
begin

text \<open>
  The platform metric of \<^verbatim>\<open>internal/models/models.go\<close>: one record per Go struct, in the field
  order of the source, with a prefix that keeps the field names of different structs apart.
  A nil-able pointer field is an \<open>option\<close>.  The \<open>_zero\<close> constants are the composite
  literals \<^verbatim>\<open>&models.X{}\<close>: every field at its Go zero value.
\<close>

record CommonState =
  cs_OperStatus :: "string option"
  cs_Uptime :: "string option"
  cs_UsedPower :: "uint32 option"
  cs_AllocatedPower :: "uint32 option"
  cs_CurrentVoltage :: "string option"
  cs_CurrentCurrent :: "string option"
  cs_TotalCapacity :: "string option"
  cs_UsedCapacity :: "string option"
  cs_Type :: "string option"
  cs_RedundancyType :: "string option"
  cs_Modules :: "string option"
  cs_TotalInputPower :: "string option"

definition CommonState_zero :: CommonState where
  "CommonState_zero = \<lparr>cs_OperStatus = None, cs_Uptime = None, cs_UsedPower = None, cs_AllocatedPower = None,
     cs_CurrentVoltage = None, cs_CurrentCurrent = None, cs_TotalCapacity = None,
     cs_UsedCapacity = None, cs_Type = None, cs_RedundancyType = None, cs_Modules = None,
     cs_TotalInputPower = None\<rparr>"

record CPUData =
  cpu_CPUInstant :: "gofloat option"
  cpu_CPUAvg :: "gofloat option"
  cpu_CPUMin :: "gofloat option"
  cpu_CPUMax :: "gofloat option"
  cpu_CPUInterval :: "uint64 option"
  cpu_CPUMinTime :: "gtime option"
  cpu_CPUMaxTime :: "gtime option"
  cpu_CPUAlarmStatus :: "string option"

definition CPUData_zero :: CPUData where
  "CPUData_zero = \<lparr>cpu_CPUInstant = None, cpu_CPUAvg = None, cpu_CPUMin = None, cpu_CPUMax = None,
     cpu_CPUInterval = None, cpu_CPUMinTime = None, cpu_CPUMaxTime = None,
     cpu_CPUAlarmStatus = None\<rparr>"

record MemData =
  mem_MemAvailable :: "uint64 option"
  mem_MemUtilized :: "uint64 option"
  mem_MemFree :: "uint64 option"
  mem_MemUsage :: "gofloat option"
  mem_MemAlarmStatus :: "string option"
  mem_StorageAvailability :: "gofloat option"

definition MemData_zero :: MemData where
  "MemData_zero = \<lparr>mem_MemAvailable = None, mem_MemUtilized = None, mem_MemFree = None,
     mem_MemUsage = None, mem_MemAlarmStatus = None, mem_StorageAvailability = None\<rparr>"

record TempData =
  tmp_TempInstant :: "gofloat option"
  tmp_TempAvg :: "gofloat option"
  tmp_TempMin :: "gofloat option"
  tmp_TempMax :: "gofloat option"
  tmp_TempInterval :: "uint64 option"
  tmp_TempMinTime :: "gtime option"
  tmp_TempMaxTime :: "gtime option"
  tmp_AlarmStatus :: "bool option"
  tmp_TempAlarmThreshold :: "gofloat option"
  tmp_TempAlarmSeverity :: "string option"
  tmp_TempMinorThreshold :: "gofloat option"
  tmp_TempMajorThreshold :: "gofloat option"
  tmp_TempFatalThreshold :: "gofloat option"
  tmp_TempInstantString :: "string option"
  tmp_TempStatus :: "string option"
  tmp_TempDescription :: "string option"

definition TempData_zero :: TempData where
  "TempData_zero = \<lparr>tmp_TempInstant = None, tmp_TempAvg = None, tmp_TempMin = None, tmp_TempMax = None,
     tmp_TempInterval = None, tmp_TempMinTime = None, tmp_TempMaxTime = None,
     tmp_AlarmStatus = None, tmp_TempAlarmThreshold = None, tmp_TempAlarmSeverity = None,
     tmp_TempMinorThreshold = None, tmp_TempMajorThreshold = None,
     tmp_TempFatalThreshold = None, tmp_TempInstantString = None, tmp_TempStatus = None,
     tmp_TempDescription = None\<rparr>"

record FanData =
  fan_FanSpeed :: "uint32 option"
  fan_FanState :: "string option"
  fan_FanPhyStatus :: "string option"
  fan_FanWorkMode :: "string option"
  fan_FanCurrentPower :: "string option"
  fan_FanCurrentVoltage :: "string option"
  fan_FanCurrentCurrent :: "string option"
  fan_FanSpeedPercent :: "string option"

definition FanData_zero :: FanData where
  "FanData_zero = \<lparr>fan_FanSpeed = None, fan_FanState = None, fan_FanPhyStatus = None,
     fan_FanWorkMode = None, fan_FanCurrentPower = None, fan_FanCurrentVoltage = None,
     fan_FanCurrentCurrent = None, fan_FanSpeedPercent = None\<rparr>"

record PowerData =
  pwr_PowerEnable :: "bool option"
  pwr_PowerCapacity :: "gofloat option"
  pwr_PowerInputCurrent :: "gofloat option"
  pwr_PowerInputVoltage :: "gofloat option"
  pwr_PowerOutputCurrent :: "gofloat option"
  pwr_PowerOutputVoltage :: "gofloat option"
  pwr_PowerOutputPower :: "gofloat option"
  pwr_PowerWorkState :: "string option"
  pwr_PowerName :: "string option"
  pwr_PowerPhyState :: "string option"
  pwr_PowerState :: "string option"
  pwr_PowerComState :: "string option"
  pwr_PowerTemperature :: "string option"
  pwr_PowerAvailable :: "string option"
  pwr_PowerCapacityString :: "string option"
  pwr_PowerInputPower :: "string option"
  pwr_PowerInput2Current :: "gofloat option"
  pwr_PowerInput2Voltage :: "gofloat option"
  pwr_PowerOutput2Current :: "gofloat option"
  pwr_PowerOutput2Voltage :: "gofloat option"
  pwr_LinecardPowerAdminState :: "string option"

definition PowerData_zero :: PowerData where
  "PowerData_zero = \<lparr>pwr_PowerEnable = None, pwr_PowerCapacity = None, pwr_PowerInputCurrent = None,
     pwr_PowerInputVoltage = None, pwr_PowerOutputCurrent = None,
     pwr_PowerOutputVoltage = None, pwr_PowerOutputPower = None, pwr_PowerWorkState = None,
     pwr_PowerName = None, pwr_PowerPhyState = None, pwr_PowerState = None,
     pwr_PowerComState = None, pwr_PowerTemperature = None, pwr_PowerAvailable = None,
     pwr_PowerCapacityString = None, pwr_PowerInputPower = None,
     pwr_PowerInput2Current = None, pwr_PowerInput2Voltage = None,
     pwr_PowerOutput2Current = None, pwr_PowerOutput2Voltage = None,
     pwr_LinecardPowerAdminState = None\<rparr>"

record OpticalData =
  opt_OpticalInPower :: "gofloat option"
  opt_OpticalOutPower :: "gofloat option"
  opt_OpticalBiasCurrent :: "gofloat option"
  opt_OpticalTemperature :: "gofloat option"
  opt_OpticalVoltageVol33 :: "gofloat option"
  opt_OpticalVoltageVol5 :: "gofloat option"
  opt_OpticalAlarmLosStatus :: "string option"
  opt_OpticalAlarmLosInfoEventID :: "uint32 option"
  opt_OpticalAlarmLosInfoEventInterval :: "uint32 option"
  opt_OpticalAlarmLosInfoInPower :: "gofloat option"
  opt_OpticalAlarmLosInfoOutPower :: "gofloat option"
  opt_OpticalOnlineStatus :: "string option"
  opt_OpticalRxThresholdHighAlarm :: "gofloat option"
  opt_OpticalRxThresholdPreHighAlarm :: "gofloat option"
  opt_OpticalRxThresholdLowAlarm :: "gofloat option"
  opt_OpticalRxThresholdPreLowAlarm :: "gofloat option"

definition OpticalData_zero :: OpticalData where
  "OpticalData_zero = \<lparr>opt_OpticalInPower = None, opt_OpticalOutPower = None, opt_OpticalBiasCurrent = None,
     opt_OpticalTemperature = None, opt_OpticalVoltageVol33 = None,
     opt_OpticalVoltageVol5 = None, opt_OpticalAlarmLosStatus = None,
     opt_OpticalAlarmLosInfoEventID = None, opt_OpticalAlarmLosInfoEventInterval = None,
     opt_OpticalAlarmLosInfoInPower = None, opt_OpticalAlarmLosInfoOutPower = None,
     opt_OpticalOnlineStatus = None, opt_OpticalRxThresholdHighAlarm = None,
     opt_OpticalRxThresholdPreHighAlarm = None, opt_OpticalRxThresholdLowAlarm = None,
     opt_OpticalRxThresholdPreLowAlarm = None\<rparr>"

record PlatformMetric =
  pm_Timestamp :: gtime
  pm_SystemID :: string
  pm_ComponentName :: string
  pm_CommonState :: "CommonState option"
  pm_CPUData :: "CPUData option"
  pm_MemData :: "MemData option"
  pm_TempData :: "TempData option"
  pm_FanData :: "FanData option"
  pm_PowerData :: "PowerData option"
  pm_OpticalData :: "OpticalData option"

definition PlatformMetric_zero :: PlatformMetric where
  "PlatformMetric_zero = \<lparr>pm_Timestamp = zero_time, pm_SystemID = [], pm_ComponentName = [],
     pm_CommonState = None, pm_CPUData = None, pm_MemData = None, pm_TempData = None,
     pm_FanData = None, pm_PowerData = None, pm_OpticalData = None\<rparr>"

end
