(* ===== verification/Interface_Models.thy ===== *)
theory Interface_Models
  imports Go_Time
begin

text \<open>
  The interface and subinterface metrics of \<^verbatim>\<open>internal/models/models.go\<close>, with their Go zero
  values, and the accessors the source defines on a subinterface metric.
\<close>

record InterfaceMetric =
  im_Timestamp :: gtime
  im_SystemID :: string
  im_InterfaceName :: string
  im_Ifindex :: "uint32 option"
  im_AdminStatusStr :: "string option"
  im_OperStatusStr :: "string option"
  im_LastChange :: "gtime option"
  im_Logical :: "bool option"
  im_Type :: "uint32 option"
  im_PhyStatusStr :: "string option"
  im_IPv4OperStatusStr :: "string option"
  im_ZteifType :: "uint32 option"
  im_ZteifIfindex :: "uint32 option"
  im_ZteifAdminStatusStr :: "string option"
  im_ZteifOperStatusStr :: "string option"
  im_ZteifPhyStatusStr :: "string option"
  im_ZteifIPv4OperStatusStr :: "string option"
  im_ZteifIPv6OperStatusStr :: "string option"
  im_InOctets :: "uint64 option"
  im_InUnicastPkts :: "uint64 option"
  im_InBroadcastPkts :: "uint64 option"
  im_InMulticastPkts :: "uint64 option"
  im_InDiscards :: "uint64 option"
  im_InErrors :: "uint64 option"
  im_InUnknownProtos :: "uint64 option"
  im_InFcsErrors :: "uint64 option"
  im_OutOctets :: "uint64 option"
  im_OutUnicastPkts :: "uint64 option"
  im_OutBroadcastPkts :: "uint64 option"
  im_OutMulticastPkts :: "uint64 option"
  im_OutDiscards :: "uint64 option"
  im_OutErrors :: "uint64 option"
  im_CarrierTransitions :: "uint64 option"
  im_LastClear :: "gtime option"
  im_InPkts :: "uint64 option"
  im_OutPkts :: "uint64 option"
  im_InputUtilization :: "string option"
  im_OutputUtilization :: "string option"
  im_InTrafficRate :: "string option"
  im_InPacketRate :: "string option"
  im_OutTrafficRate :: "string option"
  im_OutPacketRate :: "string option"
  im_InV4Octets :: "uint64 option"
  im_OutV4Octets :: "uint64 option"
  im_InV4Pkts :: "uint64 option"
  im_OutV4Pkts :: "uint64 option"
  im_InV6Octets :: "uint64 option"
  im_OutV6Octets :: "uint64 option"
  im_InV6Pkts :: "uint64 option"
  im_OutV6Pkts :: "uint64 option"
  im_InV4TrafficRate :: "string option"
  im_InV4PacketRate :: "string option"
  im_OutV4TrafficRate :: "string option"
  im_OutV4PacketRate :: "string option"
  im_InV6TrafficRate :: "string option"
  im_InV6PacketRate :: "string option"
  im_OutV6TrafficRate :: "string option"
  im_OutV6PacketRate :: "string option"
  im_InputV4Utilization :: "string option"
  im_OutputV4Utilization :: "string option"
  im_InputV6Utilization :: "string option"
  im_OutputV6Utilization :: "string option"
  im_InBierOctets :: "uint64 option"
  im_InBierPkts :: "uint64 option"
  im_OutBierOctets :: "uint64 option"
  im_OutBierPkts :: "uint64 option"

definition InterfaceMetric_zero :: InterfaceMetric where
  "InterfaceMetric_zero = \<lparr>im_Timestamp = zero_time, im_SystemID = [], im_InterfaceName = [], im_Ifindex = None,
     im_AdminStatusStr = None, im_OperStatusStr = None, im_LastChange = None,
     im_Logical = None, im_Type = None, im_PhyStatusStr = None, im_IPv4OperStatusStr = None,
     im_ZteifType = None, im_ZteifIfindex = None, im_ZteifAdminStatusStr = None,
     im_ZteifOperStatusStr = None, im_ZteifPhyStatusStr = None,
     im_ZteifIPv4OperStatusStr = None, im_ZteifIPv6OperStatusStr = None, im_InOctets = None,
     im_InUnicastPkts = None, im_InBroadcastPkts = None, im_InMulticastPkts = None,
     im_InDiscards = None, im_InErrors = None, im_InUnknownProtos = None,
     im_InFcsErrors = None, im_OutOctets = None, im_OutUnicastPkts = None,
     im_OutBroadcastPkts = None, im_OutMulticastPkts = None, im_OutDiscards = None,
     im_OutErrors = None, im_CarrierTransitions = None, im_LastClear = None,
     im_InPkts = None, im_OutPkts = None, im_InputUtilization = None,
     im_OutputUtilization = None, im_InTrafficRate = None, im_InPacketRate = None,
     im_OutTrafficRate = None, im_OutPacketRate = None, im_InV4Octets = None,
     im_OutV4Octets = None, im_InV4Pkts = None, im_OutV4Pkts = None, im_InV6Octets = None,
     im_OutV6Octets = None, im_InV6Pkts = None, im_OutV6Pkts = None,
     im_InV4TrafficRate = None, im_InV4PacketRate = None, im_OutV4TrafficRate = None,
     im_OutV4PacketRate = None, im_InV6TrafficRate = None, im_InV6PacketRate = None,
     im_OutV6TrafficRate = None, im_OutV6PacketRate = None, im_InputV4Utilization = None,
     im_OutputV4Utilization = None, im_InputV6Utilization = None,
     im_OutputV6Utilization = None, im_InBierOctets = None, im_InBierPkts = None,
     im_OutBierOctets = None, im_OutBierPkts = None\<rparr>"

record SubinterfaceMetric =
  sm_Timestamp :: gtime
  sm_SystemID :: string
  sm_InterfaceName :: string
  sm_SubinterfaceName :: string
  sm_Ifindex :: "uint32 option"
  sm_AdminStatusStr :: "string option"
  sm_OperStatusStr :: "string option"
  sm_LastChange :: "gtime option"
  sm_Logical :: "bool option"
  sm_IPv4OperStatusStr :: "string option"
  sm_ZteifIfindex :: "uint32 option"
  sm_ZteifAdminStatusStr :: "string option"
  sm_ZteifOperStatusStr :: "string option"
  sm_ZteifPhyStatusStr :: "string option"
  sm_ZteifIPv4OperStatusStr :: "string option"
  sm_ZteifIPv6OperStatusStr :: "string option"
  sm_InOctets :: "uint64 option"
  sm_InUnicastPkts :: "uint64 option"
  sm_InBroadcastPkts :: "uint64 option"
  sm_InMulticastPkts :: "uint64 option"
  sm_InDiscards :: "uint64 option"
  sm_InErrors :: "uint64 option"
  sm_InUnknownProtos :: "uint64 option"
  sm_InFcsErrors :: "uint64 option"
  sm_OutOctets :: "uint64 option"
  sm_OutUnicastPkts :: "uint64 option"
  sm_OutBroadcastPkts :: "uint64 option"
  sm_OutMulticastPkts :: "uint64 option"
  sm_OutDiscards :: "uint64 option"
  sm_OutErrors :: "uint64 option"
  sm_CarrierTransitions :: "uint64 option"
  sm_LastClear :: "gtime option"
  sm_InPkts :: "uint64 option"
  sm_OutPkts :: "uint64 option"
  sm_InputUtilization :: "string option"
  sm_OutputUtilization :: "string option"
  sm_InTrafficRate :: "string option"
  sm_InPacketRate :: "string option"
  sm_OutTrafficRate :: "string option"
  sm_OutPacketRate :: "string option"
  sm_InV4Octets :: "uint64 option"
  sm_OutV4Octets :: "uint64 option"
  sm_InV4Pkts :: "uint64 option"
  sm_OutV4Pkts :: "uint64 option"
  sm_InV6Octets :: "uint64 option"
  sm_OutV6Octets :: "uint64 option"
  sm_InV6Pkts :: "uint64 option"
  sm_OutV6Pkts :: "uint64 option"
  sm_InV4TrafficRate :: "string option"
  sm_InV4PacketRate :: "string option"
  sm_OutV4TrafficRate :: "string option"
  sm_OutV4PacketRate :: "string option"
  sm_InV6TrafficRate :: "string option"
  sm_InV6PacketRate :: "string option"
  sm_OutV6TrafficRate :: "string option"
  sm_OutV6PacketRate :: "string option"
  sm_InputV4Utilization :: "string option"
  sm_OutputV4Utilization :: "string option"
  sm_InputV6Utilization :: "string option"
  sm_OutputV6Utilization :: "string option"
  sm_InBierOctets :: "uint64 option"
  sm_InBierPkts :: "uint64 option"
  sm_OutBierOctets :: "uint64 option"
  sm_OutBierPkts :: "uint64 option"

definition SubinterfaceMetric_zero :: SubinterfaceMetric where
  "SubinterfaceMetric_zero = \<lparr>sm_Timestamp = zero_time, sm_SystemID = [], sm_InterfaceName = [],
     sm_SubinterfaceName = [], sm_Ifindex = None, sm_AdminStatusStr = None,
     sm_OperStatusStr = None, sm_LastChange = None, sm_Logical = None,
     sm_IPv4OperStatusStr = None, sm_ZteifIfindex = None, sm_ZteifAdminStatusStr = None,
     sm_ZteifOperStatusStr = None, sm_ZteifPhyStatusStr = None,
     sm_ZteifIPv4OperStatusStr = None, sm_ZteifIPv6OperStatusStr = None, sm_InOctets = None,
     sm_InUnicastPkts = None, sm_InBroadcastPkts = None, sm_InMulticastPkts = None,
     sm_InDiscards = None, sm_InErrors = None, sm_InUnknownProtos = None,
     sm_InFcsErrors = None, sm_OutOctets = None, sm_OutUnicastPkts = None,
     sm_OutBroadcastPkts = None, sm_OutMulticastPkts = None, sm_OutDiscards = None,
     sm_OutErrors = None, sm_CarrierTransitions = None, sm_LastClear = None,
     sm_InPkts = None, sm_OutPkts = None, sm_InputUtilization = None,
     sm_OutputUtilization = None, sm_InTrafficRate = None, sm_InPacketRate = None,
     sm_OutTrafficRate = None, sm_OutPacketRate = None, sm_InV4Octets = None,
     sm_OutV4Octets = None, sm_InV4Pkts = None, sm_OutV4Pkts = None, sm_InV6Octets = None,
     sm_OutV6Octets = None, sm_InV6Pkts = None, sm_OutV6Pkts = None,
     sm_InV4TrafficRate = None, sm_InV4PacketRate = None, sm_OutV4TrafficRate = None,
     sm_OutV4PacketRate = None, sm_InV6TrafficRate = None, sm_InV6PacketRate = None,
     sm_OutV6TrafficRate = None, sm_OutV6PacketRate = None, sm_InputV4Utilization = None,
     sm_OutputV4Utilization = None, sm_InputV6Utilization = None,
     sm_OutputV6Utilization = None, sm_InBierOctets = None, sm_InBierPkts = None,
     sm_OutBierOctets = None, sm_OutBierPkts = None\<rparr>"

section \<open>Accessors of a subinterface metric\<close>

definition GetInPkts :: "SubinterfaceMetric \<Rightarrow> uint64" where
  "GetInPkts m = (case sm_InPkts m of Some v \<Rightarrow> v | None \<Rightarrow> 0)"

definition GetOutPkts :: "SubinterfaceMetric \<Rightarrow> uint64" where
  "GetOutPkts m = (case sm_OutPkts m of Some v \<Rightarrow> v | None \<Rightarrow> 0)"

definition InTrafficRateValue :: "SubinterfaceMetric \<Rightarrow> string" where
  "InTrafficRateValue m =
     (if sm_InOctets m = None \<or> time_IsZero (sm_Timestamp m) then ''0'' else ''0'')"

definition InputUtilizationValue :: "SubinterfaceMetric \<Rightarrow> string" where
  "InputUtilizationValue m =
     (if sm_InOctets m = None \<or> time_IsZero (sm_Timestamp m) then ''0'' else ''0'')"

end
