(* ===== verification/Alarm_Models.thy ===== *)
theory Alarm_Models
  imports Go_Time
begin

text \<open>
  The alarm and notification records of \<^verbatim>\<open>internal/models/models.go\<close>, with their Go zero values.
\<close>

record AlarmReportMetric =
  am_Timestamp :: gtime
  am_SystemID :: string
  am_FlowID :: uint32
  am_AlarmTimestamp :: uint32
  am_Code :: uint32
  am_OccurrenceTime :: "gtime option"
  am_UpdateTime :: "gtime option"
  am_DisappearedTime :: "gtime option"
  am_OccurrenceMs :: uint32
  am_UpdateMs :: uint32
  am_DisappearedMs :: uint32
  am_AlarmClass :: "string option"
  am_AlarmType :: "string option"
  am_AlarmStatus :: "string option"
  am_Sort :: "uint32 option"
  am_Severity :: "string option"
  am_TpidType :: "uint32 option"
  am_TpidLength :: "uint32 option"
  am_Tpid :: "string option"
  am_ProtectGroupWorkStatus :: "uint32 option"
  am_ProtectType :: "uint32 option"
  am_Reason :: "uint32 option"
  am_ReturnMode :: "string option"
  am_ProtectTpidType :: "uint32 option"
  am_ProtectTpidLength :: "uint32 option"
  am_ProtectTpid :: "string option"
  am_SourceTpidType :: "uint32 option"
  am_SourceTpidLength :: "uint32 option"
  am_SourceTpid :: "string option"
  am_SwitchTpidType :: "uint32 option"
  am_PreviousTpidLength :: "uint32 option"
  am_CurrentTpidLength :: "uint32 option"
  am_PreviousTpid :: "string option"
  am_CurrentTpid :: "string option"
  am_PerfAlarmPeriod :: "string option"
  am_PerfAlarmType :: "string option"
  am_PerfAlarmValue :: "string option"
  am_Description :: "string option"
  am_Caption :: "string option"

definition AlarmReportMetric_zero :: AlarmReportMetric where
  "AlarmReportMetric_zero = \<lparr>am_Timestamp = zero_time, am_SystemID = [], am_FlowID = 0, am_AlarmTimestamp = 0,
     am_Code = 0, am_OccurrenceTime = None, am_UpdateTime = None, am_DisappearedTime = None,
     am_OccurrenceMs = 0, am_UpdateMs = 0, am_DisappearedMs = 0, am_AlarmClass = None,
     am_AlarmType = None, am_AlarmStatus = None, am_Sort = None, am_Severity = None,
     am_TpidType = None, am_TpidLength = None, am_Tpid = None,
     am_ProtectGroupWorkStatus = None, am_ProtectType = None, am_Reason = None,
     am_ReturnMode = None, am_ProtectTpidType = None, am_ProtectTpidLength = None,
     am_ProtectTpid = None, am_SourceTpidType = None, am_SourceTpidLength = None,
     am_SourceTpid = None, am_SwitchTpidType = None, am_PreviousTpidLength = None,
     am_CurrentTpidLength = None, am_PreviousTpid = None, am_CurrentTpid = None,
     am_PerfAlarmPeriod = None, am_PerfAlarmType = None, am_PerfAlarmValue = None,
     am_Description = None, am_Caption = None\<rparr>"

record NotificationReportMetric =
  nm_Timestamp :: gtime
  nm_SystemID :: string
  nm_FlowID :: uint32
  nm_NotificationTimestamp :: uint32
  nm_Code :: uint32
  nm_OccurTime :: "gtime option"
  nm_OccurMs :: uint32
  nm_Classification :: "string option"
  nm_Sort :: "uint32 option"
  nm_Severity :: "string option"
  nm_TpidType :: "uint32 option"
  nm_TpidLength :: "uint32 option"
  nm_Tpid :: "string option"
  nm_Description :: "string option"
  nm_Caption :: "string option"

definition NotificationReportMetric_zero :: NotificationReportMetric where
  "NotificationReportMetric_zero = \<lparr>nm_Timestamp = zero_time, nm_SystemID = [], nm_FlowID = 0,
     nm_NotificationTimestamp = 0, nm_Code = 0, nm_OccurTime = None, nm_OccurMs = 0,
     nm_Classification = None, nm_Sort = None, nm_Severity = None, nm_TpidType = None,
     nm_TpidLength = None, nm_Tpid = None, nm_Description = None, nm_Caption = None\<rparr>"

end
