(* ===== verification/Buffer_Keys.thy ===== *)
theory Buffer_Keys
  imports Buffer_Interface Platform_Models Interface_Models Alarm_Models
begin

text \<open>
  The aggregation keys of \<^verbatim>\<open>internal/buffer/buffer_manager.go\<close>: the \<open>keyBuffer\<close> a key is written in, the
  pool that recycles those buffers (\<^verbatim>\<open>sync.Pool\<close>, the list of the buffers that were put back), and the
  five key generators.  A generator takes the pool and returns the key with the pool after it.

  Lemmas: recycling never leaks text from one key into another (\<open>generate_keys\<close>); alarm and
  notification keys determine their three fields, whatever the system is called; the platform,
  interface and subinterface keys do so for system names without an underscore, and not for
  others.
\<close>

section \<open>Key buffers and their pool\<close>

record keyBuffer =
  kb_buf :: string

definition kb_reset :: "keyBuffer \<Rightarrow> keyBuffer" where
  "kb_reset kb = kb\<lparr>kb_buf := take 0 (kb_buf kb)\<rparr>"

definition kb_writeInt :: "int \<Rightarrow> keyBuffer \<Rightarrow> keyBuffer" where
  "kb_writeInt v kb = kb\<lparr>kb_buf := kb_buf kb @ dec_int v\<rparr>"

definition kb_writeByte :: "char \<Rightarrow> keyBuffer \<Rightarrow> keyBuffer" where
  "kb_writeByte b kb = kb\<lparr>kb_buf := kb_buf kb @ [b]\<rparr>"

definition kb_writeString :: "string \<Rightarrow> keyBuffer \<Rightarrow> keyBuffer" where
  "kb_writeString s kb = kb\<lparr>kb_buf := kb_buf kb @ s\<rparr>"

definition kb_string :: "keyBuffer \<Rightarrow> string" where
  "kb_string kb = kb_buf kb"

lemmas kb_defs = kb_reset_def kb_writeInt_def kb_writeByte_def kb_writeString_def kb_string_def

type_synonym pool = "keyBuffer list"

text \<open>\<^verbatim>\<open>Get\<close> hands out a recycled buffer if there is one and makes a new one otherwise.\<close>

definition acquireKeyBuf :: "pool \<Rightarrow> keyBuffer \<times> pool" where
  "acquireKeyBuf p = (case p of [] \<Rightarrow> (\<lparr>kb_buf = []\<rparr>, []) | kb # p' \<Rightarrow> (kb, p'))"

definition releaseKeyBuf :: "keyBuffer \<Rightarrow> pool \<Rightarrow> pool" where
  "releaseKeyBuf kb p = kb_reset kb # p"

text \<open>Every buffer of the pool was reset when it was put back.\<close>

definition pool_ok :: "pool \<Rightarrow> bool" where
  "pool_ok p \<longleftrightarrow> (\<forall>kb \<in> set p. kb_buf kb = [])"

lemma acquire_ok: "pool_ok p \<Longrightarrow> acquireKeyBuf p = (kb, p') \<Longrightarrow> kb_buf kb = [] \<and> pool_ok p'"
  by (auto simp: acquireKeyBuf_def pool_ok_def split: list.splits)

lemma release_ok: "pool_ok p \<Longrightarrow> pool_ok (releaseKeyBuf kb p)"
  by (simp add: releaseKeyBuf_def pool_ok_def kb_reset_def)

section \<open>Generators\<close>

definition generatePlatformKey :: "PlatformMetric \<Rightarrow> pool \<Rightarrow> string \<times> pool" where
  "generatePlatformKey metric p =
     (let (kb, p) = acquireKeyBuf p;
          kb = kb_writeInt (unix_sec (truncate_second (pm_Timestamp metric))) kb;
          kb = kb_writeByte (CHR ''_'') kb;
          kb = kb_writeString (pm_SystemID metric) kb;
          kb = kb_writeByte (CHR ''_'') kb;
          kb = kb_writeString (pm_ComponentName metric) kb
      in (kb_string kb, releaseKeyBuf kb p))"

definition generateInterfaceKey :: "InterfaceMetric \<Rightarrow> pool \<Rightarrow> string \<times> pool" where
  "generateInterfaceKey metric p =
     (let (kb, p) = acquireKeyBuf p;
          kb = kb_writeInt (unix_sec (truncate_second (im_Timestamp metric))) kb;
          kb = kb_writeByte (CHR ''_'') kb;
          kb = kb_writeString (im_SystemID metric) kb;
          kb = kb_writeByte (CHR ''_'') kb;
          kb = kb_writeString (im_InterfaceName metric) kb
      in (kb_string kb, releaseKeyBuf kb p))"

definition generateSubinterfaceKey :: "SubinterfaceMetric \<Rightarrow> pool \<Rightarrow> string \<times> pool" where
  "generateSubinterfaceKey metric p =
     (let (kb, p) = acquireKeyBuf p;
          kb = kb_writeInt (unix_sec (truncate_second (sm_Timestamp metric))) kb;
          kb = kb_writeByte (CHR ''_'') kb;
          kb = kb_writeString (sm_SystemID metric) kb;
          kb = kb_writeByte (CHR ''_'') kb;
          kb = kb_writeString (sm_InterfaceName metric) kb;
          kb = kb_writeByte (CHR ''_'') kb;
          kb = kb_writeString (sm_SubinterfaceName metric) kb
      in (kb_string kb, releaseKeyBuf kb p))"

definition generateAlarmKey :: "AlarmReportMetric \<Rightarrow> pool \<Rightarrow> string \<times> pool" where
  "generateAlarmKey metric p =
     (let (kb, p) = acquireKeyBuf p;
          kb = kb_writeString (am_SystemID metric) kb;
          kb = kb_writeByte (CHR '':'') kb;
          kb = kb_writeInt (sint (uint32_to_int64 (am_FlowID metric))) kb;
          kb = kb_writeByte (CHR '':'') kb;
          kb = kb_writeInt (sint (uint32_to_int64 (am_AlarmTimestamp metric))) kb
      in (kb_string kb, releaseKeyBuf kb p))"

definition generateNotificationKey :: "NotificationReportMetric \<Rightarrow> pool \<Rightarrow> string \<times> pool" where
  "generateNotificationKey metric p =
     (let (kb, p) = acquireKeyBuf p;
          kb = kb_writeString (nm_SystemID metric) kb;
          kb = kb_writeByte (CHR '':'') kb;
          kb = kb_writeInt (sint (uint32_to_int64 (nm_FlowID metric))) kb;
          kb = kb_writeByte (CHR '':'') kb;
          kb = kb_writeInt (sint (uint32_to_int64 (nm_NotificationTimestamp metric))) kb
      in (kb_string kb, releaseKeyBuf kb p))"

section \<open>The keys as texts\<close>

text \<open>The specification: what each generator prints, with no buffer in sight.\<close>

definition time_key :: "gtime \<Rightarrow> string \<Rightarrow> string \<Rightarrow> string" where
  "time_key t sys name = dec_int (unix_sec t) @ CHR ''_'' # sys @ CHR ''_'' # name"

definition flow_key :: "string \<Rightarrow> uint32 \<Rightarrow> uint32 \<Rightarrow> string" where
  "flow_key sys flow ts = sys @ CHR '':'' # dec_int (uint flow) @ CHR '':'' # dec_int (uint ts)"

definition platform_key :: "PlatformMetric \<Rightarrow> string" where
  "platform_key m = time_key (pm_Timestamp m) (pm_SystemID m) (pm_ComponentName m)"

definition interface_key :: "InterfaceMetric \<Rightarrow> string" where
  "interface_key m = time_key (im_Timestamp m) (im_SystemID m) (im_InterfaceName m)"

definition subinterface_key :: "SubinterfaceMetric \<Rightarrow> string" where
  "subinterface_key m =
     time_key (sm_Timestamp m) (sm_SystemID m) (sm_InterfaceName m @ CHR ''_'' # sm_SubinterfaceName m)"

definition alarm_key :: "AlarmReportMetric \<Rightarrow> string" where
  "alarm_key m = flow_key (am_SystemID m) (am_FlowID m) (am_AlarmTimestamp m)"

definition notification_key :: "NotificationReportMetric \<Rightarrow> string" where
  "notification_key m = flow_key (nm_SystemID m) (nm_FlowID m) (nm_NotificationTimestamp m)"

text \<open>The conversion to int64 keeps every uint32.\<close>

lemma sint_uint32_to_int64 [simp]: "sint (uint32_to_int64 w) = uint w"
proof -
  have "uint w < 2 ^ 32" using uint_lt2p [of w] by simp
  then have "uint (ucast w :: int64) = uint w"
    by (simp add: unsigned_ucast_eq take_bit_int_eq_self)
  then show ?thesis
    using \<open>uint w < 2 ^ 32\<close>
    by (simp add: uint32_to_int64_def sint_uint signed_take_bit_int_eq_self_iff
        order_trans [of _ 0])
qed

text \<open>A generator prints its key into whatever reset buffer it gets, and leaves a good pool.\<close>

lemma generate_keys:
  assumes "pool_ok p"
  shows "fst (generatePlatformKey pm p) = platform_key pm"
    and "fst (generateInterfaceKey im p) = interface_key im"
    and "fst (generateSubinterfaceKey sm p) = subinterface_key sm"
    and "fst (generateAlarmKey am p) = alarm_key am"
    and "fst (generateNotificationKey nm p) = notification_key nm"
    and "pool_ok (snd (generatePlatformKey pm p))"
    and "pool_ok (snd (generateInterfaceKey im p))"
    and "pool_ok (snd (generateSubinterfaceKey sm p))"
    and "pool_ok (snd (generateAlarmKey am p))"
    and "pool_ok (snd (generateNotificationKey nm p))"
proof -
  obtain kb p' where a: "acquireKeyBuf p = (kb, p')" by fastforce
  note ok = acquire_ok [OF assms a]
  note defs = Let_def a kb_defs platform_key_def interface_key_def subinterface_key_def alarm_key_def
    notification_key_def time_key_def flow_key_def
  show "fst (generatePlatformKey pm p) = platform_key pm"
    and "fst (generateInterfaceKey im p) = interface_key im"
    and "fst (generateSubinterfaceKey sm p) = subinterface_key sm"
    and "fst (generateAlarmKey am p) = alarm_key am"
    and "fst (generateNotificationKey nm p) = notification_key nm"
    using ok
    by (simp_all add: generatePlatformKey_def generateInterfaceKey_def generateSubinterfaceKey_def
        generateAlarmKey_def generateNotificationKey_def defs)
  show "pool_ok (snd (generatePlatformKey pm p))"
    and "pool_ok (snd (generateInterfaceKey im p))"
    and "pool_ok (snd (generateSubinterfaceKey sm p))"
    and "pool_ok (snd (generateAlarmKey am p))"
    and "pool_ok (snd (generateNotificationKey nm p))"
    using ok
    by (simp_all add: generatePlatformKey_def generateInterfaceKey_def generateSubinterfaceKey_def
        generateAlarmKey_def generateNotificationKey_def Let_def a release_ok)
qed

text \<open>A generator that prints \<open>key\<close> with any pool of reset buffers, as all five do.\<close>

definition prints_key :: "('v \<Rightarrow> pool \<Rightarrow> string \<times> pool) \<Rightarrow> ('v \<Rightarrow> string) \<Rightarrow> bool" where
  "prints_key gen key \<longleftrightarrow>
     (\<forall>x p. pool_ok p \<longrightarrow> fst (gen x p) = key x \<and> pool_ok (snd (gen x p)))"

lemma generators_print:
  "prints_key generatePlatformKey platform_key"
  "prints_key generateInterfaceKey interface_key"
  "prints_key generateSubinterfaceKey subinterface_key"
  "prints_key generateAlarmKey alarm_key"
  "prints_key generateNotificationKey notification_key"
  by (simp_all add: prints_key_def generate_keys)

section \<open>What a key determines\<close>

lemma flow_key_inject:
  assumes "flow_key s f t = flow_key s' f' t'"
  shows "s = s' \<and> f = f' \<and> t = t'"
proof -
  have "(s @ CHR '':'' # dec_int (uint f)) @ CHR '':'' # dec_int (uint t) =
      (s' @ CHR '':'' # dec_int (uint f')) @ CHR '':'' # dec_int (uint t')"
    using assms by (simp add: flow_key_def)
  then have split: "s @ CHR '':'' # dec_int (uint f) = s' @ CHR '':'' # dec_int (uint f') \<and>
      dec_int (uint t) = dec_int (uint t')"
    by (rule append_sep_inject_last) (simp_all add: dec_int_no_sep)
  then have 1: "s @ CHR '':'' # dec_int (uint f) = s' @ CHR '':'' # dec_int (uint f')" ..
  have 2: "t = t'" using split by (simp add: word_uint_eqI)
  have "s = s' \<and> dec_int (uint f) = dec_int (uint f')"
    by (rule append_sep_inject_last [OF 1]) (simp_all add: dec_int_no_sep)
  then show ?thesis using 2 by (simp add: word_uint_eqI)
qed

lemma time_key_inject:
  assumes "time_key t s n = time_key t' s' n'"
    and "CHR ''_'' \<notin> set s" and "CHR ''_'' \<notin> set s'"
  shows "unix_sec t = unix_sec t' \<and> s = s' \<and> n = n'"
proof -
  have "unix_sec t = unix_sec t' \<and> s @ CHR ''_'' # n = s' @ CHR ''_'' # n'"
    using append_sep_inject [OF assms(1) [unfolded time_key_def] dec_int_no_sep dec_int_no_sep]
    by simp
  then show ?thesis using append_sep_inject [OF _ assms(2,3)] by auto
qed

text \<open>The second is always determined.\<close>

lemma time_key_second:
  assumes "time_key t s n = time_key t' s' n'"
  shows "unix_sec t = unix_sec t'"
  using append_sep_inject [OF assms [unfolded time_key_def] dec_int_no_sep dec_int_no_sep] by simp

text \<open>The converse: metrics of one second, system and name share a key.\<close>

lemma time_key_eqI: "unix_sec t = unix_sec t' \<Longrightarrow> time_key t s n = time_key t' s n"
  by (simp add: time_key_def)

lemma time_key_later:
  "unix_sec e = unix_sec n \<Longrightarrow> unix_sec (later e n) = unix_sec e"
  by (simp add: later_def)

end
