(* ===== verification/Sharded_Map.thy ===== *)
theory Sharded_Map
  imports Buffer_Interface
begin

unbundle bit_operations_syntax

text \<open>
  The sharded buffers of \<^verbatim>\<open>internal/buffer/sharded_map.go\<close>.  The five Go types there are copies of
  one another at different value types; the model is polymorphic in the value, and the theory
  \<^verbatim>\<open>Typed_Maps\<close> names the five instances.  A shard is its association list \<open>items\<close> (a Go map, with
  distinct keys by the invariant); its lock makes each operation on one shard atomic, so an
  operation is a function of the map.  Go leaves the order of \<^verbatim>\<open>range\<close> over a map open: the drain
  takes it as a parameter \<open>ord\<close>, any function that permutes the entries (\<open>range_order\<close>).

  Laws: the abstraction \<open>abs_map\<close> reads a sharded map as one map; under \<open>sharded_inv\<close> (16 shards,
  mask 15, each key in the shard its hash selects) every operation computes the map operation,
  \<open>Len\<close> is the number of keys and a drain returns each value exactly once and leaves the map empty.
\<close>

section \<open>Hash and shards\<close>

text \<open>FNV-1a with 32 bits, the \<^verbatim>\<open>fnv.New32a\<close> of the standard library.\<close>

definition fnv_step :: "uint32 \<Rightarrow> uint8 \<Rightarrow> uint32" where
  "fnv_step h c = (h XOR ucast c) * 16777619"

definition fnv32 :: "string \<Rightarrow> uint32" where
  "fnv32 s = foldl fnv_step 2166136261 (bytes_of_string s)"

record 'v shard =
  items :: "(string \<times> 'v) list"

record 'v ShardedMap =
  shards :: "'v shard list"
  shardMask :: uint32

definition defaultShardCount :: nat where
  "defaultShardCount = 16"

definition newShardedMap :: "'v ShardedMap" where
  "newShardedMap =
     \<lparr>shards = map (\<lambda>_. \<lparr>items = []\<rparr>) [0..<defaultShardCount],
      shardMask = of_nat defaultShardCount - 1\<rparr>"

definition shard_index :: "'v ShardedMap \<Rightarrow> string \<Rightarrow> nat" where
  "shard_index m key = unat (fnv32 key AND shardMask m)"

definition getShard :: "'v ShardedMap \<Rightarrow> string \<Rightarrow> 'v shard" where
  "getShard m key = shards m ! shard_index m key"

text \<open>Writing to the shard a pointer selects.\<close>

definition putShard :: "'v ShardedMap \<Rightarrow> string \<Rightarrow> 'v shard \<Rightarrow> 'v ShardedMap" where
  "putShard m key s = m\<lparr>shards := (shards m)[shard_index m key := s]\<rparr>"

definition sharded_Get :: "'v ShardedMap \<Rightarrow> string \<Rightarrow> 'v option" where
  "sharded_Get m key = map_of (items (getShard m key)) key"

definition sharded_Set :: "string \<Rightarrow> 'v \<Rightarrow> 'v ShardedMap \<Rightarrow> 'v ShardedMap" where
  "sharded_Set key val m =
     (let shard = getShard m key
      in putShard m key (shard\<lparr>items := AList.update key val (items shard)\<rparr>))"

text \<open>\<^verbatim>\<open>Swap\<close> returns the old entry (nil when there is none) and removes it.\<close>

definition sharded_Swap :: "string \<Rightarrow> 'v ShardedMap \<Rightarrow> 'v option \<times> 'v ShardedMap" where
  "sharded_Swap key m =
     (let shard = getShard m key; old = map_of (items shard) key
      in (old, putShard m key (shard\<lparr>items := AList.delete key (items shard)\<rparr>)))"

definition sharded_Len :: "'v ShardedMap \<Rightarrow> nat" where
  "sharded_Len m = foldl (\<lambda>total shard. total + length (items shard)) 0 (shards m)"

text \<open>The loop of \<^verbatim>\<open>SwapAll\<close>: drain one shard after the other, in the iteration order \<open>ord\<close>.\<close>

fun swap_shards ::
  "((string \<times> 'v) list \<Rightarrow> (string \<times> 'v) list) \<Rightarrow> 'v list \<Rightarrow> 'v shard list \<Rightarrow> 'v list \<times> 'v shard list"
where
  "swap_shards ord result [] = (result, [])"
| "swap_shards ord result (s # ss) =
     (if 0 < length (items s)
      then let (r, ss') = swap_shards ord (result @ map snd (ord (items s))) ss
           in (r, s\<lparr>items := []\<rparr> # ss')
      else let (r, ss') = swap_shards ord result ss in (r, s # ss'))"

definition sharded_SwapAll ::
  "((string \<times> 'v) list \<Rightarrow> (string \<times> 'v) list) \<Rightarrow> 'v ShardedMap \<Rightarrow> 'v list \<times> 'v ShardedMap"
where
  "sharded_SwapAll ord m =
     (let (result, ss) = swap_shards ord [] (shards m) in (result, m\<lparr>shards := ss\<rparr>))"

section \<open>Invariant and abstraction\<close>

definition shard_ok :: "'v ShardedMap \<Rightarrow> nat \<Rightarrow> bool" where
  "shard_ok m i \<longleftrightarrow>
     distinct (map fst (items (shards m ! i))) \<and>
     (\<forall>k \<in> fst ` set (items (shards m ! i)). shard_index m k = i)"

definition sharded_inv :: "'v ShardedMap \<Rightarrow> bool" where
  "sharded_inv m \<longleftrightarrow> length (shards m) = 16 \<and> shardMask m = 15 \<and> (\<forall>i < 16. shard_ok m i)"

definition abs_map :: "'v ShardedMap \<Rightarrow> string \<Rightarrow> 'v option" where
  "abs_map m k = sharded_Get m k"

definition all_items :: "'v ShardedMap \<Rightarrow> (string \<times> 'v) list" where
  "all_items m = concat (map items (shards m))"

text \<open>Masking with 15 selects one of the 16 shards: no index of the code is out of range.\<close>

lemma mask_15_less: "unat (w AND (15::uint32)) < 16"
proof -
  have "unat (w AND 15) \<le> unat (15::uint32)"
    by (rule word_and_le1 [THEN word_le_nat_alt [THEN iffD1]])
  then show ?thesis by simp
qed

lemma shard_index_less: "sharded_inv m \<Longrightarrow> shard_index m k < length (shards m)"
  using mask_15_less by (simp add: sharded_inv_def shard_index_def)

lemma shard_okD:
  "sharded_inv m \<Longrightarrow> i < length (shards m) \<Longrightarrow> shard_ok m i"
  by (simp add: sharded_inv_def)

lemma sharded_inv_new [simp]: "sharded_inv newShardedMap"
  by (simp add: sharded_inv_def newShardedMap_def defaultShardCount_def shard_ok_def)

lemma abs_map_new [simp]: "abs_map (newShardedMap :: 'v ShardedMap) = Map.empty"
proof
  fix k
  let ?m = "newShardedMap :: 'v ShardedMap"
  have "shard_index ?m k < length (shards ?m)"
    by (rule shard_index_less) simp
  then show "abs_map ?m k = None"
    by (simp add: abs_map_def sharded_Get_def getShard_def newShardedMap_def)
qed

text \<open>Rewriting one shard: what every single-key operation does.\<close>

lemma shard_index_putShard [simp]: "shard_index (putShard m k s) k' = shard_index m k'"
  by (simp add: putShard_def shard_index_def)

lemma getShard_putShard:
  assumes "sharded_inv m"
  shows "getShard (putShard m k s) k' = (if shard_index m k' = shard_index m k then s else getShard m k')"
  using shard_index_less [OF assms]
  by (auto simp: getShard_def putShard_def shard_index_def nth_list_update)

lemma sharded_inv_putShard:
  assumes inv: "sharded_inv m" and d: "distinct (map fst (items s))"
    and h: "\<And>k'. k' \<in> fst ` set (items s) \<Longrightarrow> shard_index m k' = shard_index m k"
  shows "sharded_inv (putShard m k s)"
proof -
  have "shard_ok (putShard m k s) i" if "i < 16" for i
  proof (cases "i = shard_index m k")
    case True
    then have "shards (putShard m k s) ! i = s"
      using inv that by (simp add: putShard_def sharded_inv_def)
    then show ?thesis unfolding shard_ok_def using d h True by auto
  next
    case False
    then have "shards (putShard m k s) ! i = shards m ! i"
      by (simp add: putShard_def)
    moreover have "shard_ok m i" using inv that by (simp add: sharded_inv_def)
    ultimately show ?thesis unfolding shard_ok_def by simp
  qed
  then show ?thesis using inv by (simp add: sharded_inv_def putShard_def)
qed

lemma getShard_keys:
  assumes "sharded_inv m" and "k' \<in> fst ` set (items (getShard m k))"
  shows "shard_index m k' = shard_index m k"
  using assms shard_okD [OF assms(1) shard_index_less [OF assms(1)], of k]
  by (auto simp: getShard_def shard_ok_def)

lemma getShard_distinct:
  assumes "sharded_inv m"
  shows "distinct (map fst (items (getShard m k)))"
  using shard_okD [OF assms shard_index_less [OF assms], of k]
  by (simp add: getShard_def shard_ok_def)

lemma sharded_inv_Set [simp]:
  assumes "sharded_inv m"
  shows "sharded_inv (sharded_Set k v m)"
  unfolding sharded_Set_def Let_def
proof (rule sharded_inv_putShard [OF assms])
  show "distinct (map fst (items (getShard m k\<lparr>items := AList.update k v (items (getShard m k))\<rparr>)))"
    using getShard_distinct [OF assms] by (simp add: distinct_update)
  fix k'
  assume "k' \<in> fst ` set (items (getShard m k\<lparr>items := AList.update k v (items (getShard m k))\<rparr>))"
  then have "k' = k \<or> k' \<in> fst ` set (items (getShard m k))"
    using dom_update [of k v "items (getShard m k)"] by (auto simp: dom_map_of_conv_image_fst)
  then show "shard_index m k' = shard_index m k"
    using getShard_keys [OF assms] by auto
qed

lemma abs_map_Set [simp]:
  assumes "sharded_inv m"
  shows "abs_map (sharded_Set k v m) = (abs_map m)(k \<mapsto> v)"
proof
  fix k'
  show "abs_map (sharded_Set k v m) k' = ((abs_map m)(k \<mapsto> v)) k'"
  proof (cases "shard_index m k' = shard_index m k")
    case True
    then have "getShard m k' = getShard m k" by (simp add: getShard_def)
    with True show ?thesis
      by (simp add: abs_map_def sharded_Get_def sharded_Set_def Let_def
          getShard_putShard [OF assms] update_conv')
  next
    case False
    then show ?thesis
      by (auto simp: abs_map_def sharded_Get_def sharded_Set_def Let_def
          getShard_putShard [OF assms])
  qed
qed

lemma sharded_inv_Swap:
  assumes "sharded_inv m"
  shows "sharded_inv (snd (sharded_Swap k m))"
proof -
  have "sharded_inv (putShard m k (getShard m k\<lparr>items := AList.delete k (items (getShard m k))\<rparr>))"
  proof (rule sharded_inv_putShard [OF assms])
    show "distinct (map fst (items (getShard m k\<lparr>items := AList.delete k (items (getShard m k))\<rparr>)))"
      using getShard_distinct [OF assms] by (simp add: distinct_delete)
    fix k'
    assume "k' \<in> fst ` set (items (getShard m k\<lparr>items := AList.delete k (items (getShard m k))\<rparr>))"
    then have "k' \<in> fst ` set (items (getShard m k))"
      by (auto simp: AList.delete_eq)
    then show "shard_index m k' = shard_index m k" by (rule getShard_keys [OF assms])
  qed
  then show ?thesis by (simp add: sharded_Swap_def Let_def)
qed

lemma abs_map_Swap:
  assumes "sharded_inv m"
  shows "fst (sharded_Swap k m) = abs_map m k"
    and "abs_map (snd (sharded_Swap k m)) = (abs_map m)(k := None)"
proof -
  show "fst (sharded_Swap k m) = abs_map m k"
    by (simp add: sharded_Swap_def Let_def abs_map_def sharded_Get_def)
  show "abs_map (snd (sharded_Swap k m)) = (abs_map m)(k := None)"
  proof
    fix k'
    show "abs_map (snd (sharded_Swap k m)) k' = ((abs_map m)(k := None)) k'"
    proof (cases "shard_index m k' = shard_index m k")
      case True
      then have "getShard m k' = getShard m k" by (simp add: getShard_def)
      with True show ?thesis
        by (simp add: abs_map_def sharded_Get_def sharded_Swap_def Let_def
            getShard_putShard [OF assms] delete_conv')
    next
      case False
      then show ?thesis
        by (auto simp: abs_map_def sharded_Get_def sharded_Swap_def Let_def
            getShard_putShard [OF assms])
    qed
  qed
qed

section \<open>Size\<close>

lemma foldl_length: "foldl (\<lambda>t s. t + length (items s)) a ss = a + length (concat (map items ss))"
  by (induction ss arbitrary: a) simp_all

lemma sharded_Len_all_items: "sharded_Len m = length (all_items m)"
  by (simp add: sharded_Len_def all_items_def foldl_length)

text \<open>
  The entries of all shards in one list: keys selected by different indices are different, so
  the list has distinct keys and looking up in it is looking up in the right shard.
\<close>

fun placed :: "(string \<Rightarrow> nat) \<Rightarrow> nat \<Rightarrow> 'v shard list \<Rightarrow> bool" where
  "placed h c [] \<longleftrightarrow> True"
| "placed h c (s # ss) \<longleftrightarrow>
     distinct (map fst (items s)) \<and> (\<forall>k \<in> fst ` set (items s). h k = c) \<and> placed h (Suc c) ss"

lemma placed_iff:
  "placed h c ss \<longleftrightarrow>
     (\<forall>i < length ss. distinct (map fst (items (ss ! i))) \<and>
        (\<forall>k \<in> fst ` set (items (ss ! i)). h k = c + i))"
proof (induction ss arbitrary: c)
  case (Cons s ss)
  show ?case
    by (simp only: placed.simps Cons.IH length_Cons All_less_Suc2 nth_Cons_0 nth_Cons_Suc)
      (simp add: conj_assoc)
qed simp

lemma placed_ge:
  "placed h c ss \<Longrightarrow> k \<in> fst ` set (concat (map items ss)) \<Longrightarrow> c \<le> h k"
proof (induction ss arbitrary: c)
  case (Cons s ss)
  then have "k \<in> fst ` set (items s) \<or> k \<in> fst ` set (concat (map items ss))" by auto
  then show ?case
  proof
    assume "k \<in> fst ` set (items s)"
    then have "h k = c" using Cons.prems(1) by (simp only: placed.simps)
    then show ?thesis by simp
  next
    assume "k \<in> fst ` set (concat (map items ss))"
    with Cons.prems have "Suc c \<le> h k" by (intro Cons.IH) simp_all
    then show ?thesis by simp
  qed
qed simp

lemma placed_distinct:
  "placed h c ss \<Longrightarrow> distinct (map fst (concat (map items ss)))"
proof (induction ss arbitrary: c)
  case (Cons s ss)
  then have tl: "placed h (Suc c) ss" and hd: "\<forall>k \<in> fst ` set (items s). h k = c"
    and d: "distinct (map fst (items s))" by simp_all
  have "fst ` set (items s) \<inter> fst ` set (concat (map items ss)) = {}"
    using placed_ge [OF tl] hd by fastforce
  then show ?case using d Cons.IH [OF tl] by simp
qed simp

lemma placed_map_of:
  "placed h c ss \<Longrightarrow> i < length ss \<Longrightarrow> h k = c + i \<Longrightarrow>
   map_of (concat (map items ss)) k = map_of (items (ss ! i)) k"
proof (induction ss arbitrary: c i)
  case (Cons s ss)
  then have tl: "placed h (Suc c) ss" and hd: "\<forall>k \<in> fst ` set (items s). h k = c" by simp_all
  show ?case
  proof (cases i)
    case 0
    have "k \<notin> fst ` set (concat (map items ss))"
      using placed_ge [OF tl, of k] Cons.prems(3) 0 by fastforce
    then have "map_of (concat (map items ss)) k = None"
      by (simp only: map_of_eq_None_iff not_False_eq_True)
    then have "(map_of (concat (map items ss)) ++ map_of (items s)) k = map_of (items s) k"
      by (simp only: map_add_def split: option.split) auto
    then show ?thesis using 0 by simp
  next
    case (Suc j)
    have "k \<notin> fst ` set (items s)" using hd Cons.prems(3) Suc by fastforce
    then have "map_of (items s) k = None" by (simp add: map_of_eq_None_iff)
    moreover have "map_of (concat (map items ss)) k = map_of (items (ss ! j)) k"
      using Cons.prems Suc by (intro Cons.IH [OF tl]) simp_all
    ultimately show ?thesis using Suc by (simp add: map_add_def split: option.split)
  qed
qed simp

lemma sharded_inv_placed:
  "sharded_inv m \<Longrightarrow> placed (shard_index m) 0 (shards m)"
  by (simp add: placed_iff sharded_inv_def shard_ok_def)

lemma all_items_facts:
  assumes "sharded_inv m"
  shows "distinct (map fst (all_items m))" and "map_of (all_items m) = abs_map m"
proof -
  note placed = sharded_inv_placed [OF assms]
  show "distinct (map fst (all_items m))"
    unfolding all_items_def by (rule placed_distinct [OF placed])
  show "map_of (all_items m) = abs_map m"
    by (rule ext) (simp add: all_items_def abs_map_def sharded_Get_def getShard_def
        placed_map_of [OF placed shard_index_less [OF assms]])
qed

lemma finite_dom_abs_map: "sharded_inv m \<Longrightarrow> finite (dom (abs_map m))"
  by (metis all_items_facts(2) finite_dom_map_of)

lemma sharded_Len_card:
  assumes "sharded_inv m"
  shows "sharded_Len m = card (dom (abs_map m))"
proof -
  have "dom (abs_map m) = set (map fst (all_items m))"
    by (metis all_items_facts(2) [OF assms] dom_map_of_conv_image_fst list.set_map)
  then show ?thesis
    using distinct_card [OF all_items_facts(1) [OF assms]] by (simp add: sharded_Len_all_items)
qed

section \<open>Draining\<close>

lemma swap_shards_spec:
  assumes "range_order ord"
  shows "mset (fst (swap_shards ord r ss)) = mset r + mset (map snd (concat (map items ss)))"
    and "snd (swap_shards ord r ss) = map (\<lambda>s. s\<lparr>items := []\<rparr>) ss"
proof (induction ss arbitrary: r)
  case Nil
  { case 1 show ?case by simp next case 2 show ?case by simp }
next
  case (Cons s ss)
  have o: "mset (map snd (ord (items s))) = mset (map snd (items s))"
    using assms unfolding range_order_def by (metis mset_map)
  { case 1
    show ?case
      using o Cons.IH(1) by (auto simp: split_beta Let_def)
  next
    case 2
    have "items s = [] \<Longrightarrow> s = s\<lparr>items := []\<rparr>" by simp
    then show ?case using Cons.IH(2) by (auto simp: split_beta Let_def) }
qed

definition emptied :: "'v ShardedMap \<Rightarrow> 'v ShardedMap" where
  "emptied m = m\<lparr>shards := map (\<lambda>s. s\<lparr>items := []\<rparr>) (shards m)\<rparr>"

lemma sharded_SwapAll_spec:
  assumes "range_order ord"
  shows "mset (fst (sharded_SwapAll ord m)) = mset (map snd (all_items m))"
    and "snd (sharded_SwapAll ord m) = emptied m"
  using swap_shards_spec [OF assms, of "[]" "shards m"]
  by (simp_all add: sharded_SwapAll_def split_beta all_items_def emptied_def)

lemma sharded_inv_emptied [simp]: "sharded_inv m \<Longrightarrow> sharded_inv (emptied m)"
  by (auto simp: sharded_inv_def emptied_def shard_ok_def)

lemma abs_map_emptied [simp]:
  assumes "sharded_inv m"
  shows "abs_map (emptied m) = Map.empty"
proof
  fix k
  have "shard_index m k < length (shards m)" by (rule shard_index_less [OF assms])
  moreover have "shard_index (emptied m) k = shard_index m k"
    by (simp add: emptied_def shard_index_def)
  ultimately show "abs_map (emptied m) k = None"
    by (simp add: abs_map_def sharded_Get_def getShard_def) (simp add: emptied_def)
qed

lemma all_items_emptied [simp]: "all_items (emptied m) = []"
  by (simp add: all_items_def emptied_def)

lemma sharded_Len_emptied [simp]: "sharded_Len (emptied m) = 0"
  by (simp add: sharded_Len_all_items)

lemma SwapAll_values:
  assumes "sharded_inv m" and "range_order ord"
  shows "mset (fst (sharded_SwapAll ord m)) = map_values (abs_map m)"
  using sharded_SwapAll_spec(1) [OF assms(2)] map_values_map_of [OF all_items_facts(1) [OF assms(1)]]
    all_items_facts(2) [OF assms(1)] by metis

section \<open>The contract of the buffer manager\<close>

interpretation sharded: keyed_buffer
  newShardedMap sharded_Get sharded_Set sharded_Len sharded_SwapAll sharded_inv
proof -
  have "sharded_Get = (abs_map :: 'a ShardedMap \<Rightarrow> string \<Rightarrow> 'a option)"
    by (rule ext)+ (simp add: abs_map_def)
  then show "keyed_buffer (newShardedMap :: 'a ShardedMap) sharded_Get sharded_Set sharded_Len
      sharded_SwapAll sharded_inv"
    by unfold_locales
      (simp_all add: finite_dom_abs_map sharded_Len_card sharded_SwapAll_spec(2) SwapAll_values)
qed

end
