(* ===== verification/Typed_Maps.thy ===== *)
theory Typed_Maps
  imports Sharded_Map Platform_Models Interface_Models Alarm_Models
begin

text \<open>
  The five buffers of \<^verbatim>\<open>internal/buffer/sharded_map.go\<close>.  Go 1.x code without generics repeats the
  type, its constructor and its methods for each kind of metric; here each is the generic
  operation of \<open>Sharded_Map\<close> at the type of the metric.  The collection \<open>typed_maps\<close> unfolds them,
  so that the facts of the interpretation \<open>sharded\<close> apply.
\<close>

named_theorems typed_maps \<open>the typed instances of the sharded map\<close>

section \<open>Platform\<close>

type_synonym ShardedPlatformMap = "PlatformMetric ShardedMap"

definition newShardedPlatformMap :: ShardedPlatformMap where
  [typed_maps]: "newShardedPlatformMap = newShardedMap"

definition ShardedPlatformMap_getShard :: "PlatformMetric ShardedMap \<Rightarrow> string \<Rightarrow> PlatformMetric shard" where
  [typed_maps]: "ShardedPlatformMap_getShard = getShard"

definition ShardedPlatformMap_Get :: "PlatformMetric ShardedMap \<Rightarrow> string \<Rightarrow> PlatformMetric option" where
  [typed_maps]: "ShardedPlatformMap_Get = sharded_Get"

definition ShardedPlatformMap_Set :: "string \<Rightarrow> PlatformMetric \<Rightarrow> PlatformMetric ShardedMap \<Rightarrow> PlatformMetric ShardedMap" where
  [typed_maps]: "ShardedPlatformMap_Set = sharded_Set"

definition ShardedPlatformMap_Swap :: "string \<Rightarrow> PlatformMetric ShardedMap \<Rightarrow> PlatformMetric option \<times> PlatformMetric ShardedMap" where
  [typed_maps]: "ShardedPlatformMap_Swap = sharded_Swap"

definition ShardedPlatformMap_Len :: "PlatformMetric ShardedMap \<Rightarrow> nat" where
  [typed_maps]: "ShardedPlatformMap_Len = sharded_Len"

definition ShardedPlatformMap_SwapAll :: 
  "((string \<times> PlatformMetric) list \<Rightarrow> (string \<times> PlatformMetric) list) \<Rightarrow>
   PlatformMetric ShardedMap \<Rightarrow> PlatformMetric list \<times> PlatformMetric ShardedMap" where
  [typed_maps]: "ShardedPlatformMap_SwapAll = sharded_SwapAll"

section \<open>Interface\<close>

type_synonym ShardedInterfaceMap = "InterfaceMetric ShardedMap"

definition newShardedInterfaceMap :: ShardedInterfaceMap where
  [typed_maps]: "newShardedInterfaceMap = newShardedMap"

definition ShardedInterfaceMap_getShard :: "InterfaceMetric ShardedMap \<Rightarrow> string \<Rightarrow> InterfaceMetric shard" where
  [typed_maps]: "ShardedInterfaceMap_getShard = getShard"

definition ShardedInterfaceMap_Get :: "InterfaceMetric ShardedMap \<Rightarrow> string \<Rightarrow> InterfaceMetric option" where
  [typed_maps]: "ShardedInterfaceMap_Get = sharded_Get"

definition ShardedInterfaceMap_Set :: "string \<Rightarrow> InterfaceMetric \<Rightarrow> InterfaceMetric ShardedMap \<Rightarrow> InterfaceMetric ShardedMap" where
  [typed_maps]: "ShardedInterfaceMap_Set = sharded_Set"

definition ShardedInterfaceMap_Len :: "InterfaceMetric ShardedMap \<Rightarrow> nat" where
  [typed_maps]: "ShardedInterfaceMap_Len = sharded_Len"

definition ShardedInterfaceMap_SwapAll :: 
  "((string \<times> InterfaceMetric) list \<Rightarrow> (string \<times> InterfaceMetric) list) \<Rightarrow>
   InterfaceMetric ShardedMap \<Rightarrow> InterfaceMetric list \<times> InterfaceMetric ShardedMap" where
  [typed_maps]: "ShardedInterfaceMap_SwapAll = sharded_SwapAll"

section \<open>Subinterface\<close>

type_synonym ShardedSubinterfaceMap = "SubinterfaceMetric ShardedMap"

definition newShardedSubinterfaceMap :: ShardedSubinterfaceMap where
  [typed_maps]: "newShardedSubinterfaceMap = newShardedMap"

definition ShardedSubinterfaceMap_getShard :: "SubinterfaceMetric ShardedMap \<Rightarrow> string \<Rightarrow> SubinterfaceMetric shard" where
  [typed_maps]: "ShardedSubinterfaceMap_getShard = getShard"

definition ShardedSubinterfaceMap_Get :: "SubinterfaceMetric ShardedMap \<Rightarrow> string \<Rightarrow> SubinterfaceMetric option" where
  [typed_maps]: "ShardedSubinterfaceMap_Get = sharded_Get"

definition ShardedSubinterfaceMap_Set :: "string \<Rightarrow> SubinterfaceMetric \<Rightarrow> SubinterfaceMetric ShardedMap \<Rightarrow> SubinterfaceMetric ShardedMap" where
  [typed_maps]: "ShardedSubinterfaceMap_Set = sharded_Set"

definition ShardedSubinterfaceMap_Len :: "SubinterfaceMetric ShardedMap \<Rightarrow> nat" where
  [typed_maps]: "ShardedSubinterfaceMap_Len = sharded_Len"

definition ShardedSubinterfaceMap_SwapAll :: 
  "((string \<times> SubinterfaceMetric) list \<Rightarrow> (string \<times> SubinterfaceMetric) list) \<Rightarrow>
   SubinterfaceMetric ShardedMap \<Rightarrow> SubinterfaceMetric list \<times> SubinterfaceMetric ShardedMap" where
  [typed_maps]: "ShardedSubinterfaceMap_SwapAll = sharded_SwapAll"

section \<open>Alarm\<close>

type_synonym ShardedAlarmMap = "AlarmReportMetric ShardedMap"

definition newShardedAlarmMap :: ShardedAlarmMap where
  [typed_maps]: "newShardedAlarmMap = newShardedMap"

definition ShardedAlarmMap_getShard :: "AlarmReportMetric ShardedMap \<Rightarrow> string \<Rightarrow> AlarmReportMetric shard" where
  [typed_maps]: "ShardedAlarmMap_getShard = getShard"

definition ShardedAlarmMap_Set :: "string \<Rightarrow> AlarmReportMetric \<Rightarrow> AlarmReportMetric ShardedMap \<Rightarrow> AlarmReportMetric ShardedMap" where
  [typed_maps]: "ShardedAlarmMap_Set = sharded_Set"

definition ShardedAlarmMap_Len :: "AlarmReportMetric ShardedMap \<Rightarrow> nat" where
  [typed_maps]: "ShardedAlarmMap_Len = sharded_Len"

definition ShardedAlarmMap_SwapAll :: 
  "((string \<times> AlarmReportMetric) list \<Rightarrow> (string \<times> AlarmReportMetric) list) \<Rightarrow>
   AlarmReportMetric ShardedMap \<Rightarrow> AlarmReportMetric list \<times> AlarmReportMetric ShardedMap" where
  [typed_maps]: "ShardedAlarmMap_SwapAll = sharded_SwapAll"

section \<open>Notification\<close>

type_synonym ShardedNotificationMap = "NotificationReportMetric ShardedMap"

definition newShardedNotificationMap :: ShardedNotificationMap where
  [typed_maps]: "newShardedNotificationMap = newShardedMap"

definition ShardedNotificationMap_getShard :: "NotificationReportMetric ShardedMap \<Rightarrow> string \<Rightarrow> NotificationReportMetric shard" where
  [typed_maps]: "ShardedNotificationMap_getShard = getShard"

definition ShardedNotificationMap_Set :: "string \<Rightarrow> NotificationReportMetric \<Rightarrow> NotificationReportMetric ShardedMap \<Rightarrow> NotificationReportMetric ShardedMap" where
  [typed_maps]: "ShardedNotificationMap_Set = sharded_Set"

definition ShardedNotificationMap_Len :: "NotificationReportMetric ShardedMap \<Rightarrow> nat" where
  [typed_maps]: "ShardedNotificationMap_Len = sharded_Len"

definition ShardedNotificationMap_SwapAll :: 
  "((string \<times> NotificationReportMetric) list \<Rightarrow> (string \<times> NotificationReportMetric) list) \<Rightarrow>
   NotificationReportMetric ShardedMap \<Rightarrow> NotificationReportMetric list \<times> NotificationReportMetric ShardedMap" where
  [typed_maps]: "ShardedNotificationMap_SwapAll = sharded_SwapAll"

section \<open>What a caller sees of a typed buffer\<close>

text \<open>
  The two operations of the platform buffer that the manager does not use: a read after a write
  returns it, and \<^verbatim>\<open>Swap\<close> hands an entry out once.
\<close>

lemma ShardedPlatformMap_Get_Set:
  "sharded_inv m \<Longrightarrow>
   ShardedPlatformMap_Get (ShardedPlatformMap_Set k v m) k' =
     (if k' = k then Some v else ShardedPlatformMap_Get m k')"
  by (simp add: typed_maps sharded.look_put)

lemma ShardedPlatformMap_Swap_once:
  assumes "sharded_inv m"
  shows "fst (ShardedPlatformMap_Swap k m) = ShardedPlatformMap_Get m k"
    and "fst (ShardedPlatformMap_Swap k (snd (ShardedPlatformMap_Swap k m))) = None"
  using abs_map_Swap [OF assms, of k] abs_map_Swap(1) [OF sharded_inv_Swap [OF assms], of k k]
  by (simp_all add: typed_maps abs_map_def)

end
