(* ===== verification/Buffer_Merge.thy ===== *)
theory Buffer_Merge
  imports Buffer_Keys Typed_Maps
begin

text \<open>
  The merges of \<^verbatim>\<open>internal/buffer/buffer_manager.go\<close>: what happens to a buffered metric when another
  metric of the same key arrives.  The assignments of the source become updates of the record, in
  its order.  Every kind is interpreted as a \<open>metric_kind\<close> of \<open>Buffer_Interface\<close> and, with its
  buffer, as an \<open>aggregating_buffer\<close>.
\<close>

section \<open>The three merges\<close>

text \<open>\<^verbatim>\<open>if new.F != nil { existing.F = new.F }\<close>\<close>

definition overlay :: "'a option \<Rightarrow> 'a option \<Rightarrow> 'a option" where
  "overlay existing new = (if new \<noteq> None then new else existing)"

text \<open>\<^verbatim>\<open>existing.X\<close>, first set to \<^verbatim>\<open>&models.X{}\<close> when it is nil.\<close>

definition or_new :: "'a \<Rightarrow> 'a option \<Rightarrow> 'a" where
  "or_new fresh p = (case p of None \<Rightarrow> fresh | Some x \<Rightarrow> x)"

definition mergePlatformMetric :: "PlatformMetric \<Rightarrow> PlatformMetric \<Rightarrow> PlatformMetric" where
  "mergePlatformMetric existing new =
     (let existing =
        (case pm_CommonState new of
           None \<Rightarrow> existing
         | Some ns \<Rightarrow>
             let es = or_new CommonState_zero (pm_CommonState existing)
             in existing\<lparr>pm_CommonState := Some (es\<lparr>
                  cs_OperStatus := overlay (cs_OperStatus es) (cs_OperStatus ns),
                  cs_Uptime := overlay (cs_Uptime es) (cs_Uptime ns),
                  cs_UsedPower := overlay (cs_UsedPower es) (cs_UsedPower ns),
                  cs_AllocatedPower := overlay (cs_AllocatedPower es) (cs_AllocatedPower ns)\<rparr>)\<rparr>);
      existing =
        (case pm_MemData new of
           None \<Rightarrow> existing
         | Some nmem \<Rightarrow>
             if mem_MemAlarmStatus nmem \<noteq> None
             then let emem = or_new MemData_zero (pm_MemData existing)
                  in existing\<lparr>pm_MemData := Some (emem\<lparr>mem_MemAlarmStatus := mem_MemAlarmStatus nmem\<rparr>)\<rparr>
             else existing);
      existing =
        (case pm_CPUData new of
           None \<Rightarrow> existing
         | Some ncpu \<Rightarrow>
             if cpu_CPUAlarmStatus ncpu \<noteq> None
             then let ecpu = or_new CPUData_zero (pm_CPUData existing)
                  in existing\<lparr>pm_CPUData := Some (ecpu\<lparr>cpu_CPUAlarmStatus := cpu_CPUAlarmStatus ncpu\<rparr>)\<rparr>
             else existing)
      in if time_After (pm_Timestamp new) (pm_Timestamp existing)
         then existing\<lparr>pm_Timestamp := pm_Timestamp new\<rparr> else existing)"

definition mergeInterfaceMetric :: "InterfaceMetric \<Rightarrow> InterfaceMetric \<Rightarrow> InterfaceMetric" where
  "mergeInterfaceMetric existing new =
     (let existing = existing\<lparr>
        im_AdminStatusStr := overlay (im_AdminStatusStr existing) (im_AdminStatusStr new),
        im_OperStatusStr := overlay (im_OperStatusStr existing) (im_OperStatusStr new),
        im_PhyStatusStr := overlay (im_PhyStatusStr existing) (im_PhyStatusStr new),
        im_InOctets := overlay (im_InOctets existing) (im_InOctets new),
        im_OutOctets := overlay (im_OutOctets existing) (im_OutOctets new)\<rparr>
      in if time_After (im_Timestamp new) (im_Timestamp existing)
         then existing\<lparr>im_Timestamp := im_Timestamp new\<rparr> else existing)"

definition mergeSubinterfaceMetric ::
  "SubinterfaceMetric \<Rightarrow> SubinterfaceMetric \<Rightarrow> SubinterfaceMetric"
where
  "mergeSubinterfaceMetric existing new =
     (let existing = existing\<lparr>
        sm_AdminStatusStr := overlay (sm_AdminStatusStr existing) (sm_AdminStatusStr new),
        sm_OperStatusStr := overlay (sm_OperStatusStr existing) (sm_OperStatusStr new),
        sm_InOctets := overlay (sm_InOctets existing) (sm_InOctets new),
        sm_OutOctets := overlay (sm_OutOctets existing) (sm_OutOctets new)\<rparr>
      in if time_After (sm_Timestamp new) (sm_Timestamp existing)
         then existing\<lparr>sm_Timestamp := sm_Timestamp new\<rparr> else existing)"

text \<open>The alarm kinds overwrite.\<close>

definition replace :: "'a \<Rightarrow> 'a \<Rightarrow> 'a" where
  "replace existing new = new"

section \<open>Lemmas\<close>

lemma overlay_simps [simp]:
  "overlay e None = e" "overlay e (Some v) = Some v" "overlay None n = n" "overlay e e = e"
  by (auto simp: overlay_def)

lemma overlay_assoc: "overlay (overlay a b) c = overlay a (overlay b c)"
  by (auto simp: overlay_def)

lemma or_new_simps [simp]: "or_new z None = z" "or_new z (Some x) = x"
  by (simp_all add: or_new_def)

text \<open>The fields no merge touches: what makes the key of a metric stable.\<close>

lemma merge_platform_ids [simp]:
  "pm_SystemID (mergePlatformMetric e n) = pm_SystemID e"
  "pm_ComponentName (mergePlatformMetric e n) = pm_ComponentName e"
  "pm_Timestamp (mergePlatformMetric e n) = later (pm_Timestamp e) (pm_Timestamp n)"
  by (simp_all add: mergePlatformMetric_def Let_def later_def split: option.split)

lemma merge_interface_ids [simp]:
  "im_SystemID (mergeInterfaceMetric e n) = im_SystemID e"
  "im_InterfaceName (mergeInterfaceMetric e n) = im_InterfaceName e"
  "im_Timestamp (mergeInterfaceMetric e n) = later (im_Timestamp e) (im_Timestamp n)"
  by (simp_all add: mergeInterfaceMetric_def Let_def later_def)

lemma merge_subinterface_ids [simp]:
  "sm_SystemID (mergeSubinterfaceMetric e n) = sm_SystemID e"
  "sm_InterfaceName (mergeSubinterfaceMetric e n) = sm_InterfaceName e"
  "sm_SubinterfaceName (mergeSubinterfaceMetric e n) = sm_SubinterfaceName e"
  "sm_Timestamp (mergeSubinterfaceMetric e n) = later (sm_Timestamp e) (sm_Timestamp n)"
  by (simp_all add: mergeSubinterfaceMetric_def Let_def later_def)

text \<open>
  The fields of a platform metric after a merge: the four of the common state and the two alarm
  states are overlaid, every other part of the new metric is dropped.
\<close>

definition common_field :: "(CommonState \<Rightarrow> 'a option) \<Rightarrow> PlatformMetric \<Rightarrow> 'a option" where
  "common_field f m = Option.bind (pm_CommonState m) f"

definition mem_field :: "(MemData \<Rightarrow> 'a option) \<Rightarrow> PlatformMetric \<Rightarrow> 'a option" where
  "mem_field f m = Option.bind (pm_MemData m) f"

definition cpu_field :: "(CPUData \<Rightarrow> 'a option) \<Rightarrow> PlatformMetric \<Rightarrow> 'a option" where
  "cpu_field f m = Option.bind (pm_CPUData m) f"

lemmas field_defs = common_field_def mem_field_def cpu_field_def
  CommonState_zero_def MemData_zero_def CPUData_zero_def

lemma merge_platform_parts:
  fixes e n :: PlatformMetric
  shows "pm_CommonState (mergePlatformMetric e n) =
         (case pm_CommonState n of
            None \<Rightarrow> pm_CommonState e
          | Some ns \<Rightarrow>
              let es = or_new CommonState_zero (pm_CommonState e)
              in Some (es\<lparr>
                   cs_OperStatus := overlay (cs_OperStatus es) (cs_OperStatus ns),
                   cs_Uptime := overlay (cs_Uptime es) (cs_Uptime ns),
                   cs_UsedPower := overlay (cs_UsedPower es) (cs_UsedPower ns),
                   cs_AllocatedPower := overlay (cs_AllocatedPower es) (cs_AllocatedPower ns)\<rparr>))"
    and "pm_MemData (mergePlatformMetric e n) =
         (if mem_field mem_MemAlarmStatus n \<noteq> None
          then Some (or_new MemData_zero (pm_MemData e)
                     \<lparr>mem_MemAlarmStatus := mem_field mem_MemAlarmStatus n\<rparr>)
          else pm_MemData e)"
    and "pm_CPUData (mergePlatformMetric e n) =
         (if cpu_field cpu_CPUAlarmStatus n \<noteq> None
          then Some (or_new CPUData_zero (pm_CPUData e)
                     \<lparr>cpu_CPUAlarmStatus := cpu_field cpu_CPUAlarmStatus n\<rparr>)
          else pm_CPUData e)"
  by (simp_all add: mergePlatformMetric_def Let_def mem_field_def cpu_field_def split: option.split)

lemma merge_platform_overlaid:
  fixes e n :: PlatformMetric
  shows "common_field cs_OperStatus (mergePlatformMetric e n) =
         overlay (common_field cs_OperStatus e) (common_field cs_OperStatus n)"
    and "common_field cs_Uptime (mergePlatformMetric e n) =
         overlay (common_field cs_Uptime e) (common_field cs_Uptime n)"
    and "common_field cs_UsedPower (mergePlatformMetric e n) =
         overlay (common_field cs_UsedPower e) (common_field cs_UsedPower n)"
    and "common_field cs_AllocatedPower (mergePlatformMetric e n) =
         overlay (common_field cs_AllocatedPower e) (common_field cs_AllocatedPower n)"
    and "mem_field mem_MemAlarmStatus (mergePlatformMetric e n) =
         overlay (mem_field mem_MemAlarmStatus e) (mem_field mem_MemAlarmStatus n)"
    and "cpu_field cpu_CPUAlarmStatus (mergePlatformMetric e n) =
         overlay (cpu_field cpu_CPUAlarmStatus e) (cpu_field cpu_CPUAlarmStatus n)"
proof -
  show "common_field cs_OperStatus (mergePlatformMetric e n) =
         overlay (common_field cs_OperStatus e) (common_field cs_OperStatus n)"
    and "common_field cs_Uptime (mergePlatformMetric e n) =
         overlay (common_field cs_Uptime e) (common_field cs_Uptime n)"
    and "common_field cs_UsedPower (mergePlatformMetric e n) =
         overlay (common_field cs_UsedPower e) (common_field cs_UsedPower n)"
    and "common_field cs_AllocatedPower (mergePlatformMetric e n) =
         overlay (common_field cs_AllocatedPower e) (common_field cs_AllocatedPower n)"
    unfolding common_field_def merge_platform_parts
    by (cases "pm_CommonState e"; cases "pm_CommonState n"; simp add: Let_def CommonState_zero_def)+
  show "mem_field mem_MemAlarmStatus (mergePlatformMetric e n) =
         overlay (mem_field mem_MemAlarmStatus e) (mem_field mem_MemAlarmStatus n)"
    by (simp add: mem_field_def [of _ "mergePlatformMetric e n"] merge_platform_parts overlay_def)
      (simp add: mem_field_def)
  show "cpu_field cpu_CPUAlarmStatus (mergePlatformMetric e n) =
         overlay (cpu_field cpu_CPUAlarmStatus e) (cpu_field cpu_CPUAlarmStatus n)"
    by (simp add: cpu_field_def [of _ "mergePlatformMetric e n"] merge_platform_parts overlay_def)
      (simp add: cpu_field_def)
qed

lemma merge_platform_dropped:
  "pm_TempData (mergePlatformMetric e n) = pm_TempData e"
  "pm_FanData (mergePlatformMetric e n) = pm_FanData e"
  "pm_PowerData (mergePlatformMetric e n) = pm_PowerData e"
  "pm_OpticalData (mergePlatformMetric e n) = pm_OpticalData e"
  by (simp_all add: mergePlatformMetric_def Let_def split: option.split)

lemma merge_platform_untouched:
  "Option.bind (pm_CommonState (mergePlatformMetric e n)) cs_CurrentVoltage = Option.bind (pm_CommonState e) cs_CurrentVoltage"
  "Option.bind (pm_CommonState (mergePlatformMetric e n)) cs_CurrentCurrent = Option.bind (pm_CommonState e) cs_CurrentCurrent"
  "Option.bind (pm_CommonState (mergePlatformMetric e n)) cs_TotalCapacity = Option.bind (pm_CommonState e) cs_TotalCapacity"
  "Option.bind (pm_CommonState (mergePlatformMetric e n)) cs_UsedCapacity = Option.bind (pm_CommonState e) cs_UsedCapacity"
  "Option.bind (pm_CommonState (mergePlatformMetric e n)) cs_Type = Option.bind (pm_CommonState e) cs_Type"
  "Option.bind (pm_CommonState (mergePlatformMetric e n)) cs_RedundancyType = Option.bind (pm_CommonState e) cs_RedundancyType"
  "Option.bind (pm_CommonState (mergePlatformMetric e n)) cs_Modules = Option.bind (pm_CommonState e) cs_Modules"
  "Option.bind (pm_CommonState (mergePlatformMetric e n)) cs_TotalInputPower = Option.bind (pm_CommonState e) cs_TotalInputPower"
  "Option.bind (pm_MemData (mergePlatformMetric e n)) mem_MemAvailable = Option.bind (pm_MemData e) mem_MemAvailable"
  "Option.bind (pm_MemData (mergePlatformMetric e n)) mem_MemUtilized = Option.bind (pm_MemData e) mem_MemUtilized"
  "Option.bind (pm_MemData (mergePlatformMetric e n)) mem_MemFree = Option.bind (pm_MemData e) mem_MemFree"
  "Option.bind (pm_MemData (mergePlatformMetric e n)) mem_MemUsage = Option.bind (pm_MemData e) mem_MemUsage"
  "Option.bind (pm_MemData (mergePlatformMetric e n)) mem_StorageAvailability = Option.bind (pm_MemData e) mem_StorageAvailability"
  "Option.bind (pm_CPUData (mergePlatformMetric e n)) cpu_CPUInstant = Option.bind (pm_CPUData e) cpu_CPUInstant"
  "Option.bind (pm_CPUData (mergePlatformMetric e n)) cpu_CPUAvg = Option.bind (pm_CPUData e) cpu_CPUAvg"
  "Option.bind (pm_CPUData (mergePlatformMetric e n)) cpu_CPUMin = Option.bind (pm_CPUData e) cpu_CPUMin"
  "Option.bind (pm_CPUData (mergePlatformMetric e n)) cpu_CPUMax = Option.bind (pm_CPUData e) cpu_CPUMax"
  "Option.bind (pm_CPUData (mergePlatformMetric e n)) cpu_CPUInterval = Option.bind (pm_CPUData e) cpu_CPUInterval"
  "Option.bind (pm_CPUData (mergePlatformMetric e n)) cpu_CPUMinTime = Option.bind (pm_CPUData e) cpu_CPUMinTime"
  "Option.bind (pm_CPUData (mergePlatformMetric e n)) cpu_CPUMaxTime = Option.bind (pm_CPUData e) cpu_CPUMaxTime"
  unfolding merge_platform_parts
  by (cases "pm_CommonState e"; cases "pm_CommonState n"; cases "pm_MemData e"; cases "pm_CPUData e";
      simp add: Let_def CommonState_zero_def MemData_zero_def CPUData_zero_def)+

text \<open>A pointer of the stored metric is never reset by a merge.\<close>

lemma overlay_keeps: "e \<noteq> None \<Longrightarrow> overlay e n \<noteq> None"
  by (simp add: overlay_def)

section \<open>The kinds of metric\<close>

lemmas key_defs = platform_key_def interface_key_def subinterface_key_def alarm_key_def
  notification_key_def

lemma later_key:
  assumes "time_key t s x = time_key t' s' x'"
  shows "time_key (later t t') s x = time_key t' s' x'"
  using later_cases [of t t'] time_key_eqI [of t' t s x] time_key_second [OF assms] assms by auto

interpretation platform_kind: timed_kind platform_key mergePlatformMetric pm_Timestamp
  by unfold_locales
    (simp_all add: platform_key_def later_key)

interpretation interface_kind: timed_kind interface_key mergeInterfaceMetric im_Timestamp
  by unfold_locales
    (simp_all add: interface_key_def later_key)

interpretation subinterface_kind: timed_kind subinterface_key mergeSubinterfaceMetric sm_Timestamp
  by unfold_locales
    (simp_all add: subinterface_key_def later_key)

interpretation alarm_kind: metric_kind alarm_key replace
  by unfold_locales (simp add: replace_def)

interpretation notification_kind: metric_kind notification_key replace
  by unfold_locales (simp add: replace_def)

interpretation platform_buffer: aggregating_buffer
  newShardedMap sharded_Get sharded_Set sharded_Len sharded_SwapAll sharded_inv
  platform_key mergePlatformMetric ..

interpretation interface_buffer: aggregating_buffer
  newShardedMap sharded_Get sharded_Set sharded_Len sharded_SwapAll sharded_inv
  interface_key mergeInterfaceMetric ..

interpretation subinterface_buffer: aggregating_buffer
  newShardedMap sharded_Get sharded_Set sharded_Len sharded_SwapAll sharded_inv
  subinterface_key mergeSubinterfaceMetric ..

interpretation alarm_buffer: aggregating_buffer
  newShardedMap sharded_Get sharded_Set sharded_Len sharded_SwapAll sharded_inv
  alarm_key replace ..

interpretation notification_buffer: aggregating_buffer
  newShardedMap sharded_Get sharded_Set sharded_Len sharded_SwapAll sharded_inv
  notification_key replace ..

end
