(* ===== verification/Config_Model.thy ===== *)
theory Config_Model
  imports Go_Time
begin

text \<open>
  \<^verbatim>\<open>internal/config/config.go\<close>: one record per struct, the defaults of \<^verbatim>\<open>LoadConfig\<close>, the loading of a
  file over them and the connection strings.  A Go \<^verbatim>\<open>int\<close> here is a number read from YAML on which
  the program does no arithmetic that leaves 64 bits, and is an \<open>int\<close>.  The YAML decoder is a
  library and a parameter: it updates a configuration from the bytes of a file, or fails.
\<close>

section \<open>Structures\<close>

record DatabaseConfig =
  db_Host :: string
  db_Port :: int
  db_User :: string
  db_Password :: string
  db_Database :: string
  db_Schema :: string
  db_SSLMode :: string
  db_MaxOpenConns :: int
  db_MaxIdleConns :: int
  db_ConnMaxLifetime :: duration
  db_ConnMaxIdleTime :: duration

record ServerConfig =
  srv_Port :: int
  srv_MaxRecvMsgSize :: int
  srv_MaxSendMsgSize :: int
  srv_MaxConcurrentStreams :: uint32
  srv_KeepaliveTime :: duration
  srv_KeepaliveTimeout :: duration

record BufferConfig =
  buf_MaxSize :: int
  buf_FlushInterval :: duration
  buf_BatchSize :: int
  buf_FlushThreshold :: int
  buf_PlatformBufferSize :: int
  buf_InterfaceBufferSize :: int
  buf_SubinterfaceBufferSize :: int

record DatabaseWriterConfig =
  wr_BatchTimeout :: duration
  wr_RetryAttempts :: int
  wr_RetryDelay :: duration
  wr_ParallelWriters :: int
  wr_MaxBatchSize :: int
  wr_EnableParallelTableWrites :: bool
  wr_PlatformWriterCount :: int
  wr_InterfaceWriterCount :: int
  wr_SubinterfaceWriterCount :: int

record MemoryConfig =
  memc_MaxMemoryUsage :: string
  memc_GCTargetPercent :: int
  memc_BufferPoolSize :: int

record LoggingConfig =
  log_Level :: string
  log_Format :: string
  log_Output :: string
  log_FilePath :: string
  log_MaxSize :: int
  log_MaxAge :: int
  log_MaxBackups :: int
  log_Compress :: bool

record AlertThresholdsConfig =
  al_BufferUsagePercent :: int
  al_DBConnectionUsagePercent :: int
  al_MemoryUsagePercent :: int
  al_ErrorRatePerMinute :: int

record MonitoringConfig =
  mon_Enabled :: bool
  mon_MetricsInterval :: duration
  mon_HealthCheckPort :: int
  mon_PrometheusEnabled :: bool
  mon_PrometheusPort :: int
  mon_AlertThresholds :: AlertThresholdsConfig

record PerformanceConfig =
  perf_GCPercent :: int
  perf_MaxProcs :: int
  perf_EnablePprof :: bool
  perf_PprofPort :: int
  perf_TCPKeepalive :: bool
  perf_TCPNoDelay :: bool
  perf_ReadBufferSize :: int
  perf_WriteBufferSize :: int

record CompressionConfig =
  comp_Enabled :: bool
  comp_Algorithm :: string
  comp_Level :: int

record RecoveryConfig =
  rec_EnableDataPersistence :: bool
  rec_PersistencePath :: string
  rec_MaxRecoveryTime :: duration
  rec_CheckpointInterval :: duration

record DebugConfig =
  dbg_Enabled :: bool
  dbg_LogRawData :: bool
  dbg_MetricsEnabled :: bool
  dbg_ProfileEnabled :: bool
  dbg_SlowQueryThreshold :: duration

record Config =
  cfg_Database :: DatabaseConfig
  cfg_Server :: ServerConfig
  cfg_Buffer :: BufferConfig
  cfg_DatabaseWriter :: DatabaseWriterConfig
  cfg_Memory :: MemoryConfig
  cfg_Logging :: LoggingConfig
  cfg_Monitoring :: MonitoringConfig
  cfg_Performance :: PerformanceConfig
  cfg_Compression :: CompressionConfig
  cfg_Recovery :: RecoveryConfig
  cfg_Debug :: DebugConfig

section \<open>Defaults and loading\<close>

definition default_config :: Config where
  "default_config =
    \<lparr>cfg_Database =
      \<lparr>db_Host = ''localhost'', db_Port = 5432, db_User = ''telemetry_app'',
       db_Password = '''', db_Database = ''telemetrydb'', db_Schema = ''telemetry'',
       db_SSLMode = ''disable'', db_MaxOpenConns = 25, db_MaxIdleConns = 5,
       db_ConnMaxLifetime = 30 * minute_dur, db_ConnMaxIdleTime = 5 * minute_dur\<rparr>,
     cfg_Server =
      \<lparr>srv_Port = 50051, srv_MaxRecvMsgSize = 4 * 1024 * 1024,
       srv_MaxSendMsgSize = 4 * 1024 * 1024, srv_MaxConcurrentStreams = 100,
       srv_KeepaliveTime = 30 * second_dur, srv_KeepaliveTimeout = 5 * second_dur\<rparr>,
     cfg_Buffer =
      \<lparr>buf_MaxSize = 1000, buf_FlushInterval = 30 * second_dur, buf_BatchSize = 100,
       buf_FlushThreshold = 500, buf_PlatformBufferSize = 5000,
       buf_InterfaceBufferSize = 5000, buf_SubinterfaceBufferSize = 5000\<rparr>,
     cfg_DatabaseWriter =
      \<lparr>wr_BatchTimeout = 5 * second_dur, wr_RetryAttempts = 3, wr_RetryDelay = second_dur,
       wr_ParallelWriters = 1, wr_MaxBatchSize = 1000,
       wr_EnableParallelTableWrites = False, wr_PlatformWriterCount = 1,
       wr_InterfaceWriterCount = 1, wr_SubinterfaceWriterCount = 1\<rparr>,
     cfg_Memory =
      \<lparr>memc_MaxMemoryUsage = ''2GB'', memc_GCTargetPercent = 100,
       memc_BufferPoolSize = 100\<rparr>,
     cfg_Logging =
      \<lparr>log_Level = ''info'', log_Format = ''text'', log_Output = ''stdout'',
       log_FilePath = ''logs/telemetry.log'', log_MaxSize = 100, log_MaxAge = 30,
       log_MaxBackups = 3, log_Compress = False\<rparr>,
     cfg_Monitoring =
      \<lparr>mon_Enabled = False, mon_MetricsInterval = 30 * second_dur,
       mon_HealthCheckPort = 8080, mon_PrometheusEnabled = False,
       mon_PrometheusPort = 9090,
       mon_AlertThresholds =
        \<lparr>al_BufferUsagePercent = 80, al_DBConnectionUsagePercent = 85,
         al_MemoryUsagePercent = 90, al_ErrorRatePerMinute = 100\<rparr>\<rparr>,
     cfg_Performance =
      \<lparr>perf_GCPercent = 100, perf_MaxProcs = 4, perf_EnablePprof = False,
       perf_PprofPort = 6060, perf_TCPKeepalive = True, perf_TCPNoDelay = True,
       perf_ReadBufferSize = 32768, perf_WriteBufferSize = 32768\<rparr>,
     cfg_Compression =
      \<lparr>comp_Enabled = False, comp_Algorithm = ''gzip'', comp_Level = 6\<rparr>,
     cfg_Recovery =
      \<lparr>rec_EnableDataPersistence = False, rec_PersistencePath = ''data/recovery'',
       rec_MaxRecoveryTime = 5 * minute_dur,
       rec_CheckpointInterval = 30 * second_dur\<rparr>,
     cfg_Debug =
      \<lparr>dbg_Enabled = False, dbg_LogRawData = False, dbg_MetricsEnabled = True,
       dbg_ProfileEnabled = False, dbg_SlowQueryThreshold = second_dur\<rparr>\<rparr>"

text \<open>
  What the file system says of the configuration file: \<^verbatim>\<open>os.Stat\<close> fails, or the file exists and
  reading it fails or gives its bytes.
\<close>

datatype config_file = StatFails | ReadFails string | FileData bytes

datatype config_error = ReadConfigFailed string | ParseConfigFailed string

definition LoadConfig ::
  "(bytes \<Rightarrow> Config \<Rightarrow> string + Config) \<Rightarrow> config_file \<Rightarrow> config_error + Config"
where
  "LoadConfig yaml_Unmarshal f =
     (case f of
        StatFails \<Rightarrow> Inr default_config
      | ReadFails err \<Rightarrow> Inl (ReadConfigFailed err)
      | FileData data \<Rightarrow>
          (case yaml_Unmarshal data default_config of
             Inl err \<Rightarrow> Inl (ParseConfigFailed err)
           | Inr config \<Rightarrow> Inr config))"

definition GetDSN :: "DatabaseConfig \<Rightarrow> string" where
  "GetDSN d =
     ''host='' @ db_Host d @ '' port='' @ dec_int (db_Port d) @ '' user='' @ db_User d
     @ '' password='' @ db_Password d @ '' dbname='' @ db_Database d
     @ '' sslmode='' @ db_SSLMode d @ '' search_path='' @ db_Schema d"

section \<open>Lemmas\<close>

lemma LoadConfig_cases:
  "LoadConfig yaml f = Inr cfg \<longleftrightarrow>
     f = StatFails \<and> cfg = default_config \<or>
     (\<exists>data. f = FileData data \<and> yaml data default_config = Inr cfg)"
  by (auto simp: LoadConfig_def split: config_file.split sum.split)

text \<open>
  The bounds the buffer manager relies on: a batch is at least one record and a write is tried
  at least once.  The defaults keep them; \<open>LoadConfig\<close> accepts files that do not.
\<close>

definition writer_config_ok :: "DatabaseWriterConfig \<Rightarrow> bool" where
  "writer_config_ok w \<longleftrightarrow> 0 < wr_MaxBatchSize w \<and> 0 < wr_RetryAttempts w"

lemma default_writer_config_ok: "writer_config_ok (cfg_DatabaseWriter default_config)"
  by (simp add: writer_config_ok_def default_config_def)

end
