(* ===== verification/Buffer_Writer.thy ===== *)
theory Buffer_Writer
  imports Config_Model Go_Prelude "HOL-Library.Sublist"
begin

text \<open>
  Writing batches, the part of \<^verbatim>\<open>internal/buffer/buffer_manager.go\<close> that is the same for all five kinds
  of metric: \<open>writeWithRetry\<close>, the loop of the \<^verbatim>\<open>Flush...Metrics\<close> methods over the batches of a drained
  buffer, and one turn of a writer goroutine.

  An insert is a function of the outside world \<open>'w\<close> (the database and everything that decides
  how a call ends) and gives how the \<^verbatim>\<open>select\<close> of \<open>writeWithRetry\<close> sees it: the call returned, or its
  time ran out first.  A call that timed out keeps running, so the world after it may hold its
  rows.  The locale \<open>batch_writer\<close> states what the manager relies on; \<open>Database_Rows\<close> provides it.

  \<open>flush_loop\<close> is a \<open>partial_function\<close>, since a batch size of 0 never ends; a \<open>None\<close> is a loop that never
  returns, and \<open>Panic\<close> the slice error of a negative size.  Lemmas: with a positive size the loop
  returns and is the list function \<open>flush_chunks\<close> over \<open>chunks\<close>; a flush that reports no error has
  stored or queued every record; without timeouts, exactly once.
\<close>

section \<open>One write\<close>

text \<open>The errors of the database component: no connection, or the copy failed.\<close>

datatype db_error = AcquireFailed string | CopyFailed string

datatype attempt = Returned "db_error option" | TimedOut

text \<open>
  An insert runs in its own goroutine, raced against the timer of the attempt.  The call is
  carried out in either case: nothing cancels it.
\<close>

definition race :: "('w \<Rightarrow> bool \<times> 'w) \<Rightarrow> ('w \<Rightarrow> db_error option \<times> 'w) \<Rightarrow> 'w \<Rightarrow> attempt \<times> 'w" where
  "race timer call w =
     (let (expired, w1) = timer w; (err, w2) = call w1
      in (if expired then TimedOut else Returned err, w2))"

datatype last_error = NoError | InsertError db_error | WriteTimeout

datatype write_error = WriteFailed int last_error

text \<open>The attempts that are left, with the error of the last one.\<close>

fun write_attempts :: "('w \<Rightarrow> attempt \<times> 'w) \<Rightarrow> nat \<Rightarrow> last_error \<Rightarrow> 'w \<Rightarrow> last_error option \<times> 'w" where
  "write_attempts writeFunc 0 lastErr w = (Some lastErr, w)"
| "write_attempts writeFunc (Suc n) lastErr w =
     (case writeFunc w of
        (Returned None, w') \<Rightarrow> (None, w')
      | (Returned (Some err), w') \<Rightarrow> write_attempts writeFunc n (InsertError err) w'
      | (TimedOut, w') \<Rightarrow> write_attempts writeFunc n WriteTimeout w')"

definition writeWithRetry ::
  "DatabaseWriterConfig \<Rightarrow> ('w \<Rightarrow> attempt \<times> 'w) \<Rightarrow> 'w \<Rightarrow> write_error option \<times> 'w"
where
  "writeWithRetry cfg writeFunc w =
     (case write_attempts writeFunc (nat (wr_RetryAttempts cfg)) NoError w of
        (None, w') \<Rightarrow> (None, w')
      | (Some lastErr, w') \<Rightarrow> (Some (WriteFailed (wr_RetryAttempts cfg) lastErr), w'))"

section \<open>The batches of a flush\<close>

text \<open>A write channel has room for 100 batches; a send that finds it full does not block.\<close>

definition chan_cap :: nat where "chan_cap = 100"

text \<open>\<^verbatim>\<open>for i := 0; i < len(metrics); i += batchSize\<close> from \<open>i\<close> on\<close>

partial_function (option) flush_loop ::
  "DatabaseWriterConfig \<Rightarrow> ('v list \<Rightarrow> 'w \<Rightarrow> attempt \<times> 'w) \<Rightarrow> 'v list \<Rightarrow> int \<Rightarrow> 'v list list \<Rightarrow> 'w \<Rightarrow>
   (write_error option \<times> 'v list list \<times> 'w) flow option"
where
  "flush_loop cfg insert_batch metrics i ch w =
     (if i < int (length metrics)
      then let end0 = i + wr_MaxBatchSize cfg;
               end1 = (if end0 > int (length metrics) then int (length metrics) else end0)
           in if end1 < i then Some Panic
              else let batch = take (nat (end1 - i)) (drop (nat i) metrics)
                   in if length ch < chan_cap
                      then flush_loop cfg insert_batch metrics (i + wr_MaxBatchSize cfg) (ch @ [batch]) w
                      else (case writeWithRetry cfg (insert_batch batch) w of
                              (Some err, w') \<Rightarrow> Some (Ret (Some err, ch, w'))
                            | (None, w') \<Rightarrow>
                                flush_loop cfg insert_batch metrics (i + wr_MaxBatchSize cfg) ch w')
      else Some (Ret (None, ch, w)))"

text \<open>The flush of a drained buffer.\<close>

definition flush_metrics ::
  "DatabaseWriterConfig \<Rightarrow> ('v list \<Rightarrow> 'w \<Rightarrow> attempt \<times> 'w) \<Rightarrow> 'v list \<Rightarrow> 'v list list \<Rightarrow> 'w \<Rightarrow>
   (write_error option \<times> 'v list list \<times> 'w) flow option"
where
  "flush_metrics cfg insert_batch metrics ch w =
     (if length metrics = 0 then Some (Ret (None, ch, w))
      else flush_loop cfg insert_batch metrics 0 ch w)"

text \<open>
  One turn of a writer goroutine that received a batch: the error of the write, the number of
  records the statistics count as written, the channel and the world after it.
\<close>

definition writer_turn ::
  "DatabaseWriterConfig \<Rightarrow> ('v list \<Rightarrow> 'w \<Rightarrow> attempt \<times> 'w) \<Rightarrow> 'v list list \<Rightarrow> 'w \<Rightarrow>
   (write_error option \<times> nat \<times> 'v list list \<times> 'w) option"
where
  "writer_turn cfg insert_batch ch w =
     (case ch of
        [] \<Rightarrow> None
      | batch # ch' \<Rightarrow>
          (case writeWithRetry cfg (insert_batch batch) w of
             (Some err, w') \<Rightarrow> Some (Some err, 0, ch', w')
           | (None, w') \<Rightarrow> Some (None, length batch, ch', w')))"

section \<open>The specification\<close>

function chunks :: "nat \<Rightarrow> 'a list \<Rightarrow> 'a list list" where
  "chunks n xs = (if xs = [] \<or> n = 0 then [] else take n xs # chunks n (drop n xs))"
  by auto
termination by (relation "measure (length o snd)") auto

declare chunks.simps [simp del]

lemma chunks_Nil [simp]: "chunks n [] = []"
  by (simp add: chunks.simps)

lemma concat_chunks [simp]: "0 < n \<Longrightarrow> concat (chunks n xs) = xs"
proof (induction n xs rule: chunks.induct)
  case (1 n xs)
  then show ?case by (cases "xs = []") (simp_all add: chunks.simps [of n xs])
qed

lemma chunks_sizes: "b \<in> set (chunks n xs) \<Longrightarrow> 0 < length b \<and> length b \<le> n"
proof (induction n xs rule: chunks.induct)
  case (1 n xs)
  then show ?case by (cases "xs = [] \<or> n = 0") (auto simp: chunks.simps [of n xs])
qed

lemma chunks_nth:
  "j < length (chunks n xs) \<Longrightarrow>
   j * n < length xs \<and> chunks n xs ! j = take n (drop (j * n) xs) \<and> concat (take j (chunks n xs)) = take (j * n) xs"
proof (induction n xs arbitrary: j rule: chunks.induct)
  case (1 n xs)
  have ne: "\<not> (xs = [] \<or> n = 0)" using 1(2) by (auto simp: chunks.simps [of n xs] split: if_splits)
  show ?case
  proof (cases j)
    case 0
    then show ?thesis using ne by (simp add: chunks.simps [of n xs])
  next
    case (Suc i)
    then have "i < length (chunks n (drop n xs))" using 1(2) ne by (simp add: chunks.simps [of n xs])
    note IH = 1(1) [OF ne this]
    then have "i * n + n < length xs" by (simp add: less_diff_conv)
    then have "j * n < length xs" using Suc by (simp add: add.commute)
    then show ?thesis using IH Suc ne by (simp add: chunks.simps [of n xs] take_add add.commute)
  qed
qed

lemma length_chunks: "0 < n \<Longrightarrow> length (chunks n xs) = (length xs + n - 1) div n"
proof (induction n xs rule: chunks.induct)
  case (1 n xs)
  show ?case
  proof (cases "xs = []")
    case False
    have "length (chunks n (drop n xs)) = (length (drop n xs) + n - 1) div n"
      using 1 False by simp
    moreover have "(length xs + n - 1) div n = Suc ((length xs - n + n - 1) div n)"
    proof (cases "length xs < n")
      case True
      have "(length xs + n - 1) div n = 1"
        using True False by (intro div_nat_eqI) (cases xs; simp)+
      moreover have "(length xs - n + n - 1) div n = 0"
        using True 1(2) by simp
      ultimately show ?thesis by simp
    next
      case False
      then show ?thesis using 1(2) le_div_geq [of n "length xs + n - 1"] by simp
    qed
    ultimately show ?thesis using 1(2) False by (simp add: chunks.simps [of n xs])
  qed (use 1(2) in simp)
qed

fun flush_chunks ::
  "DatabaseWriterConfig \<Rightarrow> ('v list \<Rightarrow> 'w \<Rightarrow> attempt \<times> 'w) \<Rightarrow> 'v list list \<Rightarrow> 'v list list \<Rightarrow> 'w \<Rightarrow>
   write_error option \<times> 'v list list \<times> 'w"
where
  "flush_chunks cfg insert_batch [] ch w = (None, ch, w)"
| "flush_chunks cfg insert_batch (b # bs) ch w =
     (if length ch < chan_cap then flush_chunks cfg insert_batch bs (ch @ [b]) w
      else (case writeWithRetry cfg (insert_batch b) w of
              (Some err, w') \<Rightarrow> (Some err, ch, w')
            | (None, w') \<Rightarrow> flush_chunks cfg insert_batch bs ch w'))"

lemma flush_loop_chunks:
  assumes size: "0 < wr_MaxBatchSize cfg" and "0 \<le> i"
  shows "flush_loop cfg ins metrics i ch w =
         Some (Ret (flush_chunks cfg ins (chunks (nat (wr_MaxBatchSize cfg)) (drop (nat i) metrics)) ch w))"
  using assms(2)
proof (induction "length metrics - nat i" arbitrary: i ch w rule: less_induct)
  case less
  let ?n = "nat (wr_MaxBatchSize cfg)"
  show ?case
  proof (cases "i < int (length metrics)")
    case False
    then show ?thesis by (simp add: flush_loop.simps)
  next
    case True
    let ?ds = "drop (nat i) metrics"
    let ?i = "i + wr_MaxBatchSize cfg"
    let ?stop = "if ?i > int (length metrics) then int (length metrics) else ?i"
    have nei: "?ds \<noteq> []" using True less.prems by simp
    have batch: "take (nat (?stop - i)) ?ds = take ?n ?ds"
      using True less.prems by (auto simp: nat_diff_distrib)
    have stop_ok: "\<not> ?stop < i" using True size by simp
    have next_drop: "drop (nat ?i) metrics = drop ?n ?ds"
      using less.prems size by (simp add: nat_add_distrib add.commute)
    have IH: "flush_loop cfg ins metrics ?i ch' w' =
        Some (Ret (flush_chunks cfg ins (chunks ?n (drop ?n ?ds)) ch' w'))" for ch' w'
      unfolding next_drop [symmetric]
      by (rule less.hyps) (use True less.prems size in \<open>auto simp: nat_add_distrib\<close>)
    have cs: "chunks ?n ?ds = take ?n ?ds # chunks ?n (drop ?n ?ds)"
      using nei size by (simp add: chunks.simps [of ?n ?ds])
    show ?thesis
      by (subst flush_loop.simps)
        (simp only: True if_True Let_def stop_ok if_False batch IH cs flush_chunks.simps
          split: prod.split option.split if_split, auto)
  qed
qed

lemma flush_metrics_chunks:
  assumes "0 < wr_MaxBatchSize cfg"
  shows "flush_metrics cfg ins metrics ch w =
         Some (Ret (flush_chunks cfg ins (chunks (nat (wr_MaxBatchSize cfg)) metrics) ch w))"
  using flush_loop_chunks [OF assms, of 0 ins metrics ch w] by (simp add: flush_metrics_def)

lemma flush_metrics_negative:
  assumes "wr_MaxBatchSize cfg < 0" and "metrics \<noteq> []"
  shows "flush_metrics cfg ins metrics ch w = Some Panic"
  using assms by (simp add: flush_metrics_def flush_loop.simps)

section \<open>A size of zero\<close>

text \<open>
  With \<^verbatim>\<open>MaxBatchSize\<close> 0 the index never moves.  If inserting an empty batch succeeds, as the
  database does without a query, the loop does not return.
\<close>

lemma flush_loop_moves:
  assumes "flush_loop cfg ins metrics i ch w = Some r"
  shows "\<not> (wr_MaxBatchSize cfg = 0 \<and> (\<forall>w. fst (writeWithRetry cfg (ins []) w) = None) \<and>
           0 \<le> i \<and> i < int (length metrics))"
proof (rule flush_loop.raw_induct [OF _ assms,
      where P = "\<lambda>cfg ins metrics i ch w r. \<not> (wr_MaxBatchSize cfg = 0 \<and>
        (\<forall>w. fst (writeWithRetry cfg (ins []) w) = None) \<and> 0 \<le> i \<and> i < int (length metrics))"],
    rule notI)
  fix f cfg ins metrics i ch w r
  assume IH: "\<And>cfg ins metrics i ch w r. f cfg ins metrics i ch w = Some r \<Longrightarrow>
      \<not> (wr_MaxBatchSize cfg = 0 \<and> (\<forall>w. fst (writeWithRetry cfg (ins []) w) = None) \<and>
        0 \<le> i \<and> i < int (length metrics))"
    and body: "(if i < int (length metrics)
      then let end0 = i + wr_MaxBatchSize cfg;
               end1 = (if end0 > int (length metrics) then int (length metrics) else end0)
           in if end1 < i then Some Panic
              else let batch = take (nat (end1 - i)) (drop (nat i) metrics)
                   in if length ch < chan_cap
                      then f cfg ins metrics (i + wr_MaxBatchSize cfg) (ch @ [batch]) w
                      else (case writeWithRetry cfg (ins batch) w of
                              (Some err, w') \<Rightarrow> Some (Ret (Some err, ch, w'))
                            | (None, w') \<Rightarrow> f cfg ins metrics (i + wr_MaxBatchSize cfg) ch w')
      else Some (Ret (None, ch, w))) = Some r"
    and z: "wr_MaxBatchSize cfg = 0 \<and> (\<forall>w. fst (writeWithRetry cfg (ins []) w) = None) \<and>
        0 \<le> i \<and> i < int (length metrics)"
  obtain w' where w': "writeWithRetry cfg (ins []) w = (None, w')"
    using z by (metis prod.collapse)
  have "f cfg ins metrics i (ch @ [[]]) w = Some r \<or> f cfg ins metrics i ch w' = Some r"
    using body z w' by (simp split: if_splits)
  then show False using IH z by blast
qed

lemma flush_loop_zero:
  assumes "wr_MaxBatchSize cfg = 0" and "0 < wr_RetryAttempts cfg"
    and empty: "\<And>w. fst (ins [] w) = Returned None" and "i < int (length metrics)" and "0 \<le> i"
  shows "flush_loop cfg ins metrics i ch w = None"
proof -
  obtain n where n: "nat (wr_RetryAttempts cfg) = Suc n"
    using assms(2) by (metis gr0_implies_Suc zero_less_nat_eq)
  have "fst (writeWithRetry cfg (ins []) w) = None" for w
    using empty [of w] by (cases "ins [] w") (simp add: writeWithRetry_def n)
  then have "flush_loop cfg ins metrics i ch w \<noteq> Some r" for r
    using flush_loop_moves [of cfg ins metrics i ch w r] assms by auto
  then show ?thesis by (meson not_None_eq)
qed

section \<open>What the database promises\<close>

text \<open>
  \<open>stored\<close> counts the rows of the table and \<open>enc\<close> is the row of a metric.  A call that returns nil has added its batch; one that
  returns an error has added nothing (the copy is one transaction); a call that timed out may have
  been completed after all.
\<close>

locale batch_writer =
  fixes insert_batch :: "'v list \<Rightarrow> 'w \<Rightarrow> attempt \<times> 'w" and enc :: "'v \<Rightarrow> 'r"
    and stored :: "'w \<Rightarrow> 'r multiset"
  assumes insert_ok: "insert_batch b w = (Returned None, w') \<Longrightarrow> stored w' = stored w + mset (map enc b)"
    and insert_error: "insert_batch b w = (Returned (Some e), w') \<Longrightarrow> stored w' = stored w"
    and insert_timeout: "insert_batch b w = (TimedOut, w') \<Longrightarrow>
      stored w' = stored w \<or> stored w' = stored w + mset (map enc b)"
begin

text \<open>
  A write that reports success stored its batch; one that reports failure may still have stored
  it, once for every attempt that timed out.
\<close>

lemma insert_mono: "insert_batch b w = (r, w') \<Longrightarrow> stored w \<subseteq># stored w'"
  using insert_ok insert_error insert_timeout
  by (cases r; cases "\<exists>e. r = Returned (Some e)"; fastforce)

lemma attempts_mono:
  "write_attempts (insert_batch b) n le w = (r, w') \<Longrightarrow> stored w \<subseteq># stored w'"
proof (induction n arbitrary: le w)
  case (Suc n)
  obtain a w1 where a: "insert_batch b w = (a, w1)" by fastforce
  have "w' = w1 \<or> (\<exists>le. write_attempts (insert_batch b) n le w1 = (r, w'))"
    using Suc.prems a by (auto split: attempt.splits option.splits)
  then have "stored w1 \<subseteq># stored w'" using Suc.IH by auto
  then show ?case using insert_mono [OF a] by (rule subset_mset.order_trans [rotated])
qed simp

lemma attempts_ok:
  "write_attempts (insert_batch b) n le w = (None, w') \<Longrightarrow> stored w + mset (map enc b) \<subseteq># stored w'"
proof (induction n arbitrary: le w)
  case (Suc n)
  obtain a w1 where a: "insert_batch b w = (a, w1)" by fastforce
  have "a = Returned None \<and> w' = w1 \<or> (\<exists>le. write_attempts (insert_batch b) n le w1 = (None, w'))"
    using Suc.prems a by (auto split: attempt.splits option.splits)
  then show ?case
  proof
    assume "a = Returned None \<and> w' = w1"
    then show ?thesis using insert_ok a by simp
  next
    assume "\<exists>le. write_attempts (insert_batch b) n le w1 = (None, w')"
    then have "stored w1 + mset (map enc b) \<subseteq># stored w'" using Suc.IH by auto
    moreover have "stored w + mset (map enc b) \<subseteq># stored w1 + mset (map enc b)" using insert_mono [OF a] by simp
    ultimately show ?thesis by (rule subset_mset.order_trans [rotated])
  qed
qed simp

lemma write_ok:
  "writeWithRetry cfg (insert_batch b) w = (None, w') \<Longrightarrow> stored w + mset (map enc b) \<subseteq># stored w'"
  unfolding writeWithRetry_def by (auto split: prod.splits option.splits dest: attempts_ok)

lemma write_mono:
  "writeWithRetry cfg (insert_batch b) w = (r, w') \<Longrightarrow> stored w \<subseteq># stored w'"
  unfolding writeWithRetry_def by (auto split: prod.splits option.splits dest: attempts_mono)

text \<open>A flush: what is queued or stored, against what was.\<close>

lemma flush_chunks_ok:
  "flush_chunks cfg insert_batch bs ch w = (None, ch', w') \<Longrightarrow>
   stored w + mset (map enc (concat ch)) + mset (map enc (concat bs)) \<subseteq># stored w' + mset (map enc (concat ch'))"
proof (induction bs arbitrary: ch w)
  case (Cons b bs)
  show ?case
  proof (cases "length ch < chan_cap")
    case True
    then show ?thesis using Cons.IH [of "ch @ [b]" w] Cons.prems by (simp add: add_ac)
  next
    case False
    then obtain w1 where w1: "writeWithRetry cfg (insert_batch b) w = (None, w1)"
      and r: "flush_chunks cfg insert_batch bs ch w1 = (None, ch', w')"
      using Cons.prems by (auto split: prod.splits option.splits)
    have "stored w + mset (map enc (concat ch)) + mset (map enc (concat (b # bs))) =
        (stored w + mset (map enc b)) + (mset (map enc (concat ch)) + mset (map enc (concat bs)))" by simp
    also have "\<dots> \<subseteq># stored w1 + (mset (map enc (concat ch)) + mset (map enc (concat bs)))"
      using write_ok [OF w1] by simp
    also have "\<dots> \<subseteq># stored w' + mset (map enc (concat ch'))"
      using Cons.IH [OF r] by (simp add: add_ac)
    finally show ?thesis .
  qed
qed simp

lemma flush_chunks_mono:
  "flush_chunks cfg insert_batch bs ch w = (r, ch', w') \<Longrightarrow>
   stored w + mset (map enc (concat ch)) \<subseteq># stored w' + mset (map enc (concat ch'))"
proof (induction bs arbitrary: ch w)
  case (Cons b bs)
  show ?case
  proof (cases "length ch < chan_cap")
    case True
    then have "stored w + mset (map enc (concat (ch @ [b]))) \<subseteq># stored w' + mset (map enc (concat ch'))"
      using Cons.IH [of "ch @ [b]" w] Cons.prems by simp
    then show ?thesis
      by (simp add: add.assoc [symmetric]) (metis mset_subset_eq_add_left subset_mset.order_trans)
  next
    case False
    obtain r1 w1 where w1: "writeWithRetry cfg (insert_batch b) w = (r1, w1)" by fastforce
    have "stored w + mset (map enc (concat ch)) \<subseteq># stored w1 + mset (map enc (concat ch))"
      using write_mono [OF w1] by simp
    moreover have "stored w1 + mset (map enc (concat ch)) \<subseteq># stored w' + mset (map enc (concat ch'))"
      using Cons.IH [of ch w1] Cons.prems False w1 by (auto split: option.splits)
    ultimately show ?thesis by (rule subset_mset.order_trans)
  qed
qed simp

end

section \<open>A database that answers in time\<close>

text \<open>Without timeouts every successful write stores its batch exactly once.\<close>

locale prompt_writer = batch_writer +
  assumes prompt: "fst (insert_batch b w) \<noteq> TimedOut"
begin

lemma attempts_exact:
  "write_attempts (insert_batch b) n le w = (r, w') \<Longrightarrow>
   stored w' = stored w + (if r = None then mset (map enc b) else {#})"
proof (induction n arbitrary: le w)
  case (Suc n)
  show ?case
  proof (cases "insert_batch b w")
    case (Pair a w1)
    show ?thesis
      using Suc.prems Suc.IH Pair insert_ok insert_error prompt [of b w]
      by (cases a) (auto split: option.splits)
  qed
qed auto

lemma write_exact:
  "writeWithRetry cfg (insert_batch b) w = (r, w') \<Longrightarrow>
   stored w' = stored w + (if r = None then mset (map enc b) else {#})"
  unfolding writeWithRetry_def by (auto split: prod.splits option.splits dest: attempts_exact)

lemma flush_chunks_exact:
  "flush_chunks cfg insert_batch bs ch w = (None, ch', w') \<Longrightarrow>
   stored w' + mset (map enc (concat ch')) = stored w + mset (map enc (concat ch)) + mset (map enc (concat bs))"
proof (induction bs arbitrary: ch w)
  case (Cons b bs)
  show ?case
  proof (cases "length ch < chan_cap")
    case True
    then show ?thesis using Cons.IH [of "ch @ [b]" w] Cons.prems by (simp add: add_ac)
  next
    case False
    then obtain w1 where w1: "writeWithRetry cfg (insert_batch b) w = (None, w1)"
      and r: "flush_chunks cfg insert_batch bs ch w1 = (None, ch', w')"
      using Cons.prems by (auto split: prod.splits option.splits)
    then show ?thesis using Cons.IH [OF r] write_exact [OF w1] by (simp add: add_ac)
  qed
qed simp

text \<open>A flush that fails keeps what it had written and queued; the batch it failed at and all later
  ones are gone.\<close>

lemma flush_chunks_failed:
  "flush_chunks cfg insert_batch bs ch w = (Some e, ch', w') \<Longrightarrow>
   \<exists>j < length bs. (\<exists>w1. writeWithRetry cfg (insert_batch (bs ! j)) w1 = (Some e, w')) \<and>
     stored w' + mset (map enc (concat ch')) =
     stored w + mset (map enc (concat ch)) + mset (map enc (concat (take j bs)))"
proof (induction bs arbitrary: ch w)
  case (Cons b bs)
  show ?case
  proof (cases "length ch < chan_cap")
    case True
    then obtain j w1 where "j < length bs" and "writeWithRetry cfg (insert_batch (bs ! j)) w1 = (Some e, w')"
      and "stored w' + mset (map enc (concat ch')) =
        stored w + mset (map enc (concat (ch @ [b]))) + mset (map enc (concat (take j bs)))"
      using Cons.IH [of "ch @ [b]" w] Cons.prems by auto
    then show ?thesis by (intro exI [of _ "Suc j"]) (auto simp: add_ac)
  next
    case False
    obtain r w1 where w1: "writeWithRetry cfg (insert_batch b) w = (r, w1)" by fastforce
    show ?thesis
    proof (cases r)
      case None
      then obtain j w2 where "j < length bs" and "writeWithRetry cfg (insert_batch (bs ! j)) w2 = (Some e, w')"
        and "stored w' + mset (map enc (concat ch')) =
          stored w1 + mset (map enc (concat ch)) + mset (map enc (concat (take j bs)))"
        using Cons.IH [of ch w1] Cons.prems False w1 by auto
      then show ?thesis
        using write_exact [OF w1] None by (intro exI [of _ "Suc j"]) (auto simp: add_ac)
    next
      case (Some err)
      then have "ch' = ch \<and> w' = w1 \<and> err = e" using Cons.prems False w1 by simp
      then show ?thesis
        using write_exact [OF w1] Some w1 by (intro exI [of _ 0]) auto
    qed
  qed
qed simp

end

end
