(* ===== verification/Buffer_Manager.thy ===== *)
theory Buffer_Manager
  imports Buffer_Merge Buffer_Writer
begin

text \<open>
  The buffer manager of \<^verbatim>\<open>internal/buffer/buffer_manager.go\<close>.  Its state is the record
  \<open>FixedBufferManager\<close>; the fields \<open>bm_spawned\<close> and \<open>bm_writers\<close> stand for the goroutines it starts with \<^verbatim>\<open>go\<close>
  (flushes that were started and have not run, and running writers of each kind), \<open>bm_stopped\<close> for a
  closed \<open>stopChan\<close>.  The database is a record of functions on the world \<open>'w\<close>.  A method is a
  function of the state; a flush gives \<open>None\<close> when it never returns and \<open>Panic\<close> when it crashes, as
  \<open>Buffer_Writer\<close> explains.  Logging and sleeping have no effect on the state and are left out.

  The merging methods work on the shard behind the key, as the source does under its lock;
  \<open>add_loop_agg\<close> and \<open>set_loop_agg\<close> show them to be the loop \<open>agg_loop\<close> of \<open>Buffer_Interface\<close> on the
  whole map, so that the facts of its locales apply.
\<close>

section \<open>State\<close>

record FixedBufferStats =
  st_PlatformBufferSize :: int
  st_InterfaceBufferSize :: int
  st_SubinterfaceBufferSize :: int
  st_AlarmReportBufferSize :: int
  st_NotificationReportBufferSize :: int
  st_TotalRecordsProcessed :: int64
  st_TotalRecordsWritten :: int64
  st_TotalErrors :: int64
  st_LastFlushTime :: gtime
  st_FlushDuration :: duration
  st_KeyCollisions :: int64

definition FixedBufferStats_zero :: FixedBufferStats where
  "FixedBufferStats_zero = \<lparr>st_PlatformBufferSize = 0, st_InterfaceBufferSize = 0,
     st_SubinterfaceBufferSize = 0, st_AlarmReportBufferSize = 0, st_NotificationReportBufferSize = 0,
     st_TotalRecordsProcessed = 0, st_TotalRecordsWritten = 0, st_TotalErrors = 0,
     st_LastFlushTime = zero_time, st_FlushDuration = 0, st_KeyCollisions = 0\<rparr>"

text \<open>The five kinds of metric.\<close>

datatype kind = KPlatform | KInterface | KSubinterface | KAlarmReport | KNotificationReport

definition all_kinds :: "kind list" where
  "all_kinds = [KPlatform, KInterface, KSubinterface, KAlarmReport, KNotificationReport]"

text \<open>The five kinds are all there are: \<open>kind\<close> is an enumeration type, so statements about all kinds compute.\<close>

lemma all_kinds_UNIV: "set all_kinds = UNIV"
proof -
  have "k \<in> set all_kinds" for k by (cases k) (simp_all add: all_kinds_def)
  then show ?thesis by blast
qed

instantiation kind :: enum
begin

definition "Enum.enum = all_kinds"

definition "Enum.enum_all P \<longleftrightarrow> list_all P all_kinds"

definition "Enum.enum_ex P \<longleftrightarrow> list_ex P all_kinds"

instance
proof
  show "distinct (Enum.enum :: kind list)" by (simp add: enum_kind_def all_kinds_def)
qed (simp_all add: enum_kind_def enum_all_kind_def enum_ex_kind_def list_all_iff list_ex_iff all_kinds_UNIV)

end

record 'w DatabaseInterface =
  dbi_Platform :: "PlatformMetric list \<Rightarrow> 'w \<Rightarrow> attempt \<times> 'w"
  dbi_Interface :: "InterfaceMetric list \<Rightarrow> 'w \<Rightarrow> attempt \<times> 'w"
  dbi_Subinterface :: "SubinterfaceMetric list \<Rightarrow> 'w \<Rightarrow> attempt \<times> 'w"
  dbi_AlarmReport :: "AlarmReportMetric list \<Rightarrow> 'w \<Rightarrow> attempt \<times> 'w"
  dbi_NotificationReport :: "NotificationReportMetric list \<Rightarrow> 'w \<Rightarrow> attempt \<times> 'w"

record FixedBufferManager =
  bm_config :: BufferConfig
  bm_writerConfig :: DatabaseWriterConfig
  bm_platformBuffer :: ShardedPlatformMap
  bm_interfaceBuffer :: ShardedInterfaceMap
  bm_subinterfaceBuffer :: ShardedSubinterfaceMap
  bm_alarmReportBuffer :: ShardedAlarmMap
  bm_notificationReportBuffer :: ShardedNotificationMap
  bm_stats :: FixedBufferStats
  bm_keyBuf :: pool
  bm_flushTimer :: bool
  bm_stopped :: bool
  bm_platformWriteChan :: "PlatformMetric list list"
  bm_interfaceWriteChan :: "InterfaceMetric list list"
  bm_subinterfaceWriteChan :: "SubinterfaceMetric list list"
  bm_alarmReportWriteChan :: "AlarmReportMetric list list"
  bm_notificationReportWriteChan :: "NotificationReportMetric list list"
  bm_writers :: "kind \<Rightarrow> nat"
  bm_spawned :: "kind list"

definition startFlushTimer :: "FixedBufferManager \<Rightarrow> FixedBufferManager" where
  "startFlushTimer bm = bm\<lparr>bm_flushTimer := True\<rparr>"

definition startParallelWriters :: "FixedBufferManager \<Rightarrow> FixedBufferManager" where
  "startParallelWriters bm =
     bm\<lparr>bm_writers := (\<lambda>_. nat (wr_ParallelWriters (bm_writerConfig bm)))\<rparr>"

definition NewFixedBufferManager :: "BufferConfig \<Rightarrow> DatabaseWriterConfig \<Rightarrow> FixedBufferManager" where
  "NewFixedBufferManager cfg writerConfig =
     (let bm =
        \<lparr>bm_config = cfg, bm_writerConfig = writerConfig,
         bm_platformBuffer = newShardedPlatformMap,
         bm_interfaceBuffer = newShardedInterfaceMap,
         bm_subinterfaceBuffer = newShardedSubinterfaceMap,
         bm_alarmReportBuffer = newShardedAlarmMap,
         bm_notificationReportBuffer = newShardedNotificationMap,
         bm_stats = FixedBufferStats_zero, bm_keyBuf = [], bm_flushTimer = False, bm_stopped = False,
         bm_platformWriteChan = [],
         bm_interfaceWriteChan = [],
         bm_subinterfaceWriteChan = [],
         bm_alarmReportWriteChan = [],
         bm_notificationReportWriteChan = [],
         bm_writers = (\<lambda>_. 0), bm_spawned = []\<rparr>
      in startParallelWriters (startFlushTimer bm))"

section \<open>Adding metrics\<close>

text \<open>
  The loop of the three merging methods, with the pool of key buffers, the buffer and the counter
  of key collisions.
\<close>

fun add_loop ::
  "('v \<Rightarrow> pool \<Rightarrow> string \<times> pool) \<Rightarrow> ('v \<Rightarrow> 'v \<Rightarrow> 'v) \<Rightarrow> 'v list \<Rightarrow> pool \<Rightarrow> 'v ShardedMap \<Rightarrow> int64 \<Rightarrow>
   pool \<times> 'v ShardedMap \<times> int64"
where
  "add_loop generateKey merge [] p m collisions = (p, m, collisions)"
| "add_loop generateKey merge (metric # metrics) p m collisions =
     (let (key, p) = generateKey metric p;
          shard = getShard m key
      in case map_of (items shard) key of
           Some existing \<Rightarrow>
             add_loop generateKey merge metrics p
               (putShard m key (shard\<lparr>items := AList.update key (merge existing metric) (items shard)\<rparr>))
               (collisions + 1)
         | None \<Rightarrow>
             add_loop generateKey merge metrics p
               (putShard m key (shard\<lparr>items := AList.update key metric (items shard)\<rparr>))
               collisions)"

text \<open>The loop of the two overwriting methods.\<close>

fun set_loop ::
  "('v \<Rightarrow> pool \<Rightarrow> string \<times> pool) \<Rightarrow> 'v list \<Rightarrow> pool \<Rightarrow> 'v ShardedMap \<Rightarrow> pool \<times> 'v ShardedMap"
where
  "set_loop generateKey [] p m = (p, m)"
| "set_loop generateKey (metric # metrics) p m =
     (let (key, p) = generateKey metric p
      in set_loop generateKey metrics p (sharded_Set key metric m))"

text \<open>\<^verbatim>\<open>atomic.AddInt64(&bm.stats.TotalRecordsProcessed, int64(len(metrics)))\<close>\<close>

definition count_processed :: "nat \<Rightarrow> FixedBufferStats \<Rightarrow> FixedBufferStats" where
  "count_processed n s = s\<lparr>st_TotalRecordsProcessed := st_TotalRecordsProcessed s + of_nat n\<rparr>"

definition AddPlatformMetrics :: "PlatformMetric list \<Rightarrow> FixedBufferManager \<Rightarrow> FixedBufferManager" where
  "AddPlatformMetrics metrics bm =
     (let (p, m, collisions) =
            add_loop generatePlatformKey mergePlatformMetric metrics (bm_keyBuf bm) (bm_platformBuffer bm)
              (st_KeyCollisions (bm_stats bm));
          bm = bm\<lparr>bm_keyBuf := p, bm_platformBuffer := m,
                  bm_stats := count_processed (length metrics)
                                ((bm_stats bm)\<lparr>st_KeyCollisions := collisions\<rparr>)\<rparr>
      in if int (ShardedPlatformMap_Len (bm_platformBuffer bm)) \<ge> buf_FlushThreshold (bm_config bm)
         then bm\<lparr>bm_spawned := bm_spawned bm @ [KPlatform]\<rparr> else bm)"

definition AddInterfaceMetrics :: "InterfaceMetric list \<Rightarrow> FixedBufferManager \<Rightarrow> FixedBufferManager" where
  "AddInterfaceMetrics metrics bm =
     (let (p, m, collisions) =
            add_loop generateInterfaceKey mergeInterfaceMetric metrics (bm_keyBuf bm) (bm_interfaceBuffer bm)
              (st_KeyCollisions (bm_stats bm));
          bm = bm\<lparr>bm_keyBuf := p, bm_interfaceBuffer := m,
                  bm_stats := count_processed (length metrics)
                                ((bm_stats bm)\<lparr>st_KeyCollisions := collisions\<rparr>)\<rparr>
      in if int (ShardedInterfaceMap_Len (bm_interfaceBuffer bm)) \<ge> buf_FlushThreshold (bm_config bm)
         then bm\<lparr>bm_spawned := bm_spawned bm @ [KInterface]\<rparr> else bm)"

definition AddSubinterfaceMetrics :: "SubinterfaceMetric list \<Rightarrow> FixedBufferManager \<Rightarrow> FixedBufferManager" where
  "AddSubinterfaceMetrics metrics bm =
     (let (p, m, collisions) =
            add_loop generateSubinterfaceKey mergeSubinterfaceMetric metrics (bm_keyBuf bm) (bm_subinterfaceBuffer bm)
              (st_KeyCollisions (bm_stats bm));
          bm = bm\<lparr>bm_keyBuf := p, bm_subinterfaceBuffer := m,
                  bm_stats := count_processed (length metrics)
                                ((bm_stats bm)\<lparr>st_KeyCollisions := collisions\<rparr>)\<rparr>
      in if int (ShardedSubinterfaceMap_Len (bm_subinterfaceBuffer bm)) \<ge> buf_FlushThreshold (bm_config bm)
         then bm\<lparr>bm_spawned := bm_spawned bm @ [KSubinterface]\<rparr> else bm)"

definition AddAlarmReportMetrics :: "AlarmReportMetric list \<Rightarrow> FixedBufferManager \<Rightarrow> FixedBufferManager" where
  "AddAlarmReportMetrics metrics bm =
     (let (p, m) = set_loop generateAlarmKey metrics (bm_keyBuf bm) (bm_alarmReportBuffer bm);
          bm = bm\<lparr>bm_keyBuf := p, bm_alarmReportBuffer := m,
                  bm_stats := count_processed (length metrics) (bm_stats bm)\<rparr>
      in if int (ShardedAlarmMap_Len (bm_alarmReportBuffer bm)) \<ge> buf_FlushThreshold (bm_config bm)
         then bm\<lparr>bm_spawned := bm_spawned bm @ [KAlarmReport]\<rparr> else bm)"

definition AddNotificationReportMetrics :: "NotificationReportMetric list \<Rightarrow> FixedBufferManager \<Rightarrow> FixedBufferManager" where
  "AddNotificationReportMetrics metrics bm =
     (let (p, m) = set_loop generateNotificationKey metrics (bm_keyBuf bm) (bm_notificationReportBuffer bm);
          bm = bm\<lparr>bm_keyBuf := p, bm_notificationReportBuffer := m,
                  bm_stats := count_processed (length metrics) (bm_stats bm)\<rparr>
      in if int (ShardedNotificationMap_Len (bm_notificationReportBuffer bm)) \<ge> buf_FlushThreshold (bm_config bm)
         then bm\<lparr>bm_spawned := bm_spawned bm @ [KNotificationReport]\<rparr> else bm)"

section \<open>Writers\<close>

text \<open>The counters after one write: one error, or the records of the batch.\<close>

definition count_write :: "write_error option \<Rightarrow> nat \<Rightarrow> FixedBufferStats \<Rightarrow> FixedBufferStats" where
  "count_write err n s =
     (case err of
        Some _ \<Rightarrow> s\<lparr>st_TotalErrors := st_TotalErrors s + 1\<rparr>
      | None \<Rightarrow> s\<lparr>st_TotalRecordsWritten := st_TotalRecordsWritten s + of_nat n\<rparr>)"

text \<open>One receive of a writer; \<open>None\<close> when its channel is empty.\<close>

definition platformWriter ::
  "'w DatabaseInterface \<Rightarrow> FixedBufferManager \<Rightarrow> 'w \<Rightarrow> (FixedBufferManager \<times> 'w) option"
where
  "platformWriter db bm w =
     (case writer_turn (bm_writerConfig bm) (dbi_Platform db) (bm_platformWriteChan bm) w of
        None \<Rightarrow> None
      | Some (err, n, ch, w') \<Rightarrow>
          Some (bm\<lparr>bm_platformWriteChan := ch, bm_stats := count_write err n (bm_stats bm)\<rparr>, w'))"

definition interfaceWriter ::
  "'w DatabaseInterface \<Rightarrow> FixedBufferManager \<Rightarrow> 'w \<Rightarrow> (FixedBufferManager \<times> 'w) option"
where
  "interfaceWriter db bm w =
     (case writer_turn (bm_writerConfig bm) (dbi_Interface db) (bm_interfaceWriteChan bm) w of
        None \<Rightarrow> None
      | Some (err, n, ch, w') \<Rightarrow>
          Some (bm\<lparr>bm_interfaceWriteChan := ch, bm_stats := count_write err n (bm_stats bm)\<rparr>, w'))"

definition subinterfaceWriter ::
  "'w DatabaseInterface \<Rightarrow> FixedBufferManager \<Rightarrow> 'w \<Rightarrow> (FixedBufferManager \<times> 'w) option"
where
  "subinterfaceWriter db bm w =
     (case writer_turn (bm_writerConfig bm) (dbi_Subinterface db) (bm_subinterfaceWriteChan bm) w of
        None \<Rightarrow> None
      | Some (err, n, ch, w') \<Rightarrow>
          Some (bm\<lparr>bm_subinterfaceWriteChan := ch, bm_stats := count_write err n (bm_stats bm)\<rparr>, w'))"

definition alarmReportWriter ::
  "'w DatabaseInterface \<Rightarrow> FixedBufferManager \<Rightarrow> 'w \<Rightarrow> (FixedBufferManager \<times> 'w) option"
where
  "alarmReportWriter db bm w =
     (case writer_turn (bm_writerConfig bm) (dbi_AlarmReport db) (bm_alarmReportWriteChan bm) w of
        None \<Rightarrow> None
      | Some (err, n, ch, w') \<Rightarrow>
          Some (bm\<lparr>bm_alarmReportWriteChan := ch, bm_stats := count_write err n (bm_stats bm)\<rparr>, w'))"

definition notificationReportWriter ::
  "'w DatabaseInterface \<Rightarrow> FixedBufferManager \<Rightarrow> 'w \<Rightarrow> (FixedBufferManager \<times> 'w) option"
where
  "notificationReportWriter db bm w =
     (case writer_turn (bm_writerConfig bm) (dbi_NotificationReport db) (bm_notificationReportWriteChan bm) w of
        None \<Rightarrow> None
      | Some (err, n, ch, w') \<Rightarrow>
          Some (bm\<lparr>bm_notificationReportWriteChan := ch, bm_stats := count_write err n (bm_stats bm)\<rparr>, w'))"

section \<open>Flushing\<close>

text \<open>The orders in which a flush meets the entries of the five maps.\<close>

record range_orders =
  ro_Platform :: "(string \<times> PlatformMetric) list \<Rightarrow> (string \<times> PlatformMetric) list"
  ro_Interface :: "(string \<times> InterfaceMetric) list \<Rightarrow> (string \<times> InterfaceMetric) list"
  ro_Subinterface :: "(string \<times> SubinterfaceMetric) list \<Rightarrow> (string \<times> SubinterfaceMetric) list"
  ro_AlarmReport :: "(string \<times> AlarmReportMetric) list \<Rightarrow> (string \<times> AlarmReportMetric) list"
  ro_NotificationReport :: "(string \<times> NotificationReportMetric) list \<Rightarrow> (string \<times> NotificationReportMetric) list"

definition orders_ok :: "range_orders \<Rightarrow> bool" where
  "orders_ok ro \<longleftrightarrow> range_order (ro_Platform ro) \<and> range_order (ro_Interface ro) \<and> range_order (ro_Subinterface ro) \<and>
     range_order (ro_AlarmReport ro) \<and> range_order (ro_NotificationReport ro)"

text \<open>The orders in which the entries stand.\<close>

definition plain_orders :: range_orders where
  "plain_orders = \<lparr>ro_Platform = (\<lambda>xs. xs), ro_Interface = (\<lambda>xs. xs), ro_Subinterface = (\<lambda>xs. xs),
     ro_AlarmReport = (\<lambda>xs. xs), ro_NotificationReport = (\<lambda>xs. xs)\<rparr>"

type_synonym 'w flush_result = "(write_error option \<times> FixedBufferManager \<times> 'w) flow option"

definition FlushPlatformMetrics ::
  "'w DatabaseInterface \<Rightarrow> range_orders \<Rightarrow> FixedBufferManager \<Rightarrow> 'w \<Rightarrow> 'w flush_result"
where
  "FlushPlatformMetrics db ro bm w =
     (let (metrics, m) = ShardedPlatformMap_SwapAll (ro_Platform ro) (bm_platformBuffer bm);
          bm = bm\<lparr>bm_platformBuffer := m\<rparr>
      in case flush_metrics (bm_writerConfig bm) (dbi_Platform db) metrics (bm_platformWriteChan bm) w of
           None \<Rightarrow> None
         | Some Panic \<Rightarrow> Some Panic
         | Some (Ret (err, ch, w')) \<Rightarrow> Some (Ret (err, bm\<lparr>bm_platformWriteChan := ch\<rparr>, w')))"

definition FlushInterfaceMetrics ::
  "'w DatabaseInterface \<Rightarrow> range_orders \<Rightarrow> FixedBufferManager \<Rightarrow> 'w \<Rightarrow> 'w flush_result"
where
  "FlushInterfaceMetrics db ro bm w =
     (let (metrics, m) = ShardedInterfaceMap_SwapAll (ro_Interface ro) (bm_interfaceBuffer bm);
          bm = bm\<lparr>bm_interfaceBuffer := m\<rparr>
      in case flush_metrics (bm_writerConfig bm) (dbi_Interface db) metrics (bm_interfaceWriteChan bm) w of
           None \<Rightarrow> None
         | Some Panic \<Rightarrow> Some Panic
         | Some (Ret (err, ch, w')) \<Rightarrow> Some (Ret (err, bm\<lparr>bm_interfaceWriteChan := ch\<rparr>, w')))"

definition FlushSubinterfaceMetrics ::
  "'w DatabaseInterface \<Rightarrow> range_orders \<Rightarrow> FixedBufferManager \<Rightarrow> 'w \<Rightarrow> 'w flush_result"
where
  "FlushSubinterfaceMetrics db ro bm w =
     (let (metrics, m) = ShardedSubinterfaceMap_SwapAll (ro_Subinterface ro) (bm_subinterfaceBuffer bm);
          bm = bm\<lparr>bm_subinterfaceBuffer := m\<rparr>
      in case flush_metrics (bm_writerConfig bm) (dbi_Subinterface db) metrics (bm_subinterfaceWriteChan bm) w of
           None \<Rightarrow> None
         | Some Panic \<Rightarrow> Some Panic
         | Some (Ret (err, ch, w')) \<Rightarrow> Some (Ret (err, bm\<lparr>bm_subinterfaceWriteChan := ch\<rparr>, w')))"

definition FlushAlarmReportMetrics ::
  "'w DatabaseInterface \<Rightarrow> range_orders \<Rightarrow> FixedBufferManager \<Rightarrow> 'w \<Rightarrow> 'w flush_result"
where
  "FlushAlarmReportMetrics db ro bm w =
     (let (metrics, m) = ShardedAlarmMap_SwapAll (ro_AlarmReport ro) (bm_alarmReportBuffer bm);
          bm = bm\<lparr>bm_alarmReportBuffer := m\<rparr>
      in case flush_metrics (bm_writerConfig bm) (dbi_AlarmReport db) metrics (bm_alarmReportWriteChan bm) w of
           None \<Rightarrow> None
         | Some Panic \<Rightarrow> Some Panic
         | Some (Ret (err, ch, w')) \<Rightarrow> Some (Ret (err, bm\<lparr>bm_alarmReportWriteChan := ch\<rparr>, w')))"

definition FlushNotificationReportMetrics ::
  "'w DatabaseInterface \<Rightarrow> range_orders \<Rightarrow> FixedBufferManager \<Rightarrow> 'w \<Rightarrow> 'w flush_result"
where
  "FlushNotificationReportMetrics db ro bm w =
     (let (metrics, m) = ShardedNotificationMap_SwapAll (ro_NotificationReport ro) (bm_notificationReportBuffer bm);
          bm = bm\<lparr>bm_notificationReportBuffer := m\<rparr>
      in case flush_metrics (bm_writerConfig bm) (dbi_NotificationReport db) metrics (bm_notificationReportWriteChan bm) w of
           None \<Rightarrow> None
         | Some Panic \<Rightarrow> Some Panic
         | Some (Ret (err, ch, w')) \<Rightarrow> Some (Ret (err, bm\<lparr>bm_notificationReportWriteChan := ch\<rparr>, w')))"

text \<open>
  \<open>FlushAll\<close> runs the five flushes in goroutines of their own.  They work on disjoint fields and share
  the world; \<open>ks\<close> is the order in which they run, and the first error to arrive is the result.
\<close>

definition flush_kind ::
  "'w DatabaseInterface \<Rightarrow> range_orders \<Rightarrow> kind \<Rightarrow> FixedBufferManager \<Rightarrow> 'w \<Rightarrow> 'w flush_result"
where
  "flush_kind db ro k =
     (case k of
        KPlatform \<Rightarrow> FlushPlatformMetrics db ro
      | KInterface \<Rightarrow> FlushInterfaceMetrics db ro
      | KSubinterface \<Rightarrow> FlushSubinterfaceMetrics db ro
      | KAlarmReport \<Rightarrow> FlushAlarmReportMetrics db ro
      | KNotificationReport \<Rightarrow> FlushNotificationReportMetrics db ro)"

datatype flush_error = FlushFailed kind write_error

fun run_flushes ::
  "'w DatabaseInterface \<Rightarrow> range_orders \<Rightarrow> kind list \<Rightarrow> flush_error list \<Rightarrow> FixedBufferManager \<Rightarrow> 'w \<Rightarrow>
   (flush_error list \<times> FixedBufferManager \<times> 'w) flow option"
where
  "run_flushes db ro [] errs bm w = Some (Ret (errs, bm, w))"
| "run_flushes db ro (k # ks) errs bm w =
     (case flush_kind db ro k bm w of
        None \<Rightarrow> None
      | Some Panic \<Rightarrow> Some Panic
      | Some (Ret (None, bm', w')) \<Rightarrow> run_flushes db ro ks errs bm' w'
      | Some (Ret (Some err, bm', w')) \<Rightarrow> run_flushes db ro ks (errs @ [FlushFailed k err]) bm' w')"

definition FlushAll ::
  "'w DatabaseInterface \<Rightarrow> range_orders \<Rightarrow> kind list \<Rightarrow> gtime \<Rightarrow> gtime \<Rightarrow> FixedBufferManager \<Rightarrow> 'w \<Rightarrow>
   (flush_error option \<times> FixedBufferManager \<times> 'w) flow option"
where
  "FlushAll db ro ks start now bm w =
     (case run_flushes db ro ks [] bm w of
        None \<Rightarrow> None
      | Some Panic \<Rightarrow> Some Panic
      | Some (Ret (errs, bm, w')) \<Rightarrow>
          let bm = bm\<lparr>bm_stats := (bm_stats bm)\<lparr>st_LastFlushTime := now,
                                             st_FlushDuration := time_Sub now start\<rparr>\<rparr>
          in Some (Ret (if length errs > 0 then Some (errs ! 0) else None, bm, w')))"

text \<open>\<open>Stop\<close> closes the stop channel, once, and flushes.\<close>

definition Stop ::
  "'w DatabaseInterface \<Rightarrow> range_orders \<Rightarrow> kind list \<Rightarrow> gtime \<Rightarrow> gtime \<Rightarrow> FixedBufferManager \<Rightarrow> 'w \<Rightarrow>
   (flush_error option \<times> FixedBufferManager \<times> 'w) flow option"
where
  "Stop db ro ks start now bm w =
     (if bm_stopped bm then Some (Ret (None, bm, w))
      else FlushAll db ro ks start now (bm\<lparr>bm_stopped := True\<rparr>) w)"

section \<open>Statistics\<close>

definition GetStats :: "FixedBufferManager \<Rightarrow> FixedBufferStats" where
  "GetStats bm =
     (bm_stats bm)\<lparr>
       st_PlatformBufferSize := int (ShardedPlatformMap_Len (bm_platformBuffer bm)),
       st_InterfaceBufferSize := int (ShardedInterfaceMap_Len (bm_interfaceBuffer bm)),
       st_SubinterfaceBufferSize := int (ShardedSubinterfaceMap_Len (bm_subinterfaceBuffer bm)),
       st_AlarmReportBufferSize := int (ShardedAlarmMap_Len (bm_alarmReportBuffer bm)),
       st_NotificationReportBufferSize := int (ShardedNotificationMap_Len (bm_notificationReportBuffer bm))\<rparr>"

section \<open>The invariant\<close>

text \<open>
  Every buffer is well formed and holds each metric under its own key; the recycled key buffers
  are empty; no channel holds more batches than it has room for.
\<close>

definition keyed :: "('v \<Rightarrow> string) \<Rightarrow> 'v ShardedMap \<Rightarrow> bool" where
  "keyed key m \<longleftrightarrow> sharded_inv m \<and> (\<forall>k v. sharded_Get m k = Some v \<longrightarrow> key v = k)"

definition bm_inv :: "FixedBufferManager \<Rightarrow> bool" where
  "bm_inv bm \<longleftrightarrow>
     pool_ok (bm_keyBuf bm) \<and>
     keyed platform_key (bm_platformBuffer bm) \<and>
     keyed interface_key (bm_interfaceBuffer bm) \<and>
     keyed subinterface_key (bm_subinterfaceBuffer bm) \<and>
     keyed alarm_key (bm_alarmReportBuffer bm) \<and>
     keyed notification_key (bm_notificationReportBuffer bm) \<and>
     length (bm_platformWriteChan bm) \<le> chan_cap \<and>
     length (bm_interfaceWriteChan bm) \<le> chan_cap \<and>
     length (bm_subinterfaceWriteChan bm) \<le> chan_cap \<and>
     length (bm_alarmReportWriteChan bm) \<le> chan_cap \<and>
     length (bm_notificationReportWriteChan bm) \<le> chan_cap"

lemma keyed_fresh [simp]: "keyed key newShardedMap"
  by (simp add: keyed_def sharded.look_new)

lemma keyed_invD [dest]: "keyed key m \<Longrightarrow> sharded_inv m"
  by (simp add: keyed_def)

lemma bm_inv_new: "bm_inv (NewFixedBufferManager cfg writerConfig)"
  by (simp add: bm_inv_def NewFixedBufferManager_def startParallelWriters_def startFlushTimer_def
      typed_maps pool_ok_def)

section \<open>The loops are the specified ones\<close>

lemma add_loop_Cons:
  "gen x p = (k, p1) \<Longrightarrow>
   add_loop gen merge (x # xs) p m c =
     (case sharded_Get m k of
        Some e \<Rightarrow> add_loop gen merge xs p1 (sharded_Set k (merge e x) m) (c + 1)
      | None \<Rightarrow> add_loop gen merge xs p1 (sharded_Set k x m) c)"
  by (simp add: sharded_Get_def sharded_Set_def Let_def split: option.split)

lemma add_loop_agg:
  assumes gen: "prints_key gen key" and "pool_ok p"
  shows "\<exists>p'. pool_ok p' \<and> add_loop gen merge xs p m c =
           (p', fst (agg_loop sharded_Get sharded_Set key merge xs m 0),
            c + of_nat (snd (agg_loop sharded_Get sharded_Set key merge xs m 0)))"
  using assms(2)
proof (induction xs arbitrary: p m c)
  case (Cons x xs)
  have shift: "agg_loop sharded_Get sharded_Set key merge xs m n =
      (fst (agg_loop sharded_Get sharded_Set key merge xs m 0),
       n + snd (agg_loop sharded_Get sharded_Set key merge xs m 0))" for m n
  proof (induction xs arbitrary: m n)
    case (Cons y ys)
    show ?case
      using Cons.IH [where n = n] Cons.IH [where n = "Suc n"] Cons.IH [where n = 1]
      by (cases "sharded_Get m (key y)") simp_all
  qed simp
  obtain p1 where g: "gen x p = (key x, p1)" and ok: "pool_ok p1"
    using gen Cons.prems unfolding prints_key_def by (metis prod.collapse)
  show ?case
  proof (cases "sharded_Get m (key x)")
    case None
    then show ?thesis
      using Cons.IH [OF ok, of "sharded_Set (key x) x m" c] by (simp add: add_loop_Cons [where gen = gen, OF g] del: add_loop.simps)
  next
    case (Some e)
    let ?m = "sharded_Set (key x) (merge e x) m"
    obtain p' where "pool_ok p'" and "add_loop gen merge xs p1 ?m (c + 1) =
        (p', fst (agg_loop sharded_Get sharded_Set key merge xs ?m 0),
         c + 1 + of_nat (snd (agg_loop sharded_Get sharded_Set key merge xs ?m 0)))"
      using Cons.IH [OF ok] by blast
    moreover have "agg_loop sharded_Get sharded_Set key merge (x # xs) m 0 =
        (fst (agg_loop sharded_Get sharded_Set key merge xs ?m 0),
         Suc (snd (agg_loop sharded_Get sharded_Set key merge xs ?m 0)))"
      using Some shift [of ?m "Suc 0"] by simp
    ultimately show ?thesis
      using Some by (simp add: add_loop_Cons [where gen = gen, OF g] add.assoc del: add_loop.simps)
  qed
qed simp

lemma set_loop_agg:
  assumes gen: "prints_key gen key" and "pool_ok p"
  shows "\<exists>p'. pool_ok p' \<and>
           set_loop gen xs p m = (p', fst (agg_loop sharded_Get sharded_Set key replace xs m c))"
  using assms(2)
proof (induction xs arbitrary: p m c)
  case (Cons x xs)
  obtain p1 where g: "gen x p = (key x, p1)" and ok: "pool_ok p1"
    using gen Cons.prems unfolding prints_key_def by (metis prod.collapse)
  then show ?case
    using Cons.IH [OF ok] by (cases "sharded_Get m (key x)") (simp_all add: replace_def)
qed simp

end
