(* ===== verification/Buffer_Laws.thy ===== *)
theory Buffer_Laws
  imports Buffer_Manager
begin

text \<open>
  What the operations of \<open>Buffer_Manager\<close> do: each add merges its batch into the buffer key by key and
  counts it, each flush empties its buffer into the write channel and the database, and all of them
  keep the invariant \<open>bm_inv\<close>.  The facts of one kind are the facts of the generic loops, at its key
  and its merge; the lemmas named after the methods put them together, and the bundle \<open>add_defs\<close>
  unfolds the adding methods.
\<close>

section \<open>The loops keep a buffer keyed\<close>

lemma keyed_agg_loop:
  assumes "metric_kind key merge" and "keyed key m"
  shows "keyed key (fst (agg_loop sharded_Get sharded_Set key merge xs m c))"
proof -
  have inv: "sharded_inv m" using assms(2) by auto
  have "key v = k" if v: "sharded_Get (fst (agg_loop sharded_Get sharded_Set key merge xs m c)) k = Some v"
    for k v
  proof (rule metric_kind.key_merged_at [OF assms(1)])
    show "case sharded_Get m k of None \<Rightarrow> True | Some v \<Rightarrow> key v = k"
      using assms(2) by (simp add: keyed_def split: option.split)
    show "merged_at key merge k xs (sharded_Get m k) = Some v"
      using v by (simp add: sharded.look_agg [OF inv])
  qed
  then show ?thesis unfolding keyed_def using sharded.invar_agg [OF inv] by blast
qed

lemma sharded_Get_emptied [simp]: "sharded_inv m \<Longrightarrow> sharded_Get (emptied m) = Map.empty"
  using abs_map_emptied [of m] by (simp add: abs_map_def [abs_def] fun_eq_iff)

lemma keyed_emptied [simp]: "keyed key m \<Longrightarrow> keyed key (emptied m)"
  by (simp add: keyed_def)

lemma keyed_SwapAll:
  "keyed key m \<Longrightarrow> range_order ord \<Longrightarrow> keyed key (snd (sharded_SwapAll ord m))"
  by (simp add: sharded_SwapAll_spec(2))

section \<open>Flushing keeps the room of a channel\<close>

lemma flush_chunks_cap:
  "flush_chunks cfg ins bs ch w = (r, ch', w') \<Longrightarrow> length ch \<le> chan_cap \<Longrightarrow> length ch' \<le> chan_cap"
  by (induction bs arbitrary: ch w) (auto split: if_splits prod.splits option.splits)

text \<open>A flush only appends to its channel.\<close>

lemma flush_chunks_prefix:
  "flush_chunks cfg ins bs ch w = (r, ch', w') \<Longrightarrow> \<exists>q. ch' = ch @ q"
  by (induction bs arbitrary: ch w) (fastforce split: if_splits prod.splits option.splits)+

text \<open>With room for all its batches a flush does not touch the database and cannot fail.\<close>

lemma flush_chunks_room:
  "length ch + length bs \<le> chan_cap \<Longrightarrow> flush_chunks cfg ins bs ch w = (None, ch @ bs, w)"
  by (induction bs arbitrary: ch) auto

section \<open>What a flush accounts for\<close>

text \<open>
  The rows a kind is responsible for: those of its table, of its queued batches and of its
  buffered metrics.
\<close>

definition accounted ::
  "('v \<Rightarrow> 'r) \<Rightarrow> ('w \<Rightarrow> 'r multiset) \<Rightarrow> 'v ShardedMap \<Rightarrow> 'v list list \<Rightarrow> 'w \<Rightarrow> 'r multiset"
where
  "accounted enc stored m ch w =
     stored w + mset (map enc (concat ch)) + image_mset enc (map_values (sharded_Get m))"

lemma accounted_emptied [simp]:
  "sharded_inv m \<Longrightarrow> accounted enc stored (emptied m) ch w = stored w + mset (map enc (concat ch))"
  by (simp add: accounted_def)

lemma flush_accounted:
  assumes db: "batch_writer ins enc stored" and ro: "range_order ord" and m: "sharded_inv m"
    and fl: "flush_chunks cfg ins (chunks n (fst (sharded_SwapAll ord m))) ch w = (None, ch', w')"
    and n: "0 < n"
  shows "accounted enc stored m ch w \<subseteq># accounted enc stored (emptied m) ch' w'"
proof -
  have "mset (map enc (fst (sharded_SwapAll ord m))) = image_mset enc (map_values (sharded_Get m))"
    using sharded.drain_values [OF m ro] by simp
  then show ?thesis
    using batch_writer.flush_chunks_ok [OF db fl] n m
    by (simp add: accounted_emptied accounted_def [of _ _ m])
qed

lemma flush_accounted_exact:
  assumes db: "prompt_writer ins enc stored" and ro: "range_order ord" and m: "sharded_inv m"
    and fl: "flush_chunks cfg ins (chunks n (fst (sharded_SwapAll ord m))) ch w = (None, ch', w')"
    and n: "0 < n"
  shows "accounted enc stored (emptied m) ch' w' = accounted enc stored m ch w"
proof -
  have "mset (map enc (fst (sharded_SwapAll ord m))) = image_mset enc (map_values (sharded_Get m))"
    using sharded.drain_values [OF m ro] by simp
  then show ?thesis
    using prompt_writer.flush_chunks_exact [OF db fl] n m
    by (simp add: accounted_emptied accounted_def [of _ _ m])
qed

section \<open>The adding methods\<close>

lemmas add_defs = AddPlatformMetrics_def AddInterfaceMetrics_def AddSubinterfaceMetrics_def AddAlarmReportMetrics_def AddNotificationReportMetrics_def

lemmas flush_defs = FlushPlatformMetrics_def FlushInterfaceMetrics_def FlushSubinterfaceMetrics_def FlushAlarmReportMetrics_def FlushNotificationReportMetrics_def

lemma AddPlatformMetrics_eq:
  assumes "bm_inv bm"
  shows "\<exists>p. pool_ok p \<and> AddPlatformMetrics metrics bm =
    (let m = fst (agg_loop sharded_Get sharded_Set platform_key mergePlatformMetric metrics (bm_platformBuffer bm) 0);
         s = (bm_stats bm)\<lparr>st_KeyCollisions := st_KeyCollisions (bm_stats bm) + of_nat (snd (agg_loop sharded_Get sharded_Set platform_key mergePlatformMetric metrics (bm_platformBuffer bm) 0))\<rparr>;
         bm = bm\<lparr>bm_keyBuf := p, bm_platformBuffer := m, bm_stats := count_processed (length metrics) s\<rparr>
     in if int (sharded_Len m) \<ge> buf_FlushThreshold (bm_config bm)
        then bm\<lparr>bm_spawned := bm_spawned bm @ [KPlatform]\<rparr> else bm)"
proof -
  have ok: "pool_ok (bm_keyBuf bm)" using assms by (simp add: bm_inv_def)
  obtain p where "pool_ok p" and "add_loop generatePlatformKey mergePlatformMetric metrics (bm_keyBuf bm) (bm_platformBuffer bm) (st_KeyCollisions (bm_stats bm)) =
      (p, fst (agg_loop sharded_Get sharded_Set platform_key mergePlatformMetric metrics (bm_platformBuffer bm) 0), st_KeyCollisions (bm_stats bm) + of_nat (snd (agg_loop sharded_Get sharded_Set platform_key mergePlatformMetric metrics (bm_platformBuffer bm) 0)))"
    using add_loop_agg [of generatePlatformKey platform_key "bm_keyBuf bm" mergePlatformMetric metrics "bm_platformBuffer bm" "st_KeyCollisions (bm_stats bm)",
        OF generators_print(1) ok] by blast
  then show ?thesis
    by (intro exI [of _ p]) (simp add: AddPlatformMetrics_def typed_maps Let_def)
qed

lemma AddInterfaceMetrics_eq:
  assumes "bm_inv bm"
  shows "\<exists>p. pool_ok p \<and> AddInterfaceMetrics metrics bm =
    (let m = fst (agg_loop sharded_Get sharded_Set interface_key mergeInterfaceMetric metrics (bm_interfaceBuffer bm) 0);
         s = (bm_stats bm)\<lparr>st_KeyCollisions := st_KeyCollisions (bm_stats bm) + of_nat (snd (agg_loop sharded_Get sharded_Set interface_key mergeInterfaceMetric metrics (bm_interfaceBuffer bm) 0))\<rparr>;
         bm = bm\<lparr>bm_keyBuf := p, bm_interfaceBuffer := m, bm_stats := count_processed (length metrics) s\<rparr>
     in if int (sharded_Len m) \<ge> buf_FlushThreshold (bm_config bm)
        then bm\<lparr>bm_spawned := bm_spawned bm @ [KInterface]\<rparr> else bm)"
proof -
  have ok: "pool_ok (bm_keyBuf bm)" using assms by (simp add: bm_inv_def)
  obtain p where "pool_ok p" and "add_loop generateInterfaceKey mergeInterfaceMetric metrics (bm_keyBuf bm) (bm_interfaceBuffer bm) (st_KeyCollisions (bm_stats bm)) =
      (p, fst (agg_loop sharded_Get sharded_Set interface_key mergeInterfaceMetric metrics (bm_interfaceBuffer bm) 0), st_KeyCollisions (bm_stats bm) + of_nat (snd (agg_loop sharded_Get sharded_Set interface_key mergeInterfaceMetric metrics (bm_interfaceBuffer bm) 0)))"
    using add_loop_agg [of generateInterfaceKey interface_key "bm_keyBuf bm" mergeInterfaceMetric metrics "bm_interfaceBuffer bm" "st_KeyCollisions (bm_stats bm)",
        OF generators_print(2) ok] by blast
  then show ?thesis
    by (intro exI [of _ p]) (simp add: AddInterfaceMetrics_def typed_maps Let_def)
qed

lemma AddSubinterfaceMetrics_eq:
  assumes "bm_inv bm"
  shows "\<exists>p. pool_ok p \<and> AddSubinterfaceMetrics metrics bm =
    (let m = fst (agg_loop sharded_Get sharded_Set subinterface_key mergeSubinterfaceMetric metrics (bm_subinterfaceBuffer bm) 0);
         s = (bm_stats bm)\<lparr>st_KeyCollisions := st_KeyCollisions (bm_stats bm) + of_nat (snd (agg_loop sharded_Get sharded_Set subinterface_key mergeSubinterfaceMetric metrics (bm_subinterfaceBuffer bm) 0))\<rparr>;
         bm = bm\<lparr>bm_keyBuf := p, bm_subinterfaceBuffer := m, bm_stats := count_processed (length metrics) s\<rparr>
     in if int (sharded_Len m) \<ge> buf_FlushThreshold (bm_config bm)
        then bm\<lparr>bm_spawned := bm_spawned bm @ [KSubinterface]\<rparr> else bm)"
proof -
  have ok: "pool_ok (bm_keyBuf bm)" using assms by (simp add: bm_inv_def)
  obtain p where "pool_ok p" and "add_loop generateSubinterfaceKey mergeSubinterfaceMetric metrics (bm_keyBuf bm) (bm_subinterfaceBuffer bm) (st_KeyCollisions (bm_stats bm)) =
      (p, fst (agg_loop sharded_Get sharded_Set subinterface_key mergeSubinterfaceMetric metrics (bm_subinterfaceBuffer bm) 0), st_KeyCollisions (bm_stats bm) + of_nat (snd (agg_loop sharded_Get sharded_Set subinterface_key mergeSubinterfaceMetric metrics (bm_subinterfaceBuffer bm) 0)))"
    using add_loop_agg [of generateSubinterfaceKey subinterface_key "bm_keyBuf bm" mergeSubinterfaceMetric metrics "bm_subinterfaceBuffer bm" "st_KeyCollisions (bm_stats bm)",
        OF generators_print(3) ok] by blast
  then show ?thesis
    by (intro exI [of _ p]) (simp add: AddSubinterfaceMetrics_def typed_maps Let_def)
qed

lemma AddAlarmReportMetrics_eq:
  assumes "bm_inv bm"
  shows "\<exists>p. pool_ok p \<and> AddAlarmReportMetrics metrics bm =
    (let m = fst (agg_loop sharded_Get sharded_Set alarm_key replace metrics (bm_alarmReportBuffer bm) 0);
         s = (bm_stats bm)\<lparr>st_KeyCollisions := st_KeyCollisions (bm_stats bm)\<rparr>;
         bm = bm\<lparr>bm_keyBuf := p, bm_alarmReportBuffer := m, bm_stats := count_processed (length metrics) s\<rparr>
     in if int (sharded_Len m) \<ge> buf_FlushThreshold (bm_config bm)
        then bm\<lparr>bm_spawned := bm_spawned bm @ [KAlarmReport]\<rparr> else bm)"
proof -
  have ok: "pool_ok (bm_keyBuf bm)" using assms by (simp add: bm_inv_def)
  obtain p where "pool_ok p" and "set_loop generateAlarmKey metrics (bm_keyBuf bm) (bm_alarmReportBuffer bm) =
      (p, fst (agg_loop sharded_Get sharded_Set alarm_key replace metrics (bm_alarmReportBuffer bm) 0))"
    using set_loop_agg [of generateAlarmKey alarm_key "bm_keyBuf bm" metrics "bm_alarmReportBuffer bm" 0,
        OF generators_print(4) ok] by blast
  then show ?thesis
    by (intro exI [of _ p]) (simp add: AddAlarmReportMetrics_def typed_maps Let_def)
qed

lemma AddNotificationReportMetrics_eq:
  assumes "bm_inv bm"
  shows "\<exists>p. pool_ok p \<and> AddNotificationReportMetrics metrics bm =
    (let m = fst (agg_loop sharded_Get sharded_Set notification_key replace metrics (bm_notificationReportBuffer bm) 0);
         s = (bm_stats bm)\<lparr>st_KeyCollisions := st_KeyCollisions (bm_stats bm)\<rparr>;
         bm = bm\<lparr>bm_keyBuf := p, bm_notificationReportBuffer := m, bm_stats := count_processed (length metrics) s\<rparr>
     in if int (sharded_Len m) \<ge> buf_FlushThreshold (bm_config bm)
        then bm\<lparr>bm_spawned := bm_spawned bm @ [KNotificationReport]\<rparr> else bm)"
proof -
  have ok: "pool_ok (bm_keyBuf bm)" using assms by (simp add: bm_inv_def)
  obtain p where "pool_ok p" and "set_loop generateNotificationKey metrics (bm_keyBuf bm) (bm_notificationReportBuffer bm) =
      (p, fst (agg_loop sharded_Get sharded_Set notification_key replace metrics (bm_notificationReportBuffer bm) 0))"
    using set_loop_agg [of generateNotificationKey notification_key "bm_keyBuf bm" metrics "bm_notificationReportBuffer bm" 0,
        OF generators_print(5) ok] by blast
  then show ?thesis
    by (intro exI [of _ p]) (simp add: AddNotificationReportMetrics_def typed_maps Let_def)
qed

lemma AddPlatformMetrics_inv:
  assumes "bm_inv bm"
  shows "bm_inv (AddPlatformMetrics metrics bm)"
proof -
  have "keyed platform_key (fst (agg_loop sharded_Get sharded_Set platform_key mergePlatformMetric metrics (bm_platformBuffer bm) 0))"
    using assms by (intro keyed_agg_loop [OF platform_kind.metric_kind_axioms]) (simp add: bm_inv_def)
  then show ?thesis
    using AddPlatformMetrics_eq [OF assms, of metrics] assms by (auto simp: bm_inv_def Let_def)
qed

lemma AddPlatformMetrics_Get:
  assumes "bm_inv bm"
  shows "sharded_Get (bm_platformBuffer (AddPlatformMetrics metrics bm)) k =
         merged_at platform_key mergePlatformMetric k metrics (sharded_Get (bm_platformBuffer bm) k)"
proof -
  have "sharded_inv (bm_platformBuffer bm)" using assms by (auto simp: bm_inv_def)
  then show ?thesis
    using AddPlatformMetrics_eq [OF assms, of metrics] by (auto simp: Let_def sharded.look_agg)
qed

lemma AddInterfaceMetrics_inv:
  assumes "bm_inv bm"
  shows "bm_inv (AddInterfaceMetrics metrics bm)"
proof -
  have "keyed interface_key (fst (agg_loop sharded_Get sharded_Set interface_key mergeInterfaceMetric metrics (bm_interfaceBuffer bm) 0))"
    using assms by (intro keyed_agg_loop [OF interface_kind.metric_kind_axioms]) (simp add: bm_inv_def)
  then show ?thesis
    using AddInterfaceMetrics_eq [OF assms, of metrics] assms by (auto simp: bm_inv_def Let_def)
qed

lemma AddInterfaceMetrics_Get:
  assumes "bm_inv bm"
  shows "sharded_Get (bm_interfaceBuffer (AddInterfaceMetrics metrics bm)) k =
         merged_at interface_key mergeInterfaceMetric k metrics (sharded_Get (bm_interfaceBuffer bm) k)"
proof -
  have "sharded_inv (bm_interfaceBuffer bm)" using assms by (auto simp: bm_inv_def)
  then show ?thesis
    using AddInterfaceMetrics_eq [OF assms, of metrics] by (auto simp: Let_def sharded.look_agg)
qed

lemma AddSubinterfaceMetrics_inv:
  assumes "bm_inv bm"
  shows "bm_inv (AddSubinterfaceMetrics metrics bm)"
proof -
  have "keyed subinterface_key (fst (agg_loop sharded_Get sharded_Set subinterface_key mergeSubinterfaceMetric metrics (bm_subinterfaceBuffer bm) 0))"
    using assms by (intro keyed_agg_loop [OF subinterface_kind.metric_kind_axioms]) (simp add: bm_inv_def)
  then show ?thesis
    using AddSubinterfaceMetrics_eq [OF assms, of metrics] assms by (auto simp: bm_inv_def Let_def)
qed

lemma AddSubinterfaceMetrics_Get:
  assumes "bm_inv bm"
  shows "sharded_Get (bm_subinterfaceBuffer (AddSubinterfaceMetrics metrics bm)) k =
         merged_at subinterface_key mergeSubinterfaceMetric k metrics (sharded_Get (bm_subinterfaceBuffer bm) k)"
proof -
  have "sharded_inv (bm_subinterfaceBuffer bm)" using assms by (auto simp: bm_inv_def)
  then show ?thesis
    using AddSubinterfaceMetrics_eq [OF assms, of metrics] by (auto simp: Let_def sharded.look_agg)
qed

lemma AddAlarmReportMetrics_inv:
  assumes "bm_inv bm"
  shows "bm_inv (AddAlarmReportMetrics metrics bm)"
proof -
  have "keyed alarm_key (fst (agg_loop sharded_Get sharded_Set alarm_key replace metrics (bm_alarmReportBuffer bm) 0))"
    using assms by (intro keyed_agg_loop [OF alarm_kind.metric_kind_axioms]) (simp add: bm_inv_def)
  then show ?thesis
    using AddAlarmReportMetrics_eq [OF assms, of metrics] assms by (auto simp: bm_inv_def Let_def)
qed

lemma AddAlarmReportMetrics_Get:
  assumes "bm_inv bm"
  shows "sharded_Get (bm_alarmReportBuffer (AddAlarmReportMetrics metrics bm)) k =
         merged_at alarm_key replace k metrics (sharded_Get (bm_alarmReportBuffer bm) k)"
proof -
  have "sharded_inv (bm_alarmReportBuffer bm)" using assms by (auto simp: bm_inv_def)
  then show ?thesis
    using AddAlarmReportMetrics_eq [OF assms, of metrics] by (auto simp: Let_def sharded.look_agg)
qed

lemma AddNotificationReportMetrics_inv:
  assumes "bm_inv bm"
  shows "bm_inv (AddNotificationReportMetrics metrics bm)"
proof -
  have "keyed notification_key (fst (agg_loop sharded_Get sharded_Set notification_key replace metrics (bm_notificationReportBuffer bm) 0))"
    using assms by (intro keyed_agg_loop [OF notification_kind.metric_kind_axioms]) (simp add: bm_inv_def)
  then show ?thesis
    using AddNotificationReportMetrics_eq [OF assms, of metrics] assms by (auto simp: bm_inv_def Let_def)
qed

lemma AddNotificationReportMetrics_Get:
  assumes "bm_inv bm"
  shows "sharded_Get (bm_notificationReportBuffer (AddNotificationReportMetrics metrics bm)) k =
         merged_at notification_key replace k metrics (sharded_Get (bm_notificationReportBuffer bm) k)"
proof -
  have "sharded_inv (bm_notificationReportBuffer bm)" using assms by (auto simp: bm_inv_def)
  then show ?thesis
    using AddNotificationReportMetrics_eq [OF assms, of metrics] by (auto simp: Let_def sharded.look_agg)
qed

section \<open>The flushing methods\<close>

lemma FlushPlatformMetrics_eq:
  assumes "0 < wr_MaxBatchSize (bm_writerConfig bm)" and "orders_ok ro"
  shows "FlushPlatformMetrics db ro bm w =
    (let metrics = fst (sharded_SwapAll (ro_Platform ro) (bm_platformBuffer bm));
         (err, ch, w') = flush_chunks (bm_writerConfig bm) (dbi_Platform db)
            (chunks (nat (wr_MaxBatchSize (bm_writerConfig bm))) metrics) (bm_platformWriteChan bm) w
     in Some (Ret (err, bm\<lparr>bm_platformBuffer := emptied (bm_platformBuffer bm), bm_platformWriteChan := ch\<rparr>, w')))"
  using assms
  by (simp add: FlushPlatformMetrics_def orders_ok_def typed_maps flush_metrics_chunks split_beta Let_def
      sharded_SwapAll_spec(2))

lemma FlushPlatformMetrics_inv:
  assumes "bm_inv bm" and "orders_ok ro" and "FlushPlatformMetrics db ro bm w = Some (Ret (err, bm', w'))"
    and "0 < wr_MaxBatchSize (bm_writerConfig bm)"
  shows "bm_inv bm'"
  using assms(1,3) unfolding FlushPlatformMetrics_eq [OF assms(4,2)]
  by (auto simp: bm_inv_def Let_def split: prod.splits dest: flush_chunks_cap)

lemma FlushInterfaceMetrics_eq:
  assumes "0 < wr_MaxBatchSize (bm_writerConfig bm)" and "orders_ok ro"
  shows "FlushInterfaceMetrics db ro bm w =
    (let metrics = fst (sharded_SwapAll (ro_Interface ro) (bm_interfaceBuffer bm));
         (err, ch, w') = flush_chunks (bm_writerConfig bm) (dbi_Interface db)
            (chunks (nat (wr_MaxBatchSize (bm_writerConfig bm))) metrics) (bm_interfaceWriteChan bm) w
     in Some (Ret (err, bm\<lparr>bm_interfaceBuffer := emptied (bm_interfaceBuffer bm), bm_interfaceWriteChan := ch\<rparr>, w')))"
  using assms
  by (simp add: FlushInterfaceMetrics_def orders_ok_def typed_maps flush_metrics_chunks split_beta Let_def
      sharded_SwapAll_spec(2))

lemma FlushInterfaceMetrics_inv:
  assumes "bm_inv bm" and "orders_ok ro" and "FlushInterfaceMetrics db ro bm w = Some (Ret (err, bm', w'))"
    and "0 < wr_MaxBatchSize (bm_writerConfig bm)"
  shows "bm_inv bm'"
  using assms(1,3) unfolding FlushInterfaceMetrics_eq [OF assms(4,2)]
  by (auto simp: bm_inv_def Let_def split: prod.splits dest: flush_chunks_cap)

lemma FlushSubinterfaceMetrics_eq:
  assumes "0 < wr_MaxBatchSize (bm_writerConfig bm)" and "orders_ok ro"
  shows "FlushSubinterfaceMetrics db ro bm w =
    (let metrics = fst (sharded_SwapAll (ro_Subinterface ro) (bm_subinterfaceBuffer bm));
         (err, ch, w') = flush_chunks (bm_writerConfig bm) (dbi_Subinterface db)
            (chunks (nat (wr_MaxBatchSize (bm_writerConfig bm))) metrics) (bm_subinterfaceWriteChan bm) w
     in Some (Ret (err, bm\<lparr>bm_subinterfaceBuffer := emptied (bm_subinterfaceBuffer bm), bm_subinterfaceWriteChan := ch\<rparr>, w')))"
  using assms
  by (simp add: FlushSubinterfaceMetrics_def orders_ok_def typed_maps flush_metrics_chunks split_beta Let_def
      sharded_SwapAll_spec(2))

lemma FlushSubinterfaceMetrics_inv:
  assumes "bm_inv bm" and "orders_ok ro" and "FlushSubinterfaceMetrics db ro bm w = Some (Ret (err, bm', w'))"
    and "0 < wr_MaxBatchSize (bm_writerConfig bm)"
  shows "bm_inv bm'"
  using assms(1,3) unfolding FlushSubinterfaceMetrics_eq [OF assms(4,2)]
  by (auto simp: bm_inv_def Let_def split: prod.splits dest: flush_chunks_cap)

lemma FlushAlarmReportMetrics_eq:
  assumes "0 < wr_MaxBatchSize (bm_writerConfig bm)" and "orders_ok ro"
  shows "FlushAlarmReportMetrics db ro bm w =
    (let metrics = fst (sharded_SwapAll (ro_AlarmReport ro) (bm_alarmReportBuffer bm));
         (err, ch, w') = flush_chunks (bm_writerConfig bm) (dbi_AlarmReport db)
            (chunks (nat (wr_MaxBatchSize (bm_writerConfig bm))) metrics) (bm_alarmReportWriteChan bm) w
     in Some (Ret (err, bm\<lparr>bm_alarmReportBuffer := emptied (bm_alarmReportBuffer bm), bm_alarmReportWriteChan := ch\<rparr>, w')))"
  using assms
  by (simp add: FlushAlarmReportMetrics_def orders_ok_def typed_maps flush_metrics_chunks split_beta Let_def
      sharded_SwapAll_spec(2))

lemma FlushAlarmReportMetrics_inv:
  assumes "bm_inv bm" and "orders_ok ro" and "FlushAlarmReportMetrics db ro bm w = Some (Ret (err, bm', w'))"
    and "0 < wr_MaxBatchSize (bm_writerConfig bm)"
  shows "bm_inv bm'"
  using assms(1,3) unfolding FlushAlarmReportMetrics_eq [OF assms(4,2)]
  by (auto simp: bm_inv_def Let_def split: prod.splits dest: flush_chunks_cap)

lemma FlushNotificationReportMetrics_eq:
  assumes "0 < wr_MaxBatchSize (bm_writerConfig bm)" and "orders_ok ro"
  shows "FlushNotificationReportMetrics db ro bm w =
    (let metrics = fst (sharded_SwapAll (ro_NotificationReport ro) (bm_notificationReportBuffer bm));
         (err, ch, w') = flush_chunks (bm_writerConfig bm) (dbi_NotificationReport db)
            (chunks (nat (wr_MaxBatchSize (bm_writerConfig bm))) metrics) (bm_notificationReportWriteChan bm) w
     in Some (Ret (err, bm\<lparr>bm_notificationReportBuffer := emptied (bm_notificationReportBuffer bm), bm_notificationReportWriteChan := ch\<rparr>, w')))"
  using assms
  by (simp add: FlushNotificationReportMetrics_def orders_ok_def typed_maps flush_metrics_chunks split_beta Let_def
      sharded_SwapAll_spec(2))

lemma FlushNotificationReportMetrics_inv:
  assumes "bm_inv bm" and "orders_ok ro" and "FlushNotificationReportMetrics db ro bm w = Some (Ret (err, bm', w'))"
    and "0 < wr_MaxBatchSize (bm_writerConfig bm)"
  shows "bm_inv bm'"
  using assms(1,3) unfolding FlushNotificationReportMetrics_eq [OF assms(4,2)]
  by (auto simp: bm_inv_def Let_def split: prod.splits dest: flush_chunks_cap)

end
