(* ===== verification/Buffer_System.thy ===== *)
theory Buffer_System
  imports Buffer_Laws
begin

text \<open>
  The running buffer manager: the steps its goroutines take, each one a whole operation of
  \<open>Buffer_Manager\<close> (an add, a flush that a threshold started, a tick of the timer, one write of a
  writer, a goroutine that sees the closed stop channel and ends, and \<open>Stop\<close>).  A flush that panics or
  never returns takes no step.  \<open>Buffer_Concurrency\<close> has the finer steps within one buffer.

  Lemmas: \<open>bm_inv\<close> and the configuration are invariants of every reachable state; once the writers
  of a kind have ended, what is in its channel stays there (\<open>stranded\<close>).
\<close>

section \<open>Steps\<close>

definition write_kind ::
  "'w DatabaseInterface \<Rightarrow> kind \<Rightarrow> FixedBufferManager \<Rightarrow> 'w \<Rightarrow> (FixedBufferManager \<times> 'w) option"
where
  "write_kind db k =
     (case k of
        KPlatform \<Rightarrow> platformWriter db
      | KInterface \<Rightarrow> interfaceWriter db
      | KSubinterface \<Rightarrow> subinterfaceWriter db
      | KAlarmReport \<Rightarrow> alarmReportWriter db
      | KNotificationReport \<Rightarrow> notificationReportWriter db)"

inductive bstep ::
  "'w DatabaseInterface \<Rightarrow> FixedBufferManager \<times> 'w \<Rightarrow> FixedBufferManager \<times> 'w \<Rightarrow> bool"
  for db :: "'w DatabaseInterface"
where
  platform_added: "bstep db (bm, w) (AddPlatformMetrics metrics0 bm, w)"
| interface_added: "bstep db (bm, w) (AddInterfaceMetrics metrics1 bm, w)"
| subinterface_added: "bstep db (bm, w) (AddSubinterfaceMetrics metrics2 bm, w)"
| alarmReport_added: "bstep db (bm, w) (AddAlarmReportMetrics metrics3 bm, w)"
| notificationReport_added: "bstep db (bm, w) (AddNotificationReportMetrics metrics4 bm, w)"
| flushed: "k \<in> set (bm_spawned bm) \<Longrightarrow> orders_ok ro \<Longrightarrow>
    flush_kind db ro k (bm\<lparr>bm_spawned := remove1 k (bm_spawned bm)\<rparr>) w = Some (Ret (err, bm', w')) \<Longrightarrow>
    bstep db (bm, w) (bm', w')"
| ticked: "bm_flushTimer bm \<Longrightarrow> orders_ok ro \<Longrightarrow>
    FlushAll db ro ks start now bm w = Some (Ret (ferr, bm', w')) \<Longrightarrow> bstep db (bm, w) (bm', w')"
| timer_ended: "bm_stopped bm \<Longrightarrow> bstep db (bm, w) (bm\<lparr>bm_flushTimer := False\<rparr>, w)"
| written: "0 < bm_writers bm k \<Longrightarrow> write_kind db k bm w = Some (bm', w') \<Longrightarrow>
    bstep db (bm, w) (bm', w')"
| writer_ended: "bm_stopped bm \<Longrightarrow> 0 < bm_writers bm k \<Longrightarrow>
    bstep db (bm, w) (bm\<lparr>bm_writers := (bm_writers bm)(k := bm_writers bm k - 1)\<rparr>, w)"
| stopped: "orders_ok ro \<Longrightarrow> Stop db ro ks start now bm w = Some (Ret (ferr, bm', w')) \<Longrightarrow>
    bstep db (bm, w) (bm', w')"

inductive breach ::
  "'w DatabaseInterface \<Rightarrow> FixedBufferManager \<times> 'w \<Rightarrow> FixedBufferManager \<times> 'w \<Rightarrow> bool"
  for db :: "'w DatabaseInterface" and s :: "FixedBufferManager \<times> 'w"
where
  at_start: "breach db s s"
| one_more: "breach db s s' \<Longrightarrow> bstep db s' s'' \<Longrightarrow> breach db s s''"

lemma breach_trans:
  assumes "breach db s t" and "breach db t u"
  shows "breach db s u"
  using assms(2,1) by (induction rule: breach.induct) (auto intro: breach.one_more)

section \<open>What the operations leave alone\<close>

text \<open>The configuration, for every operation; the number of writers, for all but their ending.\<close>

definition same_setup :: "FixedBufferManager \<Rightarrow> FixedBufferManager \<Rightarrow> bool" where
  "same_setup bm bm' \<longleftrightarrow>
     bm_config bm' = bm_config bm \<and> bm_writerConfig bm' = bm_writerConfig bm \<and>
     bm_writers bm' = bm_writers bm"

lemma same_setup_refl [simp]: "same_setup bm bm"
  by (simp add: same_setup_def)

lemma same_setup_trans: "same_setup a b \<Longrightarrow> same_setup b c \<Longrightarrow> same_setup a c"
  by (simp add: same_setup_def)

lemma add_setup:
  "same_setup bm (AddPlatformMetrics metrics0 bm)"
  "same_setup bm (AddInterfaceMetrics metrics1 bm)"
  "same_setup bm (AddSubinterfaceMetrics metrics2 bm)"
  "same_setup bm (AddAlarmReportMetrics metrics3 bm)"
  "same_setup bm (AddNotificationReportMetrics metrics4 bm)"
  by (simp_all add: same_setup_def add_defs split_beta Let_def)

lemma flush_setup:
  assumes "flush_kind db ro k bm w = Some (Ret (err, bm', w'))"
  shows "same_setup bm bm'"
  using assms
  by (cases k) (auto simp: flush_kind_def flush_defs same_setup_def split_beta Let_def
      split: option.splits flow.splits)

lemma run_flushes_setup:
  "run_flushes db ro ks errs bm w = Some (Ret (errs', bm', w')) \<Longrightarrow> same_setup bm bm'"
proof (induction ks arbitrary: errs bm w)
  case (Cons k ks)
  obtain err bm1 w1 where f: "flush_kind db ro k bm w = Some (Ret (err, bm1, w1))"
    using Cons.prems by (auto split: option.splits flow.splits)
  then have "same_setup bm1 bm'"
    using Cons.prems Cons.IH by (cases err) auto
  then show ?case using flush_setup [OF f] same_setup_trans by blast
qed simp

lemma FlushAll_setup:
  "FlushAll db ro ks start now bm w = Some (Ret (err, bm', w')) \<Longrightarrow> same_setup bm bm'"
  by (auto simp: FlushAll_def Let_def same_setup_def split: option.splits flow.splits
      dest!: run_flushes_setup)

lemma write_setup:
  "write_kind db k bm w = Some (bm', w') \<Longrightarrow> same_setup bm bm'"
  by (cases k) (auto simp: write_kind_def platformWriter_def interfaceWriter_def subinterfaceWriter_def alarmReportWriter_def notificationReportWriter_def
      same_setup_def split: option.splits)

section \<open>The invariant\<close>

lemma flush_kind_inv:
  assumes "bm_inv bm" and "orders_ok ro" and "0 < wr_MaxBatchSize (bm_writerConfig bm)"
    and "flush_kind db ro k bm w = Some (Ret (err, bm', w'))"
  shows "bm_inv bm'"
  using assms(4)
  by (cases k) (auto simp: flush_kind_def
      intro: FlushPlatformMetrics_inv [OF assms(1,2) _ assms(3)]
        FlushInterfaceMetrics_inv [OF assms(1,2) _ assms(3)]
        FlushSubinterfaceMetrics_inv [OF assms(1,2) _ assms(3)]
        FlushAlarmReportMetrics_inv [OF assms(1,2) _ assms(3)]
        FlushNotificationReportMetrics_inv [OF assms(1,2) _ assms(3)])

lemma run_flushes_inv:
  "run_flushes db ro ks errs bm w = Some (Ret (errs', bm', w')) \<Longrightarrow> bm_inv bm \<Longrightarrow> orders_ok ro \<Longrightarrow>
   0 < wr_MaxBatchSize (bm_writerConfig bm) \<Longrightarrow> bm_inv bm'"
proof (induction ks arbitrary: errs bm w)
  case (Cons k ks)
  obtain err bm1 w1 where f: "flush_kind db ro k bm w = Some (Ret (err, bm1, w1))"
    using Cons.prems(1) by (auto split: option.splits flow.splits)
  have "bm_inv bm1" by (rule flush_kind_inv [OF Cons.prems(2,3,4) f])
  moreover have "0 < wr_MaxBatchSize (bm_writerConfig bm1)"
    using flush_setup [OF f] Cons.prems(4) by (simp add: same_setup_def)
  ultimately show ?case using Cons f by (cases err) auto
qed simp

lemma FlushAll_inv:
  assumes "FlushAll db ro ks start now bm w = Some (Ret (err, bm', w'))" and "bm_inv bm"
    and "orders_ok ro" and "0 < wr_MaxBatchSize (bm_writerConfig bm)"
  shows "bm_inv bm'"
proof -
  obtain errs bm1 where r: "run_flushes db ro ks [] bm w = Some (Ret (errs, bm1, w'))"
    and "\<exists>s. bm' = bm1\<lparr>bm_stats := s\<rparr>"
    using assms(1) by (auto simp: FlushAll_def Let_def split: option.splits flow.splits)
  then show ?thesis using run_flushes_inv [OF r assms(2,3,4)] by (auto simp: bm_inv_def)
qed

lemma write_kind_inv:
  assumes "write_kind db k bm w = Some (bm', w')" and "bm_inv bm"
  shows "bm_inv bm'"
  using assms
  by (cases k) (auto simp: write_kind_def platformWriter_def interfaceWriter_def subinterfaceWriter_def alarmReportWriter_def notificationReportWriter_def
      bm_inv_def writer_turn_def split: option.splits list.splits prod.splits)

lemma bm_inv_fields [simp]:
  "bm_inv (bm\<lparr>bm_spawned := s\<rparr>) = bm_inv bm" "bm_inv (bm\<lparr>bm_stopped := b\<rparr>) = bm_inv bm"
  "bm_inv (bm\<lparr>bm_flushTimer := b\<rparr>) = bm_inv bm" "bm_inv (bm\<lparr>bm_writers := f\<rparr>) = bm_inv bm"
  by (simp_all add: bm_inv_def)

definition running_ok :: "FixedBufferManager \<Rightarrow> bool" where
  "running_ok bm \<longleftrightarrow> bm_inv bm \<and> 0 < wr_MaxBatchSize (bm_writerConfig bm)"

lemma running_okI:
  "bm_inv bm' \<Longrightarrow> same_setup bm bm' \<Longrightarrow> running_ok bm \<Longrightarrow> running_ok bm'"
  by (simp add: running_ok_def same_setup_def)

lemma FlushAll_running:
  assumes "FlushAll db ro ks start now bm w = Some (Ret (err, bm', w'))" and "orders_ok ro"
    and "running_ok bm"
  shows "running_ok bm'"
  using FlushAll_inv [OF assms(1) _ assms(2)] running_okI [OF _ FlushAll_setup [OF assms(1)] assms(3)]
    assms(3) by (simp add: running_ok_def)

lemma write_kind_running:
  assumes "write_kind db k bm w = Some (bm', w')" and "running_ok bm"
  shows "running_ok bm'"
proof (rule running_okI [OF _ write_setup [OF assms(1)] assms(2)])
  show "bm_inv bm'" using write_kind_inv [OF assms(1)] assms(2) by (simp add: running_ok_def)
qed

lemma bstep_running:
  assumes "bstep db s s'" and "running_ok (fst s)"
  shows "running_ok (fst s')"
  using assms(1)
proof (cases rule: bstep.cases)
  case (platform_added bm w metrics)
  then show ?thesis
    using assms(2) running_okI [OF AddPlatformMetrics_inv add_setup(1)] by (simp add: running_ok_def)
next
  case (interface_added bm w metrics)
  then show ?thesis
    using assms(2) running_okI [OF AddInterfaceMetrics_inv add_setup(2)] by (simp add: running_ok_def)
next
  case (subinterface_added bm w metrics)
  then show ?thesis
    using assms(2) running_okI [OF AddSubinterfaceMetrics_inv add_setup(3)] by (simp add: running_ok_def)
next
  case (alarmReport_added bm w metrics)
  then show ?thesis
    using assms(2) running_okI [OF AddAlarmReportMetrics_inv add_setup(4)] by (simp add: running_ok_def)
next
  case (notificationReport_added bm w metrics)
  then show ?thesis
    using assms(2) running_okI [OF AddNotificationReportMetrics_inv add_setup(5)] by (simp add: running_ok_def)
next
  case (flushed k bm ro w err bm' w')
  let ?bm = "bm\<lparr>bm_spawned := remove1 k (bm_spawned bm)\<rparr>"
  have ok: "running_ok ?bm" using assms(2) flushed(1) by (simp add: running_ok_def)
  then have "bm_inv bm'"
    using flush_kind_inv [OF _ flushed(4) _ flushed(5)] by (simp add: running_ok_def)
  then show ?thesis
    using running_okI [OF _ flush_setup [OF flushed(5)] ok] flushed(2) by simp
next
  case (ticked bm ro ks start now w ferr bm' w')
  then show ?thesis using assms(2) FlushAll_running by simp
next
  case (timer_ended bm w)
  then show ?thesis using assms(2) by (simp add: running_ok_def)
next
  case (written bm k w bm' w')
  then show ?thesis using assms(2) write_kind_running by simp
next
  case (writer_ended bm k w)
  then show ?thesis using assms(2) by (simp add: running_ok_def)
next
  case (stopped ro ks start now bm w ferr bm' w')
  show ?thesis
  proof (cases "bm_stopped bm")
    case True
    then show ?thesis using stopped assms(2) by (simp add: Stop_def)
  next
    case False
    let ?bm = "bm\<lparr>bm_stopped := True\<rparr>"
    have fa: "FlushAll db ro ks start now ?bm w = Some (Ret (ferr, bm', w'))"
      using False stopped by (simp add: Stop_def)
    have "running_ok ?bm" using assms(2) stopped by (simp add: running_ok_def)
    then show ?thesis using FlushAll_running [OF fa] stopped by simp
  qed
qed

lemma breach_running:
  "breach db s s' \<Longrightarrow> running_ok (fst s) \<Longrightarrow> running_ok (fst s')"
  by (induction rule: breach.induct) (auto intro: bstep_running)

lemma running_ok_new:
  "0 < wr_MaxBatchSize writerConfig \<Longrightarrow> running_ok (NewFixedBufferManager cfg writerConfig)"
  by (simp add: running_ok_def bm_inv_new)
    (simp add: NewFixedBufferManager_def startParallelWriters_def startFlushTimer_def)

section \<open>Flushing everything\<close>

text \<open>The number of entries of the buffer of a kind.\<close>

definition kind_len :: "kind \<Rightarrow> FixedBufferManager \<Rightarrow> nat" where
  "kind_len k bm =
     (case k of
        KPlatform \<Rightarrow> ShardedPlatformMap_Len (bm_platformBuffer bm)
      | KInterface \<Rightarrow> ShardedInterfaceMap_Len (bm_interfaceBuffer bm)
      | KSubinterface \<Rightarrow> ShardedSubinterfaceMap_Len (bm_subinterfaceBuffer bm)
      | KAlarmReport \<Rightarrow> ShardedAlarmMap_Len (bm_alarmReportBuffer bm)
      | KNotificationReport \<Rightarrow> ShardedNotificationMap_Len (bm_notificationReportBuffer bm))"

lemmas flush_eqs = FlushPlatformMetrics_eq FlushInterfaceMetrics_eq FlushSubinterfaceMetrics_eq
  FlushAlarmReportMetrics_eq FlushNotificationReportMetrics_eq

lemma flush_kind_len:
  assumes "0 < wr_MaxBatchSize (bm_writerConfig bm)" and "orders_ok ro"
  shows "\<exists>err bm' w'. flush_kind db ro k bm w = Some (Ret (err, bm', w')) \<and>
         (\<forall>j. kind_len j bm' = (if j = k then 0 else kind_len j bm)) \<and> bm_stats bm' = bm_stats bm"
  by (cases k)
    (simp_all add: flush_kind_def flush_eqs [OF assms] Let_def split_beta kind_len_def typed_maps
      split: kind.split)

lemma run_flushes_len:
  "0 < wr_MaxBatchSize (bm_writerConfig bm) \<Longrightarrow> orders_ok ro \<Longrightarrow>
   \<exists>errs' bm' w'. run_flushes db ro ks errs bm w = Some (Ret (errs', bm', w')) \<and>
     (\<forall>j. kind_len j bm' = (if j \<in> set ks then 0 else kind_len j bm)) \<and> bm_stats bm' = bm_stats bm"
proof (induction ks arbitrary: errs bm w)
  case (Cons k ks)
  obtain err bm1 w1 where f: "flush_kind db ro k bm w = Some (Ret (err, bm1, w1))"
    and len: "\<And>j. kind_len j bm1 = (if j = k then 0 else kind_len j bm)"
    and st: "bm_stats bm1 = bm_stats bm"
    using flush_kind_len [OF Cons.prems, of db k w] by blast
  have "0 < wr_MaxBatchSize (bm_writerConfig bm1)"
    using flush_setup [OF f] Cons.prems(1) by (simp add: same_setup_def)
  note IH = Cons.IH [OF this Cons.prems(2), of _ w1]
  have "run_flushes db ro (k # ks) errs bm w =
      run_flushes db ro ks (case err of None \<Rightarrow> errs | Some e \<Rightarrow> errs @ [FlushFailed k e]) bm1 w1"
    using f by (cases err) simp_all
  then show ?case
    using IH [of "case err of None \<Rightarrow> errs | Some e \<Rightarrow> errs @ [FlushFailed k e]"] len st by auto
qed simp

section \<open>Channels without readers\<close>

text \<open>What is in the channel of a kind stays in front; only a writer of the kind takes from it.\<close>

definition chan_kept :: "kind \<Rightarrow> FixedBufferManager \<Rightarrow> FixedBufferManager \<Rightarrow> bool" where
  "chan_kept k bm bm' \<longleftrightarrow>
     (case k of
        KPlatform \<Rightarrow> prefix (bm_platformWriteChan bm) (bm_platformWriteChan bm')
      | KInterface \<Rightarrow> prefix (bm_interfaceWriteChan bm) (bm_interfaceWriteChan bm')
      | KSubinterface \<Rightarrow> prefix (bm_subinterfaceWriteChan bm) (bm_subinterfaceWriteChan bm')
      | KAlarmReport \<Rightarrow> prefix (bm_alarmReportWriteChan bm) (bm_alarmReportWriteChan bm')
      | KNotificationReport \<Rightarrow> prefix (bm_notificationReportWriteChan bm) (bm_notificationReportWriteChan bm'))"

lemma chan_kept_refl [simp]: "chan_kept k bm bm"
  by (cases k) (simp_all add: chan_kept_def)

lemma chan_kept_trans: "chan_kept k a b \<Longrightarrow> chan_kept k b c \<Longrightarrow> chan_kept k a c"
  by (cases k) (auto simp: chan_kept_def intro: prefix_order.trans)

lemma chan_kept_fields [simp]:
  "chan_kept k bm (bm'\<lparr>bm_stats := st\<rparr>) = chan_kept k bm bm'"
  "chan_kept k bm (bm'\<lparr>bm_flushTimer := b\<rparr>) = chan_kept k bm bm'"
  "chan_kept k bm (bm'\<lparr>bm_writers := ws\<rparr>) = chan_kept k bm bm'"
  "chan_kept k (bm\<lparr>bm_spawned := sp\<rparr>) bm' = chan_kept k bm bm'"
  "chan_kept k (bm\<lparr>bm_stopped := b\<rparr>) bm' = chan_kept k bm bm'"
  by (cases k; simp add: chan_kept_def)+

lemma flush_chunks_chan: "flush_chunks cfg ins bs ch w = (r, ch', w') \<Longrightarrow> prefix ch ch'"
  by (auto simp: prefix_def dest: flush_chunks_prefix)

lemma flush_kind_chan:
  assumes "flush_kind db ro j bm w = Some (Ret (err, bm', w'))" and "orders_ok ro"
    and "0 < wr_MaxBatchSize (bm_writerConfig bm)"
  shows "chan_kept k bm bm'"
  using assms(1)
  by (cases j) (auto simp: flush_kind_def flush_eqs [OF assms(3,2)] chan_kept_def Let_def
      split: prod.splits kind.split dest: flush_chunks_chan)

lemma run_flushes_chan:
  "run_flushes db ro ks errs bm w = Some (Ret (errs', bm', w')) \<Longrightarrow> orders_ok ro \<Longrightarrow>
   0 < wr_MaxBatchSize (bm_writerConfig bm) \<Longrightarrow> chan_kept k bm bm'"
proof (induction ks arbitrary: errs bm w)
  case (Cons j ks)
  obtain err bm1 w1 where f: "flush_kind db ro j bm w = Some (Ret (err, bm1, w1))"
    using Cons.prems(1) by (auto split: option.splits flow.splits)
  have "0 < wr_MaxBatchSize (bm_writerConfig bm1)"
    using flush_setup [OF f] Cons.prems(3) by (simp add: same_setup_def)
  moreover obtain errs1 where "run_flushes db ro ks errs1 bm1 w1 = Some (Ret (errs', bm', w'))"
    using Cons.prems(1) f by (cases err) auto
  ultimately have "chan_kept k bm1 bm'" using Cons.IH Cons.prems(2) by blast
  then show ?case using flush_kind_chan [OF f Cons.prems(2,3)] chan_kept_trans by blast
qed simp

lemma FlushAll_chan:
  assumes "FlushAll db ro ks start now bm w = Some (Ret (err, bm', w'))" and "orders_ok ro"
    and "0 < wr_MaxBatchSize (bm_writerConfig bm)"
  shows "chan_kept k bm bm'"
proof -
  obtain errs bm1 st where r: "run_flushes db ro ks [] bm w = Some (Ret (errs, bm1, w'))"
    and "bm' = bm1\<lparr>bm_stats := st\<rparr>"
    using assms(1) by (auto simp: FlushAll_def Let_def split: option.splits flow.splits)
  then show ?thesis using run_flushes_chan [OF r assms(2,3)] by simp
qed

lemma add_chan [simp]:
  "bm_platformWriteChan (AddPlatformMetrics metrics0 bm) = bm_platformWriteChan bm"
  "bm_platformWriteChan (AddInterfaceMetrics metrics1 bm) = bm_platformWriteChan bm"
  "bm_platformWriteChan (AddSubinterfaceMetrics metrics2 bm) = bm_platformWriteChan bm"
  "bm_platformWriteChan (AddAlarmReportMetrics metrics3 bm) = bm_platformWriteChan bm"
  "bm_platformWriteChan (AddNotificationReportMetrics metrics4 bm) = bm_platformWriteChan bm"
  by (simp_all add: add_defs split_beta Let_def)

lemma add_kept [simp]:
  "chan_kept k bm (AddPlatformMetrics metrics0 bm)"
  "chan_kept k bm (AddInterfaceMetrics metrics1 bm)"
  "chan_kept k bm (AddSubinterfaceMetrics metrics2 bm)"
  "chan_kept k bm (AddAlarmReportMetrics metrics3 bm)"
  "chan_kept k bm (AddNotificationReportMetrics metrics4 bm)"
  by (cases k; simp add: chan_kept_def add_defs split_beta Let_def)+

lemma write_other_chan:
  "write_kind db j bm w = Some (bm', w') \<Longrightarrow> j \<noteq> k \<Longrightarrow> chan_kept k bm bm'"
  by (cases j; cases k)
    (auto simp: write_kind_def platformWriter_def interfaceWriter_def subinterfaceWriter_def
      alarmReportWriter_def notificationReportWriter_def chan_kept_def split: option.splits)

lemma stranded_step:
  assumes "bstep db s s'" and ok: "running_ok (fst s)" and none: "bm_writers (fst s) k = 0"
  shows "bm_writers (fst s') k = 0 \<and> chan_kept k (fst s) (fst s')"
  using assms(1)
proof (cases rule: bstep.cases)
  case (flushed j bm ro w err bm' w')
  let ?bm = "bm\<lparr>bm_spawned := remove1 j (bm_spawned bm)\<rparr>"
  have "chan_kept k ?bm bm'"
    using flush_kind_chan [OF flushed(5,4)] ok flushed(1) by (simp add: running_ok_def)
  then show ?thesis
    using flush_setup [OF flushed(5)] none flushed(1,2) by (simp add: same_setup_def)
next
  case (ticked bm ro ks start now w ferr bm' w')
  then show ?thesis
    using FlushAll_chan [OF ticked(5,4)] FlushAll_setup [OF ticked(5)] none ok
    by (simp add: same_setup_def running_ok_def)
next
  case (written bm j w bm' w')
  then have "j \<noteq> k" using none by auto
  then show ?thesis
    using written write_setup [OF written(4)] write_other_chan [OF written(4)] none
    by (simp add: same_setup_def)
next
  case (stopped ro ks start now bm w ferr bm' w')
  show ?thesis
  proof (cases "bm_stopped bm")
    case True
    then show ?thesis using stopped none by (simp add: Stop_def)
  next
    case False
    let ?bm = "bm\<lparr>bm_stopped := True\<rparr>"
    have fa: "FlushAll db ro ks start now ?bm w = Some (Ret (ferr, bm', w'))"
      using False stopped by (simp add: Stop_def)
    show ?thesis
      using FlushAll_chan [OF fa stopped(3), of k] FlushAll_setup [OF fa] ok none stopped(1,2)
      by (simp add: same_setup_def running_ok_def)
  qed
qed (use none add_setup in \<open>auto simp: same_setup_def\<close>)

lemma stranded:
  assumes "breach db s s'" and "running_ok (fst s)" and "bm_writers (fst s) k = 0"
  shows "bm_writers (fst s') k = 0 \<and> chan_kept k (fst s) (fst s')"
  using assms(1)
proof (induction rule: breach.induct)
  case at_start
  then show ?case using assms(3) by simp
next
  case (one_more s' s'')
  then have "running_ok (fst s')" using breach_running assms(2) by blast
  then have "bm_writers (fst s'') k = 0 \<and> chan_kept k (fst s') (fst s'')"
    using stranded_step one_more by blast
  then show ?case using one_more.IH chan_kept_trans by blast
qed

end
