(* ===== verification/Buffer_Refinement.thy ===== *)
theory Buffer_Refinement
  imports Buffer_System
begin

text \<open>
  Arguments about every run of the manager.  The case analysis over the steps of the manager is done
  once, in the locales \<open>flush_view\<close> and \<open>manager_view\<close>: a reflexive and transitive relation that single
  operations respect is respected by every run (\<open>breach_Q\<close>).  The bounds of the channels are the first
  instance (\<open>bounded\<close>); \<open>Buffer_Store\<close> has the refinement of an abstract store.
\<close>

section \<open>Relations that runs respect\<close>

text \<open>Relations that ignore the bookkeeping fields, and that the flush of a kind respects.\<close>

locale flush_view =
  fixes db :: "'w DatabaseInterface"
    and Q :: "FixedBufferManager \<times> 'w \<Rightarrow> FixedBufferManager \<times> 'w \<Rightarrow> bool"
  assumes same: "Q s s" and trans: "Q s t \<Longrightarrow> Q t u \<Longrightarrow> Q s u"
    and stats: "Q (bm, w) (bm\<lparr>bm_stats := st\<rparr>, w)"
    and flush: "running_ok bm \<Longrightarrow> orders_ok ro \<Longrightarrow>
      flush_kind db ro k bm w = Some (Ret (err, bm', w')) \<Longrightarrow> Q (bm, w) (bm', w')"
begin

lemma run_flushes_Q:
  "run_flushes db ro ks errs bm w = Some (Ret (errs', bm', w')) \<Longrightarrow> running_ok bm \<Longrightarrow> orders_ok ro \<Longrightarrow>
   Q (bm, w) (bm', w')"
proof (induction ks arbitrary: errs bm w)
  case Nil
  then show ?case by (simp add: same)
next
  case (Cons k ks)
  obtain err bm1 w1 where f: "flush_kind db ro k bm w = Some (Ret (err, bm1, w1))"
    using Cons.prems(1) by (auto split: option.splits flow.splits)
  obtain errs1 where rest: "run_flushes db ro ks errs1 bm1 w1 = Some (Ret (errs', bm', w'))"
    using Cons.prems(1) f by (cases err) auto
  have "running_ok bm1"
    using flush_kind_inv [OF _ Cons.prems(3) _ f] flush_setup [OF f] Cons.prems(2)
    by (simp add: running_ok_def same_setup_def)
  then show ?case
    using Cons.IH [OF rest _ Cons.prems(3)] flush [OF Cons.prems(2,3) f] trans by blast
qed

lemma FlushAll_Q:
  assumes "FlushAll db ro ks start now bm w = Some (Ret (err, bm', w'))" and "running_ok bm"
    and "orders_ok ro"
  shows "Q (bm, w) (bm', w')"
proof -
  obtain errs bm1 st where r: "run_flushes db ro ks [] bm w = Some (Ret (errs, bm1, w'))"
    and bm': "bm' = bm1\<lparr>bm_stats := st\<rparr>"
    using assms(1) by (auto simp: FlushAll_def Let_def split: option.splits flow.splits)
  show ?thesis using trans [OF run_flushes_Q [OF r assms(2,3)] stats [of bm1 w' st]] by (simp add: bm')
qed

end

text \<open>
  What the goroutines of a running manager do in the background: the steps of \<open>bstep\<close> that are no adds.
\<close>

inductive background ::
  "'w DatabaseInterface \<Rightarrow> FixedBufferManager \<times> 'w \<Rightarrow> FixedBufferManager \<times> 'w \<Rightarrow> bool"
  for db :: "'w DatabaseInterface"
where
  bg_flushed: "k \<in> set (bm_spawned bm) \<Longrightarrow> orders_ok ro \<Longrightarrow>
    flush_kind db ro k (bm\<lparr>bm_spawned := remove1 k (bm_spawned bm)\<rparr>) w = Some (Ret (err, bm', w')) \<Longrightarrow>
    background db (bm, w) (bm', w')"
| bg_ticked: "bm_flushTimer bm \<Longrightarrow> orders_ok ro \<Longrightarrow>
    FlushAll db ro ks start now bm w = Some (Ret (ferr, bm', w')) \<Longrightarrow> background db (bm, w) (bm', w')"
| bg_timer_ended: "bm_stopped bm \<Longrightarrow> background db (bm, w) (bm\<lparr>bm_flushTimer := False\<rparr>, w)"
| bg_written: "0 < bm_writers bm k \<Longrightarrow> write_kind db k bm w = Some (bm', w') \<Longrightarrow>
    background db (bm, w) (bm', w')"
| bg_writer_ended: "bm_stopped bm \<Longrightarrow> 0 < bm_writers bm k \<Longrightarrow>
    background db (bm, w) (bm\<lparr>bm_writers := (bm_writers bm)(k := bm_writers bm k - 1)\<rparr>, w)"
| bg_stopped: "orders_ok ro \<Longrightarrow> Stop db ro ks start now bm w = Some (Ret (ferr, bm', w')) \<Longrightarrow>
    background db (bm, w) (bm', w')"

lemma background_bstep: "background db s s' \<Longrightarrow> bstep db s s'"
  by (cases rule: background.cases) (assumption, (blast intro: bstep.intros)+)

abbreviation background_run ::
  "'w DatabaseInterface \<Rightarrow> FixedBufferManager \<times> 'w \<Rightarrow> FixedBufferManager \<times> 'w \<Rightarrow> bool"
where
  "background_run db \<equiv> (background db)\<^sup>*\<^sup>*"

lemma background_run_running: "background_run db s s' \<Longrightarrow> running_ok (fst s) \<Longrightarrow> running_ok (fst s')"
  by (induction rule: rtranclp_induct) (auto dest: background_bstep intro: bstep_running)

lemma background_run_breach: "background_run db s s' \<Longrightarrow> breach db s s'"
  by (induction rule: rtranclp_induct) (auto intro: breach.intros dest: background_bstep)

text \<open>Relations that the writers respect as well, and that ignore the goroutines.\<close>

locale running_view = flush_view +
  assumes worked: "running_ok bm \<Longrightarrow> write_kind db k bm w = Some (bm', w') \<Longrightarrow> Q (bm, w) (bm', w')"
    and goroutines: "Q (bm, w) (bm\<lparr>bm_spawned := sp\<rparr>, w)" "Q (bm, w) (bm\<lparr>bm_stopped := b\<rparr>, w)"
      "Q (bm, w) (bm\<lparr>bm_flushTimer := b\<rparr>, w)" "Q (bm, w) (bm\<lparr>bm_writers := ws\<rparr>, w)"
begin

lemma Stop_Q:
  assumes "Stop db ro ks start now bm w = Some (Ret (ferr, bm', w'))" and "running_ok bm" and "orders_ok ro"
  shows "Q (bm, w) (bm', w')"
proof (cases "bm_stopped bm")
  case True
  then show ?thesis using assms same by (simp add: Stop_def)
next
  case False
  let ?bm = "bm\<lparr>bm_stopped := True\<rparr>"
  have fa: "FlushAll db ro ks start now ?bm w = Some (Ret (ferr, bm', w'))"
    using False assms by (simp add: Stop_def)
  have "running_ok ?bm" using assms(2) by (simp add: running_ok_def)
  then show ?thesis by (rule trans [OF goroutines(2) FlushAll_Q [OF fa _ assms(3)]])
qed

lemma background_Q:
  assumes "background db s s'" and ok: "running_ok (fst s)"
  shows "Q s s'"
  using assms(1)
proof (cases rule: background.cases)
  case (bg_flushed k bm ro w err bm' w')
  let ?bm = "bm\<lparr>bm_spawned := remove1 k (bm_spawned bm)\<rparr>"
  have "running_ok ?bm" using ok bg_flushed(1) by (simp add: running_ok_def)
  then have "Q (?bm, w) (bm', w')" by (rule flush [OF _ bg_flushed(4,5)])
  then show ?thesis using trans [OF goroutines(1)] bg_flushed(1,2) by simp
next
  case (bg_ticked bm ro ks start now w ferr bm' w')
  then show ?thesis using FlushAll_Q ok by simp
next
  case (bg_written bm k w bm' w')
  then show ?thesis using worked ok by simp
next
  case (bg_stopped ro ks start now bm w ferr bm' w')
  then show ?thesis using Stop_Q ok by simp
qed (use ok goroutines in simp_all)

lemma background_run_Q: "background_run db s s' \<Longrightarrow> running_ok (fst s) \<Longrightarrow> Q s s'"
proof (induction rule: rtranclp_induct)
  case base
  then show ?case by (simp add: same)
next
  case (step s' s'')
  have "running_ok (fst s')" by (rule background_run_running [OF step(1,4)])
  then show ?case using trans [OF step(3) [OF step(4)] background_Q [OF step(2)]] by simp
qed

end

text \<open>Relations that the adds respect as well.\<close>

locale manager_view = running_view +
  assumes adds: "running_ok bm \<Longrightarrow> Q (bm, w) (AddPlatformMetrics ps bm, w)"
      "running_ok bm \<Longrightarrow> Q (bm, w) (AddInterfaceMetrics is bm, w)"
      "running_ok bm \<Longrightarrow> Q (bm, w) (AddSubinterfaceMetrics ss bm, w)"
      "running_ok bm \<Longrightarrow> Q (bm, w) (AddAlarmReportMetrics as bm, w)"
      "running_ok bm \<Longrightarrow> Q (bm, w) (AddNotificationReportMetrics ns bm, w)"
begin

lemma bstep_Q:
  assumes "bstep db s s'" and ok: "running_ok (fst s)"
  shows "Q s s'"
  using assms(1)
proof (cases rule: bstep.cases)
  case (flushed k bm ro w err bm' w')
  then show ?thesis using background_Q [OF bg_flushed, of k bm ro w err bm' w'] ok by simp
next
  case (ticked bm ro ks start now w ferr bm' w')
  then show ?thesis using FlushAll_Q ok by simp
next
  case (written bm k w bm' w')
  then show ?thesis using worked ok by simp
next
  case (stopped ro ks start now bm w ferr bm' w')
  then show ?thesis using Stop_Q ok by simp
qed (use ok adds goroutines in simp_all)

lemma breach_Q: "breach db s s' \<Longrightarrow> running_ok (fst s) \<Longrightarrow> Q s s'"
proof (induction rule: breach.induct)
  case at_start
  then show ?case by (simp add: same)
next
  case (one_more s' s'')
  have "running_ok (fst s')" by (rule breach_running [OF one_more(1,4)])
  then show ?case using trans [OF one_more(3) [OF one_more(4)] bstep_Q [OF one_more(2)]] by simp
qed

end

section \<open>The channels are bounded\<close>

text \<open>A channel holds at most 100 batches, none of them empty and none above the batch size.\<close>

definition batches_ok :: "int \<Rightarrow> 'v list list \<Rightarrow> bool" where
  "batches_ok n ch \<longleftrightarrow> length ch \<le> chan_cap \<and> list_all (\<lambda>b. 0 < length b \<and> int (length b) \<le> n) ch"

lemma batches_ok_Nil [simp]: "batches_ok n []"
  by (simp add: batches_ok_def)

lemma batches_ok_tl: "batches_ok n (b # ch) \<Longrightarrow> batches_ok n ch"
  by (simp add: batches_ok_def)

lemma flush_chunks_batches_ok:
  "flush_chunks cfg ins bs ch w = (r, ch', w') \<Longrightarrow> batches_ok n ch \<Longrightarrow>
   list_all (\<lambda>b. 0 < length b \<and> int (length b) \<le> n) bs \<Longrightarrow> batches_ok n ch'"
proof (induction bs arbitrary: ch w)
  case (Cons b bs)
  show ?case
  proof (cases "length ch < chan_cap")
    case True
    then have "batches_ok n (ch @ [b])" using Cons.prems by (simp add: batches_ok_def)
    then show ?thesis using Cons True by simp
  next
    case False
    then show ?thesis using Cons by (auto split: prod.splits option.splits)
  qed
qed simp

lemma flush_batches_ok:
  assumes "flush_chunks cfg ins (chunks (nat n) ms) ch w = (r, ch', w')" and "batches_ok n ch" and "0 < n"
  shows "batches_ok n ch'"
proof (rule flush_chunks_batches_ok [OF assms(1,2)])
  have "0 < length b \<and> int (length b) \<le> n" if "b \<in> set (chunks (nat n) ms)" for b
    using chunks_sizes [OF that] assms(3) by linarith
  then show "list_all (\<lambda>b. 0 < length b \<and> int (length b) \<le> n) (chunks (nat n) ms)"
    by (simp add: list_all_iff)
qed

definition channels_ok :: "FixedBufferManager \<Rightarrow> bool" where
  "channels_ok bm \<longleftrightarrow>
     (let n = wr_MaxBatchSize (bm_writerConfig bm)
      in batches_ok n (bm_platformWriteChan bm) \<and> batches_ok n (bm_interfaceWriteChan bm) \<and>
         batches_ok n (bm_subinterfaceWriteChan bm) \<and> batches_ok n (bm_alarmReportWriteChan bm) \<and>
         batches_ok n (bm_notificationReportWriteChan bm))"

lemma channels_ok_fields [simp]:
  "channels_ok (bm\<lparr>bm_stats := st\<rparr>) = channels_ok bm" "channels_ok (bm\<lparr>bm_spawned := sp\<rparr>) = channels_ok bm"
  "channels_ok (bm\<lparr>bm_stopped := b\<rparr>) = channels_ok bm" "channels_ok (bm\<lparr>bm_flushTimer := b\<rparr>) = channels_ok bm"
  "channels_ok (bm\<lparr>bm_writers := ws\<rparr>) = channels_ok bm"
  by (simp_all add: channels_ok_def)

lemma channels_ok_new: "channels_ok (NewFixedBufferManager cfg wcfg)"
  by (simp add: channels_ok_def NewFixedBufferManager_def startParallelWriters_def startFlushTimer_def)

lemma channels_ok_add [simp]:
  "channels_ok (AddPlatformMetrics ps bm) = channels_ok bm"
  "channels_ok (AddInterfaceMetrics is bm) = channels_ok bm"
  "channels_ok (AddSubinterfaceMetrics ss bm) = channels_ok bm"
  "channels_ok (AddAlarmReportMetrics as bm) = channels_ok bm"
  "channels_ok (AddNotificationReportMetrics ns bm) = channels_ok bm"
  by (simp_all add: channels_ok_def add_defs split_beta Let_def)

lemma channels_ok_flush:
  assumes "running_ok bm" and "orders_ok ro" and "flush_kind db ro k bm w = Some (Ret (err, bm', w'))"
    and "channels_ok bm"
  shows "channels_ok bm'"
proof -
  have n: "0 < wr_MaxBatchSize (bm_writerConfig bm)" using assms(1) by (simp add: running_ok_def)
  show ?thesis
    using assms(3,4) n
    by (cases k) (auto simp: flush_kind_def flush_eqs [OF n assms(2)] channels_ok_def Let_def
        split: prod.splits dest: flush_batches_ok)
qed

lemma channels_ok_write:
  "write_kind db k bm w = Some (bm', w') \<Longrightarrow> channels_ok bm \<Longrightarrow> channels_ok bm'"
  by (cases k) (auto simp: write_kind_def platformWriter_def interfaceWriter_def subinterfaceWriter_def
      alarmReportWriter_def notificationReportWriter_def channels_ok_def writer_turn_def Let_def
      split: option.splits list.splits prod.splits dest: batches_ok_tl)

interpretation bounded: manager_view db "\<lambda>s s'. channels_ok (fst s) \<longrightarrow> channels_ok (fst s')" for db
  by unfold_locales (auto dest: channels_ok_flush channels_ok_write)

text \<open>The configuration never changes.\<close>

interpretation configured: manager_view db "\<lambda>s s'. bm_writerConfig (fst s') = bm_writerConfig (fst s)" for db
  by unfold_locales
    (use add_setup in \<open>auto simp: same_setup_def dest: flush_setup write_setup\<close>)

end
