(* ===== verification/Abstract_Store.thy ===== *)
theory Abstract_Store
  imports Buffer_Interface Buffer_Writer
begin

text \<open>
  What the buffers promise, without their machinery: the store of one kind of metric has entries by key,
  a queue of batches and a table.  \<open>store_move\<close> is what happens in the background, \<open>store_step\<close> adds the
  arrival of metrics.

  The books of a store (\<open>ledger\<close>) say where each received metric has gone: the metrics are split into
  groups of one key, and the entries, the queue and the table hold one merged value for each group.
  Lemmas: moves and adds keep the books (\<open>ledger_moves\<close>, \<open>ledger_add\<close>), and moves that lose nothing keep the
  rows of the store (\<open>moves_total\<close>).
\<close>

section \<open>The store\<close>

record ('v, 'r) store =
  so_entries :: "string \<Rightarrow> 'v option"
  so_queue :: "'v list list"
  so_table :: "'r multiset"

text \<open>
  A flush takes all entries out: some are queued in batches, and once the queue is full the rest is
  written to the table or, if the database may refuse, lost.  A writer takes the first batch of the
  queue and writes it, or loses it.
\<close>

inductive store_move :: "bool \<Rightarrow> ('v \<Rightarrow> 'r) \<Rightarrow> ('v, 'r) store \<Rightarrow> ('v, 'r) store \<Rightarrow> bool"
  for lossy :: bool and enc :: "'v \<Rightarrow> 'r"
where
  move_flush: "map_values (so_entries s) = mset (concat q) + mset written + mset lost \<Longrightarrow>
    written @ lost = [] \<or> chan_cap \<le> length (so_queue s @ q) \<Longrightarrow> lost = [] \<or> lossy \<Longrightarrow>
    store_move lossy enc s
      \<lparr>so_entries = Map.empty, so_queue = so_queue s @ q,
       so_table = so_table s + mset (map enc written)\<rparr>"
| move_write: "so_queue s = b # q \<Longrightarrow>
    store_move lossy enc s (s\<lparr>so_queue := q, so_table := so_table s + mset (map enc b)\<rparr>)"
| move_refuse: "lossy \<Longrightarrow> so_queue s = b # q \<Longrightarrow> store_move lossy enc s (s\<lparr>so_queue := q\<rparr>)"

text \<open>Adding merges a batch by key.\<close>

inductive store_step ::
  "('v \<Rightarrow> string) \<Rightarrow> ('v \<Rightarrow> 'v \<Rightarrow> 'v) \<Rightarrow> ('v \<Rightarrow> 'r) \<Rightarrow> ('v, 'r) store \<Rightarrow> ('v, 'r) store \<Rightarrow> bool"
  for key :: "'v \<Rightarrow> string" and merge :: "'v \<Rightarrow> 'v \<Rightarrow> 'v" and enc :: "'v \<Rightarrow> 'r"
where
  store_add: "store_step key merge enc s
    (s\<lparr>so_entries := (\<lambda>k. merged_at key merge k ms (so_entries s k))\<rparr>)"
| store_moved: "store_move True enc s s' \<Longrightarrow> store_step key merge enc s s'"

lemma moves_steps:
  "(store_move True enc)\<^sup>*\<^sup>* s s' \<Longrightarrow> (store_step key merge enc)\<^sup>*\<^sup>* s s'"
  by (erule rtranclp_mono [THEN predicate2D, rotated]) (blast intro: store_moved)

section \<open>The rows of a store\<close>

definition so_total :: "('v \<Rightarrow> 'r) \<Rightarrow> ('v, 'r) store \<Rightarrow> 'r multiset" where
  "so_total enc s =
     so_table s + mset (map enc (concat (so_queue s))) + image_mset enc (map_values (so_entries s))"

lemma move_total:
  assumes "store_move False enc s s'"
  shows "so_total enc s' = so_total enc s"
  using assms by (cases rule: store_move.cases) (auto simp: so_total_def)

lemma moves_total: "(store_move False enc)\<^sup>*\<^sup>* s s' \<Longrightarrow> so_total enc s' = so_total enc s"
  by (induction rule: rtranclp_induct) (simp_all add: move_total)

section \<open>Groups of one key\<close>

definition merge_all :: "('v \<Rightarrow> 'v \<Rightarrow> 'v) \<Rightarrow> 'v list \<Rightarrow> 'v" where
  "merge_all merge g = fold (\<lambda>x e. merge e x) (tl g) (hd g)"

definition one_key :: "('v \<Rightarrow> string) \<Rightarrow> 'v list \<Rightarrow> bool" where
  "one_key key g \<longleftrightarrow> g \<noteq> [] \<and> list_all (\<lambda>m. key m = key (hd g)) g"

lemma merged_at_fold:
  "list_all (\<lambda>m. key m = k) g \<Longrightarrow> merged_at key merge k g (Some e) = Some (fold (\<lambda>x e. merge e x) g e)"
  by (induction g arbitrary: e) simp_all

lemma merged_at_group:
  "list_all (\<lambda>m. key m = k) g \<Longrightarrow> g \<noteq> [] \<Longrightarrow> merged_at key merge k g None = Some (merge_all merge g)"
  by (cases g) (simp_all add: merged_at_fold merge_all_def)

definition groups_of :: "('v \<Rightarrow> string) \<Rightarrow> 'v list \<Rightarrow> 'v list multiset" where
  "groups_of key ms = mset (map (\<lambda>k. filter (\<lambda>m. key m = k) ms) (remdups (map key ms)))"

lemma groups_one_key:
  assumes "g \<in># groups_of key ms"
  shows "one_key key g"
proof -
  obtain k where k: "k \<in> set (map key ms)" and g: "g = filter (\<lambda>m. key m = k) ms"
    using assms by (auto simp: groups_of_def)
  have "g \<noteq> []" using k by (auto simp: g filter_empty_conv)
  moreover have "m \<in> set g \<Longrightarrow> key m = k" for m by (simp add: g)
  ultimately show ?thesis by (simp add: one_key_def list_all_iff)
qed

lemma groups_sum: "(\<Sum>g \<in># groups_of key ms. mset g) = mset ms"
proof -
  have "(\<Sum>g \<in># groups_of key ms. mset g) = (\<Sum>k \<in> set (map key ms). filter_mset (\<lambda>m. key m = k) (mset ms))"
    by (simp add: groups_of_def sum_mset_sum_list sum_list_distinct_conv_sum_set comp_def flip: mset_map)
  also have "\<dots> = mset ms"
  proof (rule multiset_eqI)
    fix x
    have "count (\<Sum>k \<in> set (map key ms). filter_mset (\<lambda>m. key m = k) (mset ms)) x =
        (\<Sum>k \<in> set (map key ms). if key x = k then count (mset ms) x else 0)"
      by (simp add: count_sum)
    also have "\<dots> = count (mset ms) x"
      by (cases "x \<in> set ms") (simp_all add: sum.delta' count_mset_0_iff)
    finally show "count (\<Sum>k \<in> set (map key ms). filter_mset (\<lambda>m. key m = k) (mset ms)) x = count (mset ms) x" .
  qed
  finally show ?thesis .
qed

lemma groups_values:
  "map_values (\<lambda>k. merged_at key merge k ms None) = image_mset (merge_all merge) (groups_of key ms)"
proof -
  have dom: "dom (\<lambda>k. merged_at key merge k ms None) = set (map key ms)"
    unfolding dom_def merged_at_None_iff by auto
  have "the (merged_at key merge k ms None) = merge_all merge (filter (\<lambda>m. key m = k) ms)"
    if "k \<in> set (map key ms)" for k
  proof -
    have "filter (\<lambda>m. key m = k) ms \<noteq> []" using that by (auto simp: filter_empty_conv)
    then show ?thesis
      by (subst merged_at_filter) (simp add: merged_at_group list_all_iff)
  qed
  then have "image_mset (\<lambda>k. the (merged_at key merge k ms None)) (mset (remdups (map key ms))) =
      image_mset (\<lambda>k. merge_all merge (filter (\<lambda>m. key m = k) ms)) (mset (remdups (map key ms)))"
    by (intro image_mset_cong) simp
  then show ?thesis
    unfolding map_values_def dom groups_of_def
    by (simp add: mset_set_set [symmetric] image_mset.compositionality comp_def)
qed

section \<open>The books\<close>

text \<open>
  The received metrics \<open>ms\<close> are split: groups \<open>T\<close> in the table, \<open>Q\<close> in the queue, \<open>L\<close> lost, and the metrics \<open>P\<close>
  behind the entries, in the order they came.
\<close>

definition ledger ::
  "('v \<Rightarrow> string) \<Rightarrow> ('v \<Rightarrow> 'v \<Rightarrow> 'v) \<Rightarrow> ('v \<Rightarrow> 'r) \<Rightarrow> 'r multiset \<Rightarrow> 'v list \<Rightarrow> ('v, 'r) store \<Rightarrow>
   'v list multiset \<Rightarrow> 'v list multiset \<Rightarrow> 'v list multiset \<Rightarrow> 'v list \<Rightarrow> bool"
where
  "ledger key merge enc t0 ms s T Q L P \<longleftrightarrow>
     mset ms = (\<Sum>g \<in># T + Q + L. mset g) + mset P \<and>
     (\<forall>g. g \<in># T + Q + L \<longrightarrow> one_key key g) \<and>
     so_entries s = (\<lambda>k. merged_at key merge k P None) \<and>
     mset (concat (so_queue s)) = image_mset (merge_all merge) Q \<and>
     so_table s = t0 + image_mset (\<lambda>g. enc (merge_all merge g)) T"

lemma ledger_start:
  "so_entries s = Map.empty \<Longrightarrow> so_queue s = [] \<Longrightarrow> ledger key merge enc (so_table s) [] s {#} {#} {#} []"
  by (simp add: ledger_def)

lemma ledger_add:
  "ledger key merge enc t0 ms s T Q L P \<Longrightarrow>
   ledger key merge enc t0 (ms @ xs) (s\<lparr>so_entries := (\<lambda>k. merged_at key merge k xs (so_entries s k))\<rparr>)
     T Q L (P @ xs)"
  by (simp add: ledger_def merged_at_append)

lemma ledger_move:
  assumes book: "ledger key merge enc t0 ms s T Q L P" and "store_move lossy enc s s'"
  shows "\<exists>T' Q' L' P'. ledger key merge enc t0 ms s' T' Q' L' P' \<and> (\<not> lossy \<longrightarrow> L' = L)"
  using assms(2)
proof (cases rule: store_move.cases)
  case (move_flush q written lost)
  have "image_mset (merge_all merge) (groups_of key P) = mset (concat q) + (mset written + mset lost)"
    using book move_flush(2) by (simp add: ledger_def groups_values add.assoc)
  then obtain GQ G where "groups_of key P = GQ + G" and q: "mset (concat q) = image_mset (merge_all merge) GQ"
    and "mset written + mset lost = image_mset (merge_all merge) G"
    by (metis image_mset_eq_plusD)
  moreover then obtain GT GL where "G = GT + GL" and w: "mset written = image_mset (merge_all merge) GT"
    and l: "mset lost = image_mset (merge_all merge) GL"
    by (metis image_mset_eq_plusD)
  ultimately have P: "groups_of key P = GQ + GT + GL" by simp
  have "mset P = (\<Sum>g \<in># GQ + GT + GL. mset g)" using groups_sum [of key P] by (simp only: P)
  moreover have "one_key key g" if "g \<in># GQ + GT + GL" for g
    by (rule groups_one_key [of g key P]) (use that P in simp)
  moreover have "mset (map enc written) = image_mset (\<lambda>g. enc (merge_all merge g)) GT"
    by (simp add: w image_mset.compositionality comp_def)
  ultimately have "ledger key merge enc t0 ms s' (T + GT) (Q + GQ) (L + GL) []"
    using book q by (auto simp: ledger_def move_flush(1) add_ac)
  moreover have "L + GL = L" if "\<not> lossy" using move_flush(4) that l by simp
  ultimately show ?thesis by blast
next
  case (move_write b q)
  have "image_mset (merge_all merge) Q = mset b + mset (concat q)"
    using book move_write(2) by (simp add: ledger_def)
  then obtain B Q' where Q: "Q = B + Q'" and b: "mset b = image_mset (merge_all merge) B"
    and q: "mset (concat q) = image_mset (merge_all merge) Q'"
    by (metis image_mset_eq_plusD)
  have "mset (map enc b) = image_mset (\<lambda>g. enc (merge_all merge g)) B"
    by (simp add: b image_mset.compositionality comp_def)
  then have "ledger key merge enc t0 ms s' (T + B) Q' L P"
    using book q by (auto simp: ledger_def move_write(1) Q add_ac)
  then show ?thesis by blast
next
  case (move_refuse b q)
  have "image_mset (merge_all merge) Q = mset b + mset (concat q)"
    using book move_refuse(3) by (simp add: ledger_def)
  then obtain B Q' where Q: "Q = B + Q'" and "mset b = image_mset (merge_all merge) B"
    and q: "mset (concat q) = image_mset (merge_all merge) Q'"
    by (metis image_mset_eq_plusD)
  then have "ledger key merge enc t0 ms s' T Q' (L + B) P"
    using book by (auto simp: ledger_def move_refuse(1) add_ac)
  then show ?thesis using move_refuse(2) by blast
qed

lemma ledger_moves:
  assumes "(store_move lossy enc)\<^sup>*\<^sup>* s s'" and "ledger key merge enc t0 ms s T Q L P"
  shows "\<exists>T' Q' L' P'. ledger key merge enc t0 ms s' T' Q' L' P' \<and> (\<not> lossy \<longrightarrow> L' = L)"
  using assms
proof (induction arbitrary: T Q L P rule: converse_rtranclp_induct)
  case base
  then show ?case by blast
next
  case (step s t)
  obtain T1 Q1 L1 P1 where "ledger key merge enc t0 ms t T1 Q1 L1 P1" and "\<not> lossy \<longrightarrow> L1 = L"
    using ledger_move [OF step(4,1)] by blast
  then show ?case using step(3) by metis
qed

section \<open>Everything in the table\<close>

text \<open>The metrics \<open>ms\<close> are in the table, one row for each group of a key.\<close>

definition stored_once ::
  "('v \<Rightarrow> string) \<Rightarrow> ('v \<Rightarrow> 'v \<Rightarrow> 'v) \<Rightarrow> ('v \<Rightarrow> 'r) \<Rightarrow> 'r multiset \<Rightarrow> 'v list \<Rightarrow> 'r multiset \<Rightarrow> bool"
where
  "stored_once key merge enc t0 ms t \<longleftrightarrow>
     (\<exists>G. (\<forall>g. g \<in># G \<longrightarrow> one_key key g) \<and> (\<Sum>g \<in># G. mset g) = mset ms \<and>
          t = t0 + image_mset (\<lambda>g. enc (merge_all merge g)) G)"

lemma ledger_stored:
  assumes book: "ledger key merge enc t0 ms s T Q {#} P"
    and entries: "so_entries s = Map.empty" and queue: "so_queue s = []"
  shows "stored_once key merge enc t0 ms (so_table s)"
proof -
  have "P = []"
  proof (cases P)
    case (Cons m P')
    have "merged_at key merge (key m) P None = None" using book entries by (simp add: ledger_def fun_eq_iff)
    then show ?thesis by (simp add: merged_at_None_iff Cons)
  qed simp
  moreover have "Q = {#}" using book queue by (simp add: ledger_def)
  ultimately show ?thesis
    using book unfolding stored_once_def ledger_def by (intro exI [of _ T]) simp
qed

text \<open>Metrics of distinct keys are stored one by one.\<close>

lemma stored_once_distinct:
  assumes "stored_once key merge enc t0 ms t" and d: "distinct (map key ms)"
  shows "t = t0 + mset (map enc ms)"
proof -
  obtain G where key: "\<And>g. g \<in># G \<Longrightarrow> one_key key g" and sum: "(\<Sum>g \<in># G. mset g) = mset ms"
    and t: "t = t0 + image_mset (\<lambda>g. enc (merge_all merge g)) G"
    using assms(1) by (auto simp: stored_once_def)
  have single: "image_mset enc (mset g) = {#enc (merge_all merge g)#}" if g: "g \<in># G" for g
  proof -
    obtain G' where "G = add_mset g G'" using multi_member_split [OF g] by blast
    then have "mset ms = mset g + (\<Sum>g \<in># G'. mset g)" using sum by simp
    then obtain r where "mset ms = mset (g @ r)" by (metis ex_mset mset_append)
    then have "mset (map key ms) = mset (map key (g @ r))" by simp
    then have "distinct (map key (g @ r))" using d mset_eq_imp_distinct_iff by blast
    then have dg: "distinct (map key g)" by simp
    obtain m g' where m: "g = m # g'" using key [OF g] by (cases g) (simp_all add: one_key_def)
    have "g' = []" using key [OF g] dg by (cases g') (auto simp: one_key_def m)
    then show ?thesis by (simp add: m merge_all_def)
  qed
  have "mset (map enc ms) = image_mset enc (\<Sum>g \<in># G. mset g)" by (simp add: sum)
  also have "\<dots> = (\<Sum>g \<in># G. image_mset enc (mset g))" by (induction G) simp_all
  also have "\<dots> = (\<Sum>g \<in># G. {#enc (merge_all merge g)#})" using single by (metis (mono_tags, lifting) image_mset_cong)
  also have "\<dots> = image_mset (\<lambda>g. enc (merge_all merge g)) G" by (induction G) simp_all
  finally show ?thesis by (simp add: t)
qed

end
