(* ===== verification/Buffer_Store.thy ===== *)
theory Buffer_Store
  imports Buffer_Refinement Abstract_Store
begin

text \<open>
  The running manager implements the abstract store of each kind: whatever it does, the store that
  \<open>kind_store\<close> reads off it and its database takes steps of \<open>store_step\<close> (\<open>view\<close>), and in the background
  only moves, which lose nothing when the database accepts every batch (\<open>moves_view\<close>).  The
  database must keep \<open>tables_ok\<close>: each of its five inserts answers in time, adds its batch to its own
  table or fails and adds nothing, and touches no other table.

  The argument is made once, in the locale \<open>stored_kind\<close>, and interpreted on the five kinds.
\<close>

section \<open>Loops against steps\<close>

context prompt_writer
begin

lemma flush_chunks_split:
  "flush_chunks cfg insert_batch bs ch w = (r, ch', w') \<Longrightarrow>
   \<exists>q written lost. ch' = ch @ q \<and> stored w' = stored w + mset (map enc written) \<and>
     mset (concat bs) = mset (concat q) + mset written + mset lost \<and>
     (written @ lost = [] \<or> chan_cap \<le> length ch') \<and> (r = None \<longrightarrow> lost = [])"
proof (induction bs arbitrary: ch w)
  case Nil
  then show ?case by (intro exI [of _ "[]"]) simp
next
  case (Cons b bs)
  show ?case
  proof (cases "length ch < chan_cap")
    case True
    then obtain q written lost where "ch' = (ch @ [b]) @ q" and "stored w' = stored w + mset (map enc written)"
      and "mset (concat bs) = mset (concat q) + mset written + mset lost"
      and "written @ lost = [] \<or> chan_cap \<le> length ch'" and "r = None \<longrightarrow> lost = []"
      using Cons.IH [of "ch @ [b]" w] Cons.prems by auto
    then show ?thesis
      by (intro exI [of _ "b # q"] exI [of _ written] exI [of _ lost]) simp
  next
    case False
    obtain r1 w1 where w1: "writeWithRetry cfg (insert_batch b) w = (r1, w1)" by fastforce
    show ?thesis
    proof (cases r1)
      case None
      then obtain q written lost where "ch' = ch @ q" and "stored w' = stored w1 + mset (map enc written)"
        and "mset (concat bs) = mset (concat q) + mset written + mset lost" and "r = None \<longrightarrow> lost = []"
        using Cons.IH [of ch w1] Cons.prems False w1 by auto
      then show ?thesis
        using write_exact [OF w1] None False
        by (intro exI [of _ q] exI [of _ "b @ written"] exI [of _ lost]) simp
    next
      case (Some e)
      then have "ch' = ch \<and> w' = w1 \<and> r = Some e" using Cons.prems False w1 by simp
      then show ?thesis
        using write_exact [OF w1] Some False
        by (intro exI [of _ "[]"] exI [of _ "[]"] exI [of _ "b @ concat bs"]) simp
    qed
  qed
qed

end

lemma flush_store_move:
  assumes "prompt_writer ins enc stored" and "sharded_inv m" and "range_order ord" and "0 < n"
    and "flush_chunks cfg ins (chunks n (fst (sharded_SwapAll ord m))) ch w = (r, ch', w')"
    and "lossy \<or> r = None"
  shows "store_move lossy enc
           \<lparr>so_entries = sharded_Get m, so_queue = ch, so_table = stored w\<rparr>
           \<lparr>so_entries = sharded_Get (emptied m), so_queue = ch', so_table = stored w'\<rparr>"
proof -
  have all: "mset (concat (chunks n (fst (sharded_SwapAll ord m)))) = map_values (sharded_Get m)"
    using sharded.drain_values [OF assms(2,3)] assms(4) by simp
  obtain q written lost where "ch' = ch @ q" and "stored w' = stored w + mset (map enc written)"
    and "map_values (sharded_Get m) = mset (concat q) + mset written + mset lost"
    and "written @ lost = [] \<or> chan_cap \<le> length ch'" and "lost = [] \<or> lossy"
    using prompt_writer.flush_chunks_split [OF assms(1,5)] assms(6) unfolding all by blast
  then show ?thesis
    using move_flush [of "\<lparr>so_entries = sharded_Get m, so_queue = ch, so_table = stored w\<rparr>" q written lost]
      assms(2) by simp
qed

lemma write_store_move:
  assumes "prompt_writer ins enc stored" and "writer_turn cfg ins ch w = Some (err, n, ch', w')"
    and "lossy \<or> err = None"
  shows "store_move lossy enc
           \<lparr>so_entries = f, so_queue = ch, so_table = stored w\<rparr>
           \<lparr>so_entries = f, so_queue = ch', so_table = stored w'\<rparr>"
proof -
  obtain b where ch: "ch = b # ch'"
    using assms(2) by (auto simp: writer_turn_def split: list.splits option.splits prod.splits)
  then have r: "writeWithRetry cfg (ins b) w = (err, w')"
    using assms(2) by (auto simp: writer_turn_def split: option.splits prod.splits)
  note st = prompt_writer.write_exact [OF assms(1) r]
  show ?thesis
  proof (cases err)
    case None
    then show ?thesis
      using move_write [of "\<lparr>so_entries = f, so_queue = ch, so_table = stored w\<rparr>" b ch'] ch st by simp
  next
    case (Some e)
    then show ?thesis
      using move_refuse [of lossy "\<lparr>so_entries = f, so_queue = ch, so_table = stored w\<rparr>" b ch'] ch st assms(3)
      by simp
  qed
qed

text \<open>With a database that accepts everything, writes and flushes report no error.\<close>

lemma always_ok_write:
  assumes "\<And>w. fst (ins b w) = Returned None" and "0 < wr_RetryAttempts cfg"
  shows "\<exists>w'. writeWithRetry cfg (ins b) w = (None, w')"
proof -
  obtain w' where "ins b w = (Returned None, w')" using assms(1) [of w] by (metis prod.collapse)
  then show ?thesis
    using assms(2) by (cases "nat (wr_RetryAttempts cfg)") (simp_all add: writeWithRetry_def)
qed

lemma always_ok_chunks:
  assumes "\<And>b w. fst (ins b w) = Returned None" and "0 < wr_RetryAttempts cfg"
  shows "fst (flush_chunks cfg ins bs ch w) = None"
proof (induction bs arbitrary: ch w)
  case (Cons b bs)
  obtain w1 where "writeWithRetry cfg (ins b) w = (None, w1)"
    using always_ok_write [where ins = ins and b = b, OF assms] by blast
  then show ?case using Cons by simp
qed simp

lemma always_ok_turn:
  assumes "\<And>b w. fst (ins b w) = Returned None" and "0 < wr_RetryAttempts cfg"
    and "writer_turn cfg ins ch w = Some (err, n, ch', w')"
  shows "err = None"
proof -
  obtain b where b: "writeWithRetry cfg (ins b) w = (err, w')"
    using assms(3) by (auto simp: writer_turn_def split: list.splits option.splits prod.splits)
  obtain w1 where "writeWithRetry cfg (ins b) w = (None, w1)"
    using always_ok_write [where ins = ins and b = b, OF assms(1,2)] by blast
  then show ?thesis using b by simp
qed

text \<open>What an insert leaves alone, a write and a flush leave alone.\<close>

lemma attempts_keep:
  "write_attempts f n le w = (r, w') \<Longrightarrow> (\<And>w. g (snd (f w)) = g w) \<Longrightarrow> g w' = g w"
proof (induction n arbitrary: le w)
  case (Suc n)
  obtain a w1 where f: "f w = (a, w1)" by fastforce
  have "g w1 = g w" using Suc.prems(2) [of w] f by simp
  then show ?case using Suc f by (auto split: attempt.splits option.splits)
qed simp

lemma write_keeps:
  "writeWithRetry cfg f w = (r, w') \<Longrightarrow> (\<And>w. g (snd (f w)) = g w) \<Longrightarrow> g w' = g w"
  unfolding writeWithRetry_def by (auto split: prod.splits option.splits dest: attempts_keep [where g = g])

lemma flush_chunks_keeps:
  "flush_chunks cfg ins bs ch w = (r, ch', w') \<Longrightarrow> (\<And>b w. g (snd (ins b w)) = g w) \<Longrightarrow> g w' = g w"
proof (induction bs arbitrary: ch w)
  case (Cons b bs)
  obtain r1 w1 where w1: "writeWithRetry cfg (ins b) w = (r1, w1)" by fastforce
  have "g w1 = g w" using write_keeps [where g = g and f = "ins b", OF w1] Cons.prems(2) by blast
  then show ?case using Cons w1 by (auto split: if_splits option.splits)
qed simp

lemma writer_turn_keeps:
  "writer_turn cfg ins ch w = Some (err, n, ch', w') \<Longrightarrow> (\<And>b w. g (snd (ins b w)) = g w) \<Longrightarrow> g w' = g w"
  by (auto simp: writer_turn_def split: list.splits option.splits prod.splits dest: write_keeps [where g = g])

section \<open>The database\<close>

definition writes_table ::
  "('v list \<Rightarrow> 'w \<Rightarrow> attempt \<times> 'w) \<Rightarrow> ('v \<Rightarrow> 'r) \<Rightarrow> ('w \<Rightarrow> kind \<Rightarrow> 'r multiset) \<Rightarrow> kind \<Rightarrow> bool"
where
  "writes_table ins enc tbl k \<longleftrightarrow>
     prompt_writer ins enc (\<lambda>w. tbl w k) \<and> (\<forall>b w j. j \<noteq> k \<longrightarrow> tbl (snd (ins b w)) j = tbl w j)"

lemma writes_table_own: "writes_table ins enc tbl k \<Longrightarrow> prompt_writer ins enc (\<lambda>w. tbl w k)"
  by (simp add: writes_table_def)

lemma writes_table_other: "writes_table ins enc tbl k \<Longrightarrow> j \<noteq> k \<Longrightarrow> tbl (snd (ins b w)) j = tbl w j"
  by (simp add: writes_table_def)

definition tables_ok ::
  "'w DatabaseInterface \<Rightarrow> (PlatformMetric \<Rightarrow> 'r) \<Rightarrow> (InterfaceMetric \<Rightarrow> 'r) \<Rightarrow> (SubinterfaceMetric \<Rightarrow> 'r) \<Rightarrow>
   (AlarmReportMetric \<Rightarrow> 'r) \<Rightarrow> (NotificationReportMetric \<Rightarrow> 'r) \<Rightarrow> ('w \<Rightarrow> kind \<Rightarrow> 'r multiset) \<Rightarrow> bool"
where
  "tables_ok db e1 e2 e3 e4 e5 tbl \<longleftrightarrow>
     writes_table (dbi_Platform db) e1 tbl KPlatform \<and> writes_table (dbi_Interface db) e2 tbl KInterface \<and>
     writes_table (dbi_Subinterface db) e3 tbl KSubinterface \<and>
     writes_table (dbi_AlarmReport db) e4 tbl KAlarmReport \<and>
     writes_table (dbi_NotificationReport db) e5 tbl KNotificationReport"

text \<open>A flush and a turn of a writer of one kind change no other table.\<close>

lemma flush_other_table:
  assumes db: "tables_ok db e1 e2 e3 e4 e5 tbl" and "running_ok bm" and "orders_ok ro" and "j \<noteq> k"
    and "flush_kind db ro k bm w = Some (Ret (err, bm', w'))"
  shows "tbl w' j = tbl w j"
proof -
  have n: "0 < wr_MaxBatchSize (bm_writerConfig bm)" using assms(2) by (simp add: running_ok_def)
  note keep = flush_chunks_keeps [where g = "\<lambda>w. tbl w j"]
  show ?thesis
    using assms(4,5) db
    by (cases k) (auto simp: flush_kind_def flush_eqs [OF n assms(3)] tables_ok_def Let_def
        split: prod.splits dest!: keep intro: writes_table_other)
qed

lemmas writer_defs = platformWriter_def interfaceWriter_def subinterfaceWriter_def alarmReportWriter_def
  notificationReportWriter_def

lemma write_other_table:
  assumes db: "tables_ok db e1 e2 e3 e4 e5 tbl" and "j \<noteq> k" and "write_kind db k bm w = Some (bm', w')"
  shows "tbl w' j = tbl w j"
proof -
  note keep = writer_turn_keeps [where g = "\<lambda>w. tbl w j"]
  show ?thesis
    using assms(2,3) db
    by (cases k) (auto simp: write_kind_def writer_defs tables_ok_def split: option.splits dest!: keep
        intro: writes_table_other)
qed

section \<open>The store of each kind\<close>

definition kind_store ::
  "(FixedBufferManager \<Rightarrow> 'v ShardedMap) \<Rightarrow> (FixedBufferManager \<Rightarrow> 'v list list) \<Rightarrow>
   ('w \<Rightarrow> kind \<Rightarrow> 'r multiset) \<Rightarrow> kind \<Rightarrow> FixedBufferManager \<times> 'w \<Rightarrow> ('v, 'r) store"
where
  "kind_store buf chan tbl k s =
     \<lparr>so_entries = sharded_Get (buf (fst s)), so_queue = chan (fst s), so_table = tbl (snd s) k\<rparr>"

text \<open>Adds, flushes and writers of one kind leave the buffers and channels of the others alone.\<close>

lemma add_other_buffer [simp]:
  "bm_platformBuffer (AddInterfaceMetrics is bm) = bm_platformBuffer bm"
  "bm_platformBuffer (AddSubinterfaceMetrics ss bm) = bm_platformBuffer bm"
  "bm_platformBuffer (AddAlarmReportMetrics as bm) = bm_platformBuffer bm"
  "bm_platformBuffer (AddNotificationReportMetrics ns bm) = bm_platformBuffer bm"
  "bm_interfaceBuffer (AddPlatformMetrics ps bm) = bm_interfaceBuffer bm"
  "bm_interfaceBuffer (AddSubinterfaceMetrics ss bm) = bm_interfaceBuffer bm"
  "bm_interfaceBuffer (AddAlarmReportMetrics as bm) = bm_interfaceBuffer bm"
  "bm_interfaceBuffer (AddNotificationReportMetrics ns bm) = bm_interfaceBuffer bm"
  "bm_subinterfaceBuffer (AddPlatformMetrics ps bm) = bm_subinterfaceBuffer bm"
  "bm_subinterfaceBuffer (AddInterfaceMetrics is bm) = bm_subinterfaceBuffer bm"
  "bm_subinterfaceBuffer (AddAlarmReportMetrics as bm) = bm_subinterfaceBuffer bm"
  "bm_subinterfaceBuffer (AddNotificationReportMetrics ns bm) = bm_subinterfaceBuffer bm"
  "bm_alarmReportBuffer (AddPlatformMetrics ps bm) = bm_alarmReportBuffer bm"
  "bm_alarmReportBuffer (AddInterfaceMetrics is bm) = bm_alarmReportBuffer bm"
  "bm_alarmReportBuffer (AddSubinterfaceMetrics ss bm) = bm_alarmReportBuffer bm"
  "bm_alarmReportBuffer (AddNotificationReportMetrics ns bm) = bm_alarmReportBuffer bm"
  "bm_notificationReportBuffer (AddPlatformMetrics ps bm) = bm_notificationReportBuffer bm"
  "bm_notificationReportBuffer (AddInterfaceMetrics is bm) = bm_notificationReportBuffer bm"
  "bm_notificationReportBuffer (AddSubinterfaceMetrics ss bm) = bm_notificationReportBuffer bm"
  "bm_notificationReportBuffer (AddAlarmReportMetrics as bm) = bm_notificationReportBuffer bm"
  by (simp_all add: add_defs split_beta Let_def)

lemma add_any_chan [simp]:
  "bm_interfaceWriteChan (AddPlatformMetrics ps bm) = bm_interfaceWriteChan bm"
  "bm_interfaceWriteChan (AddInterfaceMetrics is bm) = bm_interfaceWriteChan bm"
  "bm_interfaceWriteChan (AddSubinterfaceMetrics ss bm) = bm_interfaceWriteChan bm"
  "bm_interfaceWriteChan (AddAlarmReportMetrics as bm) = bm_interfaceWriteChan bm"
  "bm_interfaceWriteChan (AddNotificationReportMetrics ns bm) = bm_interfaceWriteChan bm"
  "bm_subinterfaceWriteChan (AddPlatformMetrics ps bm) = bm_subinterfaceWriteChan bm"
  "bm_subinterfaceWriteChan (AddInterfaceMetrics is bm) = bm_subinterfaceWriteChan bm"
  "bm_subinterfaceWriteChan (AddSubinterfaceMetrics ss bm) = bm_subinterfaceWriteChan bm"
  "bm_subinterfaceWriteChan (AddAlarmReportMetrics as bm) = bm_subinterfaceWriteChan bm"
  "bm_subinterfaceWriteChan (AddNotificationReportMetrics ns bm) = bm_subinterfaceWriteChan bm"
  "bm_alarmReportWriteChan (AddPlatformMetrics ps bm) = bm_alarmReportWriteChan bm"
  "bm_alarmReportWriteChan (AddInterfaceMetrics is bm) = bm_alarmReportWriteChan bm"
  "bm_alarmReportWriteChan (AddSubinterfaceMetrics ss bm) = bm_alarmReportWriteChan bm"
  "bm_alarmReportWriteChan (AddAlarmReportMetrics as bm) = bm_alarmReportWriteChan bm"
  "bm_alarmReportWriteChan (AddNotificationReportMetrics ns bm) = bm_alarmReportWriteChan bm"
  "bm_notificationReportWriteChan (AddPlatformMetrics ps bm) = bm_notificationReportWriteChan bm"
  "bm_notificationReportWriteChan (AddInterfaceMetrics is bm) = bm_notificationReportWriteChan bm"
  "bm_notificationReportWriteChan (AddSubinterfaceMetrics ss bm) = bm_notificationReportWriteChan bm"
  "bm_notificationReportWriteChan (AddAlarmReportMetrics as bm) = bm_notificationReportWriteChan bm"
  "bm_notificationReportWriteChan (AddNotificationReportMetrics ns bm) = bm_notificationReportWriteChan bm"
  by (simp_all add: add_defs split_beta Let_def)

text \<open>
  What the view of a kind rests on: its operations use its own buffer, channel and insert, all others
  leave its buffer and channel alone.
\<close>

definition same_part :: "('b \<Rightarrow> 'm) \<Rightarrow> ('b \<Rightarrow> 'c) \<Rightarrow> 'b \<Rightarrow> 'b \<Rightarrow> bool" where
  "same_part buf chan bm bm' \<longleftrightarrow> buf bm' = buf bm \<and> chan bm' = chan bm"

definition add_part ::
  "('v \<Rightarrow> string) \<Rightarrow> ('v \<Rightarrow> 'v \<Rightarrow> 'v) \<Rightarrow> (FixedBufferManager \<Rightarrow> 'v ShardedMap) \<Rightarrow>
   (FixedBufferManager \<Rightarrow> 'v list list) \<Rightarrow> FixedBufferManager \<Rightarrow> FixedBufferManager \<Rightarrow> bool"
where
  "add_part key merge buf chan bm bm' \<longleftrightarrow>
     (\<exists>ms. \<forall>k. sharded_Get (buf bm') k = merged_at key merge k ms (sharded_Get (buf bm) k)) \<and>
     chan bm' = chan bm"

lemma same_partI: "buf bm' = buf bm \<Longrightarrow> chan bm' = chan bm \<Longrightarrow> same_part buf chan bm bm'"
  by (simp add: same_part_def)

lemma same_add_part: "same_part buf chan bm bm' \<Longrightarrow> add_part key merge buf chan bm bm'"
  unfolding add_part_def same_part_def by (intro conjI exI [of _ "[]"]) simp_all

locale stored_kind =
  fixes K :: kind and key :: "'v \<Rightarrow> string" and merge :: "'v \<Rightarrow> 'v \<Rightarrow> 'v"
    and buf :: "FixedBufferManager \<Rightarrow> 'v ShardedMap" and chan :: "FixedBufferManager \<Rightarrow> 'v list list"
    and ins :: "'w DatabaseInterface \<Rightarrow> 'v list \<Rightarrow> 'w \<Rightarrow> attempt \<times> 'w"
  assumes inv: "running_ok bm \<Longrightarrow> sharded_inv (buf bm)"
    and flush_own: "running_ok bm \<Longrightarrow> orders_ok ro \<Longrightarrow>
      flush_kind db ro K bm w = Some (Ret (err, bm', w')) \<Longrightarrow>
      \<exists>ord. range_order ord \<and> buf bm' = emptied (buf bm) \<and>
        flush_chunks (bm_writerConfig bm) (ins db)
          (chunks (nat (wr_MaxBatchSize (bm_writerConfig bm))) (fst (sharded_SwapAll ord (buf bm))))
          (chan bm) w = (err, chan bm', w')"
    and flush_other: "running_ok bm \<Longrightarrow> orders_ok ro \<Longrightarrow> k \<noteq> K \<Longrightarrow>
      flush_kind db ro k bm w = Some (Ret (err, bm', w')) \<Longrightarrow> same_part buf chan bm bm'"
    and write_own: "write_kind db K bm w = Some (bm', w') \<Longrightarrow>
      buf bm' = buf bm \<and>
      (\<exists>err n. writer_turn (bm_writerConfig bm) (ins db) (chan bm) w = Some (err, n, chan bm', w'))"
    and write_other: "k \<noteq> K \<Longrightarrow> write_kind db k bm w = Some (bm', w') \<Longrightarrow> same_part buf chan bm bm'"
    and fields: "same_part buf chan bm (bm\<lparr>bm_stats := st\<rparr>)" "same_part buf chan bm (bm\<lparr>bm_spawned := sp\<rparr>)"
      "same_part buf chan bm (bm\<lparr>bm_stopped := b\<rparr>)" "same_part buf chan bm (bm\<lparr>bm_flushTimer := b\<rparr>)"
      "same_part buf chan bm (bm\<lparr>bm_writers := ws\<rparr>)"
    and add: "running_ok bm \<Longrightarrow> add_part key merge buf chan bm (AddPlatformMetrics ps bm)"
      "running_ok bm \<Longrightarrow> add_part key merge buf chan bm (AddInterfaceMetrics is bm)"
      "running_ok bm \<Longrightarrow> add_part key merge buf chan bm (AddSubinterfaceMetrics ss bm)"
      "running_ok bm \<Longrightarrow> add_part key merge buf chan bm (AddAlarmReportMetrics as bm)"
      "running_ok bm \<Longrightarrow> add_part key merge buf chan bm (AddNotificationReportMetrics ns bm)"
begin

lemma same_store: "same_part buf chan bm bm' \<Longrightarrow> tbl w' K = tbl w K \<Longrightarrow>
    kind_store buf chan tbl K (bm', w') = kind_store buf chan tbl K (bm, w)"
  by (simp add: same_part_def kind_store_def)

lemma add_store:
  assumes "add_part key merge buf chan bm bm'"
  shows "(store_step key merge enc)\<^sup>*\<^sup>* (kind_store buf chan tbl K (bm, w)) (kind_store buf chan tbl K (bm', w))"
proof -
  obtain ms where "sharded_Get (buf bm') = (\<lambda>k. merged_at key merge k ms (sharded_Get (buf bm) k))"
    and "chan bm' = chan bm"
    using assms by (auto simp: add_part_def fun_eq_iff)
  then show ?thesis
    using store_add [of key merge enc "kind_store buf chan tbl K (bm, w)" ms]
    by (simp add: kind_store_def r_into_rtranclp)
qed

text \<open>Background operations, with a database that may refuse or one that accepts everything.\<close>

definition may :: "bool \<Rightarrow> 'w DatabaseInterface \<Rightarrow> FixedBufferManager \<Rightarrow> bool" where
  "may lossy db bm \<longleftrightarrow>
     lossy \<or> (\<forall>b w. fst (ins db b w) = Returned None) \<and> 0 < wr_RetryAttempts (bm_writerConfig bm)"

lemma flush_store:
  assumes db: "tables_ok db e1 e2 e3 e4 e5 tbl" and own: "prompt_writer (ins db) enc (\<lambda>w. tbl w K)"
    and may: "may lossy db bm"
    and ok: "running_ok bm" "orders_ok ro" and fl: "flush_kind db ro k bm w = Some (Ret (err, bm', w'))"
  shows "(store_move lossy enc)\<^sup>*\<^sup>* (kind_store buf chan tbl K (bm, w)) (kind_store buf chan tbl K (bm', w'))"
proof (cases "k = K")
  case True
  obtain ord where ord: "range_order ord" and buf': "buf bm' = emptied (buf bm)"
    and chunks: "flush_chunks (bm_writerConfig bm) (ins db)
      (chunks (nat (wr_MaxBatchSize (bm_writerConfig bm))) (fst (sharded_SwapAll ord (buf bm))))
      (chan bm) w = (err, chan bm', w')"
    using flush_own [OF ok] fl True by blast
  have "lossy \<or> err = None"
    using may always_ok_chunks [where ins = "ins db" and cfg = "bm_writerConfig bm"] chunks
    by (metis may_def fst_conv)
  moreover have "0 < nat (wr_MaxBatchSize (bm_writerConfig bm))" using ok(1) by (simp add: running_ok_def)
  ultimately show ?thesis
    using flush_store_move [OF own inv [OF ok(1)] ord _ chunks]
    by (simp add: kind_store_def buf' r_into_rtranclp)
next
  case False
  then show ?thesis
    using same_store [OF flush_other [OF ok False fl], of tbl w' w] flush_other_table [OF db ok _ fl, of K]
    by simp
qed

lemma write_store:
  assumes db: "tables_ok db e1 e2 e3 e4 e5 tbl" and own: "prompt_writer (ins db) enc (\<lambda>w. tbl w K)"
    and may: "may lossy db bm" and wr: "write_kind db k bm w = Some (bm', w')"
  shows "(store_move lossy enc)\<^sup>*\<^sup>* (kind_store buf chan tbl K (bm, w)) (kind_store buf chan tbl K (bm', w'))"
proof (cases "k = K")
  case True
  then obtain err n where "buf bm' = buf bm"
    and turn: "writer_turn (bm_writerConfig bm) (ins db) (chan bm) w = Some (err, n, chan bm', w')"
    using write_own wr by blast
  moreover have "lossy \<or> err = None"
    using may always_ok_turn [OF _ _ turn] by (auto simp: may_def)
  ultimately show ?thesis
    using write_store_move [OF own turn] by (simp add: kind_store_def r_into_rtranclp)
next
  case False
  then show ?thesis
    using same_store [OF write_other [OF False wr], of tbl w' w] write_other_table [OF db _ wr, of K] by simp
qed

text \<open>The configuration stays, and the store moves.\<close>

definition moves ::
  "bool \<Rightarrow> ('v \<Rightarrow> 'r) \<Rightarrow> 'w DatabaseInterface \<Rightarrow> ('w \<Rightarrow> kind \<Rightarrow> 'r multiset) \<Rightarrow>
   FixedBufferManager \<times> 'w \<Rightarrow> FixedBufferManager \<times> 'w \<Rightarrow> bool"
where
  "moves lossy enc db tbl s s' \<longleftrightarrow>
     bm_writerConfig (fst s') = bm_writerConfig (fst s) \<and>
     (may lossy db (fst s) \<longrightarrow>
        (store_move lossy enc)\<^sup>*\<^sup>* (kind_store buf chan tbl K s) (kind_store buf chan tbl K s'))"

lemma moves_same: "same_part buf chan bm bm' \<Longrightarrow> bm_writerConfig bm' = bm_writerConfig bm \<Longrightarrow>
    moves lossy enc db tbl (bm, w) (bm', w)"
  by (simp add: moves_def same_store)

lemma moves_view:
  assumes "tables_ok db e1 e2 e3 e4 e5 tbl" and "prompt_writer (ins db) enc (\<lambda>w. tbl w K)"
  shows "running_view db (moves lossy enc db tbl)"
proof
  fix bm bm' :: FixedBufferManager and w w' k ro err st sp b ws and s t u :: "FixedBufferManager \<times> 'w"
  let ?Q = "moves lossy enc db tbl"
  show "?Q s s" by (simp add: moves_def)
  show "?Q s u" if "?Q s t" and "?Q t u"
  proof -
    have "may lossy db (fst t) = may lossy db (fst s)" using that(1) by (simp add: moves_def may_def)
    then show ?thesis using that by (auto simp: moves_def)
  qed
  show "?Q (bm, w) (bm', w')"
    if "running_ok bm" and "orders_ok ro" and "flush_kind db ro k bm w = Some (Ret (err, bm', w'))"
    using flush_store [OF assms _ that, of lossy] flush_setup [OF that(3)] by (simp add: moves_def same_setup_def)
  show "?Q (bm, w) (bm', w')" if "running_ok bm" and "write_kind db k bm w = Some (bm', w')"
    using write_store [OF assms _ that(2), of lossy] write_setup [OF that(2)]
    by (simp add: moves_def same_setup_def)
qed (simp_all add: moves_same fields)

lemma view:
  assumes "tables_ok db e1 e2 e3 e4 e5 tbl" and "prompt_writer (ins db) enc (\<lambda>w. tbl w K)"
  shows "manager_view db
    (\<lambda>s s'. (store_step key merge enc)\<^sup>*\<^sup>* (kind_store buf chan tbl K s) (kind_store buf chan tbl K s'))"
proof -
  have may: "may True db bm" for bm by (simp add: may_def)
  show ?thesis
    by unfold_locales
      (auto intro: add_store fields add moves_steps flush_store [OF assms may] write_store [OF assms may]
        simp: same_store [OF fields(1)] same_store [OF fields(2)] same_store [OF fields(3)]
          same_store [OF fields(4)] same_store [OF fields(5)])
qed

end

lemma own_add_part:
  assumes "running_ok bm"
  shows "add_part platform_key mergePlatformMetric bm_platformBuffer bm_platformWriteChan bm (AddPlatformMetrics ms0 bm)"
    and "add_part interface_key mergeInterfaceMetric bm_interfaceBuffer bm_interfaceWriteChan bm (AddInterfaceMetrics ms1 bm)"
    and "add_part subinterface_key mergeSubinterfaceMetric bm_subinterfaceBuffer bm_subinterfaceWriteChan bm (AddSubinterfaceMetrics ms2 bm)"
    and "add_part alarm_key replace bm_alarmReportBuffer bm_alarmReportWriteChan bm (AddAlarmReportMetrics ms3 bm)"
    and "add_part notification_key replace bm_notificationReportBuffer bm_notificationReportWriteChan bm (AddNotificationReportMetrics ms4 bm)"
proof -
  have inv: "bm_inv bm" using assms by (simp add: running_ok_def)
  show "add_part platform_key mergePlatformMetric bm_platformBuffer bm_platformWriteChan bm (AddPlatformMetrics ms0 bm)"
    unfolding add_part_def using AddPlatformMetrics_Get [OF inv] by auto
  show "add_part interface_key mergeInterfaceMetric bm_interfaceBuffer bm_interfaceWriteChan bm (AddInterfaceMetrics ms1 bm)"
    unfolding add_part_def using AddInterfaceMetrics_Get [OF inv] by auto
  show "add_part subinterface_key mergeSubinterfaceMetric bm_subinterfaceBuffer bm_subinterfaceWriteChan bm (AddSubinterfaceMetrics ms2 bm)"
    unfolding add_part_def using AddSubinterfaceMetrics_Get [OF inv] by auto
  show "add_part alarm_key replace bm_alarmReportBuffer bm_alarmReportWriteChan bm (AddAlarmReportMetrics ms3 bm)"
    unfolding add_part_def using AddAlarmReportMetrics_Get [OF inv] by auto
  show "add_part notification_key replace bm_notificationReportBuffer bm_notificationReportWriteChan bm (AddNotificationReportMetrics ms4 bm)"
    unfolding add_part_def using AddNotificationReportMetrics_Get [OF inv] by auto
qed

lemma write_other_part:
  "k \<noteq> KPlatform \<Longrightarrow> write_kind db k bm w = Some (bm', w') \<Longrightarrow>
     same_part bm_platformBuffer bm_platformWriteChan bm bm'"
  "k \<noteq> KInterface \<Longrightarrow> write_kind db k bm w = Some (bm', w') \<Longrightarrow>
     same_part bm_interfaceBuffer bm_interfaceWriteChan bm bm'"
  "k \<noteq> KSubinterface \<Longrightarrow> write_kind db k bm w = Some (bm', w') \<Longrightarrow>
     same_part bm_subinterfaceBuffer bm_subinterfaceWriteChan bm bm'"
  "k \<noteq> KAlarmReport \<Longrightarrow> write_kind db k bm w = Some (bm', w') \<Longrightarrow>
     same_part bm_alarmReportBuffer bm_alarmReportWriteChan bm bm'"
  "k \<noteq> KNotificationReport \<Longrightarrow> write_kind db k bm w = Some (bm', w') \<Longrightarrow>
     same_part bm_notificationReportBuffer bm_notificationReportWriteChan bm bm'"
  by (cases k; auto simp: same_part_def write_kind_def writer_defs split: option.splits)+

lemmas part_defs = same_part_def flush_kind_def write_kind_def writer_defs flush_eqs running_ok_def bm_inv_def
  Let_def

interpretation platform_stored: stored_kind KPlatform platform_key mergePlatformMetric
  bm_platformBuffer bm_platformWriteChan dbi_Platform
proof
  fix bm bm' :: FixedBufferManager and db :: "'w DatabaseInterface" and ro k w w' err
  assume ok: "running_ok bm"
  show "sharded_inv (bm_platformBuffer bm)" using ok by (auto simp: running_ok_def bm_inv_def)
  show "\<exists>ord. range_order ord \<and> bm_platformBuffer bm' = emptied (bm_platformBuffer bm) \<and>
      flush_chunks (bm_writerConfig bm) (dbi_Platform db)
        (chunks (nat (wr_MaxBatchSize (bm_writerConfig bm))) (fst (sharded_SwapAll ord (bm_platformBuffer bm))))
        (bm_platformWriteChan bm) w = (err, bm_platformWriteChan bm', w')"
    if "orders_ok ro" and "flush_kind db ro KPlatform bm w = Some (Ret (err, bm', w'))"
    using that ok by (intro exI [of _ "ro_Platform ro"]) (auto simp: part_defs orders_ok_def split: prod.splits)
  show "same_part bm_platformBuffer bm_platformWriteChan bm bm'"
    if "orders_ok ro" and "k \<noteq> KPlatform" and "flush_kind db ro k bm w = Some (Ret (err, bm', w'))"
    using that ok by (cases k) (auto simp: part_defs split: prod.splits)
qed (auto intro: same_partI own_add_part write_other_part
    simp: write_kind_def writer_defs split: option.splits, (rule same_add_part, simp add: same_part_def)+)

interpretation interface_stored: stored_kind KInterface interface_key mergeInterfaceMetric
  bm_interfaceBuffer bm_interfaceWriteChan dbi_Interface
proof
  fix bm bm' :: FixedBufferManager and db :: "'w DatabaseInterface" and ro k w w' err
  assume ok: "running_ok bm"
  show "sharded_inv (bm_interfaceBuffer bm)" using ok by (auto simp: running_ok_def bm_inv_def)
  show "\<exists>ord. range_order ord \<and> bm_interfaceBuffer bm' = emptied (bm_interfaceBuffer bm) \<and>
      flush_chunks (bm_writerConfig bm) (dbi_Interface db)
        (chunks (nat (wr_MaxBatchSize (bm_writerConfig bm))) (fst (sharded_SwapAll ord (bm_interfaceBuffer bm))))
        (bm_interfaceWriteChan bm) w = (err, bm_interfaceWriteChan bm', w')"
    if "orders_ok ro" and "flush_kind db ro KInterface bm w = Some (Ret (err, bm', w'))"
    using that ok by (intro exI [of _ "ro_Interface ro"]) (auto simp: part_defs orders_ok_def split: prod.splits)
  show "same_part bm_interfaceBuffer bm_interfaceWriteChan bm bm'"
    if "orders_ok ro" and "k \<noteq> KInterface" and "flush_kind db ro k bm w = Some (Ret (err, bm', w'))"
    using that ok by (cases k) (auto simp: part_defs split: prod.splits)
qed (auto intro: same_partI own_add_part write_other_part
    simp: write_kind_def writer_defs split: option.splits, (rule same_add_part, simp add: same_part_def)+)

interpretation subinterface_stored: stored_kind KSubinterface subinterface_key mergeSubinterfaceMetric
  bm_subinterfaceBuffer bm_subinterfaceWriteChan dbi_Subinterface
proof
  fix bm bm' :: FixedBufferManager and db :: "'w DatabaseInterface" and ro k w w' err
  assume ok: "running_ok bm"
  show "sharded_inv (bm_subinterfaceBuffer bm)" using ok by (auto simp: running_ok_def bm_inv_def)
  show "\<exists>ord. range_order ord \<and> bm_subinterfaceBuffer bm' = emptied (bm_subinterfaceBuffer bm) \<and>
      flush_chunks (bm_writerConfig bm) (dbi_Subinterface db)
        (chunks (nat (wr_MaxBatchSize (bm_writerConfig bm))) (fst (sharded_SwapAll ord (bm_subinterfaceBuffer bm))))
        (bm_subinterfaceWriteChan bm) w = (err, bm_subinterfaceWriteChan bm', w')"
    if "orders_ok ro" and "flush_kind db ro KSubinterface bm w = Some (Ret (err, bm', w'))"
    using that ok by (intro exI [of _ "ro_Subinterface ro"]) (auto simp: part_defs orders_ok_def split: prod.splits)
  show "same_part bm_subinterfaceBuffer bm_subinterfaceWriteChan bm bm'"
    if "orders_ok ro" and "k \<noteq> KSubinterface" and "flush_kind db ro k bm w = Some (Ret (err, bm', w'))"
    using that ok by (cases k) (auto simp: part_defs split: prod.splits)
qed (auto intro: same_partI own_add_part write_other_part
    simp: write_kind_def writer_defs split: option.splits, (rule same_add_part, simp add: same_part_def)+)

interpretation alarmReport_stored: stored_kind KAlarmReport alarm_key replace
  bm_alarmReportBuffer bm_alarmReportWriteChan dbi_AlarmReport
proof
  fix bm bm' :: FixedBufferManager and db :: "'w DatabaseInterface" and ro k w w' err
  assume ok: "running_ok bm"
  show "sharded_inv (bm_alarmReportBuffer bm)" using ok by (auto simp: running_ok_def bm_inv_def)
  show "\<exists>ord. range_order ord \<and> bm_alarmReportBuffer bm' = emptied (bm_alarmReportBuffer bm) \<and>
      flush_chunks (bm_writerConfig bm) (dbi_AlarmReport db)
        (chunks (nat (wr_MaxBatchSize (bm_writerConfig bm))) (fst (sharded_SwapAll ord (bm_alarmReportBuffer bm))))
        (bm_alarmReportWriteChan bm) w = (err, bm_alarmReportWriteChan bm', w')"
    if "orders_ok ro" and "flush_kind db ro KAlarmReport bm w = Some (Ret (err, bm', w'))"
    using that ok by (intro exI [of _ "ro_AlarmReport ro"]) (auto simp: part_defs orders_ok_def split: prod.splits)
  show "same_part bm_alarmReportBuffer bm_alarmReportWriteChan bm bm'"
    if "orders_ok ro" and "k \<noteq> KAlarmReport" and "flush_kind db ro k bm w = Some (Ret (err, bm', w'))"
    using that ok by (cases k) (auto simp: part_defs split: prod.splits)
qed (auto intro: same_partI own_add_part write_other_part
    simp: write_kind_def writer_defs split: option.splits, (rule same_add_part, simp add: same_part_def)+)

interpretation notificationReport_stored: stored_kind KNotificationReport notification_key replace
  bm_notificationReportBuffer bm_notificationReportWriteChan dbi_NotificationReport
proof
  fix bm bm' :: FixedBufferManager and db :: "'w DatabaseInterface" and ro k w w' err
  assume ok: "running_ok bm"
  show "sharded_inv (bm_notificationReportBuffer bm)" using ok by (auto simp: running_ok_def bm_inv_def)
  show "\<exists>ord. range_order ord \<and> bm_notificationReportBuffer bm' = emptied (bm_notificationReportBuffer bm) \<and>
      flush_chunks (bm_writerConfig bm) (dbi_NotificationReport db)
        (chunks (nat (wr_MaxBatchSize (bm_writerConfig bm))) (fst (sharded_SwapAll ord (bm_notificationReportBuffer bm))))
        (bm_notificationReportWriteChan bm) w = (err, bm_notificationReportWriteChan bm', w')"
    if "orders_ok ro" and "flush_kind db ro KNotificationReport bm w = Some (Ret (err, bm', w'))"
    using that ok by (intro exI [of _ "ro_NotificationReport ro"]) (auto simp: part_defs orders_ok_def split: prod.splits)
  show "same_part bm_notificationReportBuffer bm_notificationReportWriteChan bm bm'"
    if "orders_ok ro" and "k \<noteq> KNotificationReport" and "flush_kind db ro k bm w = Some (Ret (err, bm', w'))"
    using that ok by (cases k) (auto simp: part_defs split: prod.splits)
qed (auto intro: same_partI own_add_part write_other_part
    simp: write_kind_def writer_defs split: option.splits, (rule same_add_part, simp add: same_part_def)+)

end
