(* ===== verification/Buffer_Liveness.thy ===== *)
theory Buffer_Liveness
  imports Buffer_Store
begin

text \<open>
  What a running manager can always reach: one tick of its timer empties the buffers, then the writers
  work their channels off (\<open>drain_channels\<close>), and if the database accepts every batch in time, the tables
  end with every row the manager was responsible for (\<open>reaches_tables\<close>).
\<close>

section \<open>Working off the channels\<close>

definition chan_len :: "kind \<Rightarrow> FixedBufferManager \<Rightarrow> nat" where
  "chan_len k bm =
     (case k of
        KPlatform \<Rightarrow> length (bm_platformWriteChan bm)
      | KInterface \<Rightarrow> length (bm_interfaceWriteChan bm)
      | KSubinterface \<Rightarrow> length (bm_subinterfaceWriteChan bm)
      | KAlarmReport \<Rightarrow> length (bm_alarmReportWriteChan bm)
      | KNotificationReport \<Rightarrow> length (bm_notificationReportWriteChan bm))"

lemma writer_turn_takes:
  "ch \<noteq> [] \<Longrightarrow> \<exists>err n w'. writer_turn cfg ins ch w = Some (err, n, tl ch, w')"
  by (cases ch) (auto simp: writer_turn_def split: prod.split option.split)

lemma write_kind_takes:
  assumes "0 < chan_len k bm"
  shows "\<exists>bm' w'. write_kind db k bm w = Some (bm', w') \<and>
           (\<forall>j. chan_len j bm' = (if j = k then chan_len k bm - 1 else chan_len j bm)) \<and>
           (\<forall>j. kind_len j bm' = kind_len j bm)"
proof -
  have ne: "(case k of KPlatform \<Rightarrow> bm_platformWriteChan bm \<noteq> [] | KInterface \<Rightarrow> bm_interfaceWriteChan bm \<noteq> []
      | KSubinterface \<Rightarrow> bm_subinterfaceWriteChan bm \<noteq> [] | KAlarmReport \<Rightarrow> bm_alarmReportWriteChan bm \<noteq> []
      | KNotificationReport \<Rightarrow> bm_notificationReportWriteChan bm \<noteq> [])"
    using assms by (cases k) (simp_all add: chan_len_def)
  show ?thesis
    using ne writer_turn_takes [of "bm_platformWriteChan bm" "bm_writerConfig bm" "dbi_Platform db" w]
      writer_turn_takes [of "bm_interfaceWriteChan bm" "bm_writerConfig bm" "dbi_Interface db" w]
      writer_turn_takes [of "bm_subinterfaceWriteChan bm" "bm_writerConfig bm" "dbi_Subinterface db" w]
      writer_turn_takes [of "bm_alarmReportWriteChan bm" "bm_writerConfig bm" "dbi_AlarmReport db" w]
      writer_turn_takes [of "bm_notificationReportWriteChan bm" "bm_writerConfig bm" "dbi_NotificationReport db" w]
    by (cases k) (auto simp: write_kind_def writer_defs chan_len_def kind_len_def split: kind.split)
qed

definition waiting :: "FixedBufferManager \<Rightarrow> nat" where
  "waiting bm = (\<Sum>k \<in> UNIV. chan_len k bm)"

lemma waiting_takes:
  assumes "\<forall>j. chan_len j bm' = (if j = k then chan_len k bm - 1 else chan_len j bm)" and "0 < chan_len k bm"
  shows "waiting bm' < waiting bm"
  unfolding waiting_def
  by (rule sum_strict_mono_ex1) (use assms in auto)

lemma drain_channels:
  "running_ok bm \<Longrightarrow> \<forall>k. 0 < bm_writers bm k \<Longrightarrow>
   \<exists>bm' w'. background_run db (bm, w) (bm', w') \<and> (\<forall>k. chan_len k bm' = 0) \<and>
     (\<forall>k. kind_len k bm' = kind_len k bm)"
proof (induction "waiting bm" arbitrary: bm w rule: less_induct)
  case less
  show ?case
  proof (cases "\<exists>k. 0 < chan_len k bm")
    case False
    then show ?thesis by (intro exI [of _ bm] exI [of _ w]) simp
  next
    case True
    then obtain k where k: "0 < chan_len k bm" by blast
    obtain bm1 w1 where wr: "write_kind db k bm w = Some (bm1, w1)"
      and ch: "\<forall>j. chan_len j bm1 = (if j = k then chan_len k bm - 1 else chan_len j bm)"
      and len: "\<forall>j. kind_len j bm1 = kind_len j bm"
      using write_kind_takes [OF k, of db w] by blast
    have step: "background db (bm, w) (bm1, w1)" by (rule bg_written [OF spec [OF less.prems(2)] wr])
    have "running_ok bm1" by (rule write_kind_running [OF wr less.prems(1)])
    moreover have "\<forall>k. 0 < bm_writers bm1 k" using write_setup [OF wr] less.prems(2) by (simp add: same_setup_def)
    ultimately obtain bm' w' where "background_run db (bm1, w1) (bm', w')"
      and "\<forall>k. chan_len k bm' = 0" and "\<forall>k. kind_len k bm' = kind_len k bm1"
      using less.hyps [OF waiting_takes [OF ch k]] by blast
    then show ?thesis using converse_rtranclp_into_rtranclp [of "background db", OF step] len by metis
  qed
qed

section \<open>Several relations at once\<close>

lemma running_view_conj:
  assumes "running_view db Q" and "running_view db R"
  shows "running_view db (\<lambda>s s'. Q s s' \<and> R s s')"
proof (intro running_view.intro flush_view.intro running_view_axioms.intro)
  note q = running_view.axioms(1) [OF assms(1)] and r = running_view.axioms(1) [OF assms(2)]
  fix bm bm' :: FixedBufferManager and w w' k ro err st s t u
  show "Q s s \<and> R s s" by (simp add: flush_view.same [OF q] flush_view.same [OF r])
  show "Q s u \<and> R s u" if "Q s t \<and> R s t" and "Q t u \<and> R t u"
    using that flush_view.trans [OF q] flush_view.trans [OF r] by blast
  show "Q (bm, w) (bm\<lparr>bm_stats := st\<rparr>, w) \<and> R (bm, w) (bm\<lparr>bm_stats := st\<rparr>, w)"
    by (simp add: flush_view.stats [OF q] flush_view.stats [OF r])
  show "Q (bm, w) (bm', w') \<and> R (bm, w) (bm', w')"
    if "running_ok bm" and "orders_ok ro" and "flush_kind db ro k bm w = Some (Ret (err, bm', w'))"
    using flush_view.flush [OF q that] flush_view.flush [OF r that] by simp
  show "Q (bm, w) (bm', w') \<and> R (bm, w) (bm', w')"
    if "running_ok bm" and "write_kind db k bm w = Some (bm', w')"
    using running_view.worked [OF assms(1) that] running_view.worked [OF assms(2) that] by simp
qed (simp_all add: running_view.goroutines [OF assms(1)] running_view.goroutines [OF assms(2)])

section \<open>A database that accepts every batch\<close>

definition accepting :: "'w DatabaseInterface \<Rightarrow> bool" where
  "accepting db \<longleftrightarrow>
     (\<forall>b w. fst (dbi_Platform db b w) = Returned None) \<and> (\<forall>b w. fst (dbi_Interface db b w) = Returned None) \<and>
     (\<forall>b w. fst (dbi_Subinterface db b w) = Returned None) \<and>
     (\<forall>b w. fst (dbi_AlarmReport db b w) = Returned None) \<and>
     (\<forall>b w. fst (dbi_NotificationReport db b w) = Returned None)"

section \<open>Everything arrives\<close>

lemma no_entries:
  assumes "sharded_inv m" and "sharded_Len m = 0"
  shows "sharded_Get m = Map.empty"
proof -
  have "dom (sharded_Get m) = {}"
    using sharded.len_look [OF assms(1)] sharded.finite_look [OF assms(1)] assms(2) by simp
  then show ?thesis by simp
qed

text \<open>Where buffers and channels are empty, a store is its table.\<close>

lemma empty_stores:
  assumes "running_ok bm" and "\<forall>k. chan_len k bm = 0" and "\<forall>k. kind_len k bm = 0"
  shows "kind_store bm_platformBuffer bm_platformWriteChan tbl KPlatform (bm, w) =
      \<lparr>so_entries = Map.empty, so_queue = [], so_table = tbl w KPlatform\<rparr>"
    and "kind_store bm_interfaceBuffer bm_interfaceWriteChan tbl KInterface (bm, w) =
      \<lparr>so_entries = Map.empty, so_queue = [], so_table = tbl w KInterface\<rparr>"
    and "kind_store bm_subinterfaceBuffer bm_subinterfaceWriteChan tbl KSubinterface (bm, w) =
      \<lparr>so_entries = Map.empty, so_queue = [], so_table = tbl w KSubinterface\<rparr>"
    and "kind_store bm_alarmReportBuffer bm_alarmReportWriteChan tbl KAlarmReport (bm, w) =
      \<lparr>so_entries = Map.empty, so_queue = [], so_table = tbl w KAlarmReport\<rparr>"
    and "kind_store bm_notificationReportBuffer bm_notificationReportWriteChan tbl KNotificationReport (bm, w) =
      \<lparr>so_entries = Map.empty, so_queue = [], so_table = tbl w KNotificationReport\<rparr>"
proof -
  note inv = platform_stored.inv [OF assms(1)]
    interface_stored.inv [OF assms(1)]
    subinterface_stored.inv [OF assms(1)]
    alarmReport_stored.inv [OF assms(1)]
    notificationReport_stored.inv [OF assms(1)]
  show "kind_store bm_platformBuffer bm_platformWriteChan tbl KPlatform (bm, w) =
      \<lparr>so_entries = Map.empty, so_queue = [], so_table = tbl w KPlatform\<rparr>"
    using spec [OF assms(2), of KPlatform] spec [OF assms(3), of KPlatform] no_entries [OF inv(1)]
    by (simp add: kind_store_def chan_len_def kind_len_def typed_maps)
  show "kind_store bm_interfaceBuffer bm_interfaceWriteChan tbl KInterface (bm, w) =
      \<lparr>so_entries = Map.empty, so_queue = [], so_table = tbl w KInterface\<rparr>"
    using spec [OF assms(2), of KInterface] spec [OF assms(3), of KInterface] no_entries [OF inv(2)]
    by (simp add: kind_store_def chan_len_def kind_len_def typed_maps)
  show "kind_store bm_subinterfaceBuffer bm_subinterfaceWriteChan tbl KSubinterface (bm, w) =
      \<lparr>so_entries = Map.empty, so_queue = [], so_table = tbl w KSubinterface\<rparr>"
    using spec [OF assms(2), of KSubinterface] spec [OF assms(3), of KSubinterface] no_entries [OF inv(3)]
    by (simp add: kind_store_def chan_len_def kind_len_def typed_maps)
  show "kind_store bm_alarmReportBuffer bm_alarmReportWriteChan tbl KAlarmReport (bm, w) =
      \<lparr>so_entries = Map.empty, so_queue = [], so_table = tbl w KAlarmReport\<rparr>"
    using spec [OF assms(2), of KAlarmReport] spec [OF assms(3), of KAlarmReport] no_entries [OF inv(4)]
    by (simp add: kind_store_def chan_len_def kind_len_def typed_maps)
  show "kind_store bm_notificationReportBuffer bm_notificationReportWriteChan tbl KNotificationReport (bm, w) =
      \<lparr>so_entries = Map.empty, so_queue = [], so_table = tbl w KNotificationReport\<rparr>"
    using spec [OF assms(2), of KNotificationReport] spec [OF assms(3), of KNotificationReport] no_entries [OF inv(5)]
    by (simp add: kind_store_def chan_len_def kind_len_def typed_maps)
qed

lemma so_total_empty: "so_total e \<lparr>so_entries = Map.empty, so_queue = [], so_table = t\<rparr> = t"
  by (simp add: so_total_def)

text \<open>The relation of the five kinds, for a database that accepts every batch.\<close>

definition all_move ::
  "(PlatformMetric \<Rightarrow> 'r) \<Rightarrow> (InterfaceMetric \<Rightarrow> 'r) \<Rightarrow> (SubinterfaceMetric \<Rightarrow> 'r) \<Rightarrow> (AlarmReportMetric \<Rightarrow> 'r) \<Rightarrow>
   (NotificationReportMetric \<Rightarrow> 'r) \<Rightarrow> 'w DatabaseInterface \<Rightarrow> ('w \<Rightarrow> kind \<Rightarrow> 'r multiset) \<Rightarrow> bool \<Rightarrow>
   FixedBufferManager \<times> 'w \<Rightarrow> FixedBufferManager \<times> 'w \<Rightarrow> bool"
where
  "all_move e1 e2 e3 e4 e5 db tbl lossy s s' \<longleftrightarrow>
     platform_stored.moves lossy e1 db tbl s s' \<and>
     interface_stored.moves lossy e2 db tbl s s' \<and>
     subinterface_stored.moves lossy e3 db tbl s s' \<and>
     alarmReport_stored.moves lossy e4 db tbl s s' \<and>
     notificationReport_stored.moves lossy e5 db tbl s s'"

lemma all_move_view:
  assumes db: "tables_ok db e1 e2 e3 e4 e5 tbl"
  shows "running_view db (all_move e1 e2 e3 e4 e5 db tbl lossy)"
  unfolding all_move_def
  by (intro running_view_conj platform_stored.moves_view [OF db]
      interface_stored.moves_view [OF db]
      subinterface_stored.moves_view [OF db]
      alarmReport_stored.moves_view [OF db]
      notificationReport_stored.moves_view [OF db])
    (use db writes_table_own in \<open>auto simp: tables_ok_def\<close>)

text \<open>What the background does to the books of each kind.\<close>

lemma all_move_total:
  assumes "all_move e1 e2 e3 e4 e5 db tbl False s s'" and "accepting db"
    and "0 < wr_RetryAttempts (bm_writerConfig (fst s))"
  shows "so_total e1 (kind_store bm_platformBuffer bm_platformWriteChan tbl KPlatform s') = so_total e1 (kind_store bm_platformBuffer bm_platformWriteChan tbl KPlatform s)"
    and "so_total e2 (kind_store bm_interfaceBuffer bm_interfaceWriteChan tbl KInterface s') = so_total e2 (kind_store bm_interfaceBuffer bm_interfaceWriteChan tbl KInterface s)"
    and "so_total e3 (kind_store bm_subinterfaceBuffer bm_subinterfaceWriteChan tbl KSubinterface s') = so_total e3 (kind_store bm_subinterfaceBuffer bm_subinterfaceWriteChan tbl KSubinterface s)"
    and "so_total e4 (kind_store bm_alarmReportBuffer bm_alarmReportWriteChan tbl KAlarmReport s') = so_total e4 (kind_store bm_alarmReportBuffer bm_alarmReportWriteChan tbl KAlarmReport s)"
    and "so_total e5 (kind_store bm_notificationReportBuffer bm_notificationReportWriteChan tbl KNotificationReport s') = so_total e5 (kind_store bm_notificationReportBuffer bm_notificationReportWriteChan tbl KNotificationReport s)"
  using assms
  by (auto simp: all_move_def platform_stored.moves_def platform_stored.may_def
      interface_stored.moves_def interface_stored.may_def
      subinterface_stored.moves_def subinterface_stored.may_def
      alarmReport_stored.moves_def alarmReport_stored.may_def
      notificationReport_stored.moves_def notificationReport_stored.may_def
      accepting_def moves_total)

lemma reaches_tables:
  assumes ok: "running_ok bm" and timer: "bm_flushTimer bm" and writers: "\<forall>k. 0 < bm_writers bm k"
    and pos: "0 < wr_RetryAttempts (bm_writerConfig bm)"
    and db: "tables_ok db e1 e2 e3 e4 e5 tbl" and acc: "accepting db"
  shows "\<exists>bm' w'. background_run db (bm, w) (bm', w') \<and>
    (\<forall>k. chan_len k bm' = 0) \<and> (\<forall>k. kind_len k bm' = 0) \<and>
    tbl w' KPlatform = so_total e1 (kind_store bm_platformBuffer bm_platformWriteChan tbl KPlatform (bm, w)) \<and>
    tbl w' KInterface = so_total e2 (kind_store bm_interfaceBuffer bm_interfaceWriteChan tbl KInterface (bm, w)) \<and>
    tbl w' KSubinterface = so_total e3 (kind_store bm_subinterfaceBuffer bm_subinterfaceWriteChan tbl KSubinterface (bm, w)) \<and>
    tbl w' KAlarmReport = so_total e4 (kind_store bm_alarmReportBuffer bm_alarmReportWriteChan tbl KAlarmReport (bm, w)) \<and>
    tbl w' KNotificationReport = so_total e5 (kind_store bm_notificationReportBuffer bm_notificationReportWriteChan tbl KNotificationReport (bm, w))"
proof -
  let ?Q = "all_move e1 e2 e3 e4 e5 db tbl False"
  note rv = all_move_view [OF db, of False]
  have n: "0 < wr_MaxBatchSize (bm_writerConfig bm)" using ok by (simp add: running_ok_def)
  have ro: "orders_ok plain_orders" by (simp add: orders_ok_def plain_orders_def)
  obtain errs bm1 w1 where fl: "run_flushes db plain_orders all_kinds [] bm w = Some (Ret (errs, bm1, w1))"
    and len: "\<forall>j. kind_len j bm1 = 0"
    using run_flushes_len [OF n ro, of db all_kinds "[]" w] by (auto simp: all_kinds_UNIV)
  obtain err st where fa: "FlushAll db plain_orders all_kinds zero_time zero_time bm w =
      Some (Ret (err, bm1\<lparr>bm_stats := st\<rparr>, w1))"
    by (simp add: FlushAll_def fl Let_def)
  let ?bm = "bm1\<lparr>bm_stats := st\<rparr>"
  have tick: "background db (bm, w) (?bm, w1)" by (rule bg_ticked [OF timer ro fa])
  have ok1: "running_ok ?bm" by (rule FlushAll_running [OF fa ro ok])
  have wr1: "\<forall>k. 0 < bm_writers ?bm k" using FlushAll_setup [OF fa] writers by (simp add: same_setup_def)
  obtain bm' w' where run: "background_run db (?bm, w1) (bm', w')"
    and ch: "\<forall>k. chan_len k bm' = 0" and len': "\<forall>k. kind_len k bm' = kind_len k ?bm"
    using drain_channels [OF ok1 wr1, of db w1] by blast
  have all: "background_run db (bm, w) (bm', w')" using tick run by (rule converse_rtranclp_into_rtranclp)
  have ok': "running_ok bm'" using background_run_running [OF all] ok by simp
  have empty: "\<forall>k. kind_len k bm' = 0"
    using len' len by (simp add: kind_len_def split: kind.splits)
  have "?Q (bm, w) (bm', w')" using running_view.background_run_Q [OF rv all] ok by simp
  then have tot: "all_move e1 e2 e3 e4 e5 db tbl False (bm, w) (bm', w')" by simp
  note tot = all_move_total [OF tot acc, unfolded fst_conv, OF pos]
  show ?thesis
    by (intro exI [of _ bm'] exI [of _ w'] conjI all ch empty)
      (simp_all only: tot [symmetric] empty_stores [OF ok' ch empty] so_total_empty)
qed

end
