(* ===== verification/Buffer_Concurrency.thy ===== *)
theory Buffer_Concurrency
  imports Buffer_Merge
begin

text \<open>
  Goroutines on one buffer.  The adding methods hold the lock of one shard for one metric and a
  drain (\<^verbatim>\<open>SwapAll\<close>) holds the lock of one shard at a time, so adds may run between the steps of a
  drain.  The state is the buffer, the collisions counted so far and what each goroutine has
  left; a step is one critical section of one of them.

  Whatever the interleaving, the buffer stays well formed, no metric is lost and none is merged
  twice: \<open>conc_weight\<close> for any measure that adds up under a merge and \<open>conc_count\<close> for the
  counters.  The merged metrics are traced by tagging each one with itself (\<open>traced\<close>).
\<close>

section \<open>Steps\<close>

text \<open>The body of the loop of \<^verbatim>\<open>AddPlatformMetrics\<close> (and of its siblings), under the lock of the shard.\<close>

definition add_one ::
  "('v \<Rightarrow> string) \<Rightarrow> ('v \<Rightarrow> 'v \<Rightarrow> 'v) \<Rightarrow> 'v \<Rightarrow> 'v ShardedMap \<Rightarrow> nat \<Rightarrow> 'v ShardedMap \<times> nat"
where
  "add_one key merge metric m collisions =
     (case sharded_Get m (key metric) of
        Some existing \<Rightarrow> (sharded_Set (key metric) (merge existing metric) m, Suc collisions)
      | None \<Rightarrow> (sharded_Set (key metric) metric m, collisions))"

text \<open>The body of the loop of \<^verbatim>\<open>SwapAll\<close> on shard \<open>j\<close>: what is left when it unlocks.\<close>

definition clear_shard :: "nat \<Rightarrow> 'v ShardedMap \<Rightarrow> 'v ShardedMap" where
  "clear_shard j m = m\<lparr>shards := (shards m)[j := (shards m ! j)\<lparr>items := []\<rparr>]\<rparr>"

text \<open>
  A goroutine that adds the rest of a batch, or one that drains: at shard \<open>j\<close> with the result so far.
\<close>

datatype 'v goroutine = Adder "'v list" | Drainer nat "'v list"

type_synonym 'v conc = "'v ShardedMap \<times> nat \<times> 'v goroutine list"

inductive cstep :: "('v \<Rightarrow> string) \<Rightarrow> ('v \<Rightarrow> 'v \<Rightarrow> 'v) \<Rightarrow> 'v conc \<Rightarrow> 'v conc \<Rightarrow> bool"
  for key :: "'v \<Rightarrow> string" and merge :: "'v \<Rightarrow> 'v \<Rightarrow> 'v"
where
  add: "i < length gs \<Longrightarrow> gs ! i = Adder (x # xs) \<Longrightarrow> add_one key merge x m c = (m', c') \<Longrightarrow>
        cstep key merge (m, c, gs) (m', c', gs[i := Adder xs])"
| drain: "i < length gs \<Longrightarrow> gs ! i = Drainer j result \<Longrightarrow> j < length (shards m) \<Longrightarrow>
        mset ys = mset (items (shards m ! j)) \<Longrightarrow>
        cstep key merge (m, c, gs) (clear_shard j m, c, gs[i := Drainer (Suc j) (result @ map snd ys)])"

inductive_cases cstepE: "cstep key merge (m, c, gs) s'"

inductive creach :: "('v \<Rightarrow> string) \<Rightarrow> ('v \<Rightarrow> 'v \<Rightarrow> 'v) \<Rightarrow> 'v conc \<Rightarrow> 'v conc \<Rightarrow> bool"
  for key :: "'v \<Rightarrow> string" and merge :: "'v \<Rightarrow> 'v \<Rightarrow> 'v" and s :: "'v conc"
where
  refl: "creach key merge s s"
| step: "creach key merge s s' \<Longrightarrow> cstep key merge s' s'' \<Longrightarrow> creach key merge s s''"

text \<open>A drain that is not interrupted is \<open>sharded_SwapAll\<close>: see \<open>drain_alone\<close> below.\<close>

section \<open>One critical section\<close>

lemma add_one_inv: "sharded_inv m \<Longrightarrow> sharded_inv (fst (add_one key merge x m c))"
  by (auto simp: add_one_def split: option.split)

lemma nth_clear_shard:
  "i < length (shards m) \<Longrightarrow>
   shards (clear_shard j m) ! i = (if i = j then (shards m ! j)\<lparr>items := []\<rparr> else shards m ! i)"
  by (simp add: clear_shard_def)

lemma clear_shard_simps [simp]:
  "length (shards (clear_shard j m)) = length (shards m)" "shardMask (clear_shard j m) = shardMask m"
  by (simp_all add: clear_shard_def)

lemma clear_shard_inv: "sharded_inv m \<Longrightarrow> sharded_inv (clear_shard j m)"
  by (force simp: sharded_inv_def shard_ok_def nth_clear_shard shard_index_def)

text \<open>The values in the buffer, as a multiset.\<close>

definition buffered :: "'v ShardedMap \<Rightarrow> 'v multiset" where
  "buffered m = mset (map snd (all_items m))"

lemma buffered_map_values: "sharded_inv m \<Longrightarrow> buffered m = map_values (sharded_Get m)"
  using map_values_map_of [OF all_items_facts(1)] all_items_facts(2)
  by (metis abs_map_def buffered_def ext)

lemma buffered_Set_None:
  assumes "sharded_inv m" and "sharded_Get m k = None"
  shows "buffered (sharded_Set k v m) = add_mset v (buffered m)"
  using assms map_values_insert [OF sharded.finite_look [OF assms(1)] assms(2)]
  by (simp add: buffered_map_values sharded.look_put)

lemma buffered_Set_Some:
  assumes "sharded_inv m" and "sharded_Get m k = Some e"
  shows "add_mset e (buffered (sharded_Set k v m)) = add_mset v (buffered m)"
proof -
  let ?f = "sharded_Get m"
  let ?g = "?f(k := None)"
  have fin: "finite (dom ?g)" using sharded.finite_look [OF assms(1)] by simp
  have "?f = ?g(k \<mapsto> e)" using assms(2) by auto
  then have "map_values ?f = add_mset e (map_values ?g)"
    using map_values_insert [OF fin, of k e] by simp
  moreover have "map_values (?f(k \<mapsto> v)) = add_mset v (map_values ?g)"
    using map_values_insert [OF fin, of k v] by simp
  ultimately show ?thesis
    using assms(1) by (simp add: buffered_map_values sharded.look_put)
qed

lemma buffered_clear_shard:
  assumes "j < length (shards m)"
  shows "buffered (clear_shard j m) + mset (map snd (items (shards m ! j))) = buffered m"
proof -
  let ?f = "\<lambda>s. map snd (items s)"
  have map_concat: "map snd (all_items m) = concat (map ?f (shards m))" for m :: "'a ShardedMap"
    by (simp add: all_items_def map_concat comp_def)
  show ?thesis
    using concat_update_mset [OF assms, of ?f "(shards m ! j)\<lparr>items := []\<rparr>"]
    by (simp only: buffered_def map_concat) (simp add: clear_shard_def)
qed

section \<open>Nothing is lost\<close>

definition todo :: "'v goroutine \<Rightarrow> 'v multiset" where
  "todo g = (case g of Adder xs \<Rightarrow> mset xs | Drainer _ _ \<Rightarrow> {#})"

definition drained :: "'v goroutine \<Rightarrow> 'v multiset" where
  "drained g = (case g of Adder _ \<Rightarrow> {#} | Drainer _ result \<Rightarrow> mset result)"

definition all_todo :: "'v goroutine list \<Rightarrow> 'v multiset" where
  "all_todo gs = sum_list (map todo gs)"

definition all_drained :: "'v goroutine list \<Rightarrow> 'v multiset" where
  "all_drained gs = sum_list (map drained gs)"

lemmas thread_defs = all_todo_def all_drained_def todo_def drained_def

lemma sum_list_update_mset:
  "i < length xs \<Longrightarrow> sum_list (map f (xs[i := y])) + f (xs ! i) = sum_list (map f xs) + (f y :: 'b multiset)"
proof (induction xs arbitrary: i)
  case (Cons a xs)
  then show ?case by (cases i) (auto simp: add_ac)
qed simp

lemma threads_add:
  assumes "i < length gs" and "gs ! i = Adder (x # xs)"
  shows "all_todo gs = add_mset x (all_todo (gs[i := Adder xs]))"
    and "all_drained (gs[i := Adder xs]) = all_drained gs"
  using sum_list_update_mset [OF assms(1), of todo "Adder xs"]
    sum_list_update_mset [OF assms(1), of drained "Adder xs"] assms(2)
  by (simp_all add: thread_defs)

lemma threads_drain:
  assumes "i < length gs" and "gs ! i = Drainer j result"
  shows "all_todo (gs[i := Drainer j' (result @ ys)]) = all_todo gs"
    and "all_drained (gs[i := Drainer j' (result @ ys)]) = all_drained gs + mset ys"
  using sum_list_update_mset [OF assms(1), of todo "Drainer j' (result @ ys)"]
    sum_list_update_mset [OF assms(1), of drained "Drainer j' (result @ ys)"] assms(2)
  by (simp_all add: thread_defs add_ac)

lemma cstep_inv:
  assumes "cstep key merge s s'" and "sharded_inv (fst s)"
  shows "sharded_inv (fst s')"
  using assms(1)
proof (cases rule: cstep.cases)
  case (add i gs x xs m c m' c')
  then show ?thesis using add_one_inv [of m key merge x c] assms(2) by simp
next
  case (drain i gs j result m ys c)
  then show ?thesis using clear_shard_inv [of m j] assms(2) by simp
qed

lemma creach_inv: "creach key merge s s' \<Longrightarrow> sharded_inv (fst s) \<Longrightarrow> sharded_inv (fst s')"
  by (induction rule: creach.induct) (auto intro: cstep_inv)

text \<open>
  Of a measure that adds up when two metrics of one key are merged: the total over the metrics
  still to be added, buffered and drained.
\<close>

definition total_weight :: "('v \<Rightarrow> 'a multiset) \<Rightarrow> 'v conc \<Rightarrow> 'a multiset" where
  "total_weight f s =
     (case s of (m, c, gs) \<Rightarrow>
        sum_mset (image_mset f (buffered m + all_todo gs + all_drained gs)))"

definition keyed_by :: "('v \<Rightarrow> string) \<Rightarrow> 'v ShardedMap \<Rightarrow> bool" where
  "keyed_by key m \<longleftrightarrow> (\<forall>k v. sharded_Get m k = Some v \<longrightarrow> key v = k)"

lemma add_one_weight:
  fixes f :: "'v \<Rightarrow> 'a multiset"
  assumes inv: "sharded_inv m" and k: "keyed_by key m"
    and hom: "\<And>e n. key e = key n \<Longrightarrow> f (merge e n) = f e + f n"
  shows "sum_mset (image_mset f (buffered (fst (add_one key merge x m c)))) =
         sum_mset (image_mset f (buffered m)) + f x"
proof (cases "sharded_Get m (key x)")
  case None
  then show ?thesis by (simp add: add_one_def buffered_Set_None [OF inv] add.commute)
next
  case (Some e)
  then have "key e = key x" using k by (simp add: keyed_by_def)
  let ?A = "sum_mset (image_mset f (buffered (sharded_Set (key x) (merge e x) m)))"
  let ?B = "sum_mset (image_mset f (buffered m))"
  have "f e + ?A = f (merge e x) + ?B"
    using arg_cong [OF buffered_Set_Some [OF inv Some, of "merge e x"],
        of "\<lambda>M. sum_mset (image_mset f M)"] by simp
  also have "\<dots> = f e + (?B + f x)"
    by (simp only: hom [OF \<open>key e = key x\<close>] ac_simps)
  finally have "?A = ?B + f x" by (rule add_left_imp_eq)
  then show ?thesis using Some by (simp add: add_one_def)
qed

lemma add_one_keyed:
  assumes "metric_kind key merge" and "sharded_inv m" and "keyed_by key m"
  shows "keyed_by key (fst (add_one key merge x m c))"
proof (cases "sharded_Get m (key x)")
  case None
  then show ?thesis using assms by (auto simp: add_one_def keyed_by_def sharded.look_put)
next
  case (Some e)
  then have "key (merge e x) = key x"
    using assms metric_kind.key_merge [OF assms(1), of e x] by (simp add: keyed_by_def)
  then show ?thesis using Some assms by (auto simp: add_one_def keyed_by_def sharded.look_put)
qed

lemma clear_shard_keyed:
  assumes "sharded_inv m" and "keyed_by key m"
  shows "keyed_by key (clear_shard j m)"
proof -
  have "sharded_Get (clear_shard j m) k = Some v \<Longrightarrow> sharded_Get m k = Some v" for k v
    using shard_index_less [OF assms(1), of k]
    by (cases "shard_index m k = j")
      (auto simp: sharded_Get_def getShard_def clear_shard_def shard_index_def)
  then show ?thesis using assms(2) by (auto simp: keyed_by_def)
qed

lemma cstep_weight:
  fixes f :: "'v \<Rightarrow> 'a multiset"
  assumes "cstep key merge s s'" and "metric_kind key merge"
    and hom: "\<And>e n. key e = key n \<Longrightarrow> f (merge e n) = f e + f n"
    and "sharded_inv (fst s)" and "keyed_by key (fst s)"
  shows "total_weight f s' = total_weight f s \<and> keyed_by key (fst s')"
  using assms(1,4,5)
proof (cases rule: cstep.cases)
  case (add i gs x xs m c m' c')
  have m': "m' = fst (add_one key merge x m c)" using add(5) by simp
  have "sum_mset (image_mset f (buffered m')) = sum_mset (image_mset f (buffered m)) + f x"
    unfolding m' by (rule add_one_weight) (use hom assms(4,5) add(1) in simp_all)
  then have "total_weight f s' = total_weight f s"
    using threads_add [OF add(3,4)] by (simp add: total_weight_def add(1,2))
  then show ?thesis using add(1,2) assms(2,4,5) by (simp add: m' add_one_keyed)
next
  case (drain i gs j result m ys c)
  have "mset (map snd ys) = mset (map snd (items (shards m ! j)))"
    using drain(6) by (metis mset_map)
  then have "buffered (clear_shard j m) + mset (map snd ys) = buffered m"
    using buffered_clear_shard [OF drain(5)] by simp
  then have "buffered m + all_todo gs + all_drained gs =
      buffered (clear_shard j m) + all_todo gs + (all_drained gs + mset (map snd ys))"
    by (simp add: add_ac)
  then have "total_weight f s' = total_weight f s"
    using drain(1,2) threads_drain [OF drain(3,4)] by (simp add: total_weight_def)
  then show ?thesis using drain assms(4,5) by (simp add: clear_shard_keyed)
qed

lemma conc_weight:
  fixes f :: "'v \<Rightarrow> 'a multiset"
  assumes "creach key merge s s'" and "metric_kind key merge"
    and hom: "\<And>e n. key e = key n \<Longrightarrow> f (merge e n) = f e + f n"
    and inv: "sharded_inv (fst s)" and k: "keyed_by key (fst s)"
  shows "total_weight f s' = total_weight f s \<and> keyed_by key (fst s')"
  using assms(1)
proof (induction rule: creach.induct)
  case refl
  then show ?case using k by simp
next
  case (step s' s'')
  then have "sharded_inv (fst s')" using creach_inv inv by blast
  then show ?case using cstep_weight [OF step(2) assms(2) hom] step.IH by simp
qed

text \<open>The counters: each metric taken up is a new entry, later drained, or a collision.\<close>

definition conc_total :: "'v conc \<Rightarrow> nat" where
  "conc_total s =
     (case s of (m, c, gs) \<Rightarrow> sharded_Len m + c + size (all_todo gs) + size (all_drained gs))"

lemma sharded_Len_buffered: "sharded_Len m = size (buffered m)"
  by (simp add: buffered_def sharded_Len_all_items)

lemma add_one_count:
  assumes "sharded_inv m" and "add_one key merge x m c = (m', c')"
  shows "sharded_Len m' + c' = Suc (sharded_Len m + c)"
  using assms by (auto simp: add_one_def sharded.len_put split: option.splits)

lemma cstep_count:
  assumes "cstep key merge s s'" and "sharded_inv (fst s)"
  shows "conc_total s' = conc_total s"
  using assms
proof (cases rule: cstep.cases)
  case (add i gs x xs m c m' c')
  then show ?thesis
    using add_one_count [OF _ add(5)] assms(2) threads_add [OF add(3,4)]
    by (simp add: conc_total_def)
next
  case (drain i gs j result m ys c)
  have "mset (map snd ys) = mset (map snd (items (shards m ! j)))"
    using drain(6) by (metis mset_map)
  then have "buffered (clear_shard j m) + mset (map snd ys) = buffered m"
    using buffered_clear_shard [OF drain(5)] by simp
  then have "size (buffered (clear_shard j m)) + size (mset (map snd ys)) = size (buffered m)"
    by (metis size_union)
  then show ?thesis
    using drain(1,2) threads_drain [OF drain(3,4)]
    by (simp add: conc_total_def sharded_Len_buffered)
qed

lemma conc_count:
  assumes "creach key merge s s'" and "sharded_inv (fst s)"
  shows "conc_total s' = conc_total s"
  using assms(1)
proof (induction rule: creach.induct)
  case (step s' s'')
  then show ?case using cstep_count creach_inv assms(2) by metis
qed simp

section \<open>Tracing the metrics\<close>

text \<open>
  Each metric carries the metrics merged into it.  Erasing the traces gives the steps of the
  plain buffer back, since no operation looks at them.
\<close>

definition traced :: "'v \<Rightarrow> 'v \<times> 'v multiset" where
  "traced x = (x, {#x#})"

definition traced_key :: "('v \<Rightarrow> string) \<Rightarrow> 'v \<times> 'v multiset \<Rightarrow> string" where
  "traced_key key x = key (fst x)"

definition traced_merge ::
  "('v \<Rightarrow> 'v \<Rightarrow> 'v) \<Rightarrow> 'v \<times> 'v multiset \<Rightarrow> 'v \<times> 'v multiset \<Rightarrow> 'v \<times> 'v multiset"
where
  "traced_merge merge e n = (merge (fst e) (fst n), snd e + snd n)"

lemma traced_kind: "metric_kind key merge \<Longrightarrow> metric_kind (traced_key key) (traced_merge merge)"
  by (simp add: metric_kind_def traced_key_def traced_merge_def)

text \<open>
  Batches added by any number of goroutines to an empty buffer, while others drain it: the traces
  of what is buffered, drained and still to be added are together the metrics of the batches.
\<close>

definition adders :: "'v list list \<Rightarrow> ('v \<times> 'v multiset) goroutine list" where
  "adders batches = map (\<lambda>b. Adder (map traced b)) batches"

lemma all_todo_adders:
  "sum_mset (image_mset snd (all_todo (adders bs @ replicate n (Drainer 0 [])))) = mset (concat bs)"
proof (induction bs)
  case Nil
  have "all_todo (replicate n (Drainer 0 []) :: ('a \<times> 'a multiset) goroutine list) = {#}"
    by (induction n) (simp_all add: all_todo_def todo_def)
  then show ?case by (simp add: adders_def)
next
  case (Cons b bs)
  have "sum_mset (image_mset snd (mset (map traced b))) = mset b"
    by (induction b) (simp_all add: traced_def)
  with Cons show ?case by (simp add: adders_def all_todo_def todo_def)
qed

lemma all_drained_adders: "all_drained (adders bs @ replicate n (Drainer 0 [])) = {#}"
proof -
  have "all_drained (replicate n (Drainer 0 []) :: ('a \<times> 'a multiset) goroutine list) = {#}"
    by (induction n) (simp_all add: all_drained_def drained_def)
  moreover have "all_drained (adders bs) = {#}"
    by (induction bs) (simp_all add: adders_def all_drained_def drained_def)
  ultimately show ?thesis by (simp add: all_drained_def)
qed

lemma traces_conserved:
  assumes "metric_kind key merge"
    and "creach (traced_key key) (traced_merge merge)
           (newShardedMap, 0, adders batches @ replicate n (Drainer 0 [])) (m, c, gs)"
  shows "sum_mset (image_mset snd (buffered m)) + sum_mset (image_mset snd (all_drained gs)) +
         sum_mset (image_mset snd (all_todo gs)) = mset (concat batches)"
proof -
  let ?s = "(newShardedMap, 0, adders batches @ replicate n (Drainer 0 []))"
  have "keyed_by (traced_key key) newShardedMap" by (simp add: keyed_by_def sharded.look_new)
  then have "total_weight snd (m, c, gs) = total_weight snd ?s"
    using conc_weight [OF assms(2) traced_kind [OF assms(1)], of snd]
    by (simp add: traced_merge_def)
  moreover have "buffered (newShardedMap :: ('a \<times> 'a multiset) ShardedMap) = {#}"
    using buffered_map_values [OF sharded_inv_new] by (simp add: sharded.look_new)
  ultimately show ?thesis
    using all_todo_adders [of batches n] all_drained_adders [of batches n]
    by (simp add: total_weight_def add_ac)
qed

section \<open>A drain on its own\<close>

text \<open>Undisturbed, the steps of a drain collect what \<open>sharded_SwapAll\<close> returns.\<close>

lemma drain_alone:
  assumes "creach key merge (m, c, [Drainer 0 []]) (m', c', [Drainer j result])" and "sharded_inv m"
  shows "buffered m' + mset result = buffered m"
proof -
  define P where "P = (\<lambda>s :: 'a conc. \<exists>m1 c1 j r. s = (m1, c1, [Drainer j r]) \<and>
      buffered m1 + mset r = buffered m)"
  have "P s'" if "creach key merge (m, c, [Drainer 0 []]) s'" for s'
    using that
  proof (induction rule: creach.induct)
    case refl
    then show ?case by (simp add: P_def)
  next
    case (step s' s'')
    then obtain m1 c1 j r where s': "s' = (m1, c1, [Drainer j r])"
      and b: "buffered m1 + mset r = buffered m" by (auto simp: P_def)
    from step(2) [unfolded s'] show ?case
    proof (cases rule: cstep.cases)
      case (drain i j' result ys)
      have "mset ys = mset (items (shards m1 ! j))" and "j < length (shards m1)"
        using drain by auto
      then have "mset (map snd ys) = mset (map snd (items (shards m1 ! j)))"
        and "j < length (shards m1)" by (metis mset_map)+
      then have "buffered (clear_shard j m1) + mset (map snd ys) = buffered m1"
        using buffered_clear_shard by metis
      then show ?thesis using drain b by (auto simp: P_def add_ac)
    qed (auto simp: less_Suc_eq)
  qed
  from this [OF assms(1)] show ?thesis by (auto simp: P_def)
qed

end
