(* ===== verification/Buffer_Properties.thy ===== *)
theory Buffer_Properties
  imports Buffer_Liveness Buffer_Concurrency
begin

text \<open>
  The properties of the buffers: what an add, a flush, a write and the steps of the running manager
  guarantee.  Each one is stated over the operations of \<open>Buffer_Manager\<close> and follows from the lemmas of
  \<open>Buffer_Laws\<close>, \<open>Buffer_System\<close> and \<open>Buffer_Concurrency\<close>; the witnesses run the default
  configuration on the small metrics of the first section.
\<close>

section \<open>Inputs for the witnesses\<close>

definition fresh_manager :: FixedBufferManager where
  "fresh_manager = NewFixedBufferManager (cfg_Buffer default_config) (cfg_DatabaseWriter default_config)"

definition some_platform :: "string \<Rightarrow> PlatformMetric" where
  "some_platform name = PlatformMetric_zero\<lparr>pm_SystemID := ''r1'', pm_ComponentName := name\<rparr>"

definition some_interface :: InterfaceMetric where
  "some_interface = InterfaceMetric_zero\<lparr>im_SystemID := ''r1'', im_InterfaceName := ''if1''\<rparr>"

definition some_subinterface :: SubinterfaceMetric where
  "some_subinterface =
     SubinterfaceMetric_zero\<lparr>sm_SystemID := ''r1'', sm_InterfaceName := ''if1'', sm_SubinterfaceName := ''1''\<rparr>"

definition some_alarm :: "uint32 \<Rightarrow> string option \<Rightarrow> AlarmReportMetric" where
  "some_alarm flow description =
     AlarmReportMetric_zero\<lparr>am_SystemID := ''r1'', am_FlowID := flow, am_Description := description\<rparr>"

text \<open>A database of the witnesses: a multiset of platform metrics, into which every batch goes at once.\<close>

definition memory_db :: "(PlatformMetric multiset) DatabaseInterface" where
  "memory_db =
     \<lparr>dbi_Platform = (\<lambda>b w. (Returned None, w + mset b)), dbi_Interface = (\<lambda>b w. (Returned None, w)),
      dbi_Subinterface = (\<lambda>b w. (Returned None, w)), dbi_AlarmReport = (\<lambda>b w. (Returned None, w)),
      dbi_NotificationReport = (\<lambda>b w. (Returned None, w))\<rparr>"

lemma memory_db_prompt: "prompt_writer (dbi_Platform memory_db) (\<lambda>m. m) (\<lambda>w. w)"
  by unfold_locales (auto simp: memory_db_def)

lemma fresh_inv [simp]: "bm_inv fresh_manager"
  by (simp add: fresh_manager_def bm_inv_new)

lemma fresh_simps [simp]:
  "bm_platformBuffer fresh_manager = newShardedMap" "bm_interfaceBuffer fresh_manager = newShardedMap"
  "bm_subinterfaceBuffer fresh_manager = newShardedMap"
  "bm_alarmReportBuffer fresh_manager = newShardedMap"
  "bm_writerConfig fresh_manager = cfg_DatabaseWriter default_config"
  "wr_MaxBatchSize (cfg_DatabaseWriter default_config) = 1000"
  "wr_RetryAttempts (cfg_DatabaseWriter default_config) = 3"
  "bm_config fresh_manager = cfg_Buffer default_config"
  "bm_platformWriteChan fresh_manager = []"
  by (simp_all add: fresh_manager_def NewFixedBufferManager_def startParallelWriters_def
      startFlushTimer_def typed_maps default_config_def)

lemma orders_ok_plain [simp]: "orders_ok plain_orders"
  by (simp add: orders_ok_def plain_orders_def)

text \<open>A manager that holds one metric.\<close>

definition loaded_manager :: FixedBufferManager where
  "loaded_manager = AddPlatformMetrics [some_platform ''fan''] fresh_manager"

lemma loaded_inv [simp]: "bm_inv loaded_manager"
  unfolding loaded_manager_def by (rule AddPlatformMetrics_inv [OF fresh_inv])

lemma loaded_sinv [simp]: "sharded_inv (bm_platformBuffer loaded_manager)"
  using loaded_inv by (auto simp: bm_inv_def)

lemma loaded_config [simp]:
  "bm_writerConfig loaded_manager = cfg_DatabaseWriter default_config"
  "bm_platformWriteChan loaded_manager = []" "bm_stopped loaded_manager = False"
  using add_setup(1) [of fresh_manager "[some_platform ''fan'']"]
  by (simp_all add: loaded_manager_def same_setup_def AddPlatformMetrics_def split_beta Let_def
      fresh_manager_def NewFixedBufferManager_def startParallelWriters_def startFlushTimer_def)

lemma loaded_Get:
  "sharded_Get (bm_platformBuffer loaded_manager) =
     [platform_key (some_platform ''fan'') \<mapsto> some_platform ''fan'']"
  by (rule ext) (simp add: loaded_manager_def AddPlatformMetrics_Get sharded.look_new)

lemma loaded_values:
  "map_values (sharded_Get (bm_platformBuffer loaded_manager)) = {#some_platform ''fan''#}"
  by (simp add: loaded_Get map_values_def)

lemma loaded_Len: "ShardedPlatformMap_Len (bm_platformBuffer loaded_manager) = 1"
  by (simp add: typed_maps sharded.len_look loaded_Get)

text \<open>A flush into \<open>memory_db\<close> succeeds.\<close>

lemma memory_db_write:
  "0 < wr_RetryAttempts cfg \<Longrightarrow> writeWithRetry cfg (dbi_Platform memory_db b) w = (None, w + mset b)"
  by (cases "nat (wr_RetryAttempts cfg)") (simp_all add: writeWithRetry_def memory_db_def)

lemma memory_db_chunks:
  "0 < wr_RetryAttempts cfg \<Longrightarrow> fst (flush_chunks cfg (dbi_Platform memory_db) bs ch w) = None"
  by (induction bs arbitrary: ch w) (simp_all add: memory_db_write)

lemma memory_db_flush:
  "\<exists>bm' w'. FlushPlatformMetrics memory_db plain_orders loaded_manager w = Some (Ret (None, bm', w'))"
  by (simp add: FlushPlatformMetrics_eq Let_def split_beta memory_db_chunks)

section \<open>Adding\<close>

text \<open>C7. Adding a batch of platform, interface or subinterface metrics changes the entry of every key
  to the entry it had with all metrics of the batch that have this key merged in, in their order;
  the first one is stored as it came when there was no entry.\<close>

theorem add_merges_by_key:
  assumes "bm_inv bm"
  shows "sharded_Get (bm_platformBuffer (AddPlatformMetrics ps bm)) k =
           merged_at platform_key mergePlatformMetric k ps (sharded_Get (bm_platformBuffer bm) k) \<and>
         sharded_Get (bm_interfaceBuffer (AddInterfaceMetrics is bm)) k =
           merged_at interface_key mergeInterfaceMetric k is (sharded_Get (bm_interfaceBuffer bm) k) \<and>
         sharded_Get (bm_subinterfaceBuffer (AddSubinterfaceMetrics ss bm)) k =
           merged_at subinterface_key mergeSubinterfaceMetric k ss
             (sharded_Get (bm_subinterfaceBuffer bm) k)"
  using AddPlatformMetrics_Get [OF assms] AddInterfaceMetrics_Get [OF assms]
    AddSubinterfaceMetrics_Get [OF assms] by simp

theorem add_merges_by_key_witness:
  "sharded_Get (bm_platformBuffer (AddPlatformMetrics [some_platform ''fan'', some_platform ''fan''] fresh_manager))
     (platform_key (some_platform ''fan'')) =
   Some (mergePlatformMetric (some_platform ''fan'') (some_platform ''fan''))"
  using add_merges_by_key [OF fresh_inv, of "[some_platform ''fan'', some_platform ''fan'']"
      "platform_key (some_platform ''fan'')" "[]" "[]"]
  by (simp add: sharded.look_new)

text \<open>C17. Alarms and notifications overwrite: after an add the entry of a key is the last metric of
  the batch that has this key, and the old entry when there is none.\<close>

theorem add_last_wins:
  assumes "bm_inv bm"
  shows "sharded_Get (bm_alarmReportBuffer (AddAlarmReportMetrics as bm)) k =
           (case filter (\<lambda>a. alarm_key a = k) as of
              [] \<Rightarrow> sharded_Get (bm_alarmReportBuffer bm) k | ys \<Rightarrow> Some (last ys)) \<and>
         sharded_Get (bm_notificationReportBuffer (AddNotificationReportMetrics ns bm)) k =
           (case filter (\<lambda>n. notification_key n = k) ns of
              [] \<Rightarrow> sharded_Get (bm_notificationReportBuffer bm) k | ys \<Rightarrow> Some (last ys))"
  unfolding AddAlarmReportMetrics_Get [OF assms] AddNotificationReportMetrics_Get [OF assms]
  by (simp add: replace_def [abs_def] merged_at_replace)

theorem add_last_wins_witness:
  "sharded_Get (bm_alarmReportBuffer
      (AddAlarmReportMetrics [some_alarm 7 None, some_alarm 7 (Some ''link down'')] fresh_manager))
     (alarm_key (some_alarm 7 None)) = Some (some_alarm 7 (Some ''link down''))"
  using add_last_wins [OF fresh_inv, of "[some_alarm 7 None, some_alarm 7 (Some ''link down'')]"
      "alarm_key (some_alarm 7 None)" "[]"]
  by (simp add: alarm_key_def some_alarm_def AlarmReportMetric_zero_def)


text \<open>C8. No metric disappears uncounted: after an add the number of entries and the number of key
  collisions have together grown by the length of the batch, as has the counter of processed
  records (all counters wrap at 64 bits, as in the code).\<close>

theorem add_conserves:
  assumes "bm_inv bm"
  shows "of_nat (ShardedPlatformMap_Len (bm_platformBuffer (AddPlatformMetrics ps bm)))
           + st_KeyCollisions (bm_stats (AddPlatformMetrics ps bm)) =
         of_nat (ShardedPlatformMap_Len (bm_platformBuffer bm)) + st_KeyCollisions (bm_stats bm)
           + of_nat (length ps) \<and>
         st_TotalRecordsProcessed (bm_stats (AddPlatformMetrics ps bm)) =
         st_TotalRecordsProcessed (bm_stats bm) + of_nat (length ps)"
proof -
  have inv: "sharded_inv (bm_platformBuffer bm)" using assms by (auto simp: bm_inv_def)
  note c = arg_cong [OF sharded.agg_conservation [OF inv, of platform_key mergePlatformMetric ps 0],
      of "of_nat :: nat \<Rightarrow> int64", unfolded of_nat_add]
  show ?thesis
    using AddPlatformMetrics_eq [OF assms, of ps] c
    by (auto simp: Let_def typed_maps count_processed_def add_ac)
qed

theorem add_conserves_witness:
  "of_nat (ShardedPlatformMap_Len (bm_platformBuffer
       (AddPlatformMetrics [some_platform ''fan'', some_platform ''fan''] fresh_manager)))
     + st_KeyCollisions (bm_stats (AddPlatformMetrics [some_platform ''fan'', some_platform ''fan''] fresh_manager)) = 2"
  using add_conserves [OF fresh_inv, of "[some_platform ''fan'', some_platform ''fan'']"]
  by (simp add: typed_maps sharded.len_look sharded.look_new)
    (simp add: fresh_manager_def NewFixedBufferManager_def startParallelWriters_def
      startFlushTimer_def FixedBufferStats_zero_def)

text \<open>An add starts a flush of its kind exactly when the buffer has reached the threshold, and it
  touches no other buffer, no channel and no configuration.\<close>

lemma add_starts_flush:
  "bm_spawned (AddPlatformMetrics ps bm) =
     bm_spawned bm @
       (if buf_FlushThreshold (bm_config bm) \<le>
            int (ShardedPlatformMap_Len (bm_platformBuffer (AddPlatformMetrics ps bm)))
        then [KPlatform] else []) \<and>
   bm_interfaceBuffer (AddPlatformMetrics ps bm) = bm_interfaceBuffer bm \<and>
   bm_subinterfaceBuffer (AddPlatformMetrics ps bm) = bm_subinterfaceBuffer bm \<and>
   bm_alarmReportBuffer (AddPlatformMetrics ps bm) = bm_alarmReportBuffer bm \<and>
   bm_notificationReportBuffer (AddPlatformMetrics ps bm) = bm_notificationReportBuffer bm \<and>
   bm_platformWriteChan (AddPlatformMetrics ps bm) = bm_platformWriteChan bm \<and>
   same_setup bm (AddPlatformMetrics ps bm)"
  by (simp add: AddPlatformMetrics_def split_beta Let_def same_setup_def)

section \<open>The running manager\<close>

text \<open>C9. Whatever adds, flushes, ticks, writes and stops follow each other, from the start of a
  manager with a positive batch size: every buffered metric lies under its own key in the shard its
  hash selects, the recycled key buffers are empty, no channel holds more than 100 batches, and no queued
  batch is empty or above the batch size.\<close>

theorem manager_invariant:
  assumes "0 < wr_MaxBatchSize writerConfig"
    and "breach db (NewFixedBufferManager cfg writerConfig, w) (bm, w')"
  shows "bm_inv bm \<and> 0 < wr_MaxBatchSize (bm_writerConfig bm) \<and> channels_ok bm"
  using breach_running [OF assms(2)] running_ok_new [OF assms(1), of cfg]
    bounded.breach_Q [OF assms(2)] channels_ok_new [of cfg writerConfig]
  by (simp add: running_ok_def)

theorem manager_invariant_witness:
  "bm_inv (AddPlatformMetrics [some_platform ''fan''] fresh_manager)"
proof -
  have "breach memory_db (fresh_manager, {#}) (AddPlatformMetrics [some_platform ''fan''] fresh_manager, {#})"
    by (rule breach.one_more [OF breach.at_start bstep.platform_added])
  then show ?thesis
    using manager_invariant [of "cfg_DatabaseWriter default_config" memory_db "cfg_Buffer default_config" "{#}"]
    by (simp add: fresh_manager_def [symmetric])
qed

text \<open>C12. With a positive batch size every flush returns: it neither crashes nor runs forever,
  whatever the database answers and however full the channel is.\<close>

theorem flush_returns:
  assumes "0 < wr_MaxBatchSize (bm_writerConfig bm)" and "orders_ok ro"
  shows "\<exists>err bm' w'. flush_kind db ro k bm w = Some (Ret (err, bm', w'))"
  using assms
  by (cases k)
    (simp_all add: flush_kind_def FlushPlatformMetrics_eq FlushInterfaceMetrics_eq
      FlushSubinterfaceMetrics_eq FlushAlarmReportMetrics_eq FlushNotificationReportMetrics_eq
      Let_def split_beta)

theorem flush_returns_witness:
  "\<exists>err bm' w'. flush_kind memory_db plain_orders KAlarmReport fresh_manager {#} = Some (Ret (err, bm', w'))"
  using flush_returns [of fresh_manager plain_orders memory_db KAlarmReport "{#}"] by simp

text \<open>With a negative batch size a flush of a buffer that holds a metric crashes on a slice out of
  range.\<close>

lemma flush_negative_size:
  assumes "bm_inv bm" and "orders_ok ro" and "wr_MaxBatchSize (bm_writerConfig bm) < 0"
    and "0 < ShardedPlatformMap_Len (bm_platformBuffer bm)"
  shows "FlushPlatformMetrics db ro bm w = Some Panic"
proof -
  have inv: "sharded_inv (bm_platformBuffer bm)" and ord: "range_order (ro_Platform ro)"
    using assms(1,2) by (auto simp: bm_inv_def orders_ok_def)
  have "fst (sharded_SwapAll (ro_Platform ro) (bm_platformBuffer bm)) \<noteq> []"
    using sharded.drain_len [OF inv ord] assms(4) by (auto simp: typed_maps)
  then show ?thesis
    by (simp add: FlushPlatformMetrics_def typed_maps split_beta Let_def
        flush_metrics_negative [OF assms(3)])
qed

section \<open>Flushing\<close>

text \<open>C5. A flush that reports no error loses nothing: the rows of the table, of the queued batches and
  of the buffer are all still in the table or queued, and the buffer is empty.  (A call that timed
  out may have been carried out, so rows may be stored twice.)\<close>

theorem flush_loses_nothing:
  assumes "bm_inv bm" and "orders_ok ro" and "0 < wr_MaxBatchSize (bm_writerConfig bm)"
    and "batch_writer (dbi_Platform db) enc stored"
    and "FlushPlatformMetrics db ro bm w = Some (Ret (None, bm', w'))"
  shows "accounted enc stored (bm_platformBuffer bm) (bm_platformWriteChan bm) w
           \<subseteq># stored w' + mset (map enc (concat (bm_platformWriteChan bm'))) \<and>
         ShardedPlatformMap_Len (bm_platformBuffer bm') = 0"
proof -
  have inv: "sharded_inv (bm_platformBuffer bm)" and ord: "range_order (ro_Platform ro)"
    using assms(1,2) by (auto simp: bm_inv_def orders_ok_def)
  obtain ch where f: "flush_chunks (bm_writerConfig bm) (dbi_Platform db)
        (chunks (nat (wr_MaxBatchSize (bm_writerConfig bm)))
          (fst (sharded_SwapAll (ro_Platform ro) (bm_platformBuffer bm)))) (bm_platformWriteChan bm) w =
      (None, ch, w')"
    and bm': "bm' = bm\<lparr>bm_platformBuffer := emptied (bm_platformBuffer bm), bm_platformWriteChan := ch\<rparr>"
    using assms(5) unfolding FlushPlatformMetrics_eq [OF assms(3,2)] by (auto simp: Let_def split: prod.splits)
  show ?thesis
    using flush_accounted [OF assms(4) ord inv f] assms(3) inv by (simp add: bm' typed_maps)
qed

theorem flush_loses_nothing_witness:
  "\<exists>bm' w'. FlushPlatformMetrics memory_db plain_orders loaded_manager {#} = Some (Ret (None, bm', w')) \<and>
     {#some_platform ''fan''#} \<subseteq># w' + mset (concat (bm_platformWriteChan bm'))"
proof -
  obtain bm' w' where fl: "FlushPlatformMetrics memory_db plain_orders loaded_manager {#} = Some (Ret (None, bm', w'))"
    using memory_db_flush by blast
  then show ?thesis
    using flush_loses_nothing [OF loaded_inv orders_ok_plain _ prompt_writer.axioms(1) [OF memory_db_prompt] fl]
    by (auto simp: accounted_def loaded_values)
qed

lemma FlushPlatformMetrics_exact:
  assumes "bm_inv bm" and "orders_ok ro" and "0 < wr_MaxBatchSize (bm_writerConfig bm)"
    and "prompt_writer (dbi_Platform db) enc stored"
    and "FlushPlatformMetrics db ro bm w = Some (Ret (None, bm', w'))"
  shows "stored w' + mset (map enc (concat (bm_platformWriteChan bm'))) =
         stored w + mset (map enc (concat (bm_platformWriteChan bm)))
           + image_mset enc (map_values (sharded_Get (bm_platformBuffer bm)))"
proof -
  have inv: "sharded_inv (bm_platformBuffer bm)" and ord: "range_order (ro_Platform ro)"
    using assms(1,2) by (auto simp: bm_inv_def orders_ok_def)
  obtain ch where f: "flush_chunks (bm_writerConfig bm) (dbi_Platform db)
        (chunks (nat (wr_MaxBatchSize (bm_writerConfig bm)))
          (fst (sharded_SwapAll (ro_Platform ro) (bm_platformBuffer bm)))) (bm_platformWriteChan bm) w =
      (None, ch, w')"
    and bm': "bm' = bm\<lparr>bm_platformBuffer := emptied (bm_platformBuffer bm), bm_platformWriteChan := ch\<rparr>"
    using assms(5) unfolding FlushPlatformMetrics_eq [OF assms(3,2)] by (auto simp: Let_def split: prod.splits)
  show ?thesis
    using flush_accounted_exact [OF assms(4) ord inv f] assms(3) inv
    by (simp add: bm' accounted_def [of _ _ "bm_platformBuffer bm"])
qed

text \<open>C6. With a database that always answers in time a flush without error is exact: table and queue
  together gain the rows of the buffered metrics, each of them once.\<close>

theorem flush_exact:
  assumes "bm_inv bm" and "orders_ok ro" and "0 < wr_MaxBatchSize (bm_writerConfig bm)"
    and "prompt_writer (dbi_Platform db) enc stored"
    and "FlushPlatformMetrics db ro bm w = Some (Ret (None, bm', w'))"
  shows "stored w' + mset (map enc (concat (bm_platformWriteChan bm'))) =
         stored w + mset (map enc (concat (bm_platformWriteChan bm)))
           + image_mset enc (map_values (sharded_Get (bm_platformBuffer bm)))"
  by (rule FlushPlatformMetrics_exact [OF assms])

theorem flush_exact_witness:
  "\<exists>bm' w'. FlushPlatformMetrics memory_db plain_orders loaded_manager {#} = Some (Ret (None, bm', w')) \<and>
     w' + mset (concat (bm_platformWriteChan bm')) = {#some_platform ''fan''#}"
proof -
  obtain bm' w' where fl: "FlushPlatformMetrics memory_db plain_orders loaded_manager {#} = Some (Ret (None, bm', w'))"
    using memory_db_flush by blast
  then show ?thesis
    using flush_exact [OF loaded_inv orders_ok_plain _ memory_db_prompt fl] by (auto simp: loaded_values)
qed

text \<open>C13. A platform flush that reports an error has dropped the rest of its buffer, provided that the
  database answers in time: the error is that of one batch, the batch number i; table and queue together
  have gained exactly the rows of the metrics before that batch, so it and all metrics after it, at
  least one, are neither stored nor queued; and the buffer is empty.  The metrics are counted in the
  order in which the flush took them out.\<close>

theorem flush_error_drops:
  assumes "bm_inv bm" and "orders_ok ro" and "0 < wr_MaxBatchSize (bm_writerConfig bm)"
    and "prompt_writer (dbi_Platform db) enc stored"
    and "FlushPlatformMetrics db ro bm w = Some (Ret (Some err, bm', w'))"
  shows "ShardedPlatformMap_Len (bm_platformBuffer bm') = 0 \<and>
         (let ms = fst (ShardedPlatformMap_SwapAll (ro_Platform ro) (bm_platformBuffer bm));
              n = nat (wr_MaxBatchSize (bm_writerConfig bm))
          in mset ms = map_values (sharded_Get (bm_platformBuffer bm)) \<and>
             (\<exists>i. i * n < length ms \<and>
                (\<exists>w1. writeWithRetry (bm_writerConfig bm) (dbi_Platform db (take n (drop (i * n) ms))) w1 = (Some err, w')) \<and>
                stored w' + mset (map enc (concat (bm_platformWriteChan bm'))) =
                stored w + mset (map enc (concat (bm_platformWriteChan bm))) + mset (map enc (take (i * n) ms))))"
proof -
  let ?ms = "fst (sharded_SwapAll (ro_Platform ro) (bm_platformBuffer bm))"
  let ?n = "nat (wr_MaxBatchSize (bm_writerConfig bm))"
  have inv: "sharded_inv (bm_platformBuffer bm)" and ord: "range_order (ro_Platform ro)"
    using assms(1,2) by (auto simp: bm_inv_def orders_ok_def)
  obtain ch where f: "flush_chunks (bm_writerConfig bm) (dbi_Platform db) (chunks ?n ?ms)
      (bm_platformWriteChan bm) w = (Some err, ch, w')"
    and bm': "bm' = bm\<lparr>bm_platformBuffer := emptied (bm_platformBuffer bm), bm_platformWriteChan := ch\<rparr>"
    using assms(5) unfolding FlushPlatformMetrics_eq [OF assms(3,2)] by (auto simp: Let_def split: prod.splits)
  obtain i w1 where i: "i < length (chunks ?n ?ms)"
    and e: "writeWithRetry (bm_writerConfig bm) (dbi_Platform db (chunks ?n ?ms ! i)) w1 = (Some err, w')"
    and eq: "stored w' + mset (map enc (concat ch)) =
      stored w + mset (map enc (concat (bm_platformWriteChan bm))) + mset (map enc (concat (take i (chunks ?n ?ms))))"
    using prompt_writer.flush_chunks_failed [OF assms(4) f] by blast
  note nth = chunks_nth [OF i]
  have "mset ?ms = map_values (sharded_Get (bm_platformBuffer bm))"
    by (rule sharded.drain_values [OF inv ord])
  then show ?thesis
    using nth e eq unfolding bm' typed_maps Let_def by (intro conjI exI [of _ i] exI [of _ w1]) simp_all
qed

text \<open>A database that refuses everything, and a manager whose channel is full.\<close>

definition refusing_db :: "(PlatformMetric multiset) DatabaseInterface" where
  "refusing_db = memory_db\<lparr>dbi_Platform := (\<lambda>b w. (Returned (Some (CopyFailed ''down'')), w))\<rparr>"

lemma refusing_db_prompt: "prompt_writer (dbi_Platform refusing_db) (\<lambda>m. m) (\<lambda>w. w)"
  by unfold_locales (auto simp: refusing_db_def)

definition full_manager :: FixedBufferManager where
  "full_manager = loaded_manager\<lparr>bm_platformWriteChan := replicate 100 []\<rparr>"

lemma full_simps [simp]:
  "bm_inv full_manager" "bm_writerConfig full_manager = cfg_DatabaseWriter default_config"
  "bm_platformBuffer full_manager = bm_platformBuffer loaded_manager"
  "bm_platformWriteChan full_manager = replicate 100 []"
  using loaded_inv by (simp_all add: full_manager_def bm_inv_def chan_cap_def)

lemma refusing_db_write:
  "fst (writeWithRetry cfg (dbi_Platform refusing_db b) w) \<noteq> None"
proof -
  have "fst (write_attempts (dbi_Platform refusing_db b) n le w) \<noteq> None" for n le
    by (induction n arbitrary: le) (simp_all add: refusing_db_def)
  from this [of "nat (wr_RetryAttempts cfg)" NoError] show ?thesis
    by (cases "write_attempts (dbi_Platform refusing_db b) (nat (wr_RetryAttempts cfg)) NoError w")
      (auto simp: writeWithRetry_def)
qed

lemma refusing_db_flush:
  "\<exists>err bm' w'. FlushPlatformMetrics refusing_db plain_orders full_manager w = Some (Ret (Some err, bm', w'))"
proof -
  let ?ms = "fst (sharded_SwapAll (ro_Platform plain_orders) (bm_platformBuffer loaded_manager))"
  have ord: "range_order (ro_Platform plain_orders)" by (simp add: plain_orders_def)
  have "mset ?ms = {#some_platform ''fan''#}"
    using sharded.drain_values [OF loaded_sinv ord] by (simp add: loaded_values)
  then have ms: "?ms = [some_platform ''fan'']" by simp
  obtain e w1 where "writeWithRetry (cfg_DatabaseWriter default_config)
      (dbi_Platform refusing_db [some_platform ''fan'']) w = (Some e, w1)"
    using refusing_db_write [of "cfg_DatabaseWriter default_config" "[some_platform ''fan'']" w]
    by (metis not_None_eq prod.collapse)
  then show ?thesis
    by (simp add: FlushPlatformMetrics_eq ms chunks.simps [of _ "[_]"] chan_cap_def)
qed

theorem flush_error_drops_witness:
  "\<exists>err bm' w'. FlushPlatformMetrics refusing_db plain_orders full_manager {#} = Some (Ret (Some err, bm', w')) \<and>
     ShardedPlatformMap_Len (bm_platformBuffer bm') = 0 \<and>
     some_platform ''fan'' \<notin># w' + mset (concat (bm_platformWriteChan bm'))"
proof -
  obtain err bm' w' where fl: "FlushPlatformMetrics refusing_db plain_orders full_manager {#} =
      Some (Ret (Some err, bm', w'))"
    using refusing_db_flush by blast
  let ?ms = "fst (ShardedPlatformMap_SwapAll (ro_Platform plain_orders) (bm_platformBuffer full_manager))"
  let ?n = "nat (wr_MaxBatchSize (bm_writerConfig full_manager))"
  obtain i where i: "i * ?n < length ?ms" and ms: "mset ?ms = {#some_platform ''fan''#}"
    and eq: "w' + mset (concat (bm_platformWriteChan bm')) = mset (take (i * ?n) ?ms)"
    and len: "ShardedPlatformMap_Len (bm_platformBuffer bm') = 0"
    using flush_error_drops [OF full_simps(1) orders_ok_plain _ refusing_db_prompt fl]
    by (auto simp: loaded_values Let_def)
  have "length ?ms = 1" using arg_cong [OF ms, of size] by simp
  then have "i * ?n = 0" using i by simp
  then show ?thesis using fl len eq by auto
qed

text \<open>C10. Emptying a buffer never returns two metrics of one key, and returns every metric that was in it
  once.\<close>

theorem drain_once_per_key:
  assumes "bm_inv bm" and "range_order ord"
    and "ShardedPlatformMap_SwapAll ord (bm_platformBuffer bm) = (metrics, m')"
  shows "distinct (map platform_key metrics) \<and>
         mset metrics = map_values (sharded_Get (bm_platformBuffer bm)) \<and>
         length metrics = ShardedPlatformMap_Len (bm_platformBuffer bm) \<and>
         ShardedPlatformMap_Len m' = 0"
proof -
  have k: "keyed platform_key (bm_platformBuffer bm)" using assms(1) by (simp add: bm_inv_def)
  then have inv: "sharded_inv (bm_platformBuffer bm)" by auto
  have m: "fst (sharded_SwapAll ord (bm_platformBuffer bm)) = metrics"
    and m': "snd (sharded_SwapAll ord (bm_platformBuffer bm)) = m'"
    using assms(3) by (simp_all add: typed_maps)
  show ?thesis
    using platform_buffer.drain_distinct_keys [OF inv _ assms(2)] sharded.drain_values [OF inv assms(2)]
      sharded.drain_len [OF inv assms(2)] sharded.len_drained [OF inv assms(2)] k
    unfolding m m' typed_maps keyed_def by blast
qed

theorem drain_once_per_key_witness:
  "\<exists>m'. ShardedPlatformMap_SwapAll rev (bm_platformBuffer loaded_manager) = ([some_platform ''fan''], m')"
proof -
  obtain metrics m' where d: "ShardedPlatformMap_SwapAll rev (bm_platformBuffer loaded_manager) = (metrics, m')"
    by fastforce
  have "metrics = [some_platform ''fan'']"
    using drain_once_per_key [OF loaded_inv range_order_rev d] by (simp add: loaded_values)
  then show ?thesis using d by simp
qed

text \<open>C20. Flushing everything empties all five buffers, whatever the outcome of the five flushes, and
  leaves the statistics with the time and the duration of the flush and otherwise as they were.  The batch size is positive.\<close>

theorem flush_all_empties:
  assumes "running_ok bm" and "orders_ok ro" and "set ks = set all_kinds"
  shows "\<exists>err bm' w'. FlushAll db ro ks start now bm w = Some (Ret (err, bm', w')) \<and>
         GetStats bm' = (bm_stats bm)\<lparr>st_PlatformBufferSize := 0, st_InterfaceBufferSize := 0,
           st_SubinterfaceBufferSize := 0, st_AlarmReportBufferSize := 0,
           st_NotificationReportBufferSize := 0, st_LastFlushTime := now,
           st_FlushDuration := time_Sub now start\<rparr>"
proof -
  have b: "0 < wr_MaxBatchSize (bm_writerConfig bm)" using assms(1) by (simp add: running_ok_def)
  obtain errs bm1 w1 where r: "run_flushes db ro ks [] bm w = Some (Ret (errs, bm1, w1))"
    and len: "\<And>j. kind_len j bm1 = (if j \<in> set ks then 0 else kind_len j bm)"
    and st: "bm_stats bm1 = bm_stats bm"
    using run_flushes_len [OF b assms(2), of db ks "[]" w] by blast
  have "j \<in> set ks" for j using assms(3) by (simp add: all_kinds_UNIV)
  then have "kind_len j bm1 = 0" for j by (simp add: len)
  from this [of KPlatform] this [of KInterface] this [of KSubinterface] this [of KAlarmReport]
    this [of KNotificationReport]
  show ?thesis
    by (auto simp: FlushAll_def r st GetStats_def kind_len_def Let_def)
qed

theorem flush_all_empties_witness:
  "\<exists>err bm' w'. FlushAll refusing_db plain_orders all_kinds zero_time zero_time full_manager {#} =
     Some (Ret (err, bm', w')) \<and> st_PlatformBufferSize (GetStats bm') = 0"
proof -
  have "running_ok full_manager" by (simp add: running_ok_def)
  then show ?thesis
    using flush_all_empties [of full_manager plain_orders all_kinds refusing_db zero_time zero_time "{#}"]
    by fastforce
qed

section \<open>Writing\<close>

text \<open>C21. With a database that answers in time a write
  stores its batch exactly once when it succeeds and not at all when it fails; when calls can time
  out, success still means that the batch was stored.\<close>

theorem write_stores:
  assumes "batch_writer (dbi_Platform db) enc stored"
    and "writeWithRetry cfg (dbi_Platform db b) w = (err, w')"
  shows "(err = None \<longrightarrow> stored w + mset (map enc b) \<subseteq># stored w') \<and> stored w \<subseteq># stored w' \<and>
         (prompt_writer (dbi_Platform db) enc stored \<longrightarrow>
            stored w' = stored w + (if err = None then mset (map enc b) else {#}))"
  using batch_writer.write_ok [OF assms(1), of cfg b w w'] batch_writer.write_mono [OF assms(1,2)]
    prompt_writer.write_exact [of "dbi_Platform db" enc stored cfg b w err w'] assms(2) by auto

theorem write_stores_witness:
  "writeWithRetry (cfg_DatabaseWriter default_config) (dbi_Platform memory_db [some_platform ''fan'']) {#} =
     (None, {#some_platform ''fan''#})"
proof -
  have r: "writeWithRetry (cfg_DatabaseWriter default_config) (dbi_Platform memory_db [some_platform ''fan'']) {#} =
      (None, {#} + mset [some_platform ''fan''])"
    by (rule memory_db_write) simp
  show ?thesis
    using write_stores [OF prompt_writer.axioms(1) [OF memory_db_prompt] r] memory_db_prompt r by simp
qed

text \<open>With no attempts configured nothing is ever written: every write is an error, without a call.\<close>

lemma no_attempts_no_write:
  assumes "wr_RetryAttempts cfg \<le> 0"
  shows "writeWithRetry cfg writeFunc w = (Some (WriteFailed (wr_RetryAttempts cfg) NoError), w)"
  using assms by (simp add: writeWithRetry_def)

text \<open>C22. A batch whose call timed out may be stored once per attempt: a database that stores every batch
  too late ends with as many copies as there were attempts, and the write reports an error.\<close>

theorem timeouts_duplicate:
  assumes "\<And>w. late w = (TimedOut, w + mset b)"
  shows "writeWithRetry cfg late w =
         (Some (WriteFailed (wr_RetryAttempts cfg) (if 0 < wr_RetryAttempts cfg then WriteTimeout else NoError)),
          w + repeat_mset (nat (wr_RetryAttempts cfg)) (mset b))"
proof -
  have "write_attempts late n le w =
      (Some (if 0 < n then WriteTimeout else le), w + repeat_mset n (mset b))" for n le w
    by (induction n arbitrary: le w) (auto simp: assms add_ac)
  then show ?thesis by (simp add: writeWithRetry_def)
qed

theorem timeouts_duplicate_witness:
  "snd (writeWithRetry (cfg_DatabaseWriter default_config)
     (\<lambda>w. (TimedOut, w + mset [some_platform ''fan''])) {#}) =
   {#some_platform ''fan'', some_platform ''fan'', some_platform ''fan''#}"
  using timeouts_duplicate [of "\<lambda>w. (TimedOut, w + mset [some_platform ''fan''])" "[some_platform ''fan'']"
      "cfg_DatabaseWriter default_config" "{#}"]
  by (simp add: numeral_eq_Suc)

text \<open>A running writer works its channel off: with a database that accepts everything in time, some
  sequence of its steps empties the channel and stores every queued batch once.\<close>

lemma writers_catch_up:
  assumes "0 < bm_writers bm KPlatform" and "0 < wr_RetryAttempts (bm_writerConfig bm)"
    and "prompt_writer (dbi_Platform db) enc stored"
    and "\<And>b w. fst (dbi_Platform db b w) = Returned None"
  shows "\<exists>bm' w'. breach db (bm, w) (bm', w') \<and> bm_platformWriteChan bm' = [] \<and>
         stored w' = stored w + mset (map enc (concat (bm_platformWriteChan bm)))"
  using assms(1,2)
proof (induction "bm_platformWriteChan bm" arbitrary: bm w)
  case Nil
  have "breach db (bm, w) (bm, w)" by (rule breach.at_start)
  with Nil.hyps [symmetric] show ?case by auto
next
  case (Cons b ch)
  obtain w1 where w1: "writeWithRetry (bm_writerConfig bm) (dbi_Platform db b) w = (None, w1)"
    using always_ok_write [of "dbi_Platform db" b, OF assms(4) Cons.prems(2)] by blast
  let ?bm = "bm\<lparr>bm_platformWriteChan := ch, bm_stats := count_write None (length b) (bm_stats bm)\<rparr>"
  have "write_kind db KPlatform bm w = Some (?bm, w1)"
    by (simp add: write_kind_def platformWriter_def writer_turn_def Cons.hyps(2) [symmetric] w1)
  then have step: "breach db (bm, w) (?bm, w1)"
    by (rule breach.one_more [OF breach.at_start bstep.written [OF Cons.prems(1)]])
  obtain bm' w' where "breach db (?bm, w1) (bm', w')" and "bm_platformWriteChan bm' = []"
    and "stored w' = stored w1 + mset (map enc (concat ch))"
    using Cons.hyps(1) [of ?bm w1] Cons.prems by auto
  then show ?case
    using breach_trans [OF step]
      prompt_writer.write_exact [of "dbi_Platform db" enc stored "bm_writerConfig bm" b w None w1, OF assms(3) w1]
    by (auto simp: Cons.hyps(2) [symmetric] add_ac)
qed

end
