(* ===== verification/Model_Helpers.thy ===== *)
theory Model_Helpers
  imports Go_Time Go_Float
begin

text \<open>
  The enumerations and the formatting helpers of \<^verbatim>\<open>internal/models/models.go\<close>.  An enumeration
  is an int32; \<open>_String\<close> is its \<^verbatim>\<open>String\<close> method and \<open>enum_Value\<close> its \<^verbatim>\<open>Value\<close> method, the
  int64 the database driver stores.
\<close>

section \<open>Enumerations\<close>

definition AlarmStatus_String :: "int32 \<Rightarrow> string" where
  "AlarmStatus_String a =
     (if a = 1 then ''NORMAL'' else if a = 2 then ''ALARM'' else ''INVALID'')"

definition AdminStatus_String :: "int32 \<Rightarrow> string" where
  "AdminStatus_String a =
     (if a = 1 then ''UP'' else if a = 2 then ''DOWN'' else if a = 3 then ''TESTING''
      else ''INVALID'')"

definition OperStatus_String :: "int32 \<Rightarrow> string" where
  "OperStatus_String a =
     (if a = 1 then ''UP'' else if a = 2 then ''DOWN'' else if a = 3 then ''TESTING''
      else if a = 4 then ''UNKNOWN'' else if a = 5 then ''DORMANT''
      else if a = 6 then ''NOT_PRESENT'' else if a = 7 then ''LOWER_LAYER_DOWN''
      else ''INVALID'')"

definition PhyStatus_String :: "int32 \<Rightarrow> string" where
  "PhyStatus_String a =
     (if a = 1 then ''UP'' else if a = 2 then ''DOWN'' else ''INVALID'')"

definition IPv4OperStatus_String :: "int32 \<Rightarrow> string" where
  "IPv4OperStatus_String a =
     (if a = 1 then ''UP'' else if a = 2 then ''DOWN'' else ''INVALID'')"

definition IPv6OperStatus_String :: "int32 \<Rightarrow> string" where
  "IPv6OperStatus_String a =
     (if a = 1 then ''UP'' else if a = 2 then ''DOWN'' else ''INVALID'')"

text \<open>The \<^verbatim>\<open>Value\<close> methods of the six types are the same conversion \<^verbatim>\<open>int64(a)\<close>.\<close>

definition enum_Value :: "int32 \<Rightarrow> int64" where
  "enum_Value a = scast a"

lemma sint_enum_Value [simp]: "sint (enum_Value a) = sint a"
  by (simp add: enum_Value_def sint_up_scast is_up)

section \<open>Formatting\<close>

definition FormatUptime :: "uint32 \<Rightarrow> string" where
  "FormatUptime seconds =
     (let days = seconds div 86400;
          hours = (seconds mod 86400) div 3600;
          minutes = (seconds mod 3600) div 60;
          secs = seconds mod 60
      in dec02 (unat days) @ '':'' @ dec02 (unat hours) @ '':'' @ dec02 (unat minutes) @ '':''
         @ dec02 (unat secs))"

definition float64_of_uint64 :: "uint64 \<Rightarrow> gofloat" where
  "float64_of_uint64 w = f64_round (of_int (uint w))"

definition BytesToMB :: "uint64 \<Rightarrow> gofloat" where
  "BytesToMB bytes = f64_mul_pos (float64_of_uint64 bytes) (1 / (1024 * 1024))"

definition NanosecondsToTime :: "uint64 \<Rightarrow> gtime" where
  "NanosecondsToTime ns = time_Unix 0 (sint ns)"

definition NanosecondsToSeconds :: "uint64 \<Rightarrow> uint64" where
  "NanosecondsToSeconds ns = ns div 1000000000"

definition FormatPercentage :: "gofloat \<Rightarrow> string" where
  "FormatPercentage value = fmt_2f value @ ''%''"

definition FormatUtilization :: "gofloat \<Rightarrow> string" where
  "FormatUtilization value = fmt_2f (f64_mul_pos value 100) @ ''%''"

definition FormatTrafficRate :: "gofloat \<Rightarrow> string" where
  "FormatTrafficRate value = fmt_2f value @ '' Mbps''"

definition FormatPacketRate :: "gofloat \<Rightarrow> string" where
  "FormatPacketRate value = fmt_2f value @ '' Kfps''"

text \<open>The four fields of an uptime, as natural numbers.\<close>

lemma FormatUptime_nat:
  "FormatUptime s =
     dec02 (unat s div 86400) @ CHR '':'' # dec02 (unat s mod 86400 div 3600) @
     CHR '':'' # dec02 (unat s mod 3600 div 60) @ CHR '':'' # dec02 (unat s mod 60)"
  by (simp add: FormatUptime_def Let_def unat_div unat_mod)

lemma uptime_digits: "CHR '':'' \<notin> set (dec02 n)"
  using dec_no_sep by (auto simp: dec02_def in_set_replicate)

lemma dec02_inject [simp]: "dec02 m = dec02 n \<longleftrightarrow> m = n"
  by (metis undec_dec02)

lemma seconds_of_fields:
  "(n::nat) = n div 86400 * 86400 + n mod 86400 div 3600 * 3600 + n mod 3600 div 60 * 60 + n mod 60"
proof -
  have "n mod 86400 mod 3600 = n mod 3600" by (simp add: mod_mod_cancel)
  moreover have "n mod 3600 mod 60 = n mod 60" by (simp add: mod_mod_cancel)
  ultimately show ?thesis
    by (metis add.assoc div_mult_mod_eq)
qed

lemma FormatUptime_inject: "FormatUptime s = FormatUptime t \<longleftrightarrow> s = t"
proof
  assume "FormatUptime s = FormatUptime t"
  then have "unat s div 86400 = unat t div 86400 \<and>
      unat s mod 86400 div 3600 = unat t mod 86400 div 3600 \<and>
      unat s mod 3600 div 60 = unat t mod 3600 div 60 \<and> unat s mod 60 = unat t mod 60"
    unfolding FormatUptime_nat
    by (auto dest!: append_sep_inject simp: uptime_digits)
  then have "unat s = unat t"
    using seconds_of_fields [of "unat s"] seconds_of_fields [of "unat t"] by simp
  then show "s = t" by (simp add: word_unat_eq_iff)
qed simp

lemma dec02_padded: "n < 60 \<Longrightarrow> length (dec02 n) = 2"
  by (rule dec02_two) simp

lemma FormatUptime_shape:
  "\<exists>d h m sec. FormatUptime s = d @ '':'' @ h @ '':'' @ m @ '':'' @ sec \<and>
     length h = 2 \<and> length m = 2 \<and> length sec = 2 \<and> undec h < 24 \<and> undec m < 60 \<and> undec sec < 60"
proof (intro exI conjI)
  show "FormatUptime s = dec02 (unat s div 86400) @ '':'' @ dec02 (unat s mod 86400 div 3600) @ '':''
      @ dec02 (unat s mod 3600 div 60) @ '':'' @ dec02 (unat s mod 60)"
    by (simp add: FormatUptime_nat)
qed (auto intro!: dec02_two simp: less_mult_imp_div_less)

end
