(* ===== verification/Parser_Helpers.thy ===== *)
theory Parser_Helpers
  imports Model_Helpers
begin

text \<open>
  The conversions of \<^verbatim>\<open>internal/parser/helpers.go\<close>, \<^verbatim>\<open>internal/parser/alarm_parser.go\<close> and the head of
  \<^verbatim>\<open>internal/parser/telemetry_parser.go\<close>: unit conversions, the pointer constructors that turn a
  zero value into nil, and the names of the enumeration values.
\<close>

section \<open>Units\<close>

definition formatUptime :: "uint32 \<Rightarrow> string" where
  "formatUptime seconds =
     (if seconds = 0 then ''00:00:00:00''
      else let days = seconds div 86400;
               hours = (seconds mod 86400) div 3600;
               minutes = (seconds mod 3600) div 60;
               secs = seconds mod 60
           in dec02 (unat days) @ '':'' @ dec02 (unat hours) @ '':'' @ dec02 (unat minutes) @ '':''
              @ dec02 (unat secs))"

definition bytesToMB :: "uint64 \<Rightarrow> uint64" where
  "bytesToMB bytes = bytes div (1024 * 1024)"

definition percentageFormat :: "gofloat \<Rightarrow> string" where
  "percentageFormat value = fmt_2f value @ ''%''"

definition utilizationToPercentage :: "gofloat \<Rightarrow> string" where
  "utilizationToPercentage utilization =
     (let percentage = f64_mul_pos (float64_of_float32 utilization) 100
      in fmt_2f percentage @ ''%'')"

definition nanosToSeconds :: "uint64 \<Rightarrow> uint64" where
  "nanosToSeconds nanos = nanos div 1000000000"

definition nanosToTimestamp :: "uint64 \<Rightarrow> gtime" where
  "nanosToTimestamp nanos =
     (let seconds = sint (nanos div 1000000000); nanosRemainder = sint (nanos mod 1000000000)
      in time_Unix seconds nanosRemainder)"

definition addUnitMbps :: "gofloat \<Rightarrow> string" where
  "addUnitMbps value = fmt_2f value @ '' Mbps''"

definition addUnitKfps :: "gofloat \<Rightarrow> string" where
  "addUnitKfps value = fmt_2f value @ '' Kfps''"

definition formatPercentage :: "gofloat \<Rightarrow> string" where
  "formatPercentage value = utilizationToPercentage value"

definition utilizationToNumeric :: "gofloat \<Rightarrow> gofloat" where
  "utilizationToNumeric utilization = f64_mul_pos (float64_of_float32 utilization) 100"

definition percentageToNumeric :: "uint32 \<Rightarrow> gofloat" where
  "percentageToNumeric percentage = float64_of_uint32 percentage"

definition storageAvailabilityToNumeric :: "uint32 \<Rightarrow> gofloat" where
  "storageAvailabilityToNumeric availability = float64_of_uint32 availability"

text \<open>The milliseconds of a message, \<^verbatim>\<open>time.UnixMilli(int64(...))\<close>.\<close>

definition msg_time :: "uint64 \<Rightarrow> gtime" where
  "msg_time ms = time_UnixMilli (sint ms)"

section \<open>Names of enumeration values\<close>

definition alarmStatusToString :: "int32 \<Rightarrow> string" where
  "alarmStatusToString status =
     (if status = 0 then ''INVALID'' else if status = 1 then ''NORMAL''
      else if status = 2 then ''ALARM'' else ''UNKNOWN'')"

definition adminStatusToString :: "int32 \<Rightarrow> string" where
  "adminStatusToString status =
     (if status = 0 then ''ADMIN_STATUS_INVALID'' else if status = 1 then ''ADMIN_STATUS_UP''
      else if status = 2 then ''ADMIN_STATUS_DOWN'' else if status = 3 then ''ADMIN_STATUS_TESTING''
      else ''UNKNOWN'')"

definition operStatusToString :: "int32 \<Rightarrow> string" where
  "operStatusToString status =
     (if status = 0 then ''OPER_STATUS_INVALID'' else if status = 1 then ''OPER_STATUS_UP''
      else if status = 2 then ''OPER_STATUS_DOWN'' else if status = 3 then ''OPER_STATUS_TESTING''
      else if status = 4 then ''OPER_STATUS_UNKNOWN'' else if status = 5 then ''OPER_STATUS_DORMANT''
      else if status = 6 then ''OPER_STATUS_NOT_PRESENT''
      else if status = 7 then ''OPER_STATUS_LOWER_LAYER_DOWN'' else ''UNKNOWN'')"

definition phyStatusToString :: "int32 \<Rightarrow> string" where
  "phyStatusToString status =
     (if status = 0 then ''PHY_STATUS_INVALID'' else if status = 1 then ''PHY_STATUS_UP''
      else if status = 2 then ''PHY_STATUS_DOWN'' else ''UNKNOWN'')"

definition ipv4OperStatusToString :: "int32 \<Rightarrow> string" where
  "ipv4OperStatusToString status =
     (if status = 0 then ''IPV4OPERSTATUS_STATUS_INVALID''
      else if status = 1 then ''IPV4OPERSTATUS_STATUS_UP''
      else if status = 2 then ''IPV4OPERSTATUS_STATUS_DOWN'' else ''UNKNOWN'')"

definition ipv6OperStatusToString :: "int32 \<Rightarrow> string" where
  "ipv6OperStatusToString status =
     (if status = 0 then ''IPV6OPERSTATUS_STATUS_INVALID''
      else if status = 1 then ''IPV6OPERSTATUS_STATUS_UP''
      else if status = 2 then ''IPV6OPERSTATUS_STATUS_DOWN'' else ''UNKNOWN'')"

text \<open>
  The parser itself uses the \<open>convert\<close> functions, which append the number of an unknown value
  in decimal (\<^verbatim>\<open>strconv.Itoa(int(value))\<close>).
\<close>

definition convertAlarmStatus :: "int32 \<Rightarrow> string" where
  "convertAlarmStatus v =
     (if v = 0 then ''INVALID'' else if v = 1 then ''NORMAL'' else if v = 2 then ''ALARM''
      else ''UNKNOWN_'' @ dec_int (sint v))"

definition convertAdminStatus :: "int32 \<Rightarrow> string" where
  "convertAdminStatus v =
     (if v = 0 then ''ADMIN_STATUS_INVALID'' else if v = 1 then ''ADMIN_STATUS_UP''
      else if v = 2 then ''ADMIN_STATUS_DOWN'' else if v = 3 then ''ADMIN_STATUS_TESTING''
      else ''ADMIN_STATUS_UNKNOWN_'' @ dec_int (sint v))"

definition convertOperStatus :: "int32 \<Rightarrow> string" where
  "convertOperStatus v =
     (if v = 0 then ''OPER_STATUS_INVALID'' else if v = 1 then ''OPER_STATUS_UP''
      else if v = 2 then ''OPER_STATUS_DOWN'' else if v = 3 then ''OPER_STATUS_TESTING''
      else if v = 4 then ''OPER_STATUS_UNKNOWN'' else if v = 5 then ''OPER_STATUS_DORMANT''
      else if v = 6 then ''OPER_STATUS_NOT_PRESENT''
      else if v = 7 then ''OPER_STATUS_LOWER_LAYER_DOWN''
      else ''OPER_STATUS_UNKNOWN_'' @ dec_int (sint v))"

definition convertIPv4OperStatus :: "int32 \<Rightarrow> string" where
  "convertIPv4OperStatus v =
     (if v = 0 then ''IPV4OPERSTATUS_STATUS_INVALID''
      else if v = 1 then ''IPV4OPERSTATUS_STATUS_UP''
      else if v = 2 then ''IPV4OPERSTATUS_STATUS_DOWN''
      else ''IPV4OPERSTATUS_STATUS_UNKNOWN_'' @ dec_int (sint v))"

definition convertIPv6OperStatus :: "int32 \<Rightarrow> string" where
  "convertIPv6OperStatus v =
     (if v = 0 then ''IPV6OPERSTATUS_STATUS_INVALID''
      else if v = 1 then ''IPV6OPERSTATUS_STATUS_UP''
      else if v = 2 then ''IPV6OPERSTATUS_STATUS_DOWN''
      else ''IPV6OPERSTATUS_STATUS_UNKNOWN_'' @ dec_int (sint v))"

definition convertPhyStatus :: "int32 \<Rightarrow> string" where
  "convertPhyStatus v =
     (if v = 0 then ''PHY_STATUS_INVALID'' else if v = 1 then ''PHY_STATUS_UP''
      else if v = 2 then ''PHY_STATUS_DOWN''
      else ''PHY_STATUS_UNKNOWN_'' @ dec_int (sint v))"

section \<open>Pointers\<close>

definition safeStringValue :: "string option \<Rightarrow> string" where
  "safeStringValue s = (case s of None \<Rightarrow> [] | Some v \<Rightarrow> v)"

definition safeUint32Value :: "uint32 option \<Rightarrow> uint32" where
  "safeUint32Value v = (case v of None \<Rightarrow> 0 | Some x \<Rightarrow> x)"

definition safeUint64Value :: "uint64 option \<Rightarrow> uint64" where
  "safeUint64Value v = (case v of None \<Rightarrow> 0 | Some x \<Rightarrow> x)"

definition safeFloat32Value :: "gofloat option \<Rightarrow> gofloat" where
  "safeFloat32Value v = (case v of None \<Rightarrow> F_Num 0 | Some x \<Rightarrow> x)"

definition safeBoolValue :: "bool option \<Rightarrow> bool" where
  "safeBoolValue v = (case v of None \<Rightarrow> False | Some x \<Rightarrow> x)"

definition stringPtr :: "string \<Rightarrow> string option" where
  "stringPtr s = (if s = [] then None else Some s)"

definition uint32Ptr :: "uint32 \<Rightarrow> uint32 option" where
  "uint32Ptr v = (if v = 0 then None else Some v)"

definition uint64Ptr :: "uint64 \<Rightarrow> uint64 option" where
  "uint64Ptr v = (if v = 0 then None else Some v)"

definition float64Ptr :: "gofloat \<Rightarrow> gofloat option" where
  "float64Ptr v = (if f_is_zero v then None else Some v)"

definition opticalPowerPtr :: "gofloat \<Rightarrow> bool \<Rightarrow> gofloat option" where
  "opticalPowerPtr v isValid =
     (if \<not> isValid \<or> f_is_zero v then Some (F_Num (- 60)) else Some v)"

definition boolPtr :: "bool \<Rightarrow> bool option" where
  "boolPtr v = Some v"

definition timePtr :: "gtime \<Rightarrow> gtime option" where
  "timePtr t = (if time_IsZero t then None else Some t)"

definition convertUnixTimestamp :: "uint32 \<Rightarrow> gtime option" where
  "convertUnixTimestamp timestamp =
     (if timestamp = 0 then None else Some (time_Unix (uint timestamp) 0))"

text \<open>\<^verbatim>\<open>bytesToBase64Ptr\<close>, which prints hexadecimal.\<close>

definition bytesToBase64Ptr :: "bytes \<Rightarrow> string option" where
  "bytesToBase64Ptr b = (if length b = 0 then None else Some (hex_string b))"

section \<open>Lemmas\<close>

lemma formatUptime_eq: "formatUptime s = FormatUptime s"
proof (cases "s = 0")
  case True
  have "dec 0 = ''0''" by (simp add: dec.simps digit_char_def)
  with True show ?thesis
    by (simp add: formatUptime_def FormatUptime_def dec02_def)
next
  case False
  then show ?thesis by (simp add: formatUptime_def FormatUptime_def)
qed

lemma unat_bytesToMB: "unat (bytesToMB b) = unat b div 1048576"
  by (simp add: bytesToMB_def unat_div)

text \<open>A quotient of a 64-bit value by a positive constant is not negative as an int64.\<close>

lemma sint_eq_uint_small: "uint (w::64 word) < 2 ^ 63 \<Longrightarrow> sint w = uint w"
  by (auto simp: sint_uint signed_take_bit_int_eq_self_iff intro: order_trans [of _ 0])

lemma uint64_less: "uint (w::64 word) < 2 ^ 64"
  using uint_lt2p [of w] by simp

lemma nanosToTimestamp_eq:
  "nanosToTimestamp n = time_Unix 0 (uint n)"
proof -
  have "uint (n div 1000000000) = uint n div 1000000000" by (simp add: uint_div)
  moreover have "uint n div 1000000000 < 2 ^ 63" using uint64_less [of n] by simp
  ultimately have q: "sint (n div 1000000000) = uint n div 1000000000"
    using sint_eq_uint_small by metis
  have "uint (n mod 1000000000) = uint n mod 1000000000" by (simp add: uint_mod)
  moreover have "uint n mod 1000000000 < 2 ^ 63"
    by (rule less_trans [OF pos_mod_bound]) simp_all
  ultimately have r: "sint (n mod 1000000000) = uint n mod 1000000000"
    using sint_eq_uint_small by metis
  show ?thesis by (simp add: nanosToTimestamp_def q r Let_def time_Unix_def)
qed

lemma nanosToTimestamp_not_zero [simp]: "\<not> time_IsZero (nanosToTimestamp n)"
proof -
  have "0 \<le> uint n div 1000000000"
    using pos_imp_zdiv_nonneg_iff [of 1000000000 "uint n"] by simp
  then show ?thesis by (simp add: nanosToTimestamp_eq time_IsZero_def time_Unix_def)
qed

lemma nanos_of_nanosToTimestamp [simp]: "nanos_of (nanosToTimestamp n) = uint n"
  by (simp add: nanosToTimestamp_eq)

lemma msg_time_wf [simp]: "gtime_wf (msg_time ms)"
  by (simp add: msg_time_def)

lemma safe_of_ptr [simp]:
  "safeStringValue (stringPtr s) = s" "safeUint32Value (uint32Ptr v) = v"
  "safeUint64Value (uint64Ptr w) = w" "safeBoolValue (boolPtr b) = b"
  by (simp_all add: safeStringValue_def stringPtr_def safeUint32Value_def uint32Ptr_def
      safeUint64Value_def uint64Ptr_def safeBoolValue_def boolPtr_def)

lemma ptr_None_iff [simp]:
  "stringPtr s = None \<longleftrightarrow> s = []" "uint32Ptr v = None \<longleftrightarrow> v = 0" "uint64Ptr w = None \<longleftrightarrow> w = 0"
  "float64Ptr x = None \<longleftrightarrow> f_is_zero x" "timePtr t = None \<longleftrightarrow> time_IsZero t"
  by (simp_all add: stringPtr_def uint32Ptr_def uint64Ptr_def float64Ptr_def timePtr_def)

lemma ptr_inject [simp]:
  "stringPtr s = stringPtr s' \<longleftrightarrow> s = s'" "uint32Ptr v = uint32Ptr v' \<longleftrightarrow> v = v'"
  "uint64Ptr w = uint64Ptr w' \<longleftrightarrow> w = w'"
  by (auto simp: stringPtr_def uint32Ptr_def uint64Ptr_def)

lemma opticalPowerPtr_cases:
  "opticalPowerPtr v ok = Some p \<longleftrightarrow> p = (if ok \<and> \<not> f_is_zero v then v else F_Num (- 60))"
  by (auto simp: opticalPowerPtr_def)

end
