(* ===== verification/Database_Rows.thy ===== *)
theory Database_Rows
  imports Buffer_Writer Parser_Helpers Platform_Models Interface_Models Alarm_Models
begin

text \<open>
  \<^verbatim>\<open>internal/database/database.go\<close> and \<^verbatim>\<open>internal/database/helpers.go\<close>: how metrics become rows, the
  column lists of the five COPY statements, the batch inserts, and the field accessors.  A value
  handed to the driver is a \<open>cell\<close>: a Go value (\<open>V\<dots>\<close>), a pointer (\<open>P\<dots>\<close>) or nil.

  The pool of \<^verbatim>\<open>pgx\<close> is a library: a record of functions on the world \<open>'w\<close>, whose documented behaviour
  is \<open>pgx_contract\<close>.  \<^verbatim>\<open>strconv.ParseFloat\<close> is the parameter \<open>parse_float\<close>, \<open>None\<close> for an error.  The
  column lists of \<^verbatim>\<open>create_tables.sql\<close> and the tags of the metric structures stand at the end.
\<close>

section \<open>Cells\<close>

datatype cell =
    CNil
  | VString string | VInt32 int32 | VInt64 int64 | VUint32 uint32 | VFloat gofloat | VBool bool
  | VTime gtime
  | PString "string option" | PUint32 "uint32 option" | PUint64 "uint64 option"
  | PFloat "gofloat option" | PBool "bool option" | PTime "gtime option"

definition db_safeString :: "string option \<Rightarrow> cell" where
  "db_safeString s = (case s of None \<Rightarrow> CNil | Some v \<Rightarrow> VString v)"

definition db_safeUint32 :: "uint32 option \<Rightarrow> cell" where
  "db_safeUint32 u = (case u of None \<Rightarrow> CNil | Some v \<Rightarrow> VInt32 v)"

definition db_safeUint64 :: "uint64 option \<Rightarrow> cell" where
  "db_safeUint64 u = (case u of None \<Rightarrow> CNil | Some v \<Rightarrow> VInt64 v)"

definition safeFloat64 :: "gofloat option \<Rightarrow> cell" where
  "safeFloat64 f = (case f of None \<Rightarrow> CNil | Some v \<Rightarrow> VFloat v)"

definition safeBool :: "bool option \<Rightarrow> cell" where
  "safeBool b = (case b of None \<Rightarrow> CNil | Some v \<Rightarrow> VBool v)"

definition safeTime :: "gtime option \<Rightarrow> cell" where
  "safeTime t = (case t of None \<Rightarrow> CNil | Some v \<Rightarrow> if time_IsZero v then CNil else VTime v)"

definition safeNumericString :: "(string \<Rightarrow> gofloat option) \<Rightarrow> string option \<Rightarrow> cell" where
  "safeNumericString parse_float s =
     (case s of
        None \<Rightarrow> CNil
      | Some v \<Rightarrow>
          if v = [] then CNil
          else (case parse_float v of Some val \<Rightarrow> VFloat val | None \<Rightarrow> CNil))"

definition safeDeref :: "'a \<Rightarrow> 'a option \<Rightarrow> 'a" where
  "safeDeref zero p = (case p of None \<Rightarrow> zero | Some v \<Rightarrow> v)"

definition safeCommon :: "PlatformMetric \<Rightarrow> CommonState" where
  "safeCommon m = (case pm_CommonState m of None \<Rightarrow> CommonState_zero | Some x \<Rightarrow> x)"

definition safeCPU :: "PlatformMetric \<Rightarrow> CPUData" where
  "safeCPU m = (case pm_CPUData m of None \<Rightarrow> CPUData_zero | Some x \<Rightarrow> x)"

definition safeMem :: "PlatformMetric \<Rightarrow> MemData" where
  "safeMem m = (case pm_MemData m of None \<Rightarrow> MemData_zero | Some x \<Rightarrow> x)"

definition safeTemp :: "PlatformMetric \<Rightarrow> TempData" where
  "safeTemp m = (case pm_TempData m of None \<Rightarrow> TempData_zero | Some x \<Rightarrow> x)"

definition safeFan :: "PlatformMetric \<Rightarrow> FanData" where
  "safeFan m = (case pm_FanData m of None \<Rightarrow> FanData_zero | Some x \<Rightarrow> x)"

definition safePower :: "PlatformMetric \<Rightarrow> PowerData" where
  "safePower m = (case pm_PowerData m of None \<Rightarrow> PowerData_zero | Some x \<Rightarrow> x)"

definition safeOptical :: "PlatformMetric \<Rightarrow> OpticalData" where
  "safeOptical m = (case pm_OpticalData m of None \<Rightarrow> OpticalData_zero | Some x \<Rightarrow> x)"

section \<open>Rows and columns\<close>

definition platform_row :: "PlatformMetric \<Rightarrow> cell list" where
  "platform_row metric =
     (let c = safeCommon metric; cpu = safeCPU metric; mem = safeMem metric; tmp = safeTemp metric;
          fan = safeFan metric; pwr = safePower metric; opt = safeOptical metric
      in [VTime (pm_Timestamp metric), VString (pm_SystemID metric),
          VString (pm_ComponentName metric), db_safeString (cs_OperStatus c),
          db_safeString (cs_Uptime c), db_safeUint32 (cs_UsedPower c),
          db_safeUint32 (cs_AllocatedPower c), db_safeString (cs_CurrentVoltage c),
          db_safeString (cs_CurrentCurrent c), db_safeString (cs_TotalCapacity c),
          db_safeString (cs_UsedCapacity c), db_safeString (cs_Type c),
          db_safeString (cs_RedundancyType c), db_safeString (cs_Modules c),
          db_safeString (cs_TotalInputPower c), db_safeUint32 (fan_FanSpeed fan),
          db_safeString (fan_FanState fan), db_safeString (fan_FanPhyStatus fan),
          db_safeString (fan_FanWorkMode fan), db_safeString (fan_FanCurrentPower fan),
          db_safeString (fan_FanCurrentVoltage fan), db_safeString (fan_FanCurrentCurrent fan),
          db_safeString (fan_FanSpeedPercent fan), db_safeUint64 (mem_MemAvailable mem),
          db_safeUint64 (mem_MemUtilized mem), db_safeUint64 (mem_MemFree mem),
          safeFloat64 (mem_MemUsage mem), db_safeString (mem_MemAlarmStatus mem),
          safeFloat64 (mem_StorageAvailability mem), safeFloat64 (tmp_TempInstant tmp),
          safeFloat64 (tmp_TempAvg tmp), safeFloat64 (tmp_TempMin tmp),
          safeFloat64 (tmp_TempMax tmp), db_safeUint64 (tmp_TempInterval tmp),
          safeTime (tmp_TempMinTime tmp), safeTime (tmp_TempMaxTime tmp),
          safeBool (tmp_AlarmStatus tmp), safeFloat64 (tmp_TempAlarmThreshold tmp),
          db_safeString (tmp_TempAlarmSeverity tmp), safeFloat64 (tmp_TempMinorThreshold tmp),
          safeFloat64 (tmp_TempMajorThreshold tmp), safeFloat64 (tmp_TempFatalThreshold tmp),
          db_safeString (tmp_TempInstantString tmp), db_safeString (tmp_TempStatus tmp),
          db_safeString (tmp_TempDescription tmp), safeBool (pwr_PowerEnable pwr),
          safeFloat64 (pwr_PowerCapacity pwr), safeFloat64 (pwr_PowerInputCurrent pwr),
          safeFloat64 (pwr_PowerInputVoltage pwr), safeFloat64 (pwr_PowerOutputCurrent pwr),
          safeFloat64 (pwr_PowerOutputVoltage pwr), safeFloat64 (pwr_PowerOutputPower pwr),
          db_safeString (pwr_PowerWorkState pwr), db_safeString (pwr_PowerName pwr),
          db_safeString (pwr_PowerPhyState pwr), db_safeString (pwr_PowerState pwr),
          db_safeString (pwr_PowerComState pwr), db_safeString (pwr_PowerTemperature pwr),
          db_safeString (pwr_PowerAvailable pwr), db_safeString (pwr_PowerCapacityString pwr),
          db_safeString (pwr_PowerInputPower pwr), safeFloat64 (pwr_PowerInput2Current pwr),
          safeFloat64 (pwr_PowerInput2Voltage pwr), safeFloat64 (pwr_PowerOutput2Current pwr),
          safeFloat64 (pwr_PowerOutput2Voltage pwr),
          db_safeString (pwr_LinecardPowerAdminState pwr), safeFloat64 (cpu_CPUInstant cpu),
          safeFloat64 (cpu_CPUAvg cpu), safeFloat64 (cpu_CPUMin cpu),
          safeFloat64 (cpu_CPUMax cpu), db_safeUint64 (cpu_CPUInterval cpu),
          safeTime (cpu_CPUMinTime cpu), safeTime (cpu_CPUMaxTime cpu),
          db_safeString (cpu_CPUAlarmStatus cpu), safeFloat64 (opt_OpticalInPower opt),
          safeFloat64 (opt_OpticalOutPower opt), safeFloat64 (opt_OpticalBiasCurrent opt),
          safeFloat64 (opt_OpticalTemperature opt), safeFloat64 (opt_OpticalVoltageVol33 opt),
          safeFloat64 (opt_OpticalVoltageVol5 opt),
          db_safeString (opt_OpticalAlarmLosStatus opt),
          db_safeUint32 (opt_OpticalAlarmLosInfoEventID opt),
          db_safeUint32 (opt_OpticalAlarmLosInfoEventInterval opt),
          safeFloat64 (opt_OpticalAlarmLosInfoInPower opt),
          safeFloat64 (opt_OpticalAlarmLosInfoOutPower opt),
          db_safeString (opt_OpticalOnlineStatus opt),
          safeFloat64 (opt_OpticalRxThresholdHighAlarm opt),
          safeFloat64 (opt_OpticalRxThresholdPreHighAlarm opt),
          safeFloat64 (opt_OpticalRxThresholdLowAlarm opt),
          safeFloat64 (opt_OpticalRxThresholdPreLowAlarm opt)])"

definition platform_columns :: "string list" where
  "platform_columns =
     [''timestamp'', ''system_id'', ''component_name'', ''oper_status'', ''uptime'',
      ''used_power'', ''allocated_power'', ''current_voltage'', ''current_current'',
      ''total_capacity'', ''used_capacity'', ''type'', ''redundancy_type'', ''modules'',
      ''total_input_power'', ''fan_speed'', ''fan_state'', ''fan_phy_status'', ''fan_work_mode'',
      ''fan_current_power'', ''fan_current_voltage'', ''fan_current_current'',
      ''fan_speed_percent'', ''mem_available'', ''mem_utilized'', ''mem_free'', ''mem_usage'',
      ''mem_alarm_status'', ''storage_availability'', ''temp_instant'', ''temp_avg'',
      ''temp_min'', ''temp_max'', ''temp_interval'', ''temp_min_time'', ''temp_max_time'',
      ''alarm_status'', ''temp_alarm_threshold'', ''temp_alarm_severity'',
      ''temp_minor_threshold'', ''temp_major_threshold'', ''temp_fatal_threshold'',
      ''temp_instant_string'', ''temp_status'', ''temp_description'', ''power_enable'',
      ''power_capacity'', ''power_input_current'', ''power_input_voltage'',
      ''power_output_current'', ''power_output_voltage'', ''power_output_power'',
      ''power_work_state'', ''power_name'', ''power_phy_state'', ''power_state'',
      ''power_com_state'', ''power_temperature'', ''power_available'', ''power_capacity_string'',
      ''power_input_power'', ''power_input2_current'', ''power_input2_voltage'',
      ''power_output2_current'', ''power_output2_voltage'', ''linecard_power_admin_state'',
      ''cpu_instant'', ''cpu_avg'', ''cpu_min'', ''cpu_max'', ''cpu_interval'', ''cpu_min_time'',
      ''cpu_max_time'', ''cpu_alarm_status'', ''optical_in_power'', ''optical_out_power'',
      ''optical_bias_current'', ''optical_temperature'', ''optical_voltage_vol33'',
      ''optical_voltage_vol5'', ''optical_alarm_los_status'',
      ''optical_alarm_los_info_event_id'', ''optical_alarm_los_info_event_interval'',
      ''optical_alarm_los_info_in_power'', ''optical_alarm_los_info_out_power'',
      ''optical_online_status'', ''optical_rx_threshold_high_alarm'',
      ''optical_rx_threshold_pre_high_alarm'', ''optical_rx_threshold_low_alarm'',
      ''optical_rx_threshold_pre_low_alarm'']"

definition platform_table :: "string list" where
  "platform_table = [''platform_metrics'']"

definition interface_row :: "(string \<Rightarrow> gofloat option) \<Rightarrow> InterfaceMetric \<Rightarrow> cell list" where
  "interface_row parse_float metric =
     [VTime (im_Timestamp metric), VString (im_SystemID metric),
      VString (im_InterfaceName metric), PUint64 (im_InOctets metric),
      PUint64 (im_OutOctets metric), PUint64 (im_InUnicastPkts metric),
      PUint64 (im_OutUnicastPkts metric), PUint64 (im_InDiscards metric),
      PUint64 (im_OutDiscards metric), PUint64 (im_InErrors metric),
      PUint64 (im_OutErrors metric), PUint64 (im_InUnknownProtos metric),
      PUint64 (im_InMulticastPkts metric), PUint64 (im_OutMulticastPkts metric),
      PUint64 (im_InBroadcastPkts metric), PUint64 (im_OutBroadcastPkts metric),
      PString (im_AdminStatusStr metric), PString (im_OperStatusStr metric),
      PTime (im_LastChange metric), PUint32 (im_Ifindex metric), PUint32 (im_Type metric),
      PString (im_PhyStatusStr metric), PString (im_IPv4OperStatusStr metric),
      PBool (im_Logical metric), PUint32 (im_ZteifType metric), PUint32 (im_ZteifIfindex metric),
      PString (im_ZteifAdminStatusStr metric), PString (im_ZteifOperStatusStr metric),
      PString (im_ZteifPhyStatusStr metric), PString (im_ZteifIPv4OperStatusStr metric),
      PString (im_ZteifIPv6OperStatusStr metric), PUint64 (im_InFcsErrors metric),
      PUint64 (im_CarrierTransitions metric), PTime (im_LastClear metric),
      PUint64 (im_InPkts metric), PUint64 (im_OutPkts metric),
      safeNumericString parse_float (im_InputUtilization metric),
      safeNumericString parse_float (im_OutputUtilization metric),
      PString (im_InTrafficRate metric), PString (im_InPacketRate metric),
      PString (im_OutTrafficRate metric), PString (im_OutPacketRate metric),
      PUint64 (im_InV4Octets metric), PUint64 (im_OutV4Octets metric),
      PUint64 (im_InV4Pkts metric), PUint64 (im_OutV4Pkts metric),
      PUint64 (im_InV6Octets metric), PUint64 (im_OutV6Octets metric),
      PUint64 (im_InV6Pkts metric), PUint64 (im_OutV6Pkts metric),
      PString (im_InV4TrafficRate metric), PString (im_InV4PacketRate metric),
      PString (im_OutV4TrafficRate metric), PString (im_OutV4PacketRate metric),
      PString (im_InV6TrafficRate metric), PString (im_InV6PacketRate metric),
      PString (im_OutV6TrafficRate metric), PString (im_OutV6PacketRate metric),
      safeNumericString parse_float (im_InputV4Utilization metric),
      safeNumericString parse_float (im_OutputV4Utilization metric),
      safeNumericString parse_float (im_InputV6Utilization metric),
      safeNumericString parse_float (im_OutputV6Utilization metric),
      PUint64 (im_InBierOctets metric), PUint64 (im_InBierPkts metric),
      PUint64 (im_OutBierOctets metric), PUint64 (im_OutBierPkts metric)]"

definition interface_columns :: "string list" where
  "interface_columns =
     [''timestamp'', ''system_id'', ''interface_name'', ''in_octets'', ''out_octets'',
      ''in_unicast_pkts'', ''out_unicast_pkts'', ''in_discards'', ''out_discards'',
      ''in_errors'', ''out_errors'', ''in_unknown_protos'', ''in_multicast_pkts'',
      ''out_multicast_pkts'', ''in_broadcast_pkts'', ''out_broadcast_pkts'', ''admin_status'',
      ''oper_status'', ''last_change'', ''ifindex'', ''type'', ''phy_status'',
      ''ipv4_oper_status'', ''logical'', ''zteif_type'', ''zteif_ifindex'',
      ''zteif_admin_status'', ''zteif_oper_status'', ''zteif_phy_status'',
      ''zteif_ipv4_oper_status'', ''zteif_ipv6_oper_status'', ''in_fcs_errors'',
      ''carrier_transitions'', ''last_clear'', ''in_pkts'', ''out_pkts'', ''input_utilization'',
      ''output_utilization'', ''in_traffic_rate'', ''in_packet_rate'', ''out_traffic_rate'',
      ''out_packet_rate'', ''in_v4_octets'', ''out_v4_octets'', ''in_v4_pkts'', ''out_v4_pkts'',
      ''in_v6_octets'', ''out_v6_octets'', ''in_v6_pkts'', ''out_v6_pkts'',
      ''in_v4_traffic_rate'', ''in_v4_packet_rate'', ''out_v4_traffic_rate'',
      ''out_v4_packet_rate'', ''in_v6_traffic_rate'', ''in_v6_packet_rate'',
      ''out_v6_traffic_rate'', ''out_v6_packet_rate'', ''input_v4_utilization'',
      ''output_v4_utilization'', ''input_v6_utilization'', ''output_v6_utilization'',
      ''in_bier_octets'', ''in_bier_pkts'', ''out_bier_octets'', ''out_bier_pkts'']"

definition interface_table :: "string list" where
  "interface_table = [''interface_metrics'']"

definition subinterface_row :: "(string \<Rightarrow> gofloat option) \<Rightarrow> SubinterfaceMetric \<Rightarrow> cell list" where
  "subinterface_row parse_float metric =
     [VTime (sm_Timestamp metric), VString (sm_SystemID metric),
      VString (sm_InterfaceName metric), VString (sm_SubinterfaceName metric),
      PUint32 (sm_Ifindex metric), PString (sm_AdminStatusStr metric),
      PString (sm_OperStatusStr metric), PTime (sm_LastChange metric), PBool (sm_Logical metric),
      PString (sm_IPv4OperStatusStr metric), PUint32 (sm_ZteifIfindex metric),
      PString (sm_ZteifAdminStatusStr metric), PString (sm_ZteifOperStatusStr metric),
      PString (sm_ZteifPhyStatusStr metric), PString (sm_ZteifIPv4OperStatusStr metric),
      PString (sm_ZteifIPv6OperStatusStr metric), PUint64 (sm_InOctets metric),
      PUint64 (sm_InUnicastPkts metric), PUint64 (sm_InBroadcastPkts metric),
      PUint64 (sm_InMulticastPkts metric), PUint64 (sm_InDiscards metric),
      PUint64 (sm_InErrors metric), PUint64 (sm_InUnknownProtos metric),
      PUint64 (sm_InFcsErrors metric), PUint64 (sm_OutOctets metric),
      PUint64 (sm_OutUnicastPkts metric), PUint64 (sm_OutBroadcastPkts metric),
      PUint64 (sm_OutMulticastPkts metric), PUint64 (sm_OutDiscards metric),
      PUint64 (sm_OutErrors metric), PUint64 (sm_CarrierTransitions metric),
      PTime (sm_LastClear metric), PUint64 (sm_InPkts metric), PUint64 (sm_OutPkts metric),
      safeNumericString parse_float (sm_InputUtilization metric),
      safeNumericString parse_float (sm_OutputUtilization metric),
      PString (sm_InTrafficRate metric), PString (sm_InPacketRate metric),
      PString (sm_OutTrafficRate metric), PString (sm_OutPacketRate metric),
      PUint64 (sm_InV4Octets metric), PUint64 (sm_OutV4Octets metric),
      PUint64 (sm_InV4Pkts metric), PUint64 (sm_OutV4Pkts metric),
      PUint64 (sm_InV6Octets metric), PUint64 (sm_OutV6Octets metric),
      PUint64 (sm_InV6Pkts metric), PUint64 (sm_OutV6Pkts metric),
      PString (sm_InV4TrafficRate metric), PString (sm_InV4PacketRate metric),
      PString (sm_OutV4TrafficRate metric), PString (sm_OutV4PacketRate metric),
      PString (sm_InV6TrafficRate metric), PString (sm_InV6PacketRate metric),
      PString (sm_OutV6TrafficRate metric), PString (sm_OutV6PacketRate metric),
      safeNumericString parse_float (sm_InputV4Utilization metric),
      safeNumericString parse_float (sm_OutputV4Utilization metric),
      safeNumericString parse_float (sm_InputV6Utilization metric),
      safeNumericString parse_float (sm_OutputV6Utilization metric),
      PUint64 (sm_InBierOctets metric), PUint64 (sm_InBierPkts metric),
      PUint64 (sm_OutBierOctets metric), PUint64 (sm_OutBierPkts metric)]"

definition subinterface_columns :: "string list" where
  "subinterface_columns =
     [''timestamp'', ''system_id'', ''interface_name'', ''subinterface_index'', ''ifindex'',
      ''admin_status'', ''oper_status'', ''last_change'', ''logical'', ''ipv4_oper_status'',
      ''zteif_ifindex'', ''zteif_admin_status'', ''zteif_oper_status'', ''zteif_phy_status'',
      ''zteif_ipv4_oper_status'', ''zteif_ipv6_oper_status'', ''in_octets'', ''in_unicast_pkts'',
      ''in_broadcast_pkts'', ''in_multicast_pkts'', ''in_discards'', ''in_errors'',
      ''in_unknown_protos'', ''in_fcs_errors'', ''out_octets'', ''out_unicast_pkts'',
      ''out_broadcast_pkts'', ''out_multicast_pkts'', ''out_discards'', ''out_errors'',
      ''carrier_transitions'', ''last_clear'', ''in_pkts'', ''out_pkts'', ''input_utilization'',
      ''output_utilization'', ''in_traffic_rate'', ''in_packet_rate'', ''out_traffic_rate'',
      ''out_packet_rate'', ''in_v4_octets'', ''out_v4_octets'', ''in_v4_pkts'', ''out_v4_pkts'',
      ''in_v6_octets'', ''out_v6_octets'', ''in_v6_pkts'', ''out_v6_pkts'',
      ''in_v4_traffic_rate'', ''in_v4_packet_rate'', ''out_v4_traffic_rate'',
      ''out_v4_packet_rate'', ''in_v6_traffic_rate'', ''in_v6_packet_rate'',
      ''out_v6_traffic_rate'', ''out_v6_packet_rate'', ''input_v4_utilization'',
      ''output_v4_utilization'', ''input_v6_utilization'', ''output_v6_utilization'',
      ''in_bier_octets'', ''in_bier_pkts'', ''out_bier_octets'', ''out_bier_pkts'']"

definition subinterface_table :: "string list" where
  "subinterface_table = [''subinterface_metrics'']"

definition alarmReport_row :: "AlarmReportMetric \<Rightarrow> cell list" where
  "alarmReport_row metric =
     [VTime (am_Timestamp metric), VString (am_SystemID metric), VUint32 (am_FlowID metric),
      VUint32 (am_Code metric), PTime (am_OccurrenceTime metric), PTime (am_UpdateTime metric),
      PTime (am_DisappearedTime metric), VUint32 (am_OccurrenceMs metric),
      VUint32 (am_UpdateMs metric), VUint32 (am_DisappearedMs metric),
      db_safeString (am_AlarmClass metric), db_safeString (am_AlarmType metric),
      db_safeString (am_AlarmStatus metric), db_safeUint32 (am_Sort metric),
      db_safeString (am_Severity metric), db_safeUint32 (am_TpidType metric),
      db_safeUint32 (am_TpidLength metric), db_safeString (am_Tpid metric),
      db_safeUint32 (am_ProtectGroupWorkStatus metric), db_safeUint32 (am_ProtectType metric),
      db_safeUint32 (am_Reason metric), db_safeString (am_ReturnMode metric),
      db_safeUint32 (am_ProtectTpidType metric), db_safeUint32 (am_ProtectTpidLength metric),
      db_safeString (am_ProtectTpid metric), db_safeUint32 (am_SourceTpidType metric),
      db_safeUint32 (am_SourceTpidLength metric), db_safeString (am_SourceTpid metric),
      db_safeUint32 (am_SwitchTpidType metric), db_safeUint32 (am_PreviousTpidLength metric),
      db_safeUint32 (am_CurrentTpidLength metric), db_safeString (am_PreviousTpid metric),
      db_safeString (am_CurrentTpid metric), db_safeString (am_PerfAlarmPeriod metric),
      db_safeString (am_PerfAlarmType metric), db_safeString (am_PerfAlarmValue metric),
      db_safeString (am_Description metric), db_safeString (am_Caption metric)]"

definition alarmReport_columns :: "string list" where
  "alarmReport_columns =
     [''timestamp'', ''system_id'', ''flow_id'', ''code'', ''occurrence_time'', ''update_time'',
      ''disappeared_time'', ''occurrence_ms'', ''update_ms'', ''disappeared_ms'',
      ''alarm_class'', ''alarm_type'', ''alarm_status'', ''sort'', ''severity'', ''tpid_type'',
      ''tpid_length'', ''tpid'', ''protect_group_work_status'', ''protect_type'', ''reason'',
      ''return_mode'', ''protect_tpid_type'', ''protect_tpid_length'', ''protect_tpid'',
      ''source_tpid_type'', ''source_tpid_length'', ''source_tpid'', ''switch_tpid_type'',
      ''previous_tpid_length'', ''current_tpid_length'', ''previous_tpid'', ''current_tpid'',
      ''perf_alarm_period'', ''perf_alarm_type'', ''perf_alarm_value'', ''description'',
      ''caption'']"

definition alarmReport_table :: "string list" where
  "alarmReport_table = [''telemetry'', ''alarm_report'']"

definition notificationReport_row :: "NotificationReportMetric \<Rightarrow> cell list" where
  "notificationReport_row metric =
     [VTime (nm_Timestamp metric), VString (nm_SystemID metric), VUint32 (nm_FlowID metric),
      VUint32 (nm_Code metric), PTime (nm_OccurTime metric), VUint32 (nm_OccurMs metric),
      db_safeString (nm_Classification metric), db_safeUint32 (nm_Sort metric),
      db_safeString (nm_Severity metric), db_safeUint32 (nm_TpidType metric),
      db_safeUint32 (nm_TpidLength metric), db_safeString (nm_Tpid metric),
      db_safeString (nm_Description metric), db_safeString (nm_Caption metric)]"

definition notificationReport_columns :: "string list" where
  "notificationReport_columns =
     [''timestamp'', ''system_id'', ''flow_id'', ''code'', ''occur_time'', ''occur_ms'',
      ''classification'', ''sort'', ''severity'', ''tpid_type'', ''tpid_length'', ''tpid'',
      ''description'', ''caption'']"

definition notificationReport_table :: "string list" where
  "notificationReport_table = [''telemetry'', ''notification_report'']"

section \<open>Batch inserts\<close>

record 'w pgx_pool =
  pool_Acquire :: "'w \<Rightarrow> string option \<times> 'w"
  pool_CopyFrom :: "string list \<Rightarrow> string list \<Rightarrow> cell list list \<Rightarrow> 'w \<Rightarrow> string option \<times> 'w"
  pool_Release :: "'w \<Rightarrow> 'w"

text \<open>The frame of the five inserts: take a connection, copy the rows, give it back.\<close>

definition copy_rows ::
  "'w pgx_pool \<Rightarrow> string list \<Rightarrow> string list \<Rightarrow> cell list list \<Rightarrow> 'w \<Rightarrow> db_error option \<times> 'w"
where
  "copy_rows pool table columns rows w =
     (case pool_Acquire pool w of
        (Some err, w1) \<Rightarrow> (Some (AcquireFailed err), w1)
      | (None, w1) \<Rightarrow>
          (case pool_CopyFrom pool table columns rows w1 of
             (Some err, w2) \<Rightarrow> (Some (CopyFailed err), pool_Release pool w2)
           | (None, w2) \<Rightarrow> (None, pool_Release pool w2)))"

definition BatchInsertPlatformMetricsWithContext ::
  "'w pgx_pool \<Rightarrow> PlatformMetric list \<Rightarrow> 'w \<Rightarrow> db_error option \<times> 'w"
where
  "BatchInsertPlatformMetricsWithContext pool metrics w =
     (if length metrics = 0 then (None, w)
      else copy_rows pool platform_table platform_columns (map platform_row metrics) w)"

definition BatchInsertPlatformMetrics ::
  "'w pgx_pool \<Rightarrow> PlatformMetric list \<Rightarrow> 'w \<Rightarrow> db_error option \<times> 'w"
where
  "BatchInsertPlatformMetrics pool metrics w = BatchInsertPlatformMetricsWithContext pool metrics w"

definition BatchInsertInterfaceMetricsWithContext ::
  "'w pgx_pool \<Rightarrow> (string \<Rightarrow> gofloat option) \<Rightarrow> InterfaceMetric list \<Rightarrow> 'w \<Rightarrow> db_error option \<times> 'w"
where
  "BatchInsertInterfaceMetricsWithContext pool parse_float metrics w =
     (if length metrics = 0 then (None, w)
      else copy_rows pool interface_table interface_columns (map (interface_row parse_float) metrics) w)"

definition BatchInsertInterfaceMetrics ::
  "'w pgx_pool \<Rightarrow> (string \<Rightarrow> gofloat option) \<Rightarrow> InterfaceMetric list \<Rightarrow> 'w \<Rightarrow> db_error option \<times> 'w"
where
  "BatchInsertInterfaceMetrics pool parse_float metrics w = BatchInsertInterfaceMetricsWithContext pool parse_float metrics w"

definition BatchInsertSubinterfaceMetricsWithContext ::
  "'w pgx_pool \<Rightarrow> (string \<Rightarrow> gofloat option) \<Rightarrow> SubinterfaceMetric list \<Rightarrow> 'w \<Rightarrow> db_error option \<times> 'w"
where
  "BatchInsertSubinterfaceMetricsWithContext pool parse_float metrics w =
     (if length metrics = 0 then (None, w)
      else copy_rows pool subinterface_table subinterface_columns (map (subinterface_row parse_float) metrics) w)"

definition BatchInsertSubinterfaceMetrics ::
  "'w pgx_pool \<Rightarrow> (string \<Rightarrow> gofloat option) \<Rightarrow> SubinterfaceMetric list \<Rightarrow> 'w \<Rightarrow> db_error option \<times> 'w"
where
  "BatchInsertSubinterfaceMetrics pool parse_float metrics w = BatchInsertSubinterfaceMetricsWithContext pool parse_float metrics w"

definition BatchInsertAlarmReportMetricsWithContext ::
  "'w pgx_pool \<Rightarrow> AlarmReportMetric list \<Rightarrow> 'w \<Rightarrow> db_error option \<times> 'w"
where
  "BatchInsertAlarmReportMetricsWithContext pool metrics w =
     (if length metrics = 0 then (None, w)
      else copy_rows pool alarmReport_table alarmReport_columns (map alarmReport_row metrics) w)"

definition BatchInsertAlarmReportMetrics ::
  "'w pgx_pool \<Rightarrow> AlarmReportMetric list \<Rightarrow> 'w \<Rightarrow> db_error option \<times> 'w"
where
  "BatchInsertAlarmReportMetrics pool metrics w = BatchInsertAlarmReportMetricsWithContext pool metrics w"

definition BatchInsertNotificationReportMetricsWithContext ::
  "'w pgx_pool \<Rightarrow> NotificationReportMetric list \<Rightarrow> 'w \<Rightarrow> db_error option \<times> 'w"
where
  "BatchInsertNotificationReportMetricsWithContext pool metrics w =
     (if length metrics = 0 then (None, w)
      else copy_rows pool notificationReport_table notificationReport_columns (map notificationReport_row metrics) w)"

definition BatchInsertNotificationReportMetrics ::
  "'w pgx_pool \<Rightarrow> NotificationReportMetric list \<Rightarrow> 'w \<Rightarrow> db_error option \<times> 'w"
where
  "BatchInsertNotificationReportMetrics pool metrics w = BatchInsertNotificationReportMetricsWithContext pool metrics w"

section \<open>Field accessors\<close>

text \<open>
  A field of an embedded struct is read through its pointer, so an absent part of a platform metric
  is a panic.
\<close>

definition via :: "'s option \<Rightarrow> ('s \<Rightarrow> cell) \<Rightarrow> cell flow" where
  "via p f = (case p of None \<Rightarrow> Panic | Some s \<Rightarrow> Ret (f s))"

definition component_fields :: "(PlatformMetric \<Rightarrow> cell flow) list" where
  "component_fields =
     [\<lambda>m. via (pm_CommonState m) (\<lambda>s. PString (cs_OperStatus s)),
      \<lambda>m. via (pm_CommonState m) (\<lambda>s. PString (cs_Uptime s)),
      \<lambda>m. via (pm_CommonState m) (\<lambda>s. PUint32 (cs_UsedPower s)),
      \<lambda>m. via (pm_CommonState m) (\<lambda>s. PUint32 (cs_AllocatedPower s)),
      \<lambda>m. via (pm_CommonState m) (\<lambda>s. PString (cs_CurrentVoltage s)),
      \<lambda>m. via (pm_CommonState m) (\<lambda>s. PString (cs_CurrentCurrent s)),
      \<lambda>m. via (pm_CommonState m) (\<lambda>s. PString (cs_TotalCapacity s)),
      \<lambda>m. via (pm_CommonState m) (\<lambda>s. PString (cs_UsedCapacity s)),
      \<lambda>m. via (pm_CommonState m) (\<lambda>s. PString (cs_Type s)),
      \<lambda>m. via (pm_CommonState m) (\<lambda>s. PString (cs_RedundancyType s)),
      \<lambda>m. via (pm_CommonState m) (\<lambda>s. PString (cs_Modules s)),
      \<lambda>m. via (pm_CommonState m) (\<lambda>s. PString (cs_TotalInputPower s)),
      \<lambda>m. via (pm_FanData m) (\<lambda>s. PUint32 (fan_FanSpeed s)),
      \<lambda>m. via (pm_FanData m) (\<lambda>s. PString (fan_FanState s)),
      \<lambda>m. via (pm_FanData m) (\<lambda>s. PString (fan_FanPhyStatus s)),
      \<lambda>m. via (pm_FanData m) (\<lambda>s. PString (fan_FanWorkMode s)),
      \<lambda>m. via (pm_FanData m) (\<lambda>s. PString (fan_FanCurrentPower s)),
      \<lambda>m. via (pm_FanData m) (\<lambda>s. PString (fan_FanCurrentVoltage s)),
      \<lambda>m. via (pm_FanData m) (\<lambda>s. PString (fan_FanCurrentCurrent s)),
      \<lambda>m. via (pm_FanData m) (\<lambda>s. PString (fan_FanSpeedPercent s)),
      \<lambda>m. via (pm_MemData m) (\<lambda>s. PUint64 (mem_MemAvailable s)),
      \<lambda>m. via (pm_MemData m) (\<lambda>s. PUint64 (mem_MemUtilized s)),
      \<lambda>m. via (pm_MemData m) (\<lambda>s. PUint64 (mem_MemFree s)),
      \<lambda>m. via (pm_MemData m) (\<lambda>s. PFloat (mem_MemUsage s)),
      \<lambda>m. via (pm_MemData m) (\<lambda>s. db_safeString (mem_MemAlarmStatus s)),
      \<lambda>m. via (pm_MemData m) (\<lambda>s. PFloat (mem_StorageAvailability s)),
      \<lambda>m. via (pm_TempData m) (\<lambda>s. PFloat (tmp_TempInstant s)),
      \<lambda>m. via (pm_TempData m) (\<lambda>s. PFloat (tmp_TempAvg s)),
      \<lambda>m. via (pm_TempData m) (\<lambda>s. PFloat (tmp_TempMin s)),
      \<lambda>m. via (pm_TempData m) (\<lambda>s. PFloat (tmp_TempMax s)),
      \<lambda>m. via (pm_TempData m) (\<lambda>s. PUint64 (tmp_TempInterval s)),
      \<lambda>m. via (pm_TempData m) (\<lambda>s. PTime (tmp_TempMinTime s)),
      \<lambda>m. via (pm_TempData m) (\<lambda>s. PTime (tmp_TempMaxTime s)),
      \<lambda>m. via (pm_TempData m) (\<lambda>s. PBool (tmp_AlarmStatus s)),
      \<lambda>m. via (pm_TempData m) (\<lambda>s. PFloat (tmp_TempAlarmThreshold s)),
      \<lambda>m. via (pm_TempData m) (\<lambda>s. PString (tmp_TempAlarmSeverity s)),
      \<lambda>m. via (pm_TempData m) (\<lambda>s. PFloat (tmp_TempMinorThreshold s)),
      \<lambda>m. via (pm_TempData m) (\<lambda>s. PFloat (tmp_TempMajorThreshold s)),
      \<lambda>m. via (pm_TempData m) (\<lambda>s. PFloat (tmp_TempFatalThreshold s)),
      \<lambda>m. via (pm_TempData m) (\<lambda>s. PString (tmp_TempInstantString s)),
      \<lambda>m. via (pm_TempData m) (\<lambda>s. PString (tmp_TempStatus s)),
      \<lambda>m. via (pm_TempData m) (\<lambda>s. PString (tmp_TempDescription s)),
      \<lambda>m. via (pm_PowerData m) (\<lambda>s. PBool (pwr_PowerEnable s)),
      \<lambda>m. via (pm_PowerData m) (\<lambda>s. PFloat (pwr_PowerCapacity s)),
      \<lambda>m. via (pm_PowerData m) (\<lambda>s. PFloat (pwr_PowerInputCurrent s)),
      \<lambda>m. via (pm_PowerData m) (\<lambda>s. PFloat (pwr_PowerInputVoltage s)),
      \<lambda>m. via (pm_PowerData m) (\<lambda>s. PFloat (pwr_PowerOutputCurrent s)),
      \<lambda>m. via (pm_PowerData m) (\<lambda>s. PFloat (pwr_PowerOutputVoltage s)),
      \<lambda>m. via (pm_PowerData m) (\<lambda>s. PFloat (pwr_PowerOutputPower s)),
      \<lambda>m. via (pm_PowerData m) (\<lambda>s. PString (pwr_PowerWorkState s)),
      \<lambda>m. via (pm_PowerData m) (\<lambda>s. PString (pwr_PowerName s)),
      \<lambda>m. via (pm_PowerData m) (\<lambda>s. PString (pwr_PowerPhyState s)),
      \<lambda>m. via (pm_PowerData m) (\<lambda>s. PString (pwr_PowerState s)),
      \<lambda>m. via (pm_PowerData m) (\<lambda>s. PString (pwr_PowerComState s)),
      \<lambda>m. via (pm_PowerData m) (\<lambda>s. PString (pwr_PowerTemperature s)),
      \<lambda>m. via (pm_PowerData m) (\<lambda>s. PString (pwr_PowerAvailable s)),
      \<lambda>m. via (pm_PowerData m) (\<lambda>s. PString (pwr_PowerCapacityString s)),
      \<lambda>m. via (pm_PowerData m) (\<lambda>s. PString (pwr_PowerInputPower s)),
      \<lambda>m. via (pm_PowerData m) (\<lambda>s. PFloat (pwr_PowerInput2Current s)),
      \<lambda>m. via (pm_PowerData m) (\<lambda>s. PFloat (pwr_PowerInput2Voltage s)),
      \<lambda>m. via (pm_PowerData m) (\<lambda>s. PFloat (pwr_PowerOutput2Current s)),
      \<lambda>m. via (pm_PowerData m) (\<lambda>s. PFloat (pwr_PowerOutput2Voltage s)),
      \<lambda>m. via (pm_PowerData m) (\<lambda>s. PString (pwr_LinecardPowerAdminState s)),
      \<lambda>m. via (pm_CPUData m) (\<lambda>s. PFloat (cpu_CPUInstant s)),
      \<lambda>m. via (pm_CPUData m) (\<lambda>s. PFloat (cpu_CPUAvg s)),
      \<lambda>m. via (pm_CPUData m) (\<lambda>s. PFloat (cpu_CPUMin s)),
      \<lambda>m. via (pm_CPUData m) (\<lambda>s. PFloat (cpu_CPUMax s)),
      \<lambda>m. via (pm_CPUData m) (\<lambda>s. PUint64 (cpu_CPUInterval s)),
      \<lambda>m. via (pm_CPUData m) (\<lambda>s. PTime (cpu_CPUMinTime s)),
      \<lambda>m. via (pm_CPUData m) (\<lambda>s. PTime (cpu_CPUMaxTime s)),
      \<lambda>m. via (pm_CPUData m) (\<lambda>s. db_safeString (cpu_CPUAlarmStatus s))]"

definition optical_fields :: "(PlatformMetric \<Rightarrow> cell flow) list" where
  "optical_fields =
     [\<lambda>m. via (pm_OpticalData m) (\<lambda>s. PFloat (opt_OpticalInPower s)),
      \<lambda>m. via (pm_OpticalData m) (\<lambda>s. PFloat (opt_OpticalOutPower s)),
      \<lambda>m. via (pm_OpticalData m) (\<lambda>s. PFloat (opt_OpticalBiasCurrent s)),
      \<lambda>m. via (pm_OpticalData m) (\<lambda>s. PFloat (opt_OpticalTemperature s)),
      \<lambda>m. via (pm_OpticalData m) (\<lambda>s. PFloat (opt_OpticalVoltageVol33 s)),
      \<lambda>m. via (pm_OpticalData m) (\<lambda>s. PFloat (opt_OpticalVoltageVol5 s)),
      \<lambda>m. via (pm_OpticalData m) (\<lambda>s. db_safeString (opt_OpticalAlarmLosStatus s)),
      \<lambda>m. via (pm_OpticalData m) (\<lambda>s. PUint32 (opt_OpticalAlarmLosInfoEventID s)),
      \<lambda>m. via (pm_OpticalData m) (\<lambda>s. PUint32 (opt_OpticalAlarmLosInfoEventInterval s)),
      \<lambda>m. via (pm_OpticalData m) (\<lambda>s. PFloat (opt_OpticalAlarmLosInfoInPower s)),
      \<lambda>m. via (pm_OpticalData m) (\<lambda>s. PFloat (opt_OpticalAlarmLosInfoOutPower s)),
      \<lambda>m. via (pm_OpticalData m) (\<lambda>s. PString (opt_OpticalOnlineStatus s)),
      \<lambda>m. via (pm_OpticalData m) (\<lambda>s. PFloat (opt_OpticalRxThresholdHighAlarm s)),
      \<lambda>m. via (pm_OpticalData m) (\<lambda>s. PFloat (opt_OpticalRxThresholdPreHighAlarm s)),
      \<lambda>m. via (pm_OpticalData m) (\<lambda>s. PFloat (opt_OpticalRxThresholdLowAlarm s)),
      \<lambda>m. via (pm_OpticalData m) (\<lambda>s. PFloat (opt_OpticalRxThresholdPreLowAlarm s))]"

definition platform_fields :: "(PlatformMetric \<Rightarrow> cell flow) list" where
  "platform_fields = component_fields @ optical_fields"

lemmas platform_fields_defs = platform_fields_def component_fields_def optical_fields_def

definition getFieldValue :: "PlatformMetric \<Rightarrow> int \<Rightarrow> cell flow" where
  "getFieldValue metric fieldIndex =
     (if 4 \<le> fieldIndex \<and> fieldIndex \<le> 90
      then (platform_fields ! nat (fieldIndex - 4)) metric else Ret CNil)"

definition interface_fields :: "(InterfaceMetric \<Rightarrow> cell) list" where
  "interface_fields =
     [\<lambda>m. PUint32 (im_Ifindex m), \<lambda>m. PString (im_AdminStatusStr m),
      \<lambda>m. PString (im_OperStatusStr m), \<lambda>m. PTime (im_LastChange m),
      \<lambda>m. PBool (im_Logical m), \<lambda>m. PUint32 (im_Type m),
      \<lambda>m. PString (im_PhyStatusStr m), \<lambda>m. PString (im_IPv4OperStatusStr m),
      \<lambda>m. PUint32 (im_ZteifType m), \<lambda>m. PUint32 (im_ZteifIfindex m),
      \<lambda>m. PString (im_ZteifAdminStatusStr m),
      \<lambda>m. PString (im_ZteifOperStatusStr m),
      \<lambda>m. PString (im_ZteifPhyStatusStr m),
      \<lambda>m. PString (im_ZteifIPv4OperStatusStr m),
      \<lambda>m. PString (im_ZteifIPv6OperStatusStr m), \<lambda>m. PUint64 (im_InOctets m),
      \<lambda>m. PUint64 (im_InUnicastPkts m), \<lambda>m. PUint64 (im_InBroadcastPkts m),
      \<lambda>m. PUint64 (im_InMulticastPkts m), \<lambda>m. PUint64 (im_InDiscards m),
      \<lambda>m. PUint64 (im_InErrors m), \<lambda>m. PUint64 (im_InUnknownProtos m),
      \<lambda>m. PUint64 (im_InFcsErrors m), \<lambda>m. PUint64 (im_OutOctets m),
      \<lambda>m. PUint64 (im_OutUnicastPkts m), \<lambda>m. PUint64 (im_OutBroadcastPkts m),
      \<lambda>m. PUint64 (im_OutMulticastPkts m), \<lambda>m. PUint64 (im_OutDiscards m),
      \<lambda>m. PUint64 (im_OutErrors m), \<lambda>m. PUint64 (im_CarrierTransitions m),
      \<lambda>m. PTime (im_LastClear m), \<lambda>m. PUint64 (im_InPkts m),
      \<lambda>m. PUint64 (im_OutPkts m), \<lambda>m. PString (im_InputUtilization m),
      \<lambda>m. PString (im_OutputUtilization m), \<lambda>m. PString (im_InTrafficRate m),
      \<lambda>m. PString (im_InPacketRate m), \<lambda>m. PString (im_OutTrafficRate m),
      \<lambda>m. PString (im_OutPacketRate m), \<lambda>m. PUint64 (im_InV4Octets m),
      \<lambda>m. PUint64 (im_OutV4Octets m), \<lambda>m. PUint64 (im_InV4Pkts m),
      \<lambda>m. PUint64 (im_OutV4Pkts m), \<lambda>m. PUint64 (im_InV6Octets m),
      \<lambda>m. PUint64 (im_OutV6Octets m), \<lambda>m. PUint64 (im_InV6Pkts m),
      \<lambda>m. PUint64 (im_OutV6Pkts m), \<lambda>m. PString (im_InV4TrafficRate m),
      \<lambda>m. PString (im_InV4PacketRate m), \<lambda>m. PString (im_OutV4TrafficRate m),
      \<lambda>m. PString (im_OutV4PacketRate m), \<lambda>m. PString (im_InV6TrafficRate m),
      \<lambda>m. PString (im_InV6PacketRate m), \<lambda>m. PString (im_OutV6TrafficRate m),
      \<lambda>m. PString (im_OutV6PacketRate m), \<lambda>m. PString (im_InputV4Utilization m),
      \<lambda>m. PString (im_OutputV4Utilization m),
      \<lambda>m. PString (im_InputV6Utilization m),
      \<lambda>m. PString (im_OutputV6Utilization m), \<lambda>m. PUint64 (im_InBierOctets m),
      \<lambda>m. PUint64 (im_InBierPkts m), \<lambda>m. PUint64 (im_OutBierOctets m),
      \<lambda>m. PUint64 (im_OutBierPkts m)]"

definition getInterfaceFieldValue :: "InterfaceMetric \<Rightarrow> int \<Rightarrow> cell" where
  "getInterfaceFieldValue metric fieldIndex =
     (if 4 \<le> fieldIndex \<and> fieldIndex \<le> 66
      then (interface_fields ! nat (fieldIndex - 4)) metric else CNil)"

definition subinterface_fields :: "(SubinterfaceMetric \<Rightarrow> cell) list" where
  "subinterface_fields =
     [\<lambda>m. PUint32 (sm_Ifindex m), \<lambda>m. PString (sm_AdminStatusStr m),
      \<lambda>m. PString (sm_OperStatusStr m), \<lambda>m. PTime (sm_LastChange m),
      \<lambda>m. PBool (sm_Logical m), \<lambda>m. PString (sm_IPv4OperStatusStr m),
      \<lambda>m. PUint32 (sm_ZteifIfindex m), \<lambda>m. PString (sm_ZteifAdminStatusStr m),
      \<lambda>m. PString (sm_ZteifOperStatusStr m),
      \<lambda>m. PString (sm_ZteifPhyStatusStr m),
      \<lambda>m. PString (sm_ZteifIPv4OperStatusStr m),
      \<lambda>m. PString (sm_ZteifIPv6OperStatusStr m), \<lambda>m. PUint64 (sm_InOctets m),
      \<lambda>m. PUint64 (sm_InUnicastPkts m), \<lambda>m. PUint64 (sm_InBroadcastPkts m),
      \<lambda>m. PUint64 (sm_InMulticastPkts m), \<lambda>m. PUint64 (sm_InDiscards m),
      \<lambda>m. PUint64 (sm_InErrors m), \<lambda>m. PUint64 (sm_InUnknownProtos m),
      \<lambda>m. PUint64 (sm_InFcsErrors m), \<lambda>m. PUint64 (sm_OutOctets m),
      \<lambda>m. PUint64 (sm_OutUnicastPkts m), \<lambda>m. PUint64 (sm_OutBroadcastPkts m),
      \<lambda>m. PUint64 (sm_OutMulticastPkts m), \<lambda>m. PUint64 (sm_OutDiscards m),
      \<lambda>m. PUint64 (sm_OutErrors m), \<lambda>m. PUint64 (sm_CarrierTransitions m),
      \<lambda>m. PTime (sm_LastClear m), \<lambda>m. PUint64 (sm_InPkts m),
      \<lambda>m. PUint64 (sm_OutPkts m), \<lambda>m. PString (sm_InputUtilization m),
      \<lambda>m. PString (sm_OutputUtilization m), \<lambda>m. PString (sm_InTrafficRate m),
      \<lambda>m. PString (sm_InPacketRate m), \<lambda>m. PString (sm_OutTrafficRate m),
      \<lambda>m. PString (sm_OutPacketRate m), \<lambda>m. PUint64 (sm_InV4Octets m),
      \<lambda>m. PUint64 (sm_OutV4Octets m), \<lambda>m. PUint64 (sm_InV4Pkts m),
      \<lambda>m. PUint64 (sm_OutV4Pkts m), \<lambda>m. PUint64 (sm_InV6Octets m),
      \<lambda>m. PUint64 (sm_OutV6Octets m), \<lambda>m. PUint64 (sm_InV6Pkts m),
      \<lambda>m. PUint64 (sm_OutV6Pkts m), \<lambda>m. PString (sm_InV4TrafficRate m),
      \<lambda>m. PString (sm_InV4PacketRate m), \<lambda>m. PString (sm_OutV4TrafficRate m),
      \<lambda>m. PString (sm_OutV4PacketRate m), \<lambda>m. PString (sm_InV6TrafficRate m),
      \<lambda>m. PString (sm_InV6PacketRate m), \<lambda>m. PString (sm_OutV6TrafficRate m),
      \<lambda>m. PString (sm_OutV6PacketRate m), \<lambda>m. PString (sm_InputV4Utilization m),
      \<lambda>m. PString (sm_OutputV4Utilization m),
      \<lambda>m. PString (sm_InputV6Utilization m),
      \<lambda>m. PString (sm_OutputV6Utilization m), \<lambda>m. PUint64 (sm_InBierOctets m),
      \<lambda>m. PUint64 (sm_InBierPkts m), \<lambda>m. PUint64 (sm_OutBierOctets m),
      \<lambda>m. PUint64 (sm_OutBierPkts m)]"

definition getSubinterfaceFieldValue :: "SubinterfaceMetric \<Rightarrow> int \<Rightarrow> cell" where
  "getSubinterfaceFieldValue metric fieldIndex =
     (if 5 \<le> fieldIndex \<and> fieldIndex \<le> 64
      then (subinterface_fields ! nat (fieldIndex - 5)) metric else CNil)"

section \<open>The tables of the shipped schema\<close>

text \<open>The column names of \<^verbatim>\<open>create_tables.sql\<close>, in order.\<close>

definition platform_schema :: "string list" where
  "platform_schema =
     [''time'', ''system_id'', ''component_name'', ''oper_status'', ''uptime'', ''used_power'',
      ''allocated_power'', ''current_voltage'', ''current_current'', ''total_capacity'',
      ''used_capacity'', ''type'', ''redundancy_type'', ''modules'', ''total_input_power'',
      ''fan_speed'', ''fan_state'', ''fan_phy_status'', ''fan_work_mode'', ''fan_current_power'',
      ''fan_current_voltage'', ''fan_current_current'', ''fan_speed_percent'', ''mem_available'',
      ''mem_utilized'', ''mem_free'', ''mem_usage'', ''mem_alarm_status'',
      ''storage_availability'', ''temp_instant'', ''temp_avg'', ''temp_min'', ''temp_max'',
      ''temp_interval'', ''temp_min_time'', ''temp_max_time'', ''alarm_status'',
      ''temp_alarm_threshold'', ''temp_alarm_severity'', ''temp_minor_threshold'',
      ''temp_major_threshold'', ''temp_fatal_threshold'', ''temp_instant_string'',
      ''temp_status'', ''temp_description'', ''power_enable'', ''power_capacity'',
      ''power_input_current'', ''power_input_voltage'', ''power_output_current'',
      ''power_output_voltage'', ''power_output_power'', ''power_work_state'', ''power_name'',
      ''power_phy_state'', ''power_state'', ''power_com_state'', ''power_temperature'',
      ''power_available'', ''power_capacity_string'', ''power_input_power'',
      ''power_input2_current'', ''power_input2_voltage'', ''power_output2_current'',
      ''power_output2_voltage'', ''linecard_power_admin_state'', ''cpu_instant'', ''cpu_avg'',
      ''cpu_min'', ''cpu_max'', ''cpu_interval'', ''cpu_min_time'', ''cpu_max_time'',
      ''cpu_alarm_status'', ''optical_in_power'', ''optical_out_power'',
      ''optical_bias_current'', ''optical_temperature'', ''optical_voltage_vol33'',
      ''optical_voltage_vol5'', ''optical_alarm_los_status'',
      ''optical_alarm_los_info_event_id'', ''optical_alarm_los_info_event_interval'',
      ''optical_alarm_los_info_in_power'', ''optical_alarm_los_info_out_power'',
      ''optical_online_status'', ''optical_rx_threshold_high_alarm'',
      ''optical_rx_threshold_pre_high_alarm'', ''optical_rx_threshold_low_alarm'',
      ''optical_rx_threshold_pre_low_alarm'']"

definition interface_schema :: "string list" where
  "interface_schema =
     [''time'', ''system_id'', ''interface_name'', ''ifindex'', ''admin_status'',
      ''oper_status'', ''last_change'', ''logical'', ''type'', ''phy_status'',
      ''ipv4_oper_status'', ''zteif_type'', ''zteif_ifindex'', ''zteif_admin_status'',
      ''zteif_oper_status'', ''zteif_phy_status'', ''zteif_ipv4_oper_status'',
      ''zteif_ipv6_oper_status'', ''in_octets'', ''in_unicast_pkts'', ''in_broadcast_pkts'',
      ''in_multicast_pkts'', ''in_discards'', ''in_errors'', ''in_unknown_protos'',
      ''in_fcs_errors'', ''out_octets'', ''out_unicast_pkts'', ''out_broadcast_pkts'',
      ''out_multicast_pkts'', ''out_discards'', ''out_errors'', ''carrier_transitions'',
      ''last_clear'', ''in_pkts'', ''out_pkts'', ''input_utilization'', ''output_utilization'',
      ''in_traffic_rate'', ''in_packet_rate'', ''out_traffic_rate'', ''out_packet_rate'',
      ''in_v4_octets'', ''out_v4_octets'', ''in_v4_pkts'', ''out_v4_pkts'', ''in_v6_octets'',
      ''out_v6_octets'', ''in_v6_pkts'', ''out_v6_pkts'', ''in_v4_traffic_rate'',
      ''in_v4_packet_rate'', ''out_v4_traffic_rate'', ''out_v4_packet_rate'',
      ''in_v6_traffic_rate'', ''in_v6_packet_rate'', ''out_v6_traffic_rate'',
      ''out_v6_packet_rate'', ''input_v4_utilization'', ''output_v4_utilization'',
      ''input_v6_utilization'', ''output_v6_utilization'', ''in_bier_octets'', ''in_bier_pkts'',
      ''out_bier_octets'', ''out_bier_pkts'']"

definition subinterface_schema :: "string list" where
  "subinterface_schema =
     [''time'', ''system_id'', ''interface_name'', ''subinterface_index'', ''ifindex'',
      ''admin_status'', ''oper_status'', ''last_change'', ''logical'', ''ipv4_oper_status'',
      ''zteif_ifindex'', ''zteif_admin_status'', ''zteif_oper_status'', ''zteif_phy_status'',
      ''zteif_ipv4_oper_status'', ''zteif_ipv6_oper_status'', ''in_octets'', ''in_unicast_pkts'',
      ''in_broadcast_pkts'', ''in_multicast_pkts'', ''in_discards'', ''in_errors'',
      ''in_unknown_protos'', ''in_fcs_errors'', ''out_octets'', ''out_unicast_pkts'',
      ''out_broadcast_pkts'', ''out_multicast_pkts'', ''out_discards'', ''out_errors'',
      ''carrier_transitions'', ''last_clear'', ''in_pkts'', ''out_pkts'', ''input_utilization'',
      ''output_utilization'', ''in_traffic_rate'', ''in_packet_rate'', ''out_traffic_rate'',
      ''out_packet_rate'', ''in_v4_octets'', ''out_v4_octets'', ''in_v4_pkts'', ''out_v4_pkts'',
      ''in_v6_octets'', ''out_v6_octets'', ''in_v6_pkts'', ''out_v6_pkts'',
      ''in_v4_traffic_rate'', ''in_v4_packet_rate'', ''out_v4_traffic_rate'',
      ''out_v4_packet_rate'', ''in_v6_traffic_rate'', ''in_v6_packet_rate'',
      ''out_v6_traffic_rate'', ''out_v6_packet_rate'', ''input_v4_utilization'',
      ''output_v4_utilization'', ''input_v6_utilization'', ''output_v6_utilization'',
      ''in_bier_octets'', ''in_bier_pkts'', ''out_bier_octets'', ''out_bier_pkts'']"

section \<open>The tags of the models\<close>

text \<open>
  The tags of the structs of \<^verbatim>\<open>internal/models/models.go\<close>: under which name a field is meant to be known.
  The \<^verbatim>\<open>db\<close> tags where there are some; the platform and interface metrics have them for three fields
  only, so there the names are those of the \<^verbatim>\<open>json\<close> tags, which agree on these three.  A field of an
  embedded part that is nil counts as nil.
\<close>

definition platform_tags :: "(string \<times> (PlatformMetric \<Rightarrow> cell)) list" where
  "platform_tags =
     [(''timestamp'', \<lambda>m. VTime (pm_Timestamp m)),
      (''system_id'', \<lambda>m. VString (pm_SystemID m)),
      (''component_name'', \<lambda>m. VString (pm_ComponentName m)),
      (''oper_status'', \<lambda>m. PString (Option.bind (pm_CommonState m) cs_OperStatus)),
      (''uptime'', \<lambda>m. PString (Option.bind (pm_CommonState m) cs_Uptime)),
      (''used_power'', \<lambda>m. PUint32 (Option.bind (pm_CommonState m) cs_UsedPower)),
      (''allocated_power'', \<lambda>m. PUint32 (Option.bind (pm_CommonState m) cs_AllocatedPower)),
      (''current_voltage'', \<lambda>m. PString (Option.bind (pm_CommonState m) cs_CurrentVoltage)),
      (''current_current'', \<lambda>m. PString (Option.bind (pm_CommonState m) cs_CurrentCurrent)),
      (''total_capacity'', \<lambda>m. PString (Option.bind (pm_CommonState m) cs_TotalCapacity)),
      (''used_capacity'', \<lambda>m. PString (Option.bind (pm_CommonState m) cs_UsedCapacity)),
      (''type'', \<lambda>m. PString (Option.bind (pm_CommonState m) cs_Type)),
      (''redundancy_type'', \<lambda>m. PString (Option.bind (pm_CommonState m) cs_RedundancyType)),
      (''modules'', \<lambda>m. PString (Option.bind (pm_CommonState m) cs_Modules)),
      (''total_input_power'', \<lambda>m. PString (Option.bind (pm_CommonState m) cs_TotalInputPower)),
      (''cpu_instant'', \<lambda>m. PFloat (Option.bind (pm_CPUData m) cpu_CPUInstant)),
      (''cpu_avg'', \<lambda>m. PFloat (Option.bind (pm_CPUData m) cpu_CPUAvg)),
      (''cpu_min'', \<lambda>m. PFloat (Option.bind (pm_CPUData m) cpu_CPUMin)),
      (''cpu_max'', \<lambda>m. PFloat (Option.bind (pm_CPUData m) cpu_CPUMax)),
      (''cpu_interval'', \<lambda>m. PUint64 (Option.bind (pm_CPUData m) cpu_CPUInterval)),
      (''cpu_min_time'', \<lambda>m. PTime (Option.bind (pm_CPUData m) cpu_CPUMinTime)),
      (''cpu_max_time'', \<lambda>m. PTime (Option.bind (pm_CPUData m) cpu_CPUMaxTime)),
      (''cpu_alarm_status'', \<lambda>m. PString (Option.bind (pm_CPUData m) cpu_CPUAlarmStatus)),
      (''mem_available'', \<lambda>m. PUint64 (Option.bind (pm_MemData m) mem_MemAvailable)),
      (''mem_utilized'', \<lambda>m. PUint64 (Option.bind (pm_MemData m) mem_MemUtilized)),
      (''mem_free'', \<lambda>m. PUint64 (Option.bind (pm_MemData m) mem_MemFree)),
      (''mem_usage'', \<lambda>m. PFloat (Option.bind (pm_MemData m) mem_MemUsage)),
      (''mem_alarm_status'', \<lambda>m. PString (Option.bind (pm_MemData m) mem_MemAlarmStatus)),
      (''storage_availability'', \<lambda>m. PFloat (Option.bind (pm_MemData m) mem_StorageAvailability)),
      (''temp_instant'', \<lambda>m. PFloat (Option.bind (pm_TempData m) tmp_TempInstant)),
      (''temp_avg'', \<lambda>m. PFloat (Option.bind (pm_TempData m) tmp_TempAvg)),
      (''temp_min'', \<lambda>m. PFloat (Option.bind (pm_TempData m) tmp_TempMin)),
      (''temp_max'', \<lambda>m. PFloat (Option.bind (pm_TempData m) tmp_TempMax)),
      (''temp_interval'', \<lambda>m. PUint64 (Option.bind (pm_TempData m) tmp_TempInterval)),
      (''temp_min_time'', \<lambda>m. PTime (Option.bind (pm_TempData m) tmp_TempMinTime)),
      (''temp_max_time'', \<lambda>m. PTime (Option.bind (pm_TempData m) tmp_TempMaxTime)),
      (''alarm_status'', \<lambda>m. PBool (Option.bind (pm_TempData m) tmp_AlarmStatus)),
      (''temp_alarm_threshold'', \<lambda>m. PFloat (Option.bind (pm_TempData m) tmp_TempAlarmThreshold)),
      (''temp_alarm_severity'', \<lambda>m. PString (Option.bind (pm_TempData m) tmp_TempAlarmSeverity)),
      (''temp_minor_threshold'', \<lambda>m. PFloat (Option.bind (pm_TempData m) tmp_TempMinorThreshold)),
      (''temp_major_threshold'', \<lambda>m. PFloat (Option.bind (pm_TempData m) tmp_TempMajorThreshold)),
      (''temp_fatal_threshold'', \<lambda>m. PFloat (Option.bind (pm_TempData m) tmp_TempFatalThreshold)),
      (''temp_instant_string'', \<lambda>m. PString (Option.bind (pm_TempData m) tmp_TempInstantString)),
      (''temp_status'', \<lambda>m. PString (Option.bind (pm_TempData m) tmp_TempStatus)),
      (''temp_description'', \<lambda>m. PString (Option.bind (pm_TempData m) tmp_TempDescription)),
      (''fan_speed'', \<lambda>m. PUint32 (Option.bind (pm_FanData m) fan_FanSpeed)),
      (''fan_state'', \<lambda>m. PString (Option.bind (pm_FanData m) fan_FanState)),
      (''fan_phy_status'', \<lambda>m. PString (Option.bind (pm_FanData m) fan_FanPhyStatus)),
      (''fan_work_mode'', \<lambda>m. PString (Option.bind (pm_FanData m) fan_FanWorkMode)),
      (''fan_current_power'', \<lambda>m. PString (Option.bind (pm_FanData m) fan_FanCurrentPower)),
      (''fan_current_voltage'', \<lambda>m. PString (Option.bind (pm_FanData m) fan_FanCurrentVoltage)),
      (''fan_current_current'', \<lambda>m. PString (Option.bind (pm_FanData m) fan_FanCurrentCurrent)),
      (''fan_speed_percent'', \<lambda>m. PString (Option.bind (pm_FanData m) fan_FanSpeedPercent)),
      (''power_enable'', \<lambda>m. PBool (Option.bind (pm_PowerData m) pwr_PowerEnable)),
      (''power_capacity'', \<lambda>m. PFloat (Option.bind (pm_PowerData m) pwr_PowerCapacity)),
      (''power_input_current'', \<lambda>m. PFloat (Option.bind (pm_PowerData m) pwr_PowerInputCurrent)),
      (''power_input_voltage'', \<lambda>m. PFloat (Option.bind (pm_PowerData m) pwr_PowerInputVoltage)),
      (''power_output_current'', \<lambda>m. PFloat (Option.bind (pm_PowerData m) pwr_PowerOutputCurrent)),
      (''power_output_voltage'', \<lambda>m. PFloat (Option.bind (pm_PowerData m) pwr_PowerOutputVoltage)),
      (''power_output_power'', \<lambda>m. PFloat (Option.bind (pm_PowerData m) pwr_PowerOutputPower)),
      (''power_work_state'', \<lambda>m. PString (Option.bind (pm_PowerData m) pwr_PowerWorkState)),
      (''power_name'', \<lambda>m. PString (Option.bind (pm_PowerData m) pwr_PowerName)),
      (''power_phy_state'', \<lambda>m. PString (Option.bind (pm_PowerData m) pwr_PowerPhyState)),
      (''power_state'', \<lambda>m. PString (Option.bind (pm_PowerData m) pwr_PowerState)),
      (''power_com_state'', \<lambda>m. PString (Option.bind (pm_PowerData m) pwr_PowerComState)),
      (''power_temperature'', \<lambda>m. PString (Option.bind (pm_PowerData m) pwr_PowerTemperature)),
      (''power_available'', \<lambda>m. PString (Option.bind (pm_PowerData m) pwr_PowerAvailable)),
      (''power_capacity_string'', \<lambda>m. PString (Option.bind (pm_PowerData m) pwr_PowerCapacityString)),
      (''power_input_power'', \<lambda>m. PString (Option.bind (pm_PowerData m) pwr_PowerInputPower)),
      (''power_input2_current'', \<lambda>m. PFloat (Option.bind (pm_PowerData m) pwr_PowerInput2Current)),
      (''power_input2_voltage'', \<lambda>m. PFloat (Option.bind (pm_PowerData m) pwr_PowerInput2Voltage)),
      (''power_output2_current'', \<lambda>m. PFloat (Option.bind (pm_PowerData m) pwr_PowerOutput2Current)),
      (''power_output2_voltage'', \<lambda>m. PFloat (Option.bind (pm_PowerData m) pwr_PowerOutput2Voltage)),
      (''linecard_power_admin_state'', \<lambda>m. PString (Option.bind (pm_PowerData m) pwr_LinecardPowerAdminState)),
      (''optical_in_power'', \<lambda>m. PFloat (Option.bind (pm_OpticalData m) opt_OpticalInPower)),
      (''optical_out_power'', \<lambda>m. PFloat (Option.bind (pm_OpticalData m) opt_OpticalOutPower)),
      (''optical_bias_current'', \<lambda>m. PFloat (Option.bind (pm_OpticalData m) opt_OpticalBiasCurrent)),
      (''optical_temperature'', \<lambda>m. PFloat (Option.bind (pm_OpticalData m) opt_OpticalTemperature)),
      (''optical_voltage_vol33'', \<lambda>m. PFloat (Option.bind (pm_OpticalData m) opt_OpticalVoltageVol33)),
      (''optical_voltage_vol5'', \<lambda>m. PFloat (Option.bind (pm_OpticalData m) opt_OpticalVoltageVol5)),
      (''optical_alarm_los_status'', \<lambda>m. PString (Option.bind (pm_OpticalData m) opt_OpticalAlarmLosStatus)),
      (''optical_alarm_los_info_event_id'', \<lambda>m. PUint32 (Option.bind (pm_OpticalData m) opt_OpticalAlarmLosInfoEventID)),
      (''optical_alarm_los_info_event_interval'', \<lambda>m. PUint32 (Option.bind (pm_OpticalData m) opt_OpticalAlarmLosInfoEventInterval)),
      (''optical_alarm_los_info_in_power'', \<lambda>m. PFloat (Option.bind (pm_OpticalData m) opt_OpticalAlarmLosInfoInPower)),
      (''optical_alarm_los_info_out_power'', \<lambda>m. PFloat (Option.bind (pm_OpticalData m) opt_OpticalAlarmLosInfoOutPower)),
      (''optical_online_status'', \<lambda>m. PString (Option.bind (pm_OpticalData m) opt_OpticalOnlineStatus)),
      (''optical_rx_threshold_high_alarm'', \<lambda>m. PFloat (Option.bind (pm_OpticalData m) opt_OpticalRxThresholdHighAlarm)),
      (''optical_rx_threshold_pre_high_alarm'', \<lambda>m. PFloat (Option.bind (pm_OpticalData m) opt_OpticalRxThresholdPreHighAlarm)),
      (''optical_rx_threshold_low_alarm'', \<lambda>m. PFloat (Option.bind (pm_OpticalData m) opt_OpticalRxThresholdLowAlarm)),
      (''optical_rx_threshold_pre_low_alarm'', \<lambda>m. PFloat (Option.bind (pm_OpticalData m) opt_OpticalRxThresholdPreLowAlarm))]"

definition interface_tags :: "(string \<times> (InterfaceMetric \<Rightarrow> cell)) list" where
  "interface_tags =
     [(''timestamp'', \<lambda>m. VTime (im_Timestamp m)),
      (''system_id'', \<lambda>m. VString (im_SystemID m)),
      (''interface_name'', \<lambda>m. VString (im_InterfaceName m)),
      (''ifindex'', \<lambda>m. PUint32 (im_Ifindex m)),
      (''admin_status'', \<lambda>m. PString (im_AdminStatusStr m)),
      (''oper_status'', \<lambda>m. PString (im_OperStatusStr m)),
      (''last_change'', \<lambda>m. PTime (im_LastChange m)),
      (''logical'', \<lambda>m. PBool (im_Logical m)),
      (''type'', \<lambda>m. PUint32 (im_Type m)),
      (''phy_status'', \<lambda>m. PString (im_PhyStatusStr m)),
      (''ipv4_oper_status'', \<lambda>m. PString (im_IPv4OperStatusStr m)),
      (''zteif_type'', \<lambda>m. PUint32 (im_ZteifType m)),
      (''zteif_ifindex'', \<lambda>m. PUint32 (im_ZteifIfindex m)),
      (''zteif_admin_status'', \<lambda>m. PString (im_ZteifAdminStatusStr m)),
      (''zteif_oper_status'', \<lambda>m. PString (im_ZteifOperStatusStr m)),
      (''zteif_phy_status'', \<lambda>m. PString (im_ZteifPhyStatusStr m)),
      (''zteif_ipv4_oper_status'', \<lambda>m. PString (im_ZteifIPv4OperStatusStr m)),
      (''zteif_ipv6_oper_status'', \<lambda>m. PString (im_ZteifIPv6OperStatusStr m)),
      (''in_octets'', \<lambda>m. PUint64 (im_InOctets m)),
      (''in_unicast_pkts'', \<lambda>m. PUint64 (im_InUnicastPkts m)),
      (''in_broadcast_pkts'', \<lambda>m. PUint64 (im_InBroadcastPkts m)),
      (''in_multicast_pkts'', \<lambda>m. PUint64 (im_InMulticastPkts m)),
      (''in_discards'', \<lambda>m. PUint64 (im_InDiscards m)),
      (''in_errors'', \<lambda>m. PUint64 (im_InErrors m)),
      (''in_unknown_protos'', \<lambda>m. PUint64 (im_InUnknownProtos m)),
      (''in_fcs_errors'', \<lambda>m. PUint64 (im_InFcsErrors m)),
      (''out_octets'', \<lambda>m. PUint64 (im_OutOctets m)),
      (''out_unicast_pkts'', \<lambda>m. PUint64 (im_OutUnicastPkts m)),
      (''out_broadcast_pkts'', \<lambda>m. PUint64 (im_OutBroadcastPkts m)),
      (''out_multicast_pkts'', \<lambda>m. PUint64 (im_OutMulticastPkts m)),
      (''out_discards'', \<lambda>m. PUint64 (im_OutDiscards m)),
      (''out_errors'', \<lambda>m. PUint64 (im_OutErrors m)),
      (''carrier_transitions'', \<lambda>m. PUint64 (im_CarrierTransitions m)),
      (''last_clear'', \<lambda>m. PTime (im_LastClear m)),
      (''in_pkts'', \<lambda>m. PUint64 (im_InPkts m)),
      (''out_pkts'', \<lambda>m. PUint64 (im_OutPkts m)),
      (''input_utilization'', \<lambda>m. PString (im_InputUtilization m)),
      (''output_utilization'', \<lambda>m. PString (im_OutputUtilization m)),
      (''in_traffic_rate'', \<lambda>m. PString (im_InTrafficRate m)),
      (''in_packet_rate'', \<lambda>m. PString (im_InPacketRate m)),
      (''out_traffic_rate'', \<lambda>m. PString (im_OutTrafficRate m)),
      (''out_packet_rate'', \<lambda>m. PString (im_OutPacketRate m)),
      (''in_v4_octets'', \<lambda>m. PUint64 (im_InV4Octets m)),
      (''out_v4_octets'', \<lambda>m. PUint64 (im_OutV4Octets m)),
      (''in_v4_pkts'', \<lambda>m. PUint64 (im_InV4Pkts m)),
      (''out_v4_pkts'', \<lambda>m. PUint64 (im_OutV4Pkts m)),
      (''in_v6_octets'', \<lambda>m. PUint64 (im_InV6Octets m)),
      (''out_v6_octets'', \<lambda>m. PUint64 (im_OutV6Octets m)),
      (''in_v6_pkts'', \<lambda>m. PUint64 (im_InV6Pkts m)),
      (''out_v6_pkts'', \<lambda>m. PUint64 (im_OutV6Pkts m)),
      (''in_v4_traffic_rate'', \<lambda>m. PString (im_InV4TrafficRate m)),
      (''in_v4_packet_rate'', \<lambda>m. PString (im_InV4PacketRate m)),
      (''out_v4_traffic_rate'', \<lambda>m. PString (im_OutV4TrafficRate m)),
      (''out_v4_packet_rate'', \<lambda>m. PString (im_OutV4PacketRate m)),
      (''in_v6_traffic_rate'', \<lambda>m. PString (im_InV6TrafficRate m)),
      (''in_v6_packet_rate'', \<lambda>m. PString (im_InV6PacketRate m)),
      (''out_v6_traffic_rate'', \<lambda>m. PString (im_OutV6TrafficRate m)),
      (''out_v6_packet_rate'', \<lambda>m. PString (im_OutV6PacketRate m)),
      (''input_v4_utilization'', \<lambda>m. PString (im_InputV4Utilization m)),
      (''output_v4_utilization'', \<lambda>m. PString (im_OutputV4Utilization m)),
      (''input_v6_utilization'', \<lambda>m. PString (im_InputV6Utilization m)),
      (''output_v6_utilization'', \<lambda>m. PString (im_OutputV6Utilization m)),
      (''in_bier_octets'', \<lambda>m. PUint64 (im_InBierOctets m)),
      (''in_bier_pkts'', \<lambda>m. PUint64 (im_InBierPkts m)),
      (''out_bier_octets'', \<lambda>m. PUint64 (im_OutBierOctets m)),
      (''out_bier_pkts'', \<lambda>m. PUint64 (im_OutBierPkts m))]"

definition subinterface_tags :: "(string \<times> (SubinterfaceMetric \<Rightarrow> cell)) list" where
  "subinterface_tags =
     [(''timestamp'', \<lambda>m. VTime (sm_Timestamp m)),
      (''system_id'', \<lambda>m. VString (sm_SystemID m)),
      (''interface_name'', \<lambda>m. VString (sm_InterfaceName m)),
      (''subinterface_index'', \<lambda>m. VString (sm_SubinterfaceName m)),
      (''ifindex'', \<lambda>m. PUint32 (sm_Ifindex m)),
      (''admin_status'', \<lambda>m. PString (sm_AdminStatusStr m)),
      (''oper_status'', \<lambda>m. PString (sm_OperStatusStr m)),
      (''last_change'', \<lambda>m. PTime (sm_LastChange m)),
      (''logical'', \<lambda>m. PBool (sm_Logical m)),
      (''ipv4_oper_status'', \<lambda>m. PString (sm_IPv4OperStatusStr m)),
      (''zteif_ifindex'', \<lambda>m. PUint32 (sm_ZteifIfindex m)),
      (''zteif_admin_status'', \<lambda>m. PString (sm_ZteifAdminStatusStr m)),
      (''zteif_oper_status'', \<lambda>m. PString (sm_ZteifOperStatusStr m)),
      (''zteif_phy_status'', \<lambda>m. PString (sm_ZteifPhyStatusStr m)),
      (''zteif_ipv4_oper_status'', \<lambda>m. PString (sm_ZteifIPv4OperStatusStr m)),
      (''zteif_ipv6_oper_status'', \<lambda>m. PString (sm_ZteifIPv6OperStatusStr m)),
      (''in_octets'', \<lambda>m. PUint64 (sm_InOctets m)),
      (''in_unicast_pkts'', \<lambda>m. PUint64 (sm_InUnicastPkts m)),
      (''in_broadcast_pkts'', \<lambda>m. PUint64 (sm_InBroadcastPkts m)),
      (''in_multicast_pkts'', \<lambda>m. PUint64 (sm_InMulticastPkts m)),
      (''in_discards'', \<lambda>m. PUint64 (sm_InDiscards m)),
      (''in_errors'', \<lambda>m. PUint64 (sm_InErrors m)),
      (''in_unknown_protos'', \<lambda>m. PUint64 (sm_InUnknownProtos m)),
      (''in_fcs_errors'', \<lambda>m. PUint64 (sm_InFcsErrors m)),
      (''out_octets'', \<lambda>m. PUint64 (sm_OutOctets m)),
      (''out_unicast_pkts'', \<lambda>m. PUint64 (sm_OutUnicastPkts m)),
      (''out_broadcast_pkts'', \<lambda>m. PUint64 (sm_OutBroadcastPkts m)),
      (''out_multicast_pkts'', \<lambda>m. PUint64 (sm_OutMulticastPkts m)),
      (''out_discards'', \<lambda>m. PUint64 (sm_OutDiscards m)),
      (''out_errors'', \<lambda>m. PUint64 (sm_OutErrors m)),
      (''carrier_transitions'', \<lambda>m. PUint64 (sm_CarrierTransitions m)),
      (''last_clear'', \<lambda>m. PTime (sm_LastClear m)),
      (''in_pkts'', \<lambda>m. PUint64 (sm_InPkts m)),
      (''out_pkts'', \<lambda>m. PUint64 (sm_OutPkts m)),
      (''input_utilization'', \<lambda>m. PString (sm_InputUtilization m)),
      (''output_utilization'', \<lambda>m. PString (sm_OutputUtilization m)),
      (''in_traffic_rate'', \<lambda>m. PString (sm_InTrafficRate m)),
      (''in_packet_rate'', \<lambda>m. PString (sm_InPacketRate m)),
      (''out_traffic_rate'', \<lambda>m. PString (sm_OutTrafficRate m)),
      (''out_packet_rate'', \<lambda>m. PString (sm_OutPacketRate m)),
      (''in_v4_octets'', \<lambda>m. PUint64 (sm_InV4Octets m)),
      (''out_v4_octets'', \<lambda>m. PUint64 (sm_OutV4Octets m)),
      (''in_v4_pkts'', \<lambda>m. PUint64 (sm_InV4Pkts m)),
      (''out_v4_pkts'', \<lambda>m. PUint64 (sm_OutV4Pkts m)),
      (''in_v6_octets'', \<lambda>m. PUint64 (sm_InV6Octets m)),
      (''out_v6_octets'', \<lambda>m. PUint64 (sm_OutV6Octets m)),
      (''in_v6_pkts'', \<lambda>m. PUint64 (sm_InV6Pkts m)),
      (''out_v6_pkts'', \<lambda>m. PUint64 (sm_OutV6Pkts m)),
      (''in_v4_traffic_rate'', \<lambda>m. PString (sm_InV4TrafficRate m)),
      (''in_v4_packet_rate'', \<lambda>m. PString (sm_InV4PacketRate m)),
      (''out_v4_traffic_rate'', \<lambda>m. PString (sm_OutV4TrafficRate m)),
      (''out_v4_packet_rate'', \<lambda>m. PString (sm_OutV4PacketRate m)),
      (''in_v6_traffic_rate'', \<lambda>m. PString (sm_InV6TrafficRate m)),
      (''in_v6_packet_rate'', \<lambda>m. PString (sm_InV6PacketRate m)),
      (''out_v6_traffic_rate'', \<lambda>m. PString (sm_OutV6TrafficRate m)),
      (''out_v6_packet_rate'', \<lambda>m. PString (sm_OutV6PacketRate m)),
      (''input_v4_utilization'', \<lambda>m. PString (sm_InputV4Utilization m)),
      (''output_v4_utilization'', \<lambda>m. PString (sm_OutputV4Utilization m)),
      (''input_v6_utilization'', \<lambda>m. PString (sm_InputV6Utilization m)),
      (''output_v6_utilization'', \<lambda>m. PString (sm_OutputV6Utilization m)),
      (''in_bier_octets'', \<lambda>m. PUint64 (sm_InBierOctets m)),
      (''in_bier_pkts'', \<lambda>m. PUint64 (sm_InBierPkts m)),
      (''out_bier_octets'', \<lambda>m. PUint64 (sm_OutBierOctets m)),
      (''out_bier_pkts'', \<lambda>m. PUint64 (sm_OutBierPkts m))]"

definition alarmReport_tags :: "(string \<times> (AlarmReportMetric \<Rightarrow> cell)) list" where
  "alarmReport_tags =
     [(''timestamp'', \<lambda>m. VTime (am_Timestamp m)),
      (''system_id'', \<lambda>m. VString (am_SystemID m)),
      (''flow_id'', \<lambda>m. VUint32 (am_FlowID m)),
      (''alarm_timestamp'', \<lambda>m. VUint32 (am_AlarmTimestamp m)),
      (''code'', \<lambda>m. VUint32 (am_Code m)),
      (''occurrence_time'', \<lambda>m. PTime (am_OccurrenceTime m)),
      (''update_time'', \<lambda>m. PTime (am_UpdateTime m)),
      (''disappeared_time'', \<lambda>m. PTime (am_DisappearedTime m)),
      (''occurrence_ms'', \<lambda>m. VUint32 (am_OccurrenceMs m)),
      (''update_ms'', \<lambda>m. VUint32 (am_UpdateMs m)),
      (''disappeared_ms'', \<lambda>m. VUint32 (am_DisappearedMs m)),
      (''alarm_class'', \<lambda>m. PString (am_AlarmClass m)),
      (''alarm_type'', \<lambda>m. PString (am_AlarmType m)),
      (''alarm_status'', \<lambda>m. PString (am_AlarmStatus m)),
      (''sort'', \<lambda>m. PUint32 (am_Sort m)),
      (''severity'', \<lambda>m. PString (am_Severity m)),
      (''tpid_type'', \<lambda>m. PUint32 (am_TpidType m)),
      (''tpid_length'', \<lambda>m. PUint32 (am_TpidLength m)),
      (''tpid'', \<lambda>m. PString (am_Tpid m)),
      (''protect_group_work_status'', \<lambda>m. PUint32 (am_ProtectGroupWorkStatus m)),
      (''protect_type'', \<lambda>m. PUint32 (am_ProtectType m)),
      (''reason'', \<lambda>m. PUint32 (am_Reason m)),
      (''return_mode'', \<lambda>m. PString (am_ReturnMode m)),
      (''protect_tpid_type'', \<lambda>m. PUint32 (am_ProtectTpidType m)),
      (''protect_tpid_length'', \<lambda>m. PUint32 (am_ProtectTpidLength m)),
      (''protect_tpid'', \<lambda>m. PString (am_ProtectTpid m)),
      (''source_tpid_type'', \<lambda>m. PUint32 (am_SourceTpidType m)),
      (''source_tpid_length'', \<lambda>m. PUint32 (am_SourceTpidLength m)),
      (''source_tpid'', \<lambda>m. PString (am_SourceTpid m)),
      (''switch_tpid_type'', \<lambda>m. PUint32 (am_SwitchTpidType m)),
      (''previous_tpid_length'', \<lambda>m. PUint32 (am_PreviousTpidLength m)),
      (''current_tpid_length'', \<lambda>m. PUint32 (am_CurrentTpidLength m)),
      (''previous_tpid'', \<lambda>m. PString (am_PreviousTpid m)),
      (''current_tpid'', \<lambda>m. PString (am_CurrentTpid m)),
      (''perf_alarm_period'', \<lambda>m. PString (am_PerfAlarmPeriod m)),
      (''perf_alarm_type'', \<lambda>m. PString (am_PerfAlarmType m)),
      (''perf_alarm_value'', \<lambda>m. PString (am_PerfAlarmValue m)),
      (''description'', \<lambda>m. PString (am_Description m)),
      (''caption'', \<lambda>m. PString (am_Caption m))]"

definition notificationReport_tags :: "(string \<times> (NotificationReportMetric \<Rightarrow> cell)) list" where
  "notificationReport_tags =
     [(''timestamp'', \<lambda>m. VTime (nm_Timestamp m)),
      (''system_id'', \<lambda>m. VString (nm_SystemID m)),
      (''flow_id'', \<lambda>m. VUint32 (nm_FlowID m)),
      (''notification_timestamp'', \<lambda>m. VUint32 (nm_NotificationTimestamp m)),
      (''code'', \<lambda>m. VUint32 (nm_Code m)),
      (''occur_time'', \<lambda>m. PTime (nm_OccurTime m)),
      (''occur_ms'', \<lambda>m. VUint32 (nm_OccurMs m)),
      (''classification'', \<lambda>m. PString (nm_Classification m)),
      (''sort'', \<lambda>m. PUint32 (nm_Sort m)),
      (''severity'', \<lambda>m. PString (nm_Severity m)),
      (''tpid_type'', \<lambda>m. PUint32 (nm_TpidType m)),
      (''tpid_length'', \<lambda>m. PUint32 (nm_TpidLength m)),
      (''tpid'', \<lambda>m. PString (nm_Tpid m)),
      (''description'', \<lambda>m. PString (nm_Description m)),
      (''caption'', \<lambda>m. PString (nm_Caption m))]"

end
