(* ===== verification/Database_Laws.thy ===== *)
theory Database_Laws
  imports Database_Rows
begin

text \<open>
  What the database component keeps: a row has a cell for each column, in the order of the column
  list (\<open>row_lengths\<close>, \<open>subinterface_aligned\<close>, \<open>alarm_aligned\<close>, \<open>notification_aligned\<close>,
  \<open>platform_accessor\<close>, \<open>interface_accessor\<close>), and under each column the field of that tag (\<open>platform_tagged\<close>,
  \<open>interface_tagged\<close>); and its batch inserts are what the buffer manager asks
  of a database: under the contract of the pool they satisfy \<open>batch_writer\<close>.
\<close>

section \<open>Rows against columns\<close>

lemma row_lengths:
  "length (platform_row pm) = length platform_columns"
  "length (interface_row pf im) = length interface_columns"
  "length (subinterface_row pf sm) = length subinterface_columns"
  "length (alarmReport_row am) = length alarmReport_columns"
  "length (notificationReport_row nm) = length notificationReport_columns"
  by (simp_all add: platform_row_def platform_columns_def interface_row_def interface_columns_def
      subinterface_row_def subinterface_columns_def alarmReport_row_def alarmReport_columns_def
      notificationReport_row_def notificationReport_columns_def Let_def)

lemma columns_distinct:
  "distinct platform_columns" "distinct interface_columns" "distinct subinterface_columns"
  "distinct alarmReport_columns" "distinct notificationReport_columns"
  by (code_simp, code_simp, code_simp, code_simp, code_simp)

text \<open>
  The value a pointer cell is stored as by the \<open>safe\<close> functions; the driver dereferences a pointer
  itself.
\<close>

definition unpointer :: "cell \<Rightarrow> cell" where
  "unpointer c =
     (case c of
        PString s \<Rightarrow> db_safeString s | PUint32 u \<Rightarrow> db_safeUint32 u | PUint64 u \<Rightarrow> db_safeUint64 u
      | PFloat f \<Rightarrow> safeFloat64 f | PBool b \<Rightarrow> safeBool b | PTime t \<Rightarrow> safeTime t
      | other \<Rightarrow> other)"

lemma unpointer_simps [simp]:
  "unpointer (PString s) = db_safeString s" "unpointer (PUint32 u) = db_safeUint32 u"
  "unpointer (PUint64 v) = db_safeUint64 v" "unpointer (PFloat f) = safeFloat64 f"
  "unpointer (PBool b) = safeBool b" "unpointer (PTime t) = safeTime t"
  "unpointer (db_safeString s) = db_safeString s"
  by (simp_all add: unpointer_def db_safeString_def split: option.split)

lemma unpointer_safe:
  "unpointer (db_safeString s) = db_safeString s" "unpointer (db_safeUint32 u) = db_safeUint32 u"
  by (simp_all add: unpointer_def db_safeString_def db_safeUint32_def split: option.split)

section \<open>The platform row against the field accessor\<close>

definition flow_cell :: "cell flow \<Rightarrow> cell option" where
  "flow_cell r = (case r of Panic \<Rightarrow> None | Ret c \<Rightarrow> Some (unpointer c))"

text \<open>A metric with all its parts.\<close>

definition all_parts :: "PlatformMetric \<Rightarrow> bool" where
  "all_parts m \<longleftrightarrow>
     pm_CommonState m \<noteq> None \<and> pm_CPUData m \<noteq> None \<and> pm_MemData m \<noteq> None \<and> pm_TempData m \<noteq> None \<and>
     pm_FanData m \<noteq> None \<and> pm_PowerData m \<noteq> None \<and> pm_OpticalData m \<noteq> None"

lemma platform_fields_row:
  assumes "all_parts m"
  shows "map (\<lambda>f. flow_cell (f m)) platform_fields = map Some (drop 3 (platform_row m))"
  using assms
  by (auto simp: all_parts_def platform_fields_defs platform_row_def flow_cell_def via_def Let_def
      safeCommon_def safeCPU_def safeMem_def safeTemp_def safeFan_def safePower_def safeOptical_def)

lemma length_platform_fields: "length platform_fields = 87"
  by (simp add: platform_fields_defs)

lemma platform_accessor:
  assumes "all_parts m" and "4 \<le> k" and "k \<le> 90"
  shows "\<exists>c. getFieldValue m k = Ret c \<and> unpointer c = platform_row m ! nat (k - 1)"
proof -
  let ?i = "nat (k - 4)"
  have i: "?i < length platform_fields" using assms by (simp add: length_platform_fields)
  have "flow_cell ((platform_fields ! ?i) m) = map (\<lambda>f. flow_cell (f m)) platform_fields ! ?i"
    using i by simp
  also have "\<dots> = map Some (drop 3 (platform_row m)) ! ?i"
    by (simp only: platform_fields_row [OF assms(1)])
  also have "\<dots> = Some (platform_row m ! (3 + ?i))"
  proof -
    have "?i < length (drop 3 (platform_row m))"
      using i by (simp add: length_platform_fields row_lengths platform_columns_def)
    then show ?thesis by (simp add: row_lengths platform_columns_def)
  qed
  finally have "flow_cell (getFieldValue m k) = Some (platform_row m ! nat (k - 1))"
    using assms by (simp add: getFieldValue_def nat_diff_distrib)
  then show ?thesis by (auto simp: flow_cell_def split: flow.splits)
qed

section \<open>The interface rows against the schema and the tags\<close>

definition column_cell :: "string list \<Rightarrow> cell list \<Rightarrow> string \<Rightarrow> cell option" where
  "column_cell columns row c = map_of (zip columns row) c"

text \<open>The columns whose texts are stored as numbers.\<close>

definition numeric_columns :: "string list" where
  "numeric_columns =
     [''input_utilization'', ''output_utilization'', ''input_v4_utilization'', ''output_v4_utilization'',
      ''input_v6_utilization'', ''output_v6_utilization'']"

definition as_stored :: "(string \<Rightarrow> gofloat option) \<Rightarrow> string \<Rightarrow> cell \<Rightarrow> cell" where
  "as_stored parse_float column c =
     (if column \<in> set numeric_columns
      then (case c of PString s \<Rightarrow> safeNumericString parse_float s | other \<Rightarrow> other) else c)"

lemma subinterface_aligned:
  "subinterface_columns = map fst subinterface_tags"
  "subinterface_row pf m = map (\<lambda>(c, f). as_stored pf c (f m)) subinterface_tags"
  by (simp add: subinterface_columns_def subinterface_tags_def)
    (simp add: subinterface_row_def subinterface_tags_def as_stored_def numeric_columns_def)

text \<open>
  Alarms and notifications: the columns are the tags, in their order, without the timestamp of the
  report itself, which is not stored.
\<close>

lemma alarm_aligned:
  "alarmReport_columns = filter (\<lambda>c. c \<noteq> ''alarm_timestamp'') (map fst alarmReport_tags)"
  "map unpointer (alarmReport_row m) =
     map (\<lambda>(c, f). unpointer (f m)) (filter (\<lambda>(c, f). c \<noteq> ''alarm_timestamp'') alarmReport_tags)"
proof -
  show "alarmReport_columns = filter (\<lambda>c. c \<noteq> ''alarm_timestamp'') (map fst alarmReport_tags)"
    by (simp add: alarmReport_columns_def alarmReport_tags_def)
  show "map unpointer (alarmReport_row m) =
     map (\<lambda>(c, f). unpointer (f m)) (filter (\<lambda>(c, f). c \<noteq> ''alarm_timestamp'') alarmReport_tags)"
    by (simp add: alarmReport_row_def alarmReport_tags_def unpointer_safe)
qed

lemma notification_aligned:
  "notificationReport_columns =
     filter (\<lambda>c. c \<noteq> ''notification_timestamp'') (map fst notificationReport_tags)"
  "map unpointer (notificationReport_row m) =
     map (\<lambda>(c, f). unpointer (f m))
       (filter (\<lambda>(c, f). c \<noteq> ''notification_timestamp'') notificationReport_tags)"
  by (simp_all add: notificationReport_columns_def notificationReport_tags_def
      notificationReport_row_def unpointer_safe)

text \<open>The position of a column in a list, to look a cell up by name.\<close>

definition pos_of :: "string list \<Rightarrow> string \<Rightarrow> nat" where
  "pos_of cs c = length (takeWhile (\<lambda>x. x \<noteq> c) cs)"

lemma column_cell_pos:
  "length cs = length row \<Longrightarrow> c \<in> set cs \<Longrightarrow> column_cell cs row c = Some (row ! pos_of cs c)"
  by (induction cs row rule: list_induct2) (auto simp: column_cell_def pos_of_def)

lemma interface_positions:
  "map (pos_of interface_columns) (drop 3 interface_schema) =
    [19, 16, 17, 18, 23, 20, 21, 22, 24, 25, 26, 27, 28, 29, 30, 3, 5, 14, 12, 7, 9, 11, 31,
     4, 6, 15, 13, 8, 10, 32, 33, 34, 35, 36, 37, 38, 39, 40, 41, 42, 43, 44, 45, 46,
     47, 48, 49, 50, 51, 52, 53, 54, 55, 56, 57, 58, 59, 60, 61, 62, 63, 64, 65]"
  by code_simp

lemma interface_schema_columns:
  "list_all (\<lambda>c. c \<in> set interface_columns) (drop 3 interface_schema)"
  by code_simp

lemma interface_row_positions:
  "map ((!) (interface_row pf m)) (map (pos_of interface_columns) (drop 3 interface_schema)) =
   map2 (\<lambda>c f. as_stored pf c (f m)) (drop 3 interface_schema) interface_fields"
  unfolding interface_positions
  by (simp add: interface_row_def interface_schema_def interface_fields_def as_stored_def
      numeric_columns_def)

lemma interface_fields_columns:
  "map (column_cell interface_columns (interface_row pf m)) (drop 3 interface_schema) =
   map Some (map2 (\<lambda>c f. as_stored pf c (f m)) (drop 3 interface_schema) interface_fields)"
proof -
  have "map (column_cell interface_columns (interface_row pf m)) (drop 3 interface_schema) =
      map (\<lambda>c. Some (interface_row pf m ! pos_of interface_columns c)) (drop 3 interface_schema)"
    using interface_schema_columns
    by (intro map_cong column_cell_pos) (auto simp: row_lengths list_all_iff)
  also have "\<dots> = map Some
      (map ((!) (interface_row pf m)) (map (pos_of interface_columns) (drop 3 interface_schema)))"
    by (simp only: map_map comp_def)
  finally show ?thesis by (simp only: interface_row_positions)
qed

lemma length_interface_fields: "length interface_fields = 63" "length interface_schema = 66"
  by (simp_all add: interface_fields_def interface_schema_def)

lemma interface_accessor:
  assumes "4 \<le> k" and "k \<le> 66"
  shows "column_cell interface_columns (interface_row pf m) (interface_schema ! nat (k - 1)) =
         Some (as_stored pf (interface_schema ! nat (k - 1)) (getInterfaceFieldValue m k))"
proof -
  let ?i = "nat (k - 4)"
  let ?cs = "drop 3 interface_schema"
  have i: "?i < 63" and n: "nat (k - 1) = 3 + ?i" using assms by auto
  have c: "interface_schema ! nat (k - 1) = ?cs ! ?i"
    using i n by (simp add: length_interface_fields)
  have "column_cell interface_columns (interface_row pf m) (?cs ! ?i) =
      map (column_cell interface_columns (interface_row pf m)) ?cs ! ?i"
    using i by (simp add: length_interface_fields)
  also have "\<dots> = Some (as_stored pf (?cs ! ?i) ((interface_fields ! ?i) m))"
    unfolding interface_fields_columns using i by (simp add: length_interface_fields)
  finally show ?thesis
    using assms unfolding c by (simp add: getInterfaceFieldValue_def)
qed

section \<open>The platform and interface rows against the tags\<close>

lemma bind_safe:
  "f CommonState_zero = None \<Longrightarrow> Option.bind (pm_CommonState m) f = f (safeCommon m)"
  "f1 CPUData_zero = None \<Longrightarrow> Option.bind (pm_CPUData m) f1 = f1 (safeCPU m)"
  "f2 MemData_zero = None \<Longrightarrow> Option.bind (pm_MemData m) f2 = f2 (safeMem m)"
  "f3 TempData_zero = None \<Longrightarrow> Option.bind (pm_TempData m) f3 = f3 (safeTemp m)"
  "f4 FanData_zero = None \<Longrightarrow> Option.bind (pm_FanData m) f4 = f4 (safeFan m)"
  "f5 PowerData_zero = None \<Longrightarrow> Option.bind (pm_PowerData m) f5 = f5 (safePower m)"
  "f6 OpticalData_zero = None \<Longrightarrow> Option.bind (pm_OpticalData m) f6 = f6 (safeOptical m)"
  by (simp_all add: safeCommon_def safeCPU_def safeMem_def safeTemp_def safeFan_def safePower_def
      safeOptical_def split: option.split)

lemmas part_zero_defs = CommonState_zero_def CPUData_zero_def MemData_zero_def TempData_zero_def
  FanData_zero_def PowerData_zero_def OpticalData_zero_def

text \<open>The places of the columns in the order of the tags.\<close>

definition platform_places :: "nat list" where
  "platform_places =
    [0, 1, 2, 3, 4, 5, 6, 7, 8, 9, 10, 11, 12, 13, 14, 66, 67, 68, 69, 70, 71, 72, 73, 23, 24, 25, 26, 27, 28,
     29, 30, 31, 32, 33, 34, 35, 36, 37, 38, 39, 40, 41, 42, 43, 44, 15, 16, 17, 18, 19, 20, 21, 22, 45, 46,
     47, 48, 49, 50, 51, 52, 53, 54, 55, 56, 57, 58, 59, 60, 61, 62, 63, 64, 65, 74, 75, 76, 77, 78, 79, 80,
     81, 82, 83, 84, 85, 86, 87, 88, 89]"

definition interface_places :: "nat list" where
  "interface_places =
    [0, 1, 2, 19, 16, 17, 18, 23, 20, 21, 22, 24, 25, 26, 27, 28, 29, 30, 3, 5, 14, 12, 7, 9, 11, 31, 4, 6,
     15, 13, 8, 10, 32, 33, 34, 35, 36, 37, 38, 39, 40, 41, 42, 43, 44, 45, 46, 47, 48, 49, 50, 51, 52, 53,
     54, 55, 56, 57, 58, 59, 60, 61, 62, 63, 64, 65]"

lemma tag_names:
  "map fst platform_tags = map ((!) platform_columns) platform_places"
  "map fst interface_tags = map ((!) interface_columns) interface_places"
  by (simp add: platform_tags_def platform_columns_def platform_places_def)
    (simp add: interface_tags_def interface_columns_def interface_places_def)

lemma places_all:
  "sort platform_places = [0..<90]" "sort interface_places = [0..<66]"
  by (code_simp, code_simp)

lemma tag_rows:
  "map ((!) (platform_row m)) platform_places = map (\<lambda>(c, f). unpointer (f m)) platform_tags"
  "map ((!) (interface_row pf im)) interface_places = map (\<lambda>(c, f). as_stored pf c (f im)) interface_tags"
proof -
  have v: "unpointer (VTime t) = VTime t" "unpointer (VString x) = VString x" for t x
    by (simp_all add: unpointer_def)
  show "map ((!) (platform_row m)) platform_places = map (\<lambda>(c, f). unpointer (f m)) platform_tags"
    by (simp add: platform_row_def platform_tags_def platform_places_def Let_def bind_safe part_zero_defs v)
  show "map ((!) (interface_row pf im)) interface_places = map (\<lambda>(c, f). as_stored pf c (f im)) interface_tags"
    by (simp add: interface_row_def interface_tags_def interface_places_def as_stored_def numeric_columns_def)
qed

text \<open>The cell of the column a field is tagged with is the value of that field.\<close>

lemma tagged_cells:
  assumes names: "map fst tags = map ((!) cs) places" and cells: "map ((!) row) places = map (\<lambda>(c, f). val c f) tags"
    and all: "sort places = [0..<length cs]" and "distinct cs" and "length row = length cs"
  shows "(c, f) \<in> set tags \<Longrightarrow> column_cell cs row c = Some (val c f)"
    and "set (map fst tags) = set cs"
proof -
  have places: "set places = {..<length cs}" using arg_cong [OF all, of set] by (simp add: lessThan_atLeast0)
  show "set (map fst tags) = set cs" unfolding names by (auto simp: places in_set_conv_nth)
  assume "(c, f) \<in> set tags"
  then obtain i where i: "i < length tags" "tags ! i = (c, f)" by (auto simp: in_set_conv_nth)
  have len: "length places = length tags" using arg_cong [OF names, of length] by simp
  have c: "c = cs ! (places ! i)"
    using arg_cong [OF names, of "\<lambda>xs. xs ! i"] i len by simp
  have v: "row ! (places ! i) = val c f"
    using arg_cong [OF cells, of "\<lambda>xs. xs ! i"] i len by simp
  have "places ! i < length cs" using places i len by (metis lessThan_iff nth_mem)
  then have "(cs ! (places ! i), row ! (places ! i)) \<in> set (zip cs row)"
    by (auto simp: in_set_zip assms(5) intro!: exI [of _ "places ! i"])
  then have "(c, val c f) \<in> set (zip cs row)" using c v by simp
  then show "column_cell cs row c = Some (val c f)"
    unfolding column_cell_def by (rule map_of_is_SomeI [rotated]) (simp add: assms(4,5))
qed

lemma tag_sizes: "length platform_columns = 90" "length interface_columns = 66"
  by (simp_all add: platform_columns_def interface_columns_def)

lemmas platform_tagged = tagged_cells [where val = "\<lambda>c f. unpointer (f m)" for m,
    OF tag_names(1) tag_rows(1) places_all(1) [folded tag_sizes] columns_distinct(1) row_lengths(1)]

lemmas interface_tagged = tagged_cells [where val = "\<lambda>c f. as_stored pf c (f im)" for pf im,
    OF tag_names(2) tag_rows(2) places_all(2) [folded tag_sizes] columns_distinct(2) row_lengths(2)]

section \<open>The shipped tables\<close>

text \<open>
  The statements name a \<open>timestamp\<close> column, the tables of \<^verbatim>\<open>create_tables.sql\<close> a \<open>time\<close> column; all other
  columns of the statements are there.
\<close>

lemma schema_time_column:
  "''timestamp'' \<in> set platform_columns \<and> ''timestamp'' \<notin> set platform_schema"
  "''timestamp'' \<in> set interface_columns \<and> ''timestamp'' \<notin> set interface_schema"
  "''timestamp'' \<in> set subinterface_columns \<and> ''timestamp'' \<notin> set subinterface_schema"
  by (code_simp, code_simp, code_simp)

lemma schema_other_columns:
  "platform_columns = ''timestamp'' # drop 1 platform_schema"
  "subinterface_columns = ''timestamp'' # drop 1 subinterface_schema"
  by (simp_all add: platform_columns_def platform_schema_def subinterface_columns_def
      subinterface_schema_def)

section \<open>The contract of the pool\<close>

text \<open>
  What \<^verbatim>\<open>pgx\<close> documents: a COPY is one statement, so it adds all its rows or fails and adds none, and
  it adds them to its table only; taking and returning a connection changes no table.
\<close>

definition pgx_contract ::
  "'w pgx_pool \<Rightarrow> ('w \<Rightarrow> string list \<Rightarrow> cell list multiset) \<Rightarrow> bool"
where
  "pgx_contract pool tables \<longleftrightarrow>
     (\<forall>w. tables (snd (pool_Acquire pool w)) = tables w \<and> tables (pool_Release pool w) = tables w) \<and>
     (\<forall>t cs rows w. tables (snd (pool_CopyFrom pool t cs rows w)) =
        (if fst (pool_CopyFrom pool t cs rows w) = None
         then (tables w)(t := tables w t + mset rows) else tables w))"

lemma copy_rows_tables:
  assumes "pgx_contract pool tables" and "copy_rows pool t cs rows w = (err, w')"
  shows "tables w' = (if err = None then (tables w)(t := tables w t + mset rows) else tables w)"
proof -
  obtain a w1 where a: "pool_Acquire pool w = (a, w1)" by fastforce
  have w1: "tables w1 = tables w" using assms(1) a by (metis pgx_contract_def snd_conv)
  obtain c w2 where c: "pool_CopyFrom pool t cs rows w1 = (c, w2)" by fastforce
  have w2: "tables w2 = (if c = None then (tables w)(t := tables w t + mset rows) else tables w)"
    using assms(1) c w1 unfolding pgx_contract_def by (metis fst_conv snd_conv)
  have rel: "tables (pool_Release pool w2) = tables w2"
    using assms(1) by (simp add: pgx_contract_def)
  show ?thesis
    using assms(2) w1 w2 rel by (auto simp: copy_rows_def a c split: option.splits)
qed

text \<open>An insert raced against its timer is a \<open>batch_writer\<close>; with a timer that never fires, a prompt one.\<close>

definition timer_ok :: "('w \<Rightarrow> bool \<times> 'w) \<Rightarrow> ('w \<Rightarrow> string list \<Rightarrow> cell list multiset) \<Rightarrow> bool" where
  "timer_ok timer tables \<longleftrightarrow> (\<forall>w. tables (snd (timer w)) = tables w)"

lemma raced_batch_writer:
  assumes ins: "\<And>b w. tables (snd (ins b w)) t =
      tables w t + (if fst (ins b w) = None then mset (map row b) else {#})"
    and "timer_ok timer tables"
  shows "batch_writer (\<lambda>b. race timer (ins b)) row (\<lambda>w. tables w t)"
proof
  fix b w w' e
  obtain late w1 where tm: "timer w = (late, w1)" by fastforce
  have w1: "tables w1 t = tables w t" using assms(2) tm by (metis snd_conv timer_ok_def)
  obtain err w2 where r: "ins b w1 = (err, w2)" by fastforce
  have w2: "tables w2 t = tables w t + (if err = None then mset (map row b) else {#})"
    using ins [of b w1] w1 r by simp
  have race: "race timer (ins b) w = (if late then TimedOut else Returned err, w2)"
    by (simp add: race_def tm r)
  show "tables w' t = tables w t + mset (map row b)"
    if "race timer (ins b) w = (Returned None, w')"
    using that w2 race by (auto split: if_splits)
  show "tables w' t = tables w t" if "race timer (ins b) w = (Returned (Some e), w')"
    using that w2 race by (auto split: if_splits)
  show "tables w' t = tables w t \<or> tables w' t = tables w t + mset (map row b)"
    if "race timer (ins b) w = (TimedOut, w')"
    using that w2 race by (auto split: if_splits)
qed

lemma raced_prompt_writer:
  assumes "\<And>b w. tables (snd (ins b w)) t =
      tables w t + (if fst (ins b w) = None then mset (map row b) else {#})"
    and "timer_ok timer tables" and "\<And>w. \<not> fst (timer w)"
  shows "prompt_writer (\<lambda>b. race timer (ins b)) row (\<lambda>w. tables w t)"
proof (rule prompt_writer.intro [OF raced_batch_writer [OF assms(1,2)]])
  show "prompt_writer_axioms (\<lambda>b. race timer (ins b))"
    by unfold_locales (use assms(3) in \<open>auto simp: race_def split_beta Let_def\<close>)
qed

lemmas insert_defs =
  BatchInsertPlatformMetrics_def BatchInsertPlatformMetricsWithContext_def
  BatchInsertInterfaceMetrics_def BatchInsertInterfaceMetricsWithContext_def
  BatchInsertSubinterfaceMetrics_def BatchInsertSubinterfaceMetricsWithContext_def
  BatchInsertAlarmReportMetrics_def BatchInsertAlarmReportMetricsWithContext_def
  BatchInsertNotificationReportMetrics_def BatchInsertNotificationReportMetricsWithContext_def

lemma insert_tables:
  assumes "pgx_contract pool tables"
  shows "tables (snd (BatchInsertPlatformMetrics pool ps w)) platform_table =
           tables w platform_table +
           (if fst (BatchInsertPlatformMetrics pool ps w) = None then mset (map platform_row ps) else {#})"
    and "tables (snd (BatchInsertInterfaceMetrics pool pf is w)) interface_table =
           tables w interface_table +
           (if fst (BatchInsertInterfaceMetrics pool pf is w) = None
            then mset (map (interface_row pf) is) else {#})"
    and "tables (snd (BatchInsertSubinterfaceMetrics pool pf ss w)) subinterface_table =
           tables w subinterface_table +
           (if fst (BatchInsertSubinterfaceMetrics pool pf ss w) = None
            then mset (map (subinterface_row pf) ss) else {#})"
    and "tables (snd (BatchInsertAlarmReportMetrics pool as w)) alarmReport_table =
           tables w alarmReport_table +
           (if fst (BatchInsertAlarmReportMetrics pool as w) = None
            then mset (map alarmReport_row as) else {#})"
    and "tables (snd (BatchInsertNotificationReportMetrics pool ns w)) notificationReport_table =
           tables w notificationReport_table +
           (if fst (BatchInsertNotificationReportMetrics pool ns w) = None
            then mset (map notificationReport_row ns) else {#})"
  using copy_rows_tables [OF assms, OF prod.collapse [symmetric]]
  by (auto simp: insert_defs fun_upd_def split: if_splits)

section \<open>A pool that follows a script\<close>

text \<open>
  A pool whose calls end as a script says, to run the model with: each COPY takes the next outcome,
  and succeeds when the script is over.  It keeps the contract.
\<close>

record script_world =
  sw_outcomes :: "string option list"
  sw_tables :: "string list \<Rightarrow> cell list multiset"

definition script_pool :: "script_world pgx_pool" where
  "script_pool =
     \<lparr>pool_Acquire = (\<lambda>w. (None, w)),
      pool_CopyFrom = (\<lambda>t cs rows w.
        (case sw_outcomes w of
           Some err # os \<Rightarrow> (Some err, w\<lparr>sw_outcomes := os\<rparr>)
         | os \<Rightarrow> (None, w\<lparr>sw_outcomes := drop 1 os,
                          sw_tables := (sw_tables w)(t := sw_tables w t + mset rows)\<rparr>))),
      pool_Release = (\<lambda>w. w)\<rparr>"

lemma script_pool_contract: "pgx_contract script_pool sw_tables"
  by (auto simp: pgx_contract_def script_pool_def split: list.splits option.splits)

definition no_timeout :: "'w \<Rightarrow> bool \<times> 'w" where
  "no_timeout w = (False, w)"

lemma no_timeout_ok: "timer_ok no_timeout tables"
  by (simp add: timer_ok_def no_timeout_def)

interpretation scripted_platform: prompt_writer
  "\<lambda>b. race no_timeout (BatchInsertPlatformMetrics script_pool b)" platform_row
  "\<lambda>w. sw_tables w platform_table"
  by (rule raced_prompt_writer [where tables = sw_tables,
        OF insert_tables(1) [OF script_pool_contract] no_timeout_ok])
    (simp add: no_timeout_def)

interpretation scripted_alarm: prompt_writer
  "\<lambda>b. race no_timeout (BatchInsertAlarmReportMetrics script_pool b)" alarmReport_row
  "\<lambda>w. sw_tables w alarmReport_table"
  by (rule raced_prompt_writer [where tables = sw_tables,
        OF insert_tables(4) [OF script_pool_contract] no_timeout_ok])
    (simp add: no_timeout_def)

end
