(* ===== verification/Aggregation_Properties.thy ===== *)
theory Aggregation_Properties
  imports Buffer_Properties Database_Laws
begin

text \<open>
  The properties of the maps, the keys and the merges, and of goroutines that share a buffer or
  outlive a channel.  They rest on the interpretations of \<open>Sharded_Map\<close> and \<open>Buffer_Merge\<close> and on the
  lemmas of \<open>Buffer_Keys\<close>, \<open>Buffer_Concurrency\<close> and \<open>Buffer_System\<close>.
\<close>

section \<open>Sharded maps\<close>

text \<open>C11. A sharded map behaves as one map: storing changes one key, swapping returns and removes one
  entry, the length counts the keys, and each operation keeps the shards well formed.\<close>

theorem sharded_map_refines:
  assumes "sharded_inv m"
  shows "ShardedPlatformMap_Get newShardedPlatformMap = Map.empty \<and>
         sharded_inv (ShardedPlatformMap_Set k v m) \<and>
         ShardedPlatformMap_Get (ShardedPlatformMap_Set k v m) = (ShardedPlatformMap_Get m)(k \<mapsto> v) \<and>
         fst (ShardedPlatformMap_Swap k m) = ShardedPlatformMap_Get m k \<and>
         sharded_inv (snd (ShardedPlatformMap_Swap k m)) \<and>
         ShardedPlatformMap_Get (snd (ShardedPlatformMap_Swap k m)) = (ShardedPlatformMap_Get m)(k := None) \<and>
         ShardedPlatformMap_Len m = card (dom (ShardedPlatformMap_Get m))"
proof -
  have "(abs_map :: PlatformMetric ShardedMap \<Rightarrow> _) = sharded_Get" by (rule ext)+ (simp add: abs_map_def)
  then show ?thesis
    using assms sharded_inv_Swap [OF assms, of k] abs_map_Swap [OF assms, of k]
    by (simp add: typed_maps sharded.look_new sharded.invar_put sharded.look_put sharded.len_look)
qed

theorem sharded_map_refines_witness:
  "ShardedPlatformMap_Get (ShardedPlatformMap_Set ''k'' (some_platform ''fan'') newShardedPlatformMap) =
     [''k'' \<mapsto> some_platform ''fan'']"
  using sharded_map_refines [OF sharded_inv_new, of "''k''" "some_platform ''fan''"]
  by (simp add: typed_maps)

text \<open>The hash is FNV-1a, and masking it selects one of the 16 shards for every key, so no access to
  the shards is out of range.\<close>

lemma shard_in_range:
  assumes "sharded_inv m"
  shows "shard_index m k < length (shards m) \<and> shard_index m k = unat (fnv32 k) mod 16 \<and>
         fnv32 ''foobar'' = 0xBF9CF968"
proof -
  have "shard_index m k = unat (fnv32 k) mod 16"
  proof -
    have "shard_index m k = unat (fnv32 k AND mask 4)"
      using assms by (simp add: shard_index_def sharded_inv_def mask_eq_exp_minus_1)
    also have "\<dots> = take_bit 4 (unat (fnv32 k))"
      by (simp only: take_bit_eq_mask [symmetric] unsigned_take_bit_eq)
    finally show ?thesis by (simp add: take_bit_eq_mod)
  qed
  moreover have "fnv32 ''foobar'' = 0xBF9CF968" by code_simp
  ultimately show ?thesis using shard_index_less [OF assms] by blast
qed

section \<open>Goroutines on one buffer\<close>

text \<open>C4. However adds and drains of a buffer interleave, every metric handed to an add is in exactly one
  place: still to be added, merged into one buffered entry, or merged into one drained entry.\<close>

theorem interleavings_lose_nothing:
  assumes "creach (traced_key platform_key) (traced_merge mergePlatformMetric)
             (newShardedMap, 0, adders batches @ replicate n (Drainer 0 [])) (m, c, gs)"
  shows "sum_mset (image_mset snd (buffered m)) + sum_mset (image_mset snd (all_drained gs)) +
         sum_mset (image_mset snd (all_todo gs)) = mset (concat batches)"
  by (rule traces_conserved [OF platform_kind.metric_kind_axioms assms])

theorem interleavings_lose_nothing_witness:
  "\<exists>m c gs. creach (traced_key platform_key) (traced_merge mergePlatformMetric)
       (newShardedMap, 0, adders [[some_platform ''fan'']] @ replicate 1 (Drainer 0 [])) (m, c, gs) \<and>
     sum_mset (image_mset snd (buffered m)) + sum_mset (image_mset snd (all_drained gs)) +
       sum_mset (image_mset snd (all_todo gs)) = {#some_platform ''fan''#} \<and> gs ! 0 = Adder []"
proof -
  let ?s = "(newShardedMap, 0, adders [[some_platform ''fan'']] @ replicate 1 (Drainer 0 []))"
  obtain m c where one: "add_one (traced_key platform_key) (traced_merge mergePlatformMetric)
      (traced (some_platform ''fan'')) newShardedMap 0 = (m, c)"
    by fastforce
  let ?gs = "adders [[some_platform ''fan'']] @ replicate 1 (Drainer 0 [])"
  have "cstep (traced_key platform_key) (traced_merge mergePlatformMetric) ?s (m, c, ?gs[0 := Adder []])"
    by (rule cstep.add [OF _ _ one]) (simp_all add: adders_def)
  then have r: "creach (traced_key platform_key) (traced_merge mergePlatformMetric) ?s (m, c, ?gs[0 := Adder []])"
    by (rule creach.step [OF creach.refl])
  show ?thesis
    using interleavings_lose_nothing [OF r] r by (intro exI conjI) (auto simp: adders_def)
qed

text \<open>However they interleave, buffered entries, drained entries, collisions and metrics still to be
  added together keep their number, and the shards stay well formed.\<close>

lemma interleavings_count:
  assumes "sharded_inv (fst s)"
    and "creach platform_key mergePlatformMetric s s'"
  shows "conc_total s' = conc_total s \<and> sharded_inv (fst s')"
  using conc_count [OF assms(2,1)] creach_inv [OF assms(2,1)] by simp

section \<open>Keys\<close>

text \<open>C36. A key depends on its metric only, whatever recycled buffer it is printed into, and the pool is
  left with reset buffers: the truncated second, the system and the name for the merged kinds, the
  system, the flow and the report time for the alarm kinds.\<close>

theorem keys_printed:
  assumes "pool_ok p"
  shows "fst (generatePlatformKey pm p) =
           dec_int (unix_sec (pm_Timestamp pm)) @ ''_'' @ pm_SystemID pm @ ''_'' @ pm_ComponentName pm \<and>
         fst (generateInterfaceKey im p) =
           dec_int (unix_sec (im_Timestamp im)) @ ''_'' @ im_SystemID im @ ''_'' @ im_InterfaceName im \<and>
         fst (generateSubinterfaceKey sm p) =
           dec_int (unix_sec (sm_Timestamp sm)) @ ''_'' @ sm_SystemID sm @ ''_'' @ sm_InterfaceName sm
             @ ''_'' @ sm_SubinterfaceName sm \<and>
         fst (generateAlarmKey am p) =
           am_SystemID am @ '':'' @ dec_int (uint (am_FlowID am)) @ '':'' @ dec_int (uint (am_AlarmTimestamp am)) \<and>
         fst (generateNotificationKey nm p) =
           nm_SystemID nm @ '':'' @ dec_int (uint (nm_FlowID nm)) @ '':''
             @ dec_int (uint (nm_NotificationTimestamp nm)) \<and>
         pool_ok (snd (generatePlatformKey pm p)) \<and> pool_ok (snd (generateInterfaceKey im p)) \<and>
         pool_ok (snd (generateSubinterfaceKey sm p)) \<and> pool_ok (snd (generateAlarmKey am p)) \<and>
         pool_ok (snd (generateNotificationKey nm p))"
  using generate_keys [OF assms] by (simp add: key_defs time_key_def flow_key_def)

theorem keys_printed_witness:
  "fst (generateAlarmKey (some_alarm 7 None) []) = ''r1:7:0''"
proof -
  have "pool_ok []" by (simp add: pool_ok_def)
  from keys_printed [OF this, of undefined undefined undefined "some_alarm 7 None" undefined]
  have "fst (generateAlarmKey (some_alarm 7 None) []) = ''r1'' @ '':'' @ dec_int 7 @ '':'' @ dec_int 0"
    by (simp add: some_alarm_def AlarmReportMetric_zero_def)
  also have "\<dots> = ''r1:7:0''" by code_simp
  finally show ?thesis .
qed

text \<open>C18. What the key generators print identifies: two alarms, or two notifications, get the same key exactly
  when they have the same system, flow and report time, even when the name of a system contains the
  separator.  For systems without an underscore in their name, two platform metrics get the same key
  exactly when they are of the same second, system and component.  The pools of recycled key buffers
  need not be the same.\<close>

theorem keys_identify:
  assumes "pool_ok pool1" and "pool_ok pool2"
    and "CHR ''_'' \<notin> set (pm_SystemID p)" and "CHR ''_'' \<notin> set (pm_SystemID q)"
  shows "(fst (generateAlarmKey a pool1) = fst (generateAlarmKey b pool2) \<longleftrightarrow>
            am_SystemID a = am_SystemID b \<and> am_FlowID a = am_FlowID b \<and>
            am_AlarmTimestamp a = am_AlarmTimestamp b) \<and>
         (fst (generateNotificationKey n pool1) = fst (generateNotificationKey n' pool2) \<longleftrightarrow>
            nm_SystemID n = nm_SystemID n' \<and> nm_FlowID n = nm_FlowID n' \<and>
            nm_NotificationTimestamp n = nm_NotificationTimestamp n') \<and>
         (fst (generatePlatformKey p pool1) = fst (generatePlatformKey q pool2) \<longleftrightarrow>
            unix_sec (pm_Timestamp p) = unix_sec (pm_Timestamp q) \<and> pm_SystemID p = pm_SystemID q \<and>
            pm_ComponentName p = pm_ComponentName q)"
proof -
  have "alarm_key a = alarm_key b \<longleftrightarrow> am_SystemID a = am_SystemID b \<and> am_FlowID a = am_FlowID b \<and>
      am_AlarmTimestamp a = am_AlarmTimestamp b"
    using flow_key_inject by (auto simp: key_defs)
  moreover have "notification_key n = notification_key n' \<longleftrightarrow> nm_SystemID n = nm_SystemID n' \<and>
      nm_FlowID n = nm_FlowID n' \<and> nm_NotificationTimestamp n = nm_NotificationTimestamp n'"
    using flow_key_inject by (auto simp: key_defs)
  moreover have "platform_key p = platform_key q \<longleftrightarrow>
      unix_sec (pm_Timestamp p) = unix_sec (pm_Timestamp q) \<and> pm_SystemID p = pm_SystemID q \<and>
      pm_ComponentName p = pm_ComponentName q"
  proof
    assume "platform_key p = platform_key q"
    from time_key_inject [OF this [unfolded platform_key_def] assms(3,4)]
    show "unix_sec (pm_Timestamp p) = unix_sec (pm_Timestamp q) \<and> pm_SystemID p = pm_SystemID q \<and>
        pm_ComponentName p = pm_ComponentName q" .
  qed (simp add: platform_key_def time_key_def)
  ultimately show ?thesis by (simp only: generate_keys [OF assms(1)] generate_keys [OF assms(2)])
qed

theorem keys_identify_witness:
  "fst (generatePlatformKey (some_platform ''fan'') []) \<noteq> fst (generatePlatformKey (some_platform ''cpu'') [\<lparr>kb_buf = []\<rparr>]) \<and>
   fst (generateAlarmKey (some_alarm 7 None) []) \<noteq> fst (generateAlarmKey (some_alarm 8 None) [\<lparr>kb_buf = []\<rparr>])"
  using keys_identify [of "[]" "[\<lparr>kb_buf = []\<rparr>]" "some_platform ''fan''" "some_platform ''cpu''"
      "some_alarm 7 None" "some_alarm 8 None"]
  by (simp add: some_platform_def some_alarm_def pool_ok_def)

text \<open>C19. With an underscore in the name of a system the keys are ambiguous: metrics of two different
  systems and components are merged into one entry.\<close>

theorem platform_keys_collide:
  "\<exists>a b. pm_SystemID a \<noteq> pm_SystemID b \<and> pm_ComponentName a \<noteq> pm_ComponentName b \<and>
     ShardedPlatformMap_Len (bm_platformBuffer (AddPlatformMetrics [a, b] fresh_manager)) = 1"
proof -
  let ?a = "PlatformMetric_zero\<lparr>pm_SystemID := ''core'', pm_ComponentName := ''1_fan''\<rparr>"
  let ?b = "PlatformMetric_zero\<lparr>pm_SystemID := ''core_1'', pm_ComponentName := ''fan''\<rparr>"
  have k: "platform_key ?a = platform_key ?b" by (simp add: platform_key_def time_key_def)
  have inv: "sharded_inv (bm_platformBuffer (AddPlatformMetrics [?a, ?b] fresh_manager))"
    using AddPlatformMetrics_inv [OF fresh_inv] by (auto simp: bm_inv_def)
  have "sharded_Get (bm_platformBuffer (AddPlatformMetrics [?a, ?b] fresh_manager)) =
      [platform_key ?a \<mapsto> mergePlatformMetric ?a ?b]"
    by (rule ext) (simp add: AddPlatformMetrics_Get sharded.look_new k)
  then have "ShardedPlatformMap_Len (bm_platformBuffer (AddPlatformMetrics [?a, ?b] fresh_manager)) = 1"
    using inv by (simp add: typed_maps sharded.len_look)
  then show ?thesis by (intro exI [of _ ?a] exI [of _ ?b]) simp
qed

section \<open>Merging\<close>

text \<open>The fields a merge of platform metrics looks at, by their tags.\<close>

definition merged_tags :: "string list" where
  "merged_tags =
     [''oper_status'', ''uptime'', ''used_power'', ''allocated_power'', ''mem_alarm_status'', ''cpu_alarm_status'']"

text \<open>C16. A merge of platform metrics overlays six fields (a value of the new metric wins, a missing one
  leaves the old): the operational status, the uptime, the used and the allocated power, and the alarm
  states of memory and CPU.  Each of the other 83 tagged fields besides the time stays as it was in the
  stored metric, so whatever else the new metric has measured is dropped.  The time is the later one.\<close>

theorem merge_platform_spec:
  "pm_Timestamp (mergePlatformMetric e n) =
     (if time_After (pm_Timestamp n) (pm_Timestamp e) then pm_Timestamp n else pm_Timestamp e) \<and>
   map (\<lambda>(c, f). (c, f (mergePlatformMetric e n))) (drop 1 platform_tags) =
   map (\<lambda>(c, f). (c, if c \<in> set merged_tags \<and> unpointer (f n) \<noteq> CNil then f n else f e)) (drop 1 platform_tags)"
proof -
  have over: "overlay x y = (if y = None then x else y)" for x y :: "'a option" by (auto simp: overlay_def)
  have nil: "db_safeString s = CNil \<longleftrightarrow> s = None" "db_safeUint32 u = CNil \<longleftrightarrow> u = None" for s u
    by (simp_all add: db_safeString_def db_safeUint32_def split: option.split)
  note overlaid = merge_platform_overlaid [unfolded common_field_def mem_field_def cpu_field_def]
  have "map (\<lambda>(c, f). (c, f (mergePlatformMetric e n))) (drop 1 platform_tags) =
      map (\<lambda>(c, f). (c, if c \<in> set merged_tags \<and> unpointer (f n) \<noteq> CNil then f n else f e)) (drop 1 platform_tags)"
    by (simp add: platform_tags_def merged_tags_def overlaid merge_platform_untouched merge_platform_dropped over nil)
  then show ?thesis by (simp add: later_def)
qed

text \<open>The entry of a key carries the time of one of the metrics merged into it, and none of the
  metrics of the batch is later.\<close>

lemma merged_time_is_latest:
  assumes "merged_at platform_key mergePlatformMetric k ms e = Some v"
  shows "pm_Timestamp v \<in> pm_Timestamp ` ({x \<in> set ms. platform_key x = k} \<union> set_option e) \<and>
         (\<forall>x \<in> set ms. platform_key x = k \<longrightarrow> \<not> time_After (pm_Timestamp x) (pm_Timestamp v))"
  using platform_kind.stamp_merged_at [OF assms] platform_kind.stamp_merged_at_ge [OF assms] by blast

section \<open>Channels that nobody reads\<close>

text \<open>C14. Once the writers of a kind have ended, as they may as soon as the stop channel is closed, whatever
  is queued for them stays queued: no later step of the manager, the final flush included, removes a
  batch from the channel.  This holds for each of the five kinds and its channel.\<close>

theorem queued_batches_stranded:
  assumes "running_ok bm" and "breach db (bm, w) (bm', w')"
  shows "(bm_writers bm KPlatform = 0 \<longrightarrow>
            bm_writers bm' KPlatform = 0 \<and> prefix (bm_platformWriteChan bm) (bm_platformWriteChan bm')) \<and>
         (bm_writers bm KInterface = 0 \<longrightarrow>
            bm_writers bm' KInterface = 0 \<and> prefix (bm_interfaceWriteChan bm) (bm_interfaceWriteChan bm')) \<and>
         (bm_writers bm KSubinterface = 0 \<longrightarrow>
            bm_writers bm' KSubinterface = 0 \<and> prefix (bm_subinterfaceWriteChan bm) (bm_subinterfaceWriteChan bm')) \<and>
         (bm_writers bm KAlarmReport = 0 \<longrightarrow>
            bm_writers bm' KAlarmReport = 0 \<and> prefix (bm_alarmReportWriteChan bm) (bm_alarmReportWriteChan bm')) \<and>
         (bm_writers bm KNotificationReport = 0 \<longrightarrow>
            bm_writers bm' KNotificationReport = 0 \<and>
            prefix (bm_notificationReportWriteChan bm) (bm_notificationReportWriteChan bm'))"
  using stranded [OF assms(2), of KPlatform] stranded [OF assms(2), of KInterface]
    stranded [OF assms(2), of KSubinterface] stranded [OF assms(2), of KAlarmReport]
    stranded [OF assms(2), of KNotificationReport] assms(1)
  by (simp add: chan_kept_def)

theorem queued_batches_stranded_witness:
  "\<exists>q. bm_platformWriteChan (AddPlatformMetrics [some_platform ''cpu'']
        (full_manager\<lparr>bm_writers := (\<lambda>_. 0), bm_stopped := True\<rparr>)) = replicate 100 [] @ q"
proof -
  let ?bm = "full_manager\<lparr>bm_writers := (\<lambda>_. 0), bm_stopped := True\<rparr>"
  have "breach memory_db (?bm, {#}) (AddPlatformMetrics [some_platform ''cpu''] ?bm, {#})"
    by (rule breach.one_more [OF breach.at_start bstep.platform_added])
  moreover have "running_ok ?bm" by (simp add: running_ok_def)
  ultimately have "prefix (replicate 100 []) (bm_platformWriteChan (AddPlatformMetrics [some_platform ''cpu''] ?bm))"
    using queued_batches_stranded [of ?bm memory_db "{#}"] by fastforce
  then show ?thesis by (auto simp: prefix_def)
qed

end
