(* ===== verification/Platform_Messages.thy ===== *)
theory Platform_Messages
  imports Go_Float
begin

text \<open>
  The messages of \<^verbatim>\<open>proto/openconfig_platform/openconfig_platform.pb.go\<close> as records: the
  exported fields of each generated struct, in its order.  A pointer to a message is an
  \<open>option\<close> (a getter of a message that is present returns the field), a repeated field a
  list, an open proto3 enumeration its \<^verbatim>\<open>int32\<close> number.  Decoding bytes into such a record is
  the protobuf library's work and a parameter of the parser.
\<close>

record CommonState_pb =
  csm_OperStatus :: string
  csm_Uptime :: uint32
  csm_UsedPower :: uint32
  csm_AllocatedPower :: uint32
  csm_CurrentVoltage :: string
  csm_CurrentCurrent :: string
  csm_TotalCapacity :: string
  csm_UsedCapacity :: string
  csm_Type :: string
  csm_RedundancyType :: string
  csm_Modules :: string
  csm_TotalInputPower :: string

record Temperature =
  tm_Instant :: gofloat
  tm_Avg :: gofloat
  tm_Min :: gofloat
  tm_Max :: gofloat
  tm_Interval :: uint64
  tm_MinTime :: uint64
  tm_MaxTime :: uint64
  tm_AlarmStatus :: bool
  tm_AlarmThreshold :: uint32
  tm_AlarmSeverity :: string
  tm_MinorThreshold :: uint32
  tm_MajorThreshold :: uint32
  tm_FatalThreshold :: uint32
  tm_InstantString :: string
  tm_Status :: string
  tm_Description :: string

record MemoryInfo =
  mi_Available :: uint64
  mi_Utilized :: uint64
  mi_Free :: uint64
  mi_Usage :: gofloat
  mi_AlarmStatus :: int32

record CpuInfo =
  cpi_Instant :: uint32
  cpi_Avg :: uint32
  cpi_Min :: uint32
  cpi_Max :: uint32
  cpi_Interval :: uint64
  cpi_MinTime :: uint64
  cpi_MaxTime :: uint64
  cpi_AlarmStatus :: int32

record LinecardInfo =
  li_PowerAdminState :: string

record FanInfo =
  fi_Speed :: uint32
  fi_State :: string
  fi_PhyStatus :: string
  fi_WorkMode :: string
  fi_CurrentPower :: string
  fi_CurrentVoltage :: string
  fi_CurrentCurrent :: string
  fi_SpeedPercent :: string

record PowerInfo =
  pi_Enable :: bool
  pi_Capacity :: gofloat
  pi_InputCurrent :: gofloat
  pi_InputVoltage :: gofloat
  pi_OutputCurrent :: gofloat
  pi_OutputVoltage :: gofloat
  pi_OutputPower :: gofloat
  pi_WorkState :: string
  pi_PowerName :: string
  pi_PhyState :: string
  pi_PowerState :: string
  pi_ComState :: string
  pi_Temperature :: string
  pi_Available :: string
  pi_CapacityString :: string
  pi_InputPower :: string
  pi_Input2Current :: gofloat
  pi_Input2Voltage :: gofloat
  pi_Output2Current :: gofloat
  pi_Output2Voltage :: gofloat

record StorageInfo =
  si_Availability :: uint32

record OpticalPower =
  op_Instant :: gofloat

record BiasCurrent =
  bc_Instant :: gofloat

record OpticalTemp =
  ot_Instant :: gofloat

record Voltage =
  vo_Vol33 :: gofloat
  vo_Vol5 :: gofloat

record OnlineStatus =
  os_OnlineStatus :: string

record OpticalPowerThres =
  th_HighAlarm :: gofloat
  th_PreHighAlarm :: gofloat
  th_LowAlarm :: gofloat
  th_PreLowAlarm :: gofloat

record LosAlarmInfo =
  la_EventId :: uint32
  la_EventInterval :: uint32
  la_OptInPower :: "OpticalPower list"
  la_OptOutPower :: "OpticalPower list"

record OpticalAlarm =
  oa_LosStatus :: int32
  oa_LosInfo :: "LosAlarmInfo option"

record OpticalInfo =
  oi_InPower :: "OpticalPower option"
  oi_OutPower :: "OpticalPower option"
  oi_BiasCurrent :: "BiasCurrent option"
  oi_Temperature :: "OpticalTemp option"
  oi_Voltage :: "Voltage option"
  oi_Alarm :: "OpticalAlarm option"
  oi_OnlineStatus :: "OnlineStatus option"
  oi_RxThreshold :: "OpticalPowerThres option"
  oi_TxThreshold :: "OpticalPowerThres option"

record OptChanInfo =
  oc_Index :: uint32
  oc_OptchanInfo :: "OpticalInfo option"

record ComponentInfo =
  ci_Name :: string
  ci_CommonState :: "CommonState_pb option"
  ci_TempInfo :: "Temperature option"
  ci_MemInfo :: "MemoryInfo option"
  ci_CpuInfo :: "CpuInfo option"
  ci_PowerAdminState :: "LinecardInfo option"
  ci_FanInfo :: "FanInfo option"
  ci_PowerInfo :: "PowerInfo option"
  ci_StorageInfo :: "StorageInfo option"
  ci_OpticalInfo :: "OpticalInfo option"
  ci_OpticalchanInfo :: "OptChanInfo list"

end
