(* ===== verification/Alarm_Messages.thy ===== *)
theory Alarm_Messages
  imports Go_Prelude
begin

text \<open>
  The messages of \<^verbatim>\<open>proto/zxr10_alarm/zxr10_alarm.pb.go\<close> and the envelope of
  \<^verbatim>\<open>proto/zte_telemetry/zte_telemetry.pb.go\<close> as records.  The key-value encoding
  \<^verbatim>\<open>DataGpbkv\<close> of the envelope, which no code of the collector reads, is left out.
\<close>

record CurrentAlarm =
  ca_FlowId :: uint32
  ca_Timestamp :: uint32
  ca_Code :: uint32
  ca_OccurrenceTime :: uint32
  ca_UpdateTime :: uint32
  ca_DisappearedTime :: uint32
  ca_OccurrenceMs :: uint32
  ca_UpdateMs :: uint32
  ca_DisappearedMs :: uint32
  ca_AlarmClass :: string
  ca_AlarmType :: string
  ca_AlarmStatus :: string
  ca_Sort :: uint32
  ca_Severity :: string
  ca_TpidType :: uint32
  ca_TpidLength :: uint32
  ca_Tpid :: bytes
  ca_ProtectGroupWorkStatus :: uint32
  ca_ProtectType :: uint32
  ca_Reason :: uint32
  ca_ReturnMode :: string
  ca_ProtectTpidType :: uint32
  ca_ProtectTpidLength :: uint32
  ca_ProtectTpid :: bytes
  ca_SourceTpidType :: uint32
  ca_SourceTpidLength :: uint32
  ca_SourceTpid :: bytes
  ca_SwtichTpidType :: uint32
  ca_PreviousTpidLength :: uint32
  ca_CurrentTpidLength :: uint32
  ca_PreviousTpid :: bytes
  ca_CurrentTpid :: bytes
  ca_PerfAlarmPeriod :: string
  ca_PerfAlarmType :: string
  ca_PerfAlarmValue :: bytes
  ca_Description :: string
  ca_Caption :: string

record Notification =
  nt_FlowId :: uint32
  nt_Timestamp :: uint32
  nt_Code :: uint32
  nt_OccurTime :: uint32
  nt_OccurMs :: uint32
  nt_Classification :: string
  nt_Sort :: uint32
  nt_Severity :: string
  nt_TpidType :: uint32
  nt_TpidLength :: uint32
  nt_Tpid :: bytes
  nt_Description :: string
  nt_Caption :: string

record AlarmInfo =
  ai_AlarmReport :: "CurrentAlarm list"
  ai_NotificationReport :: "Notification list"

record NotificationGpb =
  gpb_Timestamp :: uint64
  gpb_Content :: bytes

record Telemetry =
  tel_SystemId :: string
  tel_SubscriptionId :: string
  tel_MngIpv4 :: string
  tel_MngIpv6 :: string
  tel_DataType :: int32
  tel_SensorPath :: string
  tel_ProtoPath :: string
  tel_CollectionId :: uint64
  tel_CollectionStartTime :: uint64
  tel_MsgTimestamp :: uint64
  tel_CollectionEndTime :: uint64
  tel_CurrentPeriod :: uint32
  tel_DataGpb :: "NotificationGpb list"
  tel_JsonIetfVal :: string

end
