(* ===== verification/Platform_Parser.thy ===== *)
theory Platform_Parser
  imports Parser_Helpers Platform_Models Platform_Messages Alarm_Messages
begin

text \<open>
  The handlers of \<^verbatim>\<open>internal/parser/telemetry_parser.go\<close> for the platform sensor paths.  Each handler
  decodes every \<^verbatim>\<open>DataGpb\<close> entry of the message and appends the metrics it finds; the decoder
  (\<^verbatim>\<open>proto.Unmarshal\<close>) is a parameter.  It resets the message object it fills, so the pooled objects
  of the parser carry nothing over and are left out.

  The handlers differ in what an entry that does not decode means: \<open>entries_skip\<close> goes on with the
  next one, \<open>entries_strict\<close> gives up on the whole message.  \<open>\<dots>_data\<close> functions are the blocks of
  assignments to one part of a metric, field by field as in the source.
\<close>

section \<open>The loops over the entries\<close>

datatype parse_error =
    TelemetryInvalid string
  | DataGpbEmpty
  | InfoInvalid string
  | AlarmEmpty
  | AlarmInvalid string

fun entries_skip ::
  "(bytes \<Rightarrow> string + 'i) \<Rightarrow> ('i \<Rightarrow> 'm list) \<Rightarrow> NotificationGpb list \<Rightarrow> 'm list \<Rightarrow> parse_error + 'm list"
where
  "entries_skip unmarshal entry [] metrics = Inr metrics"
| "entries_skip unmarshal entry (dataGpb # rest) metrics =
     (case unmarshal (gpb_Content dataGpb) of
        Inl err \<Rightarrow> entries_skip unmarshal entry rest metrics
      | Inr info \<Rightarrow> entries_skip unmarshal entry rest (metrics @ entry info))"

fun entries_strict ::
  "(bytes \<Rightarrow> string + 'i) \<Rightarrow> ('i \<Rightarrow> 'm list) \<Rightarrow> NotificationGpb list \<Rightarrow> 'm list \<Rightarrow> parse_error + 'm list"
where
  "entries_strict unmarshal entry [] metrics = Inr metrics"
| "entries_strict unmarshal entry (dataGpb # rest) metrics =
     (case unmarshal (gpb_Content dataGpb) of
        Inl err \<Rightarrow> Inl (InfoInvalid err)
      | Inr info \<Rightarrow> entries_strict unmarshal entry rest (metrics @ entry info))"

type_synonym 'm handler = "Telemetry \<Rightarrow> parse_error + 'm list"

text \<open>The metric a handler starts from: the fields set in its composite literal.\<close>

definition platform_base :: "Telemetry \<Rightarrow> ComponentInfo \<Rightarrow> PlatformMetric" where
  "platform_base msg componentInfo =
     PlatformMetric_zero\<lparr>
       pm_Timestamp := msg_time (tel_MsgTimestamp msg),
       pm_SystemID := tel_SystemId msg,
       pm_ComponentName := ci_Name componentInfo\<rparr>"

section \<open>The blocks of assignments\<close>

definition common_data :: "CommonState_pb \<Rightarrow> CommonState" where
  "common_data commonState =
     CommonState_zero\<lparr>
       cs_OperStatus := stringPtr (csm_OperStatus commonState),
       cs_Uptime := stringPtr (formatUptime (csm_Uptime commonState)),
       cs_UsedPower := uint32Ptr (csm_UsedPower commonState),
       cs_AllocatedPower := uint32Ptr (csm_AllocatedPower commonState),
       cs_CurrentVoltage := stringPtr (csm_CurrentVoltage commonState),
       cs_CurrentCurrent := stringPtr (csm_CurrentCurrent commonState),
       cs_TotalCapacity := stringPtr (csm_TotalCapacity commonState),
       cs_UsedCapacity := stringPtr (csm_UsedCapacity commonState),
       cs_Type := stringPtr (csm_Type commonState),
       cs_RedundancyType := stringPtr (csm_RedundancyType commonState),
       cs_Modules := stringPtr (csm_Modules commonState),
       cs_TotalInputPower := stringPtr (csm_TotalInputPower commonState)\<rparr>"

definition cpu_data :: "CpuInfo \<Rightarrow> CPUData" where
  "cpu_data cpuInfo =
     CPUData_zero\<lparr>
       cpu_CPUInstant := float64Ptr (float64_of_uint32 (cpi_Instant cpuInfo)),
       cpu_CPUAvg := float64Ptr (float64_of_uint32 (cpi_Avg cpuInfo)),
       cpu_CPUMin := float64Ptr (float64_of_uint32 (cpi_Min cpuInfo)),
       cpu_CPUMax := float64Ptr (float64_of_uint32 (cpi_Max cpuInfo)),
       cpu_CPUInterval := uint64Ptr (cpi_Interval cpuInfo div 1000000000),
       cpu_CPUMinTime := timePtr (nanosToTimestamp (cpi_MinTime cpuInfo)),
       cpu_CPUMaxTime := timePtr (nanosToTimestamp (cpi_MaxTime cpuInfo)),
       cpu_CPUAlarmStatus := Some (convertAlarmStatus (cpi_AlarmStatus cpuInfo))\<rparr>"

definition cpu_data_component :: "CpuInfo \<Rightarrow> CPUData" where
  "cpu_data_component cpuInfo =
     CPUData_zero\<lparr>
       cpu_CPUInstant := float64Ptr (float64_of_uint32 (cpi_Instant cpuInfo)),
       cpu_CPUAvg := float64Ptr (float64_of_uint32 (cpi_Avg cpuInfo)),
       cpu_CPUMin := float64Ptr (float64_of_uint32 (cpi_Min cpuInfo)),
       cpu_CPUMax := float64Ptr (float64_of_uint32 (cpi_Max cpuInfo)),
       cpu_CPUInterval := uint64Ptr (nanosToSeconds (cpi_Interval cpuInfo)),
       cpu_CPUMinTime := timePtr (nanosToTimestamp (cpi_MinTime cpuInfo)),
       cpu_CPUMaxTime := timePtr (nanosToTimestamp (cpi_MaxTime cpuInfo)),
       cpu_CPUAlarmStatus := (if cpi_AlarmStatus cpuInfo \<noteq> 0
                              then Some (convertAlarmStatus (cpi_AlarmStatus cpuInfo)) else None)\<rparr>"

definition mem_data :: "MemoryInfo \<Rightarrow> MemData" where
  "mem_data memInfo =
     MemData_zero\<lparr>
       mem_MemAvailable := uint64Ptr (bytesToMB (mi_Available memInfo)),
       mem_MemUtilized := uint64Ptr (bytesToMB (mi_Utilized memInfo)),
       mem_MemFree := uint64Ptr (bytesToMB (mi_Free memInfo)),
       mem_MemUsage := float64Ptr (float64_of_float32 (mi_Usage memInfo)),
       mem_MemAlarmStatus := (if mi_AlarmStatus memInfo \<noteq> 0
                              then Some (convertAlarmStatus (mi_AlarmStatus memInfo)) else None)\<rparr>"

definition mem_data_component :: "MemoryInfo \<Rightarrow> MemData" where
  "mem_data_component memInfo =
     MemData_zero\<lparr>
       mem_MemAvailable := uint64Ptr (bytesToMB (mi_Available memInfo)),
       mem_MemUtilized := uint64Ptr (bytesToMB (mi_Utilized memInfo)),
       mem_MemFree := uint64Ptr (bytesToMB (mi_Free memInfo)),
       mem_MemUsage := float64Ptr (float64_of_float32 (mi_Usage memInfo)),
       mem_MemAlarmStatus := Some (convertAlarmStatus (mi_AlarmStatus memInfo))\<rparr>"

definition temp_data :: "Temperature \<Rightarrow> TempData" where
  "temp_data tempInfo =
     TempData_zero\<lparr>
       tmp_TempInstant := float64Ptr (float64_of_float32 (tm_Instant tempInfo)),
       tmp_TempAvg := float64Ptr (float64_of_float32 (tm_Avg tempInfo)),
       tmp_TempMin := float64Ptr (float64_of_float32 (tm_Min tempInfo)),
       tmp_TempMax := float64Ptr (float64_of_float32 (tm_Max tempInfo)),
       tmp_TempInterval := uint64Ptr (tm_Interval tempInfo div 1000000000),
       tmp_TempMinTime := timePtr (nanosToTimestamp (tm_MinTime tempInfo)),
       tmp_TempMaxTime := timePtr (nanosToTimestamp (tm_MaxTime tempInfo)),
       tmp_AlarmStatus := boolPtr (tm_AlarmStatus tempInfo),
       tmp_TempAlarmThreshold := float64Ptr (float64_of_uint32 (tm_AlarmThreshold tempInfo)),
       tmp_TempAlarmSeverity := stringPtr (tm_AlarmSeverity tempInfo),
       tmp_TempMinorThreshold := float64Ptr (float64_of_uint32 (tm_MinorThreshold tempInfo)),
       tmp_TempMajorThreshold := float64Ptr (float64_of_uint32 (tm_MajorThreshold tempInfo)),
       tmp_TempFatalThreshold := float64Ptr (float64_of_uint32 (tm_FatalThreshold tempInfo)),
       tmp_TempInstantString := stringPtr (tm_InstantString tempInfo),
       tmp_TempStatus := stringPtr (tm_Status tempInfo),
       tmp_TempDescription := stringPtr (tm_Description tempInfo)\<rparr>"

definition temp_data_component :: "Temperature \<Rightarrow> TempData" where
  "temp_data_component tempInfo =
     TempData_zero\<lparr>
       tmp_TempInstant := float64Ptr (float64_of_float32 (tm_Instant tempInfo)),
       tmp_TempAvg := float64Ptr (float64_of_float32 (tm_Avg tempInfo)),
       tmp_TempMin := float64Ptr (float64_of_float32 (tm_Min tempInfo)),
       tmp_TempMax := float64Ptr (float64_of_float32 (tm_Max tempInfo)),
       tmp_TempInterval := uint64Ptr (nanosToSeconds (tm_Interval tempInfo)),
       tmp_TempMinTime := timePtr (nanosToTimestamp (tm_MinTime tempInfo)),
       tmp_TempMaxTime := timePtr (nanosToTimestamp (tm_MaxTime tempInfo)),
       tmp_AlarmStatus := boolPtr (tm_AlarmStatus tempInfo),
       tmp_TempAlarmThreshold := float64Ptr (float64_of_uint32 (tm_AlarmThreshold tempInfo)),
       tmp_TempAlarmSeverity := stringPtr (tm_AlarmSeverity tempInfo),
       tmp_TempMinorThreshold := float64Ptr (float64_of_uint32 (tm_MinorThreshold tempInfo)),
       tmp_TempMajorThreshold := float64Ptr (float64_of_uint32 (tm_MajorThreshold tempInfo)),
       tmp_TempFatalThreshold := float64Ptr (float64_of_uint32 (tm_FatalThreshold tempInfo)),
       tmp_TempInstantString := stringPtr (tm_InstantString tempInfo),
       tmp_TempStatus := stringPtr (tm_Status tempInfo),
       tmp_TempDescription := stringPtr (tm_Description tempInfo)\<rparr>"

definition fan_data :: "FanInfo \<Rightarrow> FanData" where
  "fan_data fanInfo =
     FanData_zero\<lparr>
       fan_FanSpeed := uint32Ptr (fi_Speed fanInfo),
       fan_FanState := stringPtr (fi_State fanInfo),
       fan_FanPhyStatus := stringPtr (fi_PhyStatus fanInfo),
       fan_FanWorkMode := stringPtr (fi_WorkMode fanInfo),
       fan_FanCurrentPower := stringPtr (fi_CurrentPower fanInfo),
       fan_FanCurrentVoltage := stringPtr (fi_CurrentVoltage fanInfo),
       fan_FanCurrentCurrent := stringPtr (fi_CurrentCurrent fanInfo),
       fan_FanSpeedPercent := stringPtr (fi_SpeedPercent fanInfo)\<rparr>"

definition power_data :: "PowerInfo \<Rightarrow> PowerData" where
  "power_data powerInfo =
     PowerData_zero\<lparr>
       pwr_PowerEnable := boolPtr (pi_Enable powerInfo),
       pwr_PowerCapacity := float64Ptr (float64_of_float32 (pi_Capacity powerInfo)),
       pwr_PowerInputCurrent := float64Ptr (float64_of_float32 (pi_InputCurrent powerInfo)),
       pwr_PowerInputVoltage := float64Ptr (float64_of_float32 (pi_InputVoltage powerInfo)),
       pwr_PowerOutputCurrent := float64Ptr (float64_of_float32 (pi_OutputCurrent powerInfo)),
       pwr_PowerOutputVoltage := float64Ptr (float64_of_float32 (pi_OutputVoltage powerInfo)),
       pwr_PowerOutputPower := float64Ptr (float64_of_float32 (pi_OutputPower powerInfo)),
       pwr_PowerWorkState := stringPtr (pi_WorkState powerInfo),
       pwr_PowerName := stringPtr (pi_PowerName powerInfo),
       pwr_PowerPhyState := stringPtr (pi_PhyState powerInfo),
       pwr_PowerState := stringPtr (pi_PowerState powerInfo),
       pwr_PowerComState := stringPtr (pi_ComState powerInfo),
       pwr_PowerTemperature := stringPtr (pi_Temperature powerInfo),
       pwr_PowerAvailable := stringPtr (pi_Available powerInfo),
       pwr_PowerCapacityString := stringPtr (pi_CapacityString powerInfo),
       pwr_PowerInputPower := stringPtr (pi_InputPower powerInfo),
       pwr_PowerInput2Current := float64Ptr (float64_of_float32 (pi_Input2Current powerInfo)),
       pwr_PowerInput2Voltage := float64Ptr (float64_of_float32 (pi_Input2Voltage powerInfo)),
       pwr_PowerOutput2Current := float64Ptr (float64_of_float32 (pi_Output2Current powerInfo)),
       pwr_PowerOutput2Voltage := float64Ptr (float64_of_float32 (pi_Output2Voltage powerInfo))\<rparr>"

definition power_data_component :: "PowerInfo \<Rightarrow> PowerData" where
  "power_data_component powerInfo =
     PowerData_zero\<lparr>
       pwr_PowerEnable := boolPtr (pi_Enable powerInfo),
       pwr_PowerCapacity := float64Ptr (float64_of_float32 (pi_Capacity powerInfo)),
       pwr_PowerInputCurrent := float64Ptr (float64_of_float32 (pi_InputCurrent powerInfo)),
       pwr_PowerInputVoltage := float64Ptr (float64_of_float32 (pi_InputVoltage powerInfo)),
       pwr_PowerOutputCurrent := float64Ptr (float64_of_float32 (pi_OutputCurrent powerInfo)),
       pwr_PowerOutputVoltage := float64Ptr (float64_of_float32 (pi_OutputVoltage powerInfo)),
       pwr_PowerOutputPower := float64Ptr (float64_of_float32 (pi_OutputPower powerInfo)),
       pwr_PowerWorkState := stringPtr (pi_WorkState powerInfo),
       pwr_PowerPhyState := stringPtr (pi_PhyState powerInfo),
       pwr_PowerComState := stringPtr (pi_ComState powerInfo),
       pwr_PowerTemperature := stringPtr (pi_Temperature powerInfo),
       pwr_PowerAvailable := stringPtr (pi_Available powerInfo),
       pwr_PowerCapacityString := stringPtr (pi_CapacityString powerInfo),
       pwr_PowerInputPower := stringPtr (pi_InputPower powerInfo),
       pwr_PowerInput2Current := float64Ptr (float64_of_float32 (pi_Input2Current powerInfo)),
       pwr_PowerInput2Voltage := float64Ptr (float64_of_float32 (pi_Input2Voltage powerInfo)),
       pwr_PowerOutput2Current := float64Ptr (float64_of_float32 (pi_Output2Current powerInfo)),
       pwr_PowerOutput2Voltage := float64Ptr (float64_of_float32 (pi_Output2Voltage powerInfo))\<rparr>"

text \<open>
  The optical block, which the source has twice: an absent or zero power is reported as -60, the other
  readings are set when their message is present.
\<close>

definition optical_data :: "OpticalInfo \<Rightarrow> OpticalData" where
  "optical_data opticalInfo =
     (let d = OpticalData_zero\<lparr>
        opt_OpticalInPower :=
          (case oi_InPower opticalInfo of
             Some inPower \<Rightarrow> opticalPowerPtr (float64_of_float32 (op_Instant inPower)) True
           | None \<Rightarrow> opticalPowerPtr (F_Num 0) False),
        opt_OpticalOutPower :=
          (case oi_OutPower opticalInfo of
             Some outPower \<Rightarrow> opticalPowerPtr (float64_of_float32 (op_Instant outPower)) True
           | None \<Rightarrow> opticalPowerPtr (F_Num 0) False)\<rparr>;
      d = (case oi_BiasCurrent opticalInfo of
             None \<Rightarrow> d
           | Some biasCurrent \<Rightarrow>
               d\<lparr>opt_OpticalBiasCurrent := float64Ptr (float64_of_float32 (bc_Instant biasCurrent))\<rparr>);
      d = (case oi_Temperature opticalInfo of
             None \<Rightarrow> d
           | Some temperature \<Rightarrow>
               d\<lparr>opt_OpticalTemperature := float64Ptr (float64_of_float32 (ot_Instant temperature))\<rparr>);
      d = (case oi_Voltage opticalInfo of
             None \<Rightarrow> d
           | Some voltage \<Rightarrow>
               d\<lparr>opt_OpticalVoltageVol33 := float64Ptr (float64_of_float32 (vo_Vol33 voltage)),
                 opt_OpticalVoltageVol5 := float64Ptr (float64_of_float32 (vo_Vol5 voltage))\<rparr>);
      d = (case oi_Alarm opticalInfo of
             None \<Rightarrow> d
           | Some alarm \<Rightarrow>
               let d = (if oa_LosStatus alarm \<noteq> 0
                        then d\<lparr>opt_OpticalAlarmLosStatus := Some (convertAlarmStatus (oa_LosStatus alarm))\<rparr>
                        else d)
               in (case oa_LosInfo alarm of
                     None \<Rightarrow> d
                   | Some alarmInfo \<Rightarrow>
                       d\<lparr>opt_OpticalAlarmLosInfoEventID := uint32Ptr (la_EventId alarmInfo),
                         opt_OpticalAlarmLosInfoEventInterval := uint32Ptr (la_EventInterval alarmInfo),
                         opt_OpticalAlarmLosInfoInPower :=
                           (case la_OptInPower alarmInfo of
                              inPower # _ \<Rightarrow> opticalPowerPtr (float64_of_float32 (op_Instant inPower)) True
                            | [] \<Rightarrow> opticalPowerPtr (F_Num 0) False),
                         opt_OpticalAlarmLosInfoOutPower :=
                           (case la_OptOutPower alarmInfo of
                              outPower # _ \<Rightarrow> opticalPowerPtr (float64_of_float32 (op_Instant outPower)) True
                            | [] \<Rightarrow> opticalPowerPtr (F_Num 0) False)\<rparr>));
      d = (case oi_OnlineStatus opticalInfo of
             None \<Rightarrow> d
           | Some onlineStatus \<Rightarrow>
               d\<lparr>opt_OpticalOnlineStatus := stringPtr (os_OnlineStatus onlineStatus)\<rparr>)
      in (case oi_RxThreshold opticalInfo of
             None \<Rightarrow> d
           | Some rxThreshold \<Rightarrow>
               d\<lparr>opt_OpticalRxThresholdHighAlarm := float64Ptr (float64_of_float32 (th_HighAlarm rxThreshold)),
                 opt_OpticalRxThresholdPreHighAlarm :=
                   float64Ptr (float64_of_float32 (th_PreHighAlarm rxThreshold)),
                 opt_OpticalRxThresholdLowAlarm := float64Ptr (float64_of_float32 (th_LowAlarm rxThreshold)),
                 opt_OpticalRxThresholdPreLowAlarm :=
                   float64Ptr (float64_of_float32 (th_PreLowAlarm rxThreshold))\<rparr>))"

section \<open>The handlers\<close>

definition component_state_entry :: "Telemetry \<Rightarrow> ComponentInfo \<Rightarrow> PlatformMetric list" where
  "component_state_entry msg componentInfo =
     (case ci_CommonState componentInfo of
        None \<Rightarrow> []
      | Some commonState \<Rightarrow>
          [platform_base msg componentInfo\<lparr>pm_CommonState := Some (common_data commonState)\<rparr>])"

definition parseComponentState :: "(bytes \<Rightarrow> string + ComponentInfo) \<Rightarrow> PlatformMetric handler" where
  "parseComponentState unmarshal msg =
     (if length (tel_DataGpb msg) = 0 then Inl DataGpbEmpty
      else entries_skip unmarshal (component_state_entry msg) (tel_DataGpb msg) [])"

definition fan_entry :: "Telemetry \<Rightarrow> ComponentInfo \<Rightarrow> PlatformMetric list" where
  "fan_entry msg componentInfo =
     (case ci_FanInfo componentInfo of
        None \<Rightarrow> []
      | Some fanInfo \<Rightarrow>
          [platform_base msg componentInfo\<lparr>pm_FanData := Some (fan_data fanInfo)\<rparr>])"

definition parseComponentFanState :: "(bytes \<Rightarrow> string + ComponentInfo) \<Rightarrow> PlatformMetric handler" where
  "parseComponentFanState unmarshal msg =
     (if length (tel_DataGpb msg) = 0 then Inl DataGpbEmpty
      else entries_skip unmarshal (fan_entry msg) (tel_DataGpb msg) [])"

definition memory_entry :: "Telemetry \<Rightarrow> ComponentInfo \<Rightarrow> PlatformMetric list" where
  "memory_entry msg componentInfo =
     (case ci_MemInfo componentInfo of
        None \<Rightarrow> []
      | Some memInfo \<Rightarrow>
          [platform_base msg componentInfo\<lparr>pm_MemData := Some (mem_data memInfo)\<rparr>])"

definition parseComponentMemoryState :: "(bytes \<Rightarrow> string + ComponentInfo) \<Rightarrow> PlatformMetric handler" where
  "parseComponentMemoryState unmarshal msg =
     (if length (tel_DataGpb msg) = 0 then Inl DataGpbEmpty
      else entries_skip unmarshal (memory_entry msg) (tel_DataGpb msg) [])"

definition storage_entry :: "Telemetry \<Rightarrow> ComponentInfo \<Rightarrow> PlatformMetric list" where
  "storage_entry msg componentInfo =
     (case ci_StorageInfo componentInfo of
        None \<Rightarrow> []
      | Some storageInfo \<Rightarrow>
          [platform_base msg componentInfo\<lparr>pm_MemData := Some (MemData_zero\<lparr>mem_StorageAvailability := float64Ptr (float64_of_uint32 (si_Availability storageInfo))\<rparr>)\<rparr>])"

definition parseComponentStorageState :: "(bytes \<Rightarrow> string + ComponentInfo) \<Rightarrow> PlatformMetric handler" where
  "parseComponentStorageState unmarshal msg =
     (if length (tel_DataGpb msg) = 0 then Inl DataGpbEmpty
      else entries_strict unmarshal (storage_entry msg) (tel_DataGpb msg) [])"

definition temperature_entry :: "Telemetry \<Rightarrow> ComponentInfo \<Rightarrow> PlatformMetric list" where
  "temperature_entry msg componentInfo =
     (case ci_TempInfo componentInfo of
        None \<Rightarrow> []
      | Some tempInfo \<Rightarrow>
          [platform_base msg componentInfo\<lparr>pm_TempData := Some (temp_data tempInfo)\<rparr>])"

definition parseComponentTemperatureState :: "(bytes \<Rightarrow> string + ComponentInfo) \<Rightarrow> PlatformMetric handler" where
  "parseComponentTemperatureState unmarshal msg =
     (if length (tel_DataGpb msg) = 0 then Inl DataGpbEmpty
      else entries_strict unmarshal (temperature_entry msg) (tel_DataGpb msg) [])"

definition power_entry :: "Telemetry \<Rightarrow> ComponentInfo \<Rightarrow> PlatformMetric list" where
  "power_entry msg componentInfo =
     (case ci_PowerInfo componentInfo of
        None \<Rightarrow> []
      | Some powerInfo \<Rightarrow>
          [platform_base msg componentInfo\<lparr>pm_PowerData := Some (power_data powerInfo)\<rparr>])"

definition parseComponentPowerSupplyState :: "(bytes \<Rightarrow> string + ComponentInfo) \<Rightarrow> PlatformMetric handler" where
  "parseComponentPowerSupplyState unmarshal msg =
     (if length (tel_DataGpb msg) = 0 then Inl DataGpbEmpty
      else entries_strict unmarshal (power_entry msg) (tel_DataGpb msg) [])"

definition linecard_entry :: "Telemetry \<Rightarrow> ComponentInfo \<Rightarrow> PlatformMetric list" where
  "linecard_entry msg componentInfo =
     (case ci_PowerAdminState componentInfo of
        None \<Rightarrow> []
      | Some linecardInfo \<Rightarrow>
          [platform_base msg componentInfo\<lparr>pm_PowerData := Some (PowerData_zero\<lparr>pwr_LinecardPowerAdminState := stringPtr (li_PowerAdminState linecardInfo)\<rparr>)\<rparr>])"

definition parseComponentLinecardState :: "(bytes \<Rightarrow> string + ComponentInfo) \<Rightarrow> PlatformMetric handler" where
  "parseComponentLinecardState unmarshal msg =
     (if length (tel_DataGpb msg) = 0 then Inl DataGpbEmpty
      else entries_strict unmarshal (linecard_entry msg) (tel_DataGpb msg) [])"

definition cpu_entry :: "Telemetry \<Rightarrow> ComponentInfo \<Rightarrow> PlatformMetric list" where
  "cpu_entry msg componentInfo =
     (case ci_CpuInfo componentInfo of
        None \<Rightarrow> []
      | Some cpuInfo \<Rightarrow>
          [platform_base msg componentInfo\<lparr>pm_CPUData := Some (cpu_data cpuInfo)\<rparr>])"

definition parseComponentCPUState :: "(bytes \<Rightarrow> string + ComponentInfo) \<Rightarrow> PlatformMetric handler" where
  "parseComponentCPUState unmarshal msg =
     (if length (tel_DataGpb msg) = 0 then Inl DataGpbEmpty
      else entries_strict unmarshal (cpu_entry msg) (tel_DataGpb msg) [])"

definition transceiver_entry :: "Telemetry \<Rightarrow> ComponentInfo \<Rightarrow> PlatformMetric list" where
  "transceiver_entry msg componentInfo =
     (case ci_OpticalInfo componentInfo of
        None \<Rightarrow> []
      | Some opticalInfo \<Rightarrow>
          [platform_base msg componentInfo\<lparr>pm_OpticalData := Some (optical_data opticalInfo)\<rparr>])"

definition parseComponentTransceiverState :: "(bytes \<Rightarrow> string + ComponentInfo) \<Rightarrow> PlatformMetric handler" where
  "parseComponentTransceiverState unmarshal msg =
     (if length (tel_DataGpb msg) = 0 then Inl DataGpbEmpty
      else entries_strict unmarshal (transceiver_entry msg) (tel_DataGpb msg) [])"

text \<open>
  The aggregate path: one metric for every entry, with a common state even when the message has
  none, and the parts that are present.
\<close>

text \<open>\<^verbatim>\<open>if x := info.GetX(); x != nil { ... }\<close>\<close>

definition if_present :: "'i option \<Rightarrow> ('i \<Rightarrow> 'm \<Rightarrow> 'm) \<Rightarrow> 'm \<Rightarrow> 'm" where
  "if_present p upd metric = (case p of None \<Rightarrow> metric | Some x \<Rightarrow> upd x metric)"

definition components_entry :: "Telemetry \<Rightarrow> ComponentInfo \<Rightarrow> PlatformMetric list" where
  "components_entry msg componentInfo =
     (let metric = (platform_base msg componentInfo)\<lparr>pm_CommonState := Some CommonState_zero\<rparr>;
      metric = if_present (ci_CommonState componentInfo)
        (\<lambda>commonState metric. metric\<lparr>pm_CommonState := Some (common_data commonState)\<rparr>) metric;
      metric = if_present (ci_CpuInfo componentInfo)
        (\<lambda>cpuInfo metric. metric\<lparr>pm_CPUData := Some (cpu_data_component cpuInfo)\<rparr>) metric;
      metric = if_present (ci_MemInfo componentInfo)
        (\<lambda>memInfo metric. metric\<lparr>pm_MemData := Some (mem_data_component memInfo)\<rparr>) metric;
      metric = if_present (ci_TempInfo componentInfo)
        (\<lambda>tempInfo metric. metric\<lparr>pm_TempData := Some (temp_data_component tempInfo)\<rparr>) metric;
      metric = if_present (ci_FanInfo componentInfo)
        (\<lambda>fanInfo metric. metric\<lparr>pm_FanData := Some (fan_data fanInfo)\<rparr>) metric;
      metric = if_present (ci_PowerInfo componentInfo)
        (\<lambda>powerInfo metric. metric\<lparr>pm_PowerData := Some (power_data_component powerInfo)\<rparr>) metric;
      metric = if_present (ci_StorageInfo componentInfo)
        (\<lambda>storageInfo metric. metric\<lparr>pm_MemData :=
                      Some ((case pm_MemData metric of None \<Rightarrow> MemData_zero | Some m \<Rightarrow> m)\<lparr>
                        mem_StorageAvailability :=
                          float64Ptr (float64_of_uint32 (si_Availability storageInfo))\<rparr>)\<rparr>) metric;
      metric = if_present (ci_OpticalInfo componentInfo)
        (\<lambda>opticalInfo metric. metric\<lparr>pm_OpticalData := Some (optical_data opticalInfo)\<rparr>) metric;
      metric = if_present (ci_PowerAdminState componentInfo)
        (\<lambda>linecardInfo metric. metric\<lparr>pm_PowerData :=
                      Some ((case pm_PowerData metric of None \<Rightarrow> PowerData_zero | Some p \<Rightarrow> p)\<lparr>
                        pwr_LinecardPowerAdminState := stringPtr (li_PowerAdminState linecardInfo)\<rparr>)\<rparr>) metric
      in [metric])"

definition parseComponentsData :: "(bytes \<Rightarrow> string + ComponentInfo) \<Rightarrow> PlatformMetric handler" where
  "parseComponentsData unmarshal msg =
     (if length (tel_DataGpb msg) = 0 then Inl DataGpbEmpty
      else entries_skip unmarshal (components_entry msg) (tel_DataGpb msg) [])"

section \<open>Lemmas\<close>

text \<open>The entries that decode, in order.\<close>

definition decoded :: "(bytes \<Rightarrow> string + 'i) \<Rightarrow> NotificationGpb list \<Rightarrow> 'i list" where
  "decoded unmarshal gs =
     List.map_filter (\<lambda>g. case unmarshal (gpb_Content g) of Inl _ \<Rightarrow> None | Inr i \<Rightarrow> Some i) gs"

lemma decoded_simps [simp]:
  "decoded unmarshal [] = []"
  "decoded unmarshal (g # gs) =
     (case unmarshal (gpb_Content g) of
        Inl _ \<Rightarrow> decoded unmarshal gs | Inr i \<Rightarrow> i # decoded unmarshal gs)"
  by (simp_all add: decoded_def List.map_filter_def split: sum.split)

text \<open>A skipping handler never fails and returns the metrics of the entries that decode.\<close>

lemma entries_skip_eq:
  "entries_skip unmarshal entry gs ms = Inr (ms @ concat (map entry (decoded unmarshal gs)))"
  by (induction gs arbitrary: ms) (simp_all split: sum.split)

text \<open>A strict one fails exactly when some entry does not decode, with the first such error.\<close>

definition failures :: "(bytes \<Rightarrow> string + 'i) \<Rightarrow> NotificationGpb list \<Rightarrow> string list" where
  "failures unmarshal gs =
     List.map_filter (\<lambda>g. case unmarshal (gpb_Content g) of Inl err \<Rightarrow> Some err | Inr _ \<Rightarrow> None) gs"

lemma failures_simps [simp]:
  "failures unmarshal [] = []"
  "failures unmarshal (g # gs) =
     (case unmarshal (gpb_Content g) of
        Inl err \<Rightarrow> err # failures unmarshal gs | Inr _ \<Rightarrow> failures unmarshal gs)"
  by (simp_all add: failures_def List.map_filter_def split: sum.split)

lemma entries_strict_eq:
  "entries_strict unmarshal entry gs ms =
     (case failures unmarshal gs of
        [] \<Rightarrow> Inr (ms @ concat (map entry (decoded unmarshal gs)))
      | err # _ \<Rightarrow> Inl (InfoInvalid err))"
proof (induction gs arbitrary: ms)
  case (Cons g gs)
  then show ?case by (cases "unmarshal (gpb_Content g)") (simp_all split: list.split)
qed simp

lemma failures_Nil_iff:
  "failures unmarshal gs = [] \<longleftrightarrow> (\<forall>g \<in> set gs. \<exists>i. unmarshal (gpb_Content g) = Inr i)"
  by (induction gs) (auto split: sum.split)

text \<open>On a message whose entries all decode the two loops agree.\<close>

lemma entries_strict_eq_skip:
  "failures unmarshal gs = [] \<Longrightarrow>
   entries_strict unmarshal entry gs ms = entries_skip unmarshal entry gs ms"
  by (simp add: entries_strict_eq entries_skip_eq)

text \<open>The aggregate path fills the temperatures as the path of their own does.\<close>

lemma temp_data_component_eq: "temp_data_component t = temp_data t"
  by (simp add: temp_data_component_def temp_data_def nanosToSeconds_def)

text \<open>Every platform metric carries the system and the time of its message.\<close>

lemmas platform_entry_defs = component_state_entry_def fan_entry_def memory_entry_def
  storage_entry_def temperature_entry_def power_entry_def linecard_entry_def cpu_entry_def
  transceiver_entry_def

lemma platform_base_ids [simp]:
  "pm_Timestamp (platform_base msg i) = msg_time (tel_MsgTimestamp msg)"
  "pm_SystemID (platform_base msg i) = tel_SystemId msg"
  "pm_ComponentName (platform_base msg i) = ci_Name i"
  by (simp_all add: platform_base_def)

lemma case_option_const [simp]: "(case p of None \<Rightarrow> c | Some _ \<Rightarrow> c) = c"
  by (cases p) simp_all

lemma if_present_other:
  "(\<And>x m. f (upd x m) = f m) \<Longrightarrow> f (if_present p upd m) = f m"
  by (simp add: if_present_def split: option.split)

lemma if_present_set:
  "pm_CommonState (if_present p (\<lambda>x m. m\<lparr>pm_CommonState := g0 x m\<rparr>) m) =
     (case p of None \<Rightarrow> pm_CommonState m | Some x \<Rightarrow> g0 x m)"
  "pm_CPUData (if_present p (\<lambda>x m. m\<lparr>pm_CPUData := g1 x m\<rparr>) m) =
     (case p of None \<Rightarrow> pm_CPUData m | Some x \<Rightarrow> g1 x m)"
  "pm_MemData (if_present p (\<lambda>x m. m\<lparr>pm_MemData := g2 x m\<rparr>) m) =
     (case p of None \<Rightarrow> pm_MemData m | Some x \<Rightarrow> g2 x m)"
  "pm_TempData (if_present p (\<lambda>x m. m\<lparr>pm_TempData := g3 x m\<rparr>) m) =
     (case p of None \<Rightarrow> pm_TempData m | Some x \<Rightarrow> g3 x m)"
  "pm_FanData (if_present p (\<lambda>x m. m\<lparr>pm_FanData := g4 x m\<rparr>) m) =
     (case p of None \<Rightarrow> pm_FanData m | Some x \<Rightarrow> g4 x m)"
  "pm_PowerData (if_present p (\<lambda>x m. m\<lparr>pm_PowerData := g5 x m\<rparr>) m) =
     (case p of None \<Rightarrow> pm_PowerData m | Some x \<Rightarrow> g5 x m)"
  "pm_OpticalData (if_present p (\<lambda>x m. m\<lparr>pm_OpticalData := g6 x m\<rparr>) m) =
     (case p of None \<Rightarrow> pm_OpticalData m | Some x \<Rightarrow> g6 x m)"
  by (simp_all add: if_present_def split: option.split)

lemmas if_present_others = if_present_other [of pm_Timestamp]
  if_present_other [of pm_SystemID]
  if_present_other [of pm_ComponentName]
  if_present_other [of pm_CommonState]
  if_present_other [of pm_CPUData]
  if_present_other [of pm_MemData]
  if_present_other [of pm_TempData]
  if_present_other [of pm_FanData]
  if_present_other [of pm_PowerData]
  if_present_other [of pm_OpticalData]

lemma components_entry_ids:
  "m \<in> set (components_entry msg i) \<Longrightarrow>
   pm_Timestamp m = msg_time (tel_MsgTimestamp msg) \<and> pm_SystemID m = tel_SystemId msg \<and>
   pm_ComponentName m = ci_Name i"
  by (auto simp: components_entry_def Let_def if_present_others)

text \<open>
  The parts of an aggregate metric: those of the single paths, except that the common state is
  always there and the CPU and memory states come from their own functions.
\<close>

lemma components_entry_parts:
  assumes "m \<in> set (components_entry msg i)"
  shows "pm_CommonState m = Some (case ci_CommonState i of None \<Rightarrow> CommonState_zero | Some c \<Rightarrow> common_data c)"
    and "pm_CPUData m = map_option cpu_data_component (ci_CpuInfo i)"
    and "pm_TempData m = map_option temp_data (ci_TempInfo i)"
    and "pm_FanData m = map_option fan_data (ci_FanInfo i)"
    and "pm_OpticalData m = map_option optical_data (ci_OpticalInfo i)"
    and "pm_MemData m =
      (case ci_StorageInfo i of
         None \<Rightarrow> map_option mem_data_component (ci_MemInfo i)
       | Some s \<Rightarrow> Some ((case ci_MemInfo i of None \<Rightarrow> MemData_zero | Some mi \<Rightarrow> mem_data_component mi)
           \<lparr>mem_StorageAvailability := float64Ptr (float64_of_uint32 (si_Availability s))\<rparr>))"
    and "pm_PowerData m =
      (case ci_PowerAdminState i of
         None \<Rightarrow> map_option power_data_component (ci_PowerInfo i)
       | Some l \<Rightarrow> Some ((case ci_PowerInfo i of None \<Rightarrow> PowerData_zero | Some p \<Rightarrow> power_data_component p)
           \<lparr>pwr_LinecardPowerAdminState := stringPtr (li_PowerAdminState l)\<rparr>))"
proof -
  have z: "pm_CPUData (platform_base msg i) = None" "pm_TempData (platform_base msg i) = None"
    "pm_FanData (platform_base msg i) = None" "pm_OpticalData (platform_base msg i) = None"
    "pm_MemData (platform_base msg i) = None" "pm_PowerData (platform_base msg i) = None"
    by (simp_all add: platform_base_def PlatformMetric_zero_def)
  note defs = components_entry_def Let_def if_present_set if_present_others temp_data_component_eq z
  show "pm_CommonState m = Some (case ci_CommonState i of None \<Rightarrow> CommonState_zero | Some c \<Rightarrow> common_data c)"
    using assms by (simp add: defs split: option.split)
  show "pm_CPUData m = map_option cpu_data_component (ci_CpuInfo i)"
    using assms by (simp add: defs split: option.split)
  show "pm_TempData m = map_option temp_data (ci_TempInfo i)"
    using assms by (simp add: defs split: option.split)
  show "pm_FanData m = map_option fan_data (ci_FanInfo i)"
    using assms by (simp add: defs split: option.split)
  show "pm_OpticalData m = map_option optical_data (ci_OpticalInfo i)"
    using assms by (simp add: defs split: option.split)
  show "pm_MemData m =
      (case ci_StorageInfo i of
         None \<Rightarrow> map_option mem_data_component (ci_MemInfo i)
       | Some s \<Rightarrow> Some ((case ci_MemInfo i of None \<Rightarrow> MemData_zero | Some mi \<Rightarrow> mem_data_component mi)
           \<lparr>mem_StorageAvailability := float64Ptr (float64_of_uint32 (si_Availability s))\<rparr>))"
    using assms by (simp add: defs split: option.split)
  show "pm_PowerData m =
      (case ci_PowerAdminState i of
         None \<Rightarrow> map_option power_data_component (ci_PowerInfo i)
       | Some l \<Rightarrow> Some ((case ci_PowerInfo i of None \<Rightarrow> PowerData_zero | Some p \<Rightarrow> power_data_component p)
           \<lparr>pwr_LinecardPowerAdminState := stringPtr (li_PowerAdminState l)\<rparr>))"
    using assms by (simp add: defs split: option.split)
qed

end
