(* ===== verification/Interface_Messages.thy ===== *)
theory Interface_Messages
  imports Go_Float
begin

text \<open>
  The messages of \<^verbatim>\<open>proto/zxr10_interfaces/zxr10_interfaces.pb.go\<close> as records, in the manner
  of the platform messages.
\<close>

record InterfaceState =
  is_Ifindex :: uint32
  is_AdminStatus :: int32
  is_OperStatus :: int32
  is_LastChange :: uint64
  is_Logical :: bool
  is_Type :: uint32
  is_PhyStatus :: int32
  is_Ipv4OperStatus :: int32

record SubinterfaceState =
  ss_Ifindex :: uint32
  ss_AdminStatus :: int32
  ss_OperStatus :: int32
  ss_LastChange :: uint64
  ss_Logical :: bool
  ss_Ipv4OperStatus :: int32

record InterfaceCounters =
  ic_InOctets :: uint64
  ic_InUnicastPkts :: uint64
  ic_InBroadcastPkts :: uint64
  ic_InMulticastPkts :: uint64
  ic_InDiscards :: uint64
  ic_InErrors :: uint64
  ic_InUnknownProtos :: uint64
  ic_InFcsErrors :: uint64
  ic_OutOctets :: uint64
  ic_OutUnicastPkts :: uint64
  ic_OutBroadcastPkts :: uint64
  ic_OutMulticastPkts :: uint64
  ic_OutDiscards :: uint64
  ic_OutErrors :: uint64
  ic_CarrierTransitions :: uint64
  ic_LastClear :: uint64
  ic_InPkts :: uint64
  ic_OutPkts :: uint64
  ic_InputUtilization :: gofloat
  ic_OutputUtilization :: gofloat
  ic_InTrafficRate :: gofloat
  ic_InPacketRate :: gofloat
  ic_OutTrafficRate :: gofloat
  ic_OutPacketRate :: gofloat
  ic_InV4Octets :: uint64
  ic_OutV4Octets :: uint64
  ic_InV4Pkts :: uint64
  ic_OutV4Pkts :: uint64
  ic_InV6Octets :: uint64
  ic_OutV6Octets :: uint64
  ic_InV6Pkts :: uint64
  ic_OutV6Pkts :: uint64
  ic_InV4TrafficRate :: gofloat
  ic_InV4PacketRate :: gofloat
  ic_OutV4TrafficRate :: gofloat
  ic_OutV4PacketRate :: gofloat
  ic_InV6TrafficRate :: gofloat
  ic_InV6PacketRate :: gofloat
  ic_OutV6TrafficRate :: gofloat
  ic_OutV6PacketRate :: gofloat
  ic_InputV4Utilization :: gofloat
  ic_OutputV4Utilization :: gofloat
  ic_InputV6Utilization :: gofloat
  ic_OutputV6Utilization :: gofloat
  ic_InBierOctets :: uint64
  ic_InBierPkts :: uint64
  ic_OutBierOctets :: uint64
  ic_OutBierPkts :: uint64

record SubinterfaceCounters =
  sc_InOctets :: uint64
  sc_InUnicastPkts :: uint64
  sc_InBroadcastPkts :: uint64
  sc_InMulticastPkts :: uint64
  sc_InDiscards :: uint64
  sc_InErrors :: uint64
  sc_InUnknownProtos :: uint64
  sc_InFcsErrors :: uint64
  sc_OutOctets :: uint64
  sc_OutUnicastPkts :: uint64
  sc_OutBroadcastPkts :: uint64
  sc_OutMulticastPkts :: uint64
  sc_OutDiscards :: uint64
  sc_OutErrors :: uint64
  sc_CarrierTransitions :: uint64
  sc_LastClear :: uint64
  sc_InPkts :: uint64
  sc_OutPkts :: uint64
  sc_InputUtilization :: gofloat
  sc_OutputUtilization :: gofloat
  sc_InTrafficRate :: gofloat
  sc_InPacketRate :: gofloat
  sc_OutTrafficRate :: gofloat
  sc_OutPacketRate :: gofloat
  sc_InV4Octets :: uint64
  sc_OutV4Octets :: uint64
  sc_InV4Pkts :: uint64
  sc_OutV4Pkts :: uint64
  sc_InV6Octets :: uint64
  sc_OutV6Octets :: uint64
  sc_InV6Pkts :: uint64
  sc_OutV6Pkts :: uint64
  sc_InV4TrafficRate :: gofloat
  sc_InV4PacketRate :: gofloat
  sc_OutV4TrafficRate :: gofloat
  sc_OutV4PacketRate :: gofloat
  sc_InV6TrafficRate :: gofloat
  sc_InV6PacketRate :: gofloat
  sc_OutV6TrafficRate :: gofloat
  sc_OutV6PacketRate :: gofloat
  sc_InputV4Utilization :: gofloat
  sc_OutputV4Utilization :: gofloat
  sc_InputV6Utilization :: gofloat
  sc_OutputV6Utilization :: gofloat
  sc_InBierOctets :: uint64
  sc_InBierPkts :: uint64
  sc_OutBierOctets :: uint64
  sc_OutBierPkts :: uint64

record StatePeriodInfo =
  sp_Type :: uint32
  sp_Ifindex :: uint32
  sp_AdminStatus :: int32
  sp_OperStatus :: int32
  sp_PhyStatus :: int32
  sp_Ipv4OperStatus :: int32
  sp_Ipv6OperStatus :: int32

record SubStatePeriodInfo =
  ssp_Ifindex :: uint32
  ssp_AdminStatus :: int32
  ssp_OperStatus :: int32
  ssp_PhyStatus :: int32
  ssp_Ipv4OperStatus :: int32
  ssp_Ipv6OperStatus :: int32

record SubinterfaceInfo =
  sui_SubPort :: uint32
  sui_State :: "SubinterfaceState list"
  sui_Counters :: "SubinterfaceCounters list"
  sui_SubStatePeriod :: "SubStatePeriodInfo list"

record InterfaceInfo =
  ii_Name :: string
  ii_State :: "InterfaceState list"
  ii_Counters :: "InterfaceCounters list"
  ii_Subinterface :: "SubinterfaceInfo list"
  ii_StatePeriod :: "StatePeriodInfo list"

end
