(* ===== verification/Interface_Parser.thy ===== *)
theory Interface_Parser
  imports Platform_Parser Interface_Models Interface_Messages
begin

text \<open>
  The handlers of \<^verbatim>\<open>internal/parser/telemetry_parser.go\<close> for the interface and subinterface sensor
  paths, in the form of \<open>Platform_Parser\<close>.  An interface entry gives one metric, from the first
  element of the list its path is about, or none; a subinterface entry gives one for every
  subinterface, whose name is its number in decimal.
\<close>

section \<open>Interfaces\<close>

definition interface_base :: "Telemetry \<Rightarrow> InterfaceInfo \<Rightarrow> InterfaceMetric" where
  "interface_base msg interfaceInfo =
     InterfaceMetric_zero\<lparr>
       im_Timestamp := msg_time (tel_MsgTimestamp msg),
       im_SystemID := tel_SystemId msg,
       im_InterfaceName := ii_Name interfaceInfo\<rparr>"

definition interface_state_metric :: "InterfaceState \<Rightarrow> InterfaceMetric \<Rightarrow> InterfaceMetric" where
  "interface_state_metric state metric =
     metric\<lparr>
       im_Ifindex := uint32Ptr (is_Ifindex state),
       im_AdminStatusStr := Some (convertAdminStatus (is_AdminStatus state)),
       im_OperStatusStr := Some (convertOperStatus (is_OperStatus state)),
       im_LastChange := timePtr (nanosToTimestamp (is_LastChange state)),
       im_Logical := boolPtr (is_Logical state),
       im_Type := uint32Ptr (is_Type state),
       im_PhyStatusStr := Some (convertPhyStatus (is_PhyStatus state)),
       im_IPv4OperStatusStr := Some (convertIPv4OperStatus (is_Ipv4OperStatus state))\<rparr>"

definition interface_state_entry :: "Telemetry \<Rightarrow> InterfaceInfo \<Rightarrow> InterfaceMetric list" where
  "interface_state_entry msg interfaceInfo =
     (case ii_State interfaceInfo of
        [] \<Rightarrow> []
      | state # _ \<Rightarrow> [interface_state_metric state (interface_base msg interfaceInfo)])"

definition parseInterfaceState :: "(bytes \<Rightarrow> string + InterfaceInfo) \<Rightarrow> InterfaceMetric handler" where
  "parseInterfaceState unmarshal msg =
     (if length (tel_DataGpb msg) = 0 then Inl DataGpbEmpty
      else entries_strict unmarshal (interface_state_entry msg) (tel_DataGpb msg) [])"

definition interface_zte_metric :: "StatePeriodInfo \<Rightarrow> InterfaceMetric \<Rightarrow> InterfaceMetric" where
  "interface_zte_metric zteState metric =
     metric\<lparr>
       im_ZteifType := uint32Ptr (sp_Type zteState),
       im_ZteifIfindex := uint32Ptr (sp_Ifindex zteState),
       im_ZteifAdminStatusStr := Some (convertAdminStatus (sp_AdminStatus zteState)),
       im_ZteifOperStatusStr := Some (convertOperStatus (sp_OperStatus zteState)),
       im_ZteifPhyStatusStr := Some (convertPhyStatus (sp_PhyStatus zteState)),
       im_ZteifIPv4OperStatusStr := Some (convertIPv4OperStatus (sp_Ipv4OperStatus zteState)),
       im_ZteifIPv6OperStatusStr := Some (convertIPv6OperStatus (sp_Ipv6OperStatus zteState))\<rparr>"

definition interface_zte_entry :: "Telemetry \<Rightarrow> InterfaceInfo \<Rightarrow> InterfaceMetric list" where
  "interface_zte_entry msg interfaceInfo =
     (case ii_StatePeriod interfaceInfo of
        [] \<Rightarrow> []
      | zteState # _ \<Rightarrow> [interface_zte_metric zteState (interface_base msg interfaceInfo)])"

definition parseInterfaceZteState :: "(bytes \<Rightarrow> string + InterfaceInfo) \<Rightarrow> InterfaceMetric handler" where
  "parseInterfaceZteState unmarshal msg =
     (if length (tel_DataGpb msg) = 0 then Inl DataGpbEmpty
      else entries_strict unmarshal (interface_zte_entry msg) (tel_DataGpb msg) [])"

definition interface_counters_metric :: "InterfaceCounters \<Rightarrow> InterfaceMetric \<Rightarrow> InterfaceMetric" where
  "interface_counters_metric counters metric =
     metric\<lparr>
       im_InOctets := uint64Ptr (ic_InOctets counters),
       im_InUnicastPkts := uint64Ptr (ic_InUnicastPkts counters),
       im_InBroadcastPkts := uint64Ptr (ic_InBroadcastPkts counters),
       im_InMulticastPkts := uint64Ptr (ic_InMulticastPkts counters),
       im_InDiscards := uint64Ptr (ic_InDiscards counters),
       im_InErrors := uint64Ptr (ic_InErrors counters),
       im_InUnknownProtos := uint64Ptr (ic_InUnknownProtos counters),
       im_InFcsErrors := uint64Ptr (ic_InFcsErrors counters),
       im_OutOctets := uint64Ptr (ic_OutOctets counters),
       im_OutUnicastPkts := uint64Ptr (ic_OutUnicastPkts counters),
       im_OutBroadcastPkts := uint64Ptr (ic_OutBroadcastPkts counters),
       im_OutMulticastPkts := uint64Ptr (ic_OutMulticastPkts counters),
       im_OutDiscards := uint64Ptr (ic_OutDiscards counters),
       im_OutErrors := uint64Ptr (ic_OutErrors counters),
       im_CarrierTransitions := uint64Ptr (ic_CarrierTransitions counters),
       im_LastClear := timePtr (nanosToTimestamp (ic_LastClear counters)),
       im_InPkts := uint64Ptr (ic_InPkts counters),
       im_OutPkts := uint64Ptr (ic_OutPkts counters),
       im_InputUtilization := stringPtr (fmt_2f (utilizationToNumeric (ic_InputUtilization counters))),
       im_OutputUtilization := stringPtr (fmt_2f (utilizationToNumeric (ic_OutputUtilization counters))),
       im_InTrafficRate := stringPtr (fmt_2f (ic_InTrafficRate counters) @ '' Mbps''),
       im_InPacketRate := stringPtr (fmt_2f (ic_InPacketRate counters) @ '' Kfps''),
       im_OutTrafficRate := stringPtr (fmt_2f (ic_OutTrafficRate counters) @ '' Mbps''),
       im_OutPacketRate := stringPtr (fmt_2f (ic_OutPacketRate counters) @ '' Kfps''),
       im_InV4Octets := uint64Ptr (ic_InV4Octets counters),
       im_OutV4Octets := uint64Ptr (ic_OutV4Octets counters),
       im_InV4Pkts := uint64Ptr (ic_InV4Pkts counters),
       im_OutV4Pkts := uint64Ptr (ic_OutV4Pkts counters),
       im_InV6Octets := uint64Ptr (ic_InV6Octets counters),
       im_OutV6Octets := uint64Ptr (ic_OutV6Octets counters),
       im_InV6Pkts := uint64Ptr (ic_InV6Pkts counters),
       im_OutV6Pkts := uint64Ptr (ic_OutV6Pkts counters),
       im_InV4TrafficRate := stringPtr (fmt_2f (ic_InV4TrafficRate counters) @ '' Mbps''),
       im_InV4PacketRate := stringPtr (fmt_2f (ic_InV4PacketRate counters) @ '' Kfps''),
       im_OutV4TrafficRate := stringPtr (fmt_2f (ic_OutV4TrafficRate counters) @ '' Mbps''),
       im_OutV4PacketRate := stringPtr (fmt_2f (ic_OutV4PacketRate counters) @ '' Kfps''),
       im_InV6TrafficRate := stringPtr (fmt_2f (ic_InV6TrafficRate counters) @ '' Mbps''),
       im_InV6PacketRate := stringPtr (fmt_2f (ic_InV6PacketRate counters) @ '' Kfps''),
       im_OutV6TrafficRate := stringPtr (fmt_2f (ic_OutV6TrafficRate counters) @ '' Mbps''),
       im_OutV6PacketRate := stringPtr (fmt_2f (ic_OutV6PacketRate counters) @ '' Kfps''),
       im_InputV4Utilization := stringPtr (fmt_2f (utilizationToNumeric (ic_InputV4Utilization counters))),
       im_OutputV4Utilization := stringPtr (fmt_2f (utilizationToNumeric (ic_OutputV4Utilization counters))),
       im_InputV6Utilization := stringPtr (fmt_2f (utilizationToNumeric (ic_InputV6Utilization counters))),
       im_OutputV6Utilization := stringPtr (fmt_2f (utilizationToNumeric (ic_OutputV6Utilization counters))),
       im_InBierOctets := uint64Ptr (ic_InBierOctets counters),
       im_InBierPkts := uint64Ptr (ic_InBierPkts counters),
       im_OutBierOctets := uint64Ptr (ic_OutBierOctets counters),
       im_OutBierPkts := uint64Ptr (ic_OutBierPkts counters)\<rparr>"

definition interface_counters_entry :: "Telemetry \<Rightarrow> InterfaceInfo \<Rightarrow> InterfaceMetric list" where
  "interface_counters_entry msg interfaceInfo =
     (case ii_Counters interfaceInfo of
        [] \<Rightarrow> []
      | counters # _ \<Rightarrow> [interface_counters_metric counters (interface_base msg interfaceInfo)])"

definition parseInterfaceCounters :: "(bytes \<Rightarrow> string + InterfaceInfo) \<Rightarrow> InterfaceMetric handler" where
  "parseInterfaceCounters unmarshal msg =
     (if length (tel_DataGpb msg) = 0 then Inl DataGpbEmpty
      else entries_skip unmarshal (interface_counters_entry msg) (tel_DataGpb msg) [])"

section \<open>Subinterfaces\<close>

definition subinterface_base ::
  "Telemetry \<Rightarrow> InterfaceInfo \<Rightarrow> SubinterfaceInfo \<Rightarrow> SubinterfaceMetric"
where
  "subinterface_base msg interfaceInfo subintf =
     SubinterfaceMetric_zero\<lparr>
       sm_Timestamp := msg_time (tel_MsgTimestamp msg),
       sm_SystemID := tel_SystemId msg,
       sm_InterfaceName := ii_Name interfaceInfo,
       sm_SubinterfaceName := dec (unat (sui_SubPort subintf))\<rparr>"

definition subinterface_state_metric :: "SubinterfaceState \<Rightarrow> SubinterfaceMetric \<Rightarrow> SubinterfaceMetric" where
  "subinterface_state_metric state metric =
     metric\<lparr>
       sm_Ifindex := uint32Ptr (ss_Ifindex state),
       sm_AdminStatusStr := Some (convertAdminStatus (ss_AdminStatus state)),
       sm_OperStatusStr := Some (convertOperStatus (ss_OperStatus state)),
       sm_LastChange := timePtr (nanosToTimestamp (ss_LastChange state)),
       sm_Logical := boolPtr (ss_Logical state),
       sm_IPv4OperStatusStr := Some (convertIPv4OperStatus (ss_Ipv4OperStatus state))\<rparr>"

definition subinterface_state_entry :: "Telemetry \<Rightarrow> InterfaceInfo \<Rightarrow> SubinterfaceMetric list" where
  "subinterface_state_entry msg interfaceInfo =
     map (\<lambda>subintf.
        let metric = subinterface_base msg interfaceInfo subintf
        in (case sui_State subintf of
              [] \<Rightarrow> metric
            | state # _ \<Rightarrow> subinterface_state_metric state metric))
       (ii_Subinterface interfaceInfo)"

definition parseSubinterfaceState :: "(bytes \<Rightarrow> string + InterfaceInfo) \<Rightarrow> SubinterfaceMetric handler" where
  "parseSubinterfaceState unmarshal msg =
     (if length (tel_DataGpb msg) = 0 then Inl DataGpbEmpty
      else entries_strict unmarshal (subinterface_state_entry msg) (tel_DataGpb msg) [])"

definition subinterface_zte_metric :: "SubStatePeriodInfo \<Rightarrow> SubinterfaceMetric \<Rightarrow> SubinterfaceMetric" where
  "subinterface_zte_metric zteState metric =
     metric\<lparr>
       sm_ZteifIfindex := uint32Ptr (ssp_Ifindex zteState),
       sm_ZteifAdminStatusStr := Some (convertAdminStatus (ssp_AdminStatus zteState)),
       sm_ZteifOperStatusStr := Some (convertOperStatus (ssp_OperStatus zteState)),
       sm_ZteifPhyStatusStr := Some (convertPhyStatus (ssp_PhyStatus zteState)),
       sm_ZteifIPv4OperStatusStr := Some (convertIPv4OperStatus (ssp_Ipv4OperStatus zteState)),
       sm_ZteifIPv6OperStatusStr := Some (convertIPv6OperStatus (ssp_Ipv6OperStatus zteState))\<rparr>"

definition subinterface_zte_entry :: "Telemetry \<Rightarrow> InterfaceInfo \<Rightarrow> SubinterfaceMetric list" where
  "subinterface_zte_entry msg interfaceInfo =
     map (\<lambda>subintf.
        let metric = subinterface_base msg interfaceInfo subintf
        in (case sui_SubStatePeriod subintf of
              [] \<Rightarrow> metric
            | zteState # _ \<Rightarrow> subinterface_zte_metric zteState metric))
       (ii_Subinterface interfaceInfo)"

definition parseSubinterfaceZteState :: "(bytes \<Rightarrow> string + InterfaceInfo) \<Rightarrow> SubinterfaceMetric handler" where
  "parseSubinterfaceZteState unmarshal msg =
     (if length (tel_DataGpb msg) = 0 then Inl DataGpbEmpty
      else entries_strict unmarshal (subinterface_zte_entry msg) (tel_DataGpb msg) [])"

definition subinterface_counters_metric :: "SubinterfaceCounters \<Rightarrow> SubinterfaceMetric \<Rightarrow> SubinterfaceMetric" where
  "subinterface_counters_metric counters metric =
     metric\<lparr>
       sm_InOctets := uint64Ptr (sc_InOctets counters),
       sm_InUnicastPkts := uint64Ptr (sc_InUnicastPkts counters),
       sm_InBroadcastPkts := uint64Ptr (sc_InBroadcastPkts counters),
       sm_InMulticastPkts := uint64Ptr (sc_InMulticastPkts counters),
       sm_InDiscards := uint64Ptr (sc_InDiscards counters),
       sm_InErrors := uint64Ptr (sc_InErrors counters),
       sm_InUnknownProtos := uint64Ptr (sc_InUnknownProtos counters),
       sm_InFcsErrors := uint64Ptr (sc_InFcsErrors counters),
       sm_OutOctets := uint64Ptr (sc_OutOctets counters),
       sm_OutUnicastPkts := uint64Ptr (sc_OutUnicastPkts counters),
       sm_OutBroadcastPkts := uint64Ptr (sc_OutBroadcastPkts counters),
       sm_OutMulticastPkts := uint64Ptr (sc_OutMulticastPkts counters),
       sm_OutDiscards := uint64Ptr (sc_OutDiscards counters),
       sm_OutErrors := uint64Ptr (sc_OutErrors counters),
       sm_CarrierTransitions := uint64Ptr (sc_CarrierTransitions counters),
       sm_LastClear := timePtr (nanosToTimestamp (sc_LastClear counters)),
       sm_InPkts := uint64Ptr (sc_InPkts counters),
       sm_OutPkts := uint64Ptr (sc_OutPkts counters),
       sm_InputUtilization := stringPtr (fmt_2f (utilizationToNumeric (sc_InputUtilization counters))),
       sm_OutputUtilization := stringPtr (fmt_2f (utilizationToNumeric (sc_OutputUtilization counters))),
       sm_InTrafficRate := stringPtr (fmt_2f (sc_InTrafficRate counters) @ '' Mbps''),
       sm_InPacketRate := stringPtr (fmt_2f (sc_InPacketRate counters) @ '' Kfps''),
       sm_OutTrafficRate := stringPtr (fmt_2f (sc_OutTrafficRate counters) @ '' Mbps''),
       sm_OutPacketRate := stringPtr (fmt_2f (sc_OutPacketRate counters) @ '' Kfps''),
       sm_InV4Octets := uint64Ptr (sc_InV4Octets counters),
       sm_OutV4Octets := uint64Ptr (sc_OutV4Octets counters),
       sm_InV4Pkts := uint64Ptr (sc_InV4Pkts counters),
       sm_OutV4Pkts := uint64Ptr (sc_OutV4Pkts counters),
       sm_InV6Octets := uint64Ptr (sc_InV6Octets counters),
       sm_OutV6Octets := uint64Ptr (sc_OutV6Octets counters),
       sm_InV6Pkts := uint64Ptr (sc_InV6Pkts counters),
       sm_OutV6Pkts := uint64Ptr (sc_OutV6Pkts counters),
       sm_InV4TrafficRate := stringPtr (fmt_2f (sc_InV4TrafficRate counters) @ '' Mbps''),
       sm_InV4PacketRate := stringPtr (fmt_2f (sc_InV4PacketRate counters) @ '' Kfps''),
       sm_OutV4TrafficRate := stringPtr (fmt_2f (sc_OutV4TrafficRate counters) @ '' Mbps''),
       sm_OutV4PacketRate := stringPtr (fmt_2f (sc_OutV4PacketRate counters) @ '' Kfps''),
       sm_InV6TrafficRate := stringPtr (fmt_2f (sc_InV6TrafficRate counters) @ '' Mbps''),
       sm_InV6PacketRate := stringPtr (fmt_2f (sc_InV6PacketRate counters) @ '' Kfps''),
       sm_OutV6TrafficRate := stringPtr (fmt_2f (sc_OutV6TrafficRate counters) @ '' Mbps''),
       sm_OutV6PacketRate := stringPtr (fmt_2f (sc_OutV6PacketRate counters) @ '' Kfps''),
       sm_InputV4Utilization := stringPtr (fmt_2f (utilizationToNumeric (sc_InputV4Utilization counters))),
       sm_OutputV4Utilization := stringPtr (fmt_2f (utilizationToNumeric (sc_OutputV4Utilization counters))),
       sm_InputV6Utilization := stringPtr (fmt_2f (utilizationToNumeric (sc_InputV6Utilization counters))),
       sm_OutputV6Utilization := stringPtr (fmt_2f (utilizationToNumeric (sc_OutputV6Utilization counters))),
       sm_InBierOctets := uint64Ptr (sc_InBierOctets counters),
       sm_InBierPkts := uint64Ptr (sc_InBierPkts counters),
       sm_OutBierOctets := uint64Ptr (sc_OutBierOctets counters),
       sm_OutBierPkts := uint64Ptr (sc_OutBierPkts counters)\<rparr>"

definition subinterface_counters_entry :: "Telemetry \<Rightarrow> InterfaceInfo \<Rightarrow> SubinterfaceMetric list" where
  "subinterface_counters_entry msg interfaceInfo =
     map (\<lambda>subintf.
        let metric = subinterface_base msg interfaceInfo subintf
        in (case sui_Counters subintf of
              [] \<Rightarrow> metric
            | counters # _ \<Rightarrow> subinterface_counters_metric counters metric))
       (ii_Subinterface interfaceInfo)"

definition parseSubinterfaceCounters :: "(bytes \<Rightarrow> string + InterfaceInfo) \<Rightarrow> SubinterfaceMetric handler" where
  "parseSubinterfaceCounters unmarshal msg =
     (if length (tel_DataGpb msg) = 0 then Inl DataGpbEmpty
      else entries_strict unmarshal (subinterface_counters_entry msg) (tel_DataGpb msg) [])"

section \<open>Lemmas\<close>

lemmas interface_entry_defs = interface_state_entry_def interface_zte_entry_def
  interface_counters_entry_def interface_state_metric_def interface_zte_metric_def
  interface_counters_metric_def interface_base_def

lemmas subinterface_entry_defs = subinterface_state_entry_def subinterface_zte_entry_def
  subinterface_counters_entry_def subinterface_state_metric_def subinterface_zte_metric_def
  subinterface_counters_metric_def subinterface_base_def

text \<open>Every metric carries the system and the time of its message and the name of its interface.\<close>

lemma interface_entries_ids:
  assumes "m \<in> set (interface_state_entry msg i) \<union> set (interface_zte_entry msg i) \<union>
                set (interface_counters_entry msg i)"
  shows "im_Timestamp m = msg_time (tel_MsgTimestamp msg) \<and> im_SystemID m = tel_SystemId msg \<and>
         im_InterfaceName m = ii_Name i"
  using assms by (auto simp: interface_entry_defs split: list.splits)

lemma subinterface_entry_ids:
  assumes "m \<in> set (subinterface_state_entry msg i) \<union> set (subinterface_zte_entry msg i) \<union>
                set (subinterface_counters_entry msg i)"
  shows "sm_Timestamp m = msg_time (tel_MsgTimestamp msg) \<and> sm_SystemID m = tel_SystemId msg \<and>
         sm_InterfaceName m = ii_Name i \<and>
         (\<exists>s \<in> set (ii_Subinterface i). sm_SubinterfaceName m = dec (unat (sui_SubPort s)))"
  using assms
  by (auto simp: subinterface_entry_defs Let_def split: list.splits)

text \<open>The name of a subinterface determines its port.\<close>

lemma subport_name_inject: "dec (unat (p::uint32)) = dec (unat q) \<longleftrightarrow> p = q"
  by (simp add: word_unat_eq_iff)

text \<open>A handler of a subinterface path gives one metric for each subinterface.\<close>

lemma subinterface_entry_length:
  "length (subinterface_state_entry msg i) = length (ii_Subinterface i)"
  "length (subinterface_zte_entry msg i) = length (ii_Subinterface i)"
  "length (subinterface_counters_entry msg i) = length (ii_Subinterface i)"
  by (simp_all add: subinterface_state_entry_def subinterface_zte_entry_def
      subinterface_counters_entry_def)

end
