(* ===== verification/Alarm_Parser.thy ===== *)
theory Alarm_Parser
  imports Platform_Parser Alarm_Models
begin

text \<open>
  \<^verbatim>\<open>internal/parser/alarm_parser.go\<close>: alarms and notifications.  The two decoders (\<^verbatim>\<open>proto.Unmarshal\<close> into
  an \<open>AlarmInfo\<close> and into a single \<open>CurrentAlarm\<close>) are parameters.  An entry that cannot be read is
  skipped, so \<open>parseAlarmData\<close> itself never fails.
\<close>

definition current_alarm_metric :: "string \<Rightarrow> uint64 \<Rightarrow> CurrentAlarm \<Rightarrow> AlarmReportMetric" where
  "current_alarm_metric systemId msgTimestamp alarm =
     AlarmReportMetric_zero\<lparr>
       am_Timestamp := msg_time msgTimestamp,
       am_SystemID := systemId,
       am_FlowID := ca_FlowId alarm,
       am_AlarmTimestamp := ca_Timestamp alarm,
       am_Code := ca_Code alarm,
       am_OccurrenceTime := convertUnixTimestamp (ca_OccurrenceTime alarm),
       am_UpdateTime := convertUnixTimestamp (ca_UpdateTime alarm),
       am_DisappearedTime := convertUnixTimestamp (ca_DisappearedTime alarm),
       am_OccurrenceMs := ca_OccurrenceMs alarm,
       am_UpdateMs := ca_UpdateMs alarm,
       am_DisappearedMs := ca_DisappearedMs alarm,
       am_AlarmClass := stringPtr (ca_AlarmClass alarm),
       am_AlarmType := stringPtr (ca_AlarmType alarm),
       am_AlarmStatus := stringPtr (ca_AlarmStatus alarm),
       am_Sort := uint32Ptr (ca_Sort alarm),
       am_Severity := stringPtr (ca_Severity alarm),
       am_TpidType := uint32Ptr (ca_TpidType alarm),
       am_TpidLength := uint32Ptr (ca_TpidLength alarm),
       am_Tpid := bytesToBase64Ptr (ca_Tpid alarm),
       am_Description := stringPtr (ca_Description alarm),
       am_Caption := stringPtr (ca_Caption alarm)\<rparr>"

definition notification_metric :: "string \<Rightarrow> uint64 \<Rightarrow> Notification \<Rightarrow> NotificationReportMetric" where
  "notification_metric systemId msgTimestamp notification =
     NotificationReportMetric_zero\<lparr>
       nm_Timestamp := msg_time msgTimestamp,
       nm_SystemID := systemId,
       nm_FlowID := nt_FlowId notification,
       nm_NotificationTimestamp := nt_Timestamp notification,
       nm_Code := nt_Code notification,
       nm_OccurTime := convertUnixTimestamp (nt_OccurTime notification),
       nm_OccurMs := nt_OccurMs notification,
       nm_Classification := stringPtr (nt_Classification notification),
       nm_Sort := uint32Ptr (nt_Sort notification),
       nm_Severity := stringPtr (nt_Severity notification)\<rparr>"

text \<open>
  Alarms of one entry: the reports of an \<open>AlarmInfo\<close> if it has any, otherwise the entry read as one
  \<open>CurrentAlarm\<close>.
\<close>

definition parseCurrentAlarmReportFromGpb ::
  "(bytes \<Rightarrow> string + AlarmInfo) \<Rightarrow> (bytes \<Rightarrow> string + CurrentAlarm) \<Rightarrow> NotificationGpb \<Rightarrow> string \<Rightarrow>
   uint64 \<Rightarrow> string + AlarmReportMetric list"
where
  "parseCurrentAlarmReportFromGpb unm_info unm_alarm dataGpb systemId msgTimestamp =
     (let metrics =
            (case unm_info (gpb_Content dataGpb) of
               Inr alarmInfo \<Rightarrow> map (current_alarm_metric systemId msgTimestamp) (ai_AlarmReport alarmInfo)
             | Inl err \<Rightarrow> [])
      in if length metrics > 0 then Inr metrics
         else (case unm_alarm (gpb_Content dataGpb) of
                 Inl err \<Rightarrow> Inl err
               | Inr currentAlarm \<Rightarrow> Inr [current_alarm_metric systemId msgTimestamp currentAlarm]))"

definition parseNotificationReportFromGpb ::
  "(bytes \<Rightarrow> string + AlarmInfo) \<Rightarrow> NotificationGpb \<Rightarrow> string \<Rightarrow> uint64 \<Rightarrow>
   string + NotificationReportMetric list"
where
  "parseNotificationReportFromGpb unm_info dataGpb systemId msgTimestamp =
     (case unm_info (gpb_Content dataGpb) of
        Inl err \<Rightarrow> Inl err
      | Inr alarmInfo \<Rightarrow>
          Inr (map (notification_metric systemId msgTimestamp) (ai_NotificationReport alarmInfo)))"

definition is_alarm_path :: "Telemetry \<Rightarrow> bool" where
  "is_alarm_path msg \<longleftrightarrow>
     tel_SensorPath msg = ''alm:current-alarm-report'' \<or> tel_ProtoPath msg = ''zxr10.alarm.AlarmReport''"

definition is_notification_path :: "Telemetry \<Rightarrow> bool" where
  "is_notification_path msg \<longleftrightarrow>
     tel_SensorPath msg = ''alm:notification-report'' \<or>
     tel_ProtoPath msg = ''zxr10.alarm.NotificationReport''"

text \<open>One turn of the loop of \<open>parseAlarmData\<close>: what an entry adds to the two lists.\<close>

definition alarm_entry ::
  "(bytes \<Rightarrow> string + AlarmInfo) \<Rightarrow> (bytes \<Rightarrow> string + CurrentAlarm) \<Rightarrow> Telemetry \<Rightarrow> NotificationGpb \<Rightarrow>
   AlarmReportMetric list \<times> NotificationReportMetric list"
where
  "alarm_entry unm_info unm_alarm msg dataGpb =
     (let alarms = parseCurrentAlarmReportFromGpb unm_info unm_alarm dataGpb (tel_SystemId msg)
                     (tel_MsgTimestamp msg);
          notifications = parseNotificationReportFromGpb unm_info dataGpb (tel_SystemId msg)
                     (tel_MsgTimestamp msg)
      in if is_alarm_path msg then (case alarms of Inl _ \<Rightarrow> ([], []) | Inr as \<Rightarrow> (as, []))
         else if is_notification_path msg
         then (case notifications of Inl _ \<Rightarrow> ([], []) | Inr ns \<Rightarrow> ([], ns))
         else (case alarms of
                 Inr (a # as) \<Rightarrow> (a # as, [])
               | _ \<Rightarrow> (case notifications of Inr ns \<Rightarrow> ([], ns) | Inl _ \<Rightarrow> ([], []))))"

fun alarm_entries ::
  "(bytes \<Rightarrow> string + AlarmInfo) \<Rightarrow> (bytes \<Rightarrow> string + CurrentAlarm) \<Rightarrow> Telemetry \<Rightarrow> NotificationGpb list \<Rightarrow>
   AlarmReportMetric list \<Rightarrow> NotificationReportMetric list \<Rightarrow>
   AlarmReportMetric list \<times> NotificationReportMetric list"
where
  "alarm_entries unm_info unm_alarm msg [] as ns = (as, ns)"
| "alarm_entries unm_info unm_alarm msg (g # gs) as ns =
     (let (a, n) = alarm_entry unm_info unm_alarm msg g
      in alarm_entries unm_info unm_alarm msg gs (as @ a) (ns @ n))"

definition parseAlarmData ::
  "(bytes \<Rightarrow> string + AlarmInfo) \<Rightarrow> (bytes \<Rightarrow> string + CurrentAlarm) \<Rightarrow> Telemetry \<Rightarrow>
   AlarmReportMetric list \<times> NotificationReportMetric list"
where
  "parseAlarmData unm_info unm_alarm msg = alarm_entries unm_info unm_alarm msg (tel_DataGpb msg) [] []"

section \<open>Lemmas\<close>

lemma alarm_entries_eq:
  "alarm_entries unm_info unm_alarm msg gs as ns =
     (as @ concat (map (fst o alarm_entry unm_info unm_alarm msg) gs),
      ns @ concat (map (snd o alarm_entry unm_info unm_alarm msg) gs))"
  by (induction gs arbitrary: as ns) (simp_all add: split_beta Let_def)

lemma parseAlarmData_eq:
  "parseAlarmData unm_info unm_alarm msg =
     (concat (map (fst o alarm_entry unm_info unm_alarm msg) (tel_DataGpb msg)),
      concat (map (snd o alarm_entry unm_info unm_alarm msg) (tel_DataGpb msg)))"
  by (simp add: parseAlarmData_def alarm_entries_eq)

text \<open>An alarm keeps its flow number, its times and its point, and its identity.\<close>

lemma current_alarm_metric_ids [simp]:
  "am_SystemID (current_alarm_metric s t a) = s"
  "am_FlowID (current_alarm_metric s t a) = ca_FlowId a"
  "am_AlarmTimestamp (current_alarm_metric s t a) = ca_Timestamp a"
  "am_Timestamp (current_alarm_metric s t a) = msg_time t"
  by (simp_all add: current_alarm_metric_def)

lemma notification_metric_ids [simp]:
  "nm_SystemID (notification_metric s t n) = s"
  "nm_FlowID (notification_metric s t n) = nt_FlowId n"
  "nm_NotificationTimestamp (notification_metric s t n) = nt_Timestamp n"
  "nm_Timestamp (notification_metric s t n) = msg_time t"
  by (simp_all add: notification_metric_def)

text \<open>The hexadecimal text of a detection point gives the point back.\<close>

lemma tpid_roundtrip:
  "map_option unhex (am_Tpid (current_alarm_metric s t a)) = (if ca_Tpid a = [] then None else Some (ca_Tpid a))"
  by (simp add: current_alarm_metric_def bytesToBase64Ptr_def)

text \<open>
  On an unknown path an entry that also decodes as a \<open>CurrentAlarm\<close> is always taken for alarms: its
  notifications are never looked at.
\<close>

lemma alarm_entry_default:
  assumes "\<not> is_alarm_path msg" and "unm_alarm (gpb_Content g) = Inr a"
  shows "is_notification_path msg \<or> snd (alarm_entry unm_info unm_alarm msg g) = []"
  using assms
  by (auto simp: alarm_entry_def parseCurrentAlarmReportFromGpb_def Let_def split: sum.splits list.splits)

end
