(* ===== verification/Telemetry_Parser.thy ===== *)
theory Telemetry_Parser
  imports Interface_Parser Alarm_Parser "HOL-Library.Sublist"
begin

text \<open>
  The dispatcher of \<^verbatim>\<open>internal/parser/telemetry_parser.go\<close>: \<open>ParseTelemetryData\<close> decodes the envelope and
  hands it to the alarm parser or, by its sensor path, to the first handler of the route table
  that matches.  The decoders are the record \<open>decoders\<close>; the routes carry a name for their handler,
  which \<open>run_route\<close> calls.

  Lemmas: the table is ordered so that the first match is the longest one (\<open>routes_longest\<close>), every
  path reaches at most one handler, and every metric of a result carries the system and the time of
  its message.
\<close>

record decoders =
  dec_Telemetry :: "bytes \<Rightarrow> string + Telemetry"
  dec_ComponentInfo :: "bytes \<Rightarrow> string + ComponentInfo"
  dec_InterfaceInfo :: "bytes \<Rightarrow> string + InterfaceInfo"
  dec_AlarmInfo :: "bytes \<Rightarrow> string + AlarmInfo"
  dec_CurrentAlarm :: "bytes \<Rightarrow> string + CurrentAlarm"

record ParseResult =
  pr_SystemID :: string
  pr_SensorPath :: string
  pr_Timestamp :: gtime
  pr_PlatformMetrics :: "PlatformMetric list"
  pr_InterfaceMetrics :: "InterfaceMetric list"
  pr_SubinterfaceMetrics :: "SubinterfaceMetric list"
  pr_AlarmReportMetrics :: "AlarmReportMetric list"
  pr_NotificationReportMetrics :: "NotificationReportMetric list"

section \<open>The route table\<close>

datatype route =
    R_ComponentsData | R_Transceiver | R_CPU | R_Linecard | R_PowerSupply | R_Fan | R_Memory
  | R_Storage | R_Temperature | R_Component
  | R_SubCounters | R_SubZte | R_SubState
  | R_Counters | R_Zte | R_State

record routeEntry =
  re_prefix :: string
  re_handler :: route
  re_exact :: bool

definition routes :: "routeEntry list" where
  "routes =
    [\<lparr>re_prefix = ''oc-platform:components/component'', re_handler = R_ComponentsData, re_exact = True\<rparr>,
     \<lparr>re_prefix = ''oc-platform:components/component/oc-transceiver:transceiver/state'',
      re_handler = R_Transceiver, re_exact = False\<rparr>,
     \<lparr>re_prefix = ''oc-platform:components/component/cpu/oc-cpu:utilization/state'',
      re_handler = R_CPU, re_exact = False\<rparr>,
     \<lparr>re_prefix = ''oc-platform:components/component/oc-linecard:linecard/state'',
      re_handler = R_Linecard, re_exact = False\<rparr>,
     \<lparr>re_prefix = ''oc-platform:components/component/power-supply/state'',
      re_handler = R_PowerSupply, re_exact = False\<rparr>,
     \<lparr>re_prefix = ''oc-platform:components/component/fan/state'', re_handler = R_Fan, re_exact = False\<rparr>,
     \<lparr>re_prefix = ''oc-platform:components/component/state/memory'',
      re_handler = R_Memory, re_exact = False\<rparr>,
     \<lparr>re_prefix = ''oc-platform:components/component/state/storage'',
      re_handler = R_Storage, re_exact = False\<rparr>,
     \<lparr>re_prefix = ''oc-platform:components/component/state/temperature'',
      re_handler = R_Temperature, re_exact = False\<rparr>,
     \<lparr>re_prefix = ''oc-platform:components/component/state'', re_handler = R_Component, re_exact = False\<rparr>,
     \<lparr>re_prefix = ''oc-if:interfaces/interface/subinterfaces/subinterface/state/counters'',
      re_handler = R_SubCounters, re_exact = False\<rparr>,
     \<lparr>re_prefix = ''oc-if:interfaces/interface/subinterfaces/subinterface/zte-if:state-period'',
      re_handler = R_SubZte, re_exact = False\<rparr>,
     \<lparr>re_prefix = ''oc-if:interfaces/interface/subinterfaces/subinterface/state'',
      re_handler = R_SubState, re_exact = False\<rparr>,
     \<lparr>re_prefix = ''oc-if:interfaces/interface/state/counters'', re_handler = R_Counters, re_exact = False\<rparr>,
     \<lparr>re_prefix = ''oc-if:interfaces/interface/zte-if:state-period'', re_handler = R_Zte, re_exact = False\<rparr>,
     \<lparr>re_prefix = ''oc-if:interfaces/interface/state'', re_handler = R_State, re_exact = False\<rparr>]"

definition route_matches :: "string \<Rightarrow> routeEntry \<Rightarrow> bool" where
  "route_matches sensorPath r \<longleftrightarrow>
     (if re_exact r then sensorPath = re_prefix r else prefix (re_prefix r) sensorPath)"

definition find_route :: "string \<Rightarrow> routeEntry option" where
  "find_route sensorPath = List.find (route_matches sensorPath) routes"

text \<open>Calling a handler and storing its metrics by their type.\<close>

definition set_platform :: "ParseResult \<Rightarrow> parse_error + PlatformMetric list \<Rightarrow> parse_error + ParseResult" where
  "set_platform result r =
     (case r of Inl e \<Rightarrow> Inl e | Inr v \<Rightarrow> Inr (result\<lparr>pr_PlatformMetrics := v\<rparr>))"

definition set_interface :: "ParseResult \<Rightarrow> parse_error + InterfaceMetric list \<Rightarrow> parse_error + ParseResult" where
  "set_interface result r =
     (case r of Inl e \<Rightarrow> Inl e | Inr v \<Rightarrow> Inr (result\<lparr>pr_InterfaceMetrics := v\<rparr>))"

definition set_subinterface ::
  "ParseResult \<Rightarrow> parse_error + SubinterfaceMetric list \<Rightarrow> parse_error + ParseResult"
where
  "set_subinterface result r =
     (case r of Inl e \<Rightarrow> Inl e | Inr v \<Rightarrow> Inr (result\<lparr>pr_SubinterfaceMetrics := v\<rparr>))"

definition run_route :: "decoders \<Rightarrow> route \<Rightarrow> Telemetry \<Rightarrow> ParseResult \<Rightarrow> parse_error + ParseResult" where
  "run_route d r msg result =
     (case r of
        R_ComponentsData \<Rightarrow> set_platform result (parseComponentsData (dec_ComponentInfo d) msg)
      | R_Transceiver \<Rightarrow> set_platform result (parseComponentTransceiverState (dec_ComponentInfo d) msg)
      | R_CPU \<Rightarrow> set_platform result (parseComponentCPUState (dec_ComponentInfo d) msg)
      | R_Linecard \<Rightarrow> set_platform result (parseComponentLinecardState (dec_ComponentInfo d) msg)
      | R_PowerSupply \<Rightarrow> set_platform result (parseComponentPowerSupplyState (dec_ComponentInfo d) msg)
      | R_Fan \<Rightarrow> set_platform result (parseComponentFanState (dec_ComponentInfo d) msg)
      | R_Memory \<Rightarrow> set_platform result (parseComponentMemoryState (dec_ComponentInfo d) msg)
      | R_Storage \<Rightarrow> set_platform result (parseComponentStorageState (dec_ComponentInfo d) msg)
      | R_Temperature \<Rightarrow> set_platform result (parseComponentTemperatureState (dec_ComponentInfo d) msg)
      | R_Component \<Rightarrow> set_platform result (parseComponentState (dec_ComponentInfo d) msg)
      | R_SubCounters \<Rightarrow> set_subinterface result (parseSubinterfaceCounters (dec_InterfaceInfo d) msg)
      | R_SubZte \<Rightarrow> set_subinterface result (parseSubinterfaceZteState (dec_InterfaceInfo d) msg)
      | R_SubState \<Rightarrow> set_subinterface result (parseSubinterfaceState (dec_InterfaceInfo d) msg)
      | R_Counters \<Rightarrow> set_interface result (parseInterfaceCounters (dec_InterfaceInfo d) msg)
      | R_Zte \<Rightarrow> set_interface result (parseInterfaceZteState (dec_InterfaceInfo d) msg)
      | R_State \<Rightarrow> set_interface result (parseInterfaceState (dec_InterfaceInfo d) msg))"

text \<open>The value of \<^verbatim>\<open>zteTelemetry.TelemetryDataType_ALARM\<close>.\<close>

definition DataType_ALARM :: int32 where
  "DataType_ALARM = 1"

definition ParseTelemetryData :: "decoders \<Rightarrow> bytes \<Rightarrow> parse_error + ParseResult" where
  "ParseTelemetryData d data =
     (case dec_Telemetry d data of
        Inl err \<Rightarrow> Inl (TelemetryInvalid err)
      | Inr msg \<Rightarrow>
          let result = \<lparr>pr_SystemID = tel_SystemId msg, pr_SensorPath = tel_SensorPath msg,
                        pr_Timestamp = msg_time (tel_MsgTimestamp msg), pr_PlatformMetrics = [],
                        pr_InterfaceMetrics = [], pr_SubinterfaceMetrics = [],
                        pr_AlarmReportMetrics = [], pr_NotificationReportMetrics = []\<rparr>
          in if tel_DataType msg = DataType_ALARM
             then let (alarms, notifications) =
                        parseAlarmData (dec_AlarmInfo d) (dec_CurrentAlarm d) msg
                  in Inr (result\<lparr>pr_AlarmReportMetrics := alarms,
                                 pr_NotificationReportMetrics := notifications\<rparr>)
             else (case find_route (tel_SensorPath msg) of
                     None \<Rightarrow> Inr result
                   | Some r \<Rightarrow> run_route d (re_handler r) msg result))"

section \<open>The order of the table\<close>

text \<open>
  A later entry never has a prefix that extends the one of an earlier inexact entry: so the first
  match is the most specific one.
\<close>

definition well_ordered :: "routeEntry list \<Rightarrow> bool" where
  "well_ordered rs \<longleftrightarrow>
     (\<forall>i < length rs. \<forall>j < length rs. i < j \<longrightarrow> \<not> re_exact (rs ! i) \<longrightarrow>
        \<not> prefix (re_prefix (rs ! i)) (re_prefix (rs ! j)))"

fun well_ordered_exec :: "routeEntry list \<Rightarrow> bool" where
  "well_ordered_exec [] \<longleftrightarrow> True"
| "well_ordered_exec (r # rs) \<longleftrightarrow>
     (re_exact r \<or> list_all (\<lambda>r'. \<not> prefix (re_prefix r) (re_prefix r')) rs) \<and> well_ordered_exec rs"

lemma find_Some_first:
  "List.find P xs = Some x \<longleftrightarrow> (\<exists>i < length xs. x = xs ! i \<and> P x \<and> (\<forall>j < i. \<not> P (xs ! j)))"
  by (auto simp: find_Some_iff)

lemma well_ordered_later:
  "well_ordered_exec rs \<Longrightarrow> i < j \<Longrightarrow> j < length rs \<Longrightarrow> \<not> re_exact (rs ! i) \<Longrightarrow>
   \<not> prefix (re_prefix (rs ! i)) (re_prefix (rs ! j))"
proof (induction rs arbitrary: i j)
  case (Cons r rs)
  then obtain j' where j: "j = Suc j'" by (cases j) auto
  show ?case
  proof (cases i)
    case 0
    then show ?thesis using Cons.prems j by (auto simp: list_all_iff)
  next
    case (Suc i')
    then show ?thesis using Cons.prems j Cons.IH [of i' j'] by simp
  qed
qed simp

lemma routes_well_ordered: "well_ordered_exec routes"
  by (simp add: routes_def)

text \<open>Two prefixes of one path are comparable; the matching entries are a chain.\<close>

lemma routes_longest:
  assumes "find_route p = Some r" and "\<not> re_exact r"
    and "r' \<in> set routes" and "\<not> re_exact r'" and "prefix (re_prefix r') p"
  shows "prefix (re_prefix r') (re_prefix r)"
proof -
  obtain i where i: "i < length routes" "r = routes ! i" "route_matches p r"
    and before: "\<forall>j < i. \<not> route_matches p (routes ! j)"
    using assms(1) unfolding find_route_def find_Some_first by blast
  obtain j where j: "j < length routes" "r' = routes ! j"
    using assms(3) by (auto simp: in_set_conv_nth)
  have m': "route_matches p r'" using assms(4,5) by (simp add: route_matches_def)
  then have "i \<le> j" using before j by (meson not_le)
  have rp: "prefix (re_prefix r) p" using i(3) assms(2) by (simp add: route_matches_def)
  show ?thesis
  proof (cases "i = j")
    case True
    then show ?thesis using i j by simp
  next
    case False
    then have "\<not> prefix (re_prefix r) (re_prefix r')"
      using \<open>i \<le> j\<close> i j assms(2) well_ordered_later [OF routes_well_ordered, of i j] by simp
    then show ?thesis using rp assms(5) prefix_same_cases by blast
  qed
qed

section \<open>What a result carries\<close>

lemma entries_decoded:
  assumes "entries_skip unm entry gs [] = Inr ms \<or> entries_strict unm entry gs [] = Inr ms"
    and "m \<in> set ms"
  shows "\<exists>i. i \<in> set (decoded unm gs) \<and> m \<in> set (entry i)"
  using assms
  by (auto simp: entries_skip_eq entries_strict_eq split: list.splits)

lemmas platform_handlers = parseComponentState_def parseComponentsData_def parseComponentFanState_def
  parseComponentMemoryState_def parseComponentStorageState_def parseComponentTemperatureState_def
  parseComponentPowerSupplyState_def parseComponentLinecardState_def parseComponentCPUState_def
  parseComponentTransceiverState_def

lemmas interface_handlers = parseInterfaceState_def parseInterfaceZteState_def
  parseInterfaceCounters_def

lemmas subinterface_handlers = parseSubinterfaceState_def parseSubinterfaceZteState_def
  parseSubinterfaceCounters_def

text \<open>Each platform handler is one of the two loops over an entry function that stamps its metrics.\<close>

definition stamps :: "Telemetry \<Rightarrow> ('i \<Rightarrow> 'm list) \<Rightarrow> ('m \<Rightarrow> gtime) \<Rightarrow> ('m \<Rightarrow> string) \<Rightarrow> bool" where
  "stamps msg entry time sys \<longleftrightarrow>
     (\<forall>i. \<forall>m \<in> set (entry i). time m = msg_time (tel_MsgTimestamp msg) \<and> sys m = tel_SystemId msg)"

definition loops_over ::
  "(parse_error + 'm list) \<Rightarrow> (bytes \<Rightarrow> string + 'i) \<Rightarrow> ('i \<Rightarrow> 'm list) \<Rightarrow> Telemetry \<Rightarrow> bool"
where
  "loops_over r unm entry msg \<longleftrightarrow>
     r = Inl DataGpbEmpty \<or> r = entries_skip unm entry (tel_DataGpb msg) [] \<or>
     r = entries_strict unm entry (tel_DataGpb msg) []"

lemma loops_stamped:
  assumes "loops_over r unm entry msg" and "stamps msg entry time sys" and "r = Inr ms" and "m \<in> set ms"
  shows "time m = msg_time (tel_MsgTimestamp msg) \<and> sys m = tel_SystemId msg"
proof -
  from assms(1,3) have "entries_skip unm entry (tel_DataGpb msg) [] = Inr ms \<or>
      entries_strict unm entry (tel_DataGpb msg) [] = Inr ms"
    by (auto simp: loops_over_def)
  from entries_decoded [OF this assms(4)] show ?thesis using assms(2) by (auto simp: stamps_def)
qed

lemma platform_stamps:
  "stamps msg (component_state_entry msg) pm_Timestamp pm_SystemID"
  "stamps msg (components_entry msg) pm_Timestamp pm_SystemID"
  "stamps msg (fan_entry msg) pm_Timestamp pm_SystemID"
  "stamps msg (memory_entry msg) pm_Timestamp pm_SystemID"
  "stamps msg (storage_entry msg) pm_Timestamp pm_SystemID"
  "stamps msg (temperature_entry msg) pm_Timestamp pm_SystemID"
  "stamps msg (power_entry msg) pm_Timestamp pm_SystemID"
  "stamps msg (linecard_entry msg) pm_Timestamp pm_SystemID"
  "stamps msg (cpu_entry msg) pm_Timestamp pm_SystemID"
  "stamps msg (transceiver_entry msg) pm_Timestamp pm_SystemID"
  using components_entry_ids
  by (auto simp: stamps_def platform_entry_defs split: option.splits)

lemma interface_stamps:
  "stamps msg (interface_state_entry msg) im_Timestamp im_SystemID"
  "stamps msg (interface_zte_entry msg) im_Timestamp im_SystemID"
  "stamps msg (interface_counters_entry msg) im_Timestamp im_SystemID"
  using interface_entries_ids by (auto simp: stamps_def)

lemma subinterface_stamps:
  "stamps msg (subinterface_state_entry msg) sm_Timestamp sm_SystemID"
  "stamps msg (subinterface_zte_entry msg) sm_Timestamp sm_SystemID"
  "stamps msg (subinterface_counters_entry msg) sm_Timestamp sm_SystemID"
  using subinterface_entry_ids by (auto simp: stamps_def)

lemma platform_loops:
  "loops_over (parseComponentState u msg) u (component_state_entry msg) msg"
  "loops_over (parseComponentsData u msg) u (components_entry msg) msg"
  "loops_over (parseComponentFanState u msg) u (fan_entry msg) msg"
  "loops_over (parseComponentMemoryState u msg) u (memory_entry msg) msg"
  "loops_over (parseComponentStorageState u msg) u (storage_entry msg) msg"
  "loops_over (parseComponentTemperatureState u msg) u (temperature_entry msg) msg"
  "loops_over (parseComponentPowerSupplyState u msg) u (power_entry msg) msg"
  "loops_over (parseComponentLinecardState u msg) u (linecard_entry msg) msg"
  "loops_over (parseComponentCPUState u msg) u (cpu_entry msg) msg"
  "loops_over (parseComponentTransceiverState u msg) u (transceiver_entry msg) msg"
  by (simp_all add: platform_handlers loops_over_def)

lemma interface_loops:
  "loops_over (parseInterfaceState v msg) v (interface_state_entry msg) msg"
  "loops_over (parseInterfaceZteState v msg) v (interface_zte_entry msg) msg"
  "loops_over (parseInterfaceCounters v msg) v (interface_counters_entry msg) msg"
  by (simp_all add: interface_handlers loops_over_def)

lemma subinterface_loops:
  "loops_over (parseSubinterfaceState v msg) v (subinterface_state_entry msg) msg"
  "loops_over (parseSubinterfaceZteState v msg) v (subinterface_zte_entry msg) msg"
  "loops_over (parseSubinterfaceCounters v msg) v (subinterface_counters_entry msg) msg"
  by (simp_all add: subinterface_handlers loops_over_def)

text \<open>What every handler promises: its metrics are stamped, and only the list of its kind is set.\<close>

definition platform_stamped :: "Telemetry \<Rightarrow> PlatformMetric list \<Rightarrow> bool" where
  "platform_stamped msg ms \<longleftrightarrow>
     (\<forall>m \<in> set ms. pm_Timestamp m = msg_time (tel_MsgTimestamp msg) \<and> pm_SystemID m = tel_SystemId msg)"

definition interface_stamped :: "Telemetry \<Rightarrow> InterfaceMetric list \<Rightarrow> bool" where
  "interface_stamped msg ms \<longleftrightarrow>
     (\<forall>m \<in> set ms. im_Timestamp m = msg_time (tel_MsgTimestamp msg) \<and> im_SystemID m = tel_SystemId msg)"

definition subinterface_stamped :: "Telemetry \<Rightarrow> SubinterfaceMetric list \<Rightarrow> bool" where
  "subinterface_stamped msg ms \<longleftrightarrow>
     (\<forall>m \<in> set ms. sm_Timestamp m = msg_time (tel_MsgTimestamp msg) \<and> sm_SystemID m = tel_SystemId msg)"

lemma set_platform_stamped:
  assumes "set_platform result h = Inr r" and "loops_over h unm entry msg"
    and "stamps msg entry pm_Timestamp pm_SystemID"
  shows "\<exists>ms. r = result\<lparr>pr_PlatformMetrics := ms\<rparr> \<and> platform_stamped msg ms"
  using assms(1) loops_stamped [OF assms(2,3)]
  by (auto simp: set_platform_def platform_stamped_def split: sum.splits)

lemma set_interface_stamped:
  assumes "set_interface result h = Inr r" and "loops_over h unm entry msg"
    and "stamps msg entry im_Timestamp im_SystemID"
  shows "\<exists>ms. r = result\<lparr>pr_InterfaceMetrics := ms\<rparr> \<and> interface_stamped msg ms"
  using assms(1) loops_stamped [OF assms(2,3)]
  by (auto simp: set_interface_def interface_stamped_def split: sum.splits)

lemma set_subinterface_stamped:
  assumes "set_subinterface result h = Inr r" and "loops_over h unm entry msg"
    and "stamps msg entry sm_Timestamp sm_SystemID"
  shows "\<exists>ms. r = result\<lparr>pr_SubinterfaceMetrics := ms\<rparr> \<and> subinterface_stamped msg ms"
  using assms(1) loops_stamped [OF assms(2,3)]
  by (auto simp: set_subinterface_def subinterface_stamped_def split: sum.splits)

lemma run_route_stamped:
  assumes "run_route d h msg result = Inr r"
  shows "(\<exists>ms. r = result\<lparr>pr_PlatformMetrics := ms\<rparr> \<and> platform_stamped msg ms) \<or>
         (\<exists>ms. r = result\<lparr>pr_InterfaceMetrics := ms\<rparr> \<and> interface_stamped msg ms) \<or>
         (\<exists>ms. r = result\<lparr>pr_SubinterfaceMetrics := ms\<rparr> \<and> subinterface_stamped msg ms)"
  using assms
  by (cases h)
    (simp_all add: run_route_def,
     (drule set_platform_stamped set_interface_stamped set_subinterface_stamped,
      rule platform_loops interface_loops subinterface_loops,
      rule platform_stamps interface_stamps subinterface_stamps, blast)+)

text \<open>The alarm parser stamps its reports too.\<close>

lemma alarm_entry_stamped:
  "a \<in> set (fst (alarm_entry ui ua msg g)) \<Longrightarrow>
     am_Timestamp a = msg_time (tel_MsgTimestamp msg) \<and> am_SystemID a = tel_SystemId msg"
  "n \<in> set (snd (alarm_entry ui ua msg g)) \<Longrightarrow>
     nm_Timestamp n = msg_time (tel_MsgTimestamp msg) \<and> nm_SystemID n = tel_SystemId msg"
  by (auto simp: alarm_entry_def parseCurrentAlarmReportFromGpb_def parseNotificationReportFromGpb_def
      Let_def split: if_splits sum.splits list.splits)

lemma parseAlarmData_stamped:
  assumes "parseAlarmData ui ua msg = (as, ns)"
  shows "(\<forall>a \<in> set as. am_Timestamp a = msg_time (tel_MsgTimestamp msg) \<and> am_SystemID a = tel_SystemId msg) \<and>
         (\<forall>n \<in> set ns. nm_Timestamp n = msg_time (tel_MsgTimestamp msg) \<and> nm_SystemID n = tel_SystemId msg)"
  using assms alarm_entry_stamped by (auto simp: parseAlarmData_eq)

end
