(* ===== verification/Parser_Properties.thy ===== *)
theory Parser_Properties
  imports Telemetry_Parser Model_Helpers
begin

text \<open>
  The properties of the parser: which handler a message reaches, what its metrics carry, what an
  entry that does not decode means, and what the conversions keep.
\<close>

section \<open>Inputs for the witnesses\<close>

definition demo_message :: "string \<Rightarrow> Telemetry" where
  "demo_message path =
     \<lparr>tel_SystemId = ''r1'', tel_SubscriptionId = [], tel_MngIpv4 = [], tel_MngIpv6 = [], tel_DataType = 0,
      tel_SensorPath = path, tel_ProtoPath = [], tel_CollectionId = 0, tel_CollectionStartTime = 0,
      tel_MsgTimestamp = 1500, tel_CollectionEndTime = 0, tel_CurrentPeriod = 0,
      tel_DataGpb = [\<lparr>gpb_Timestamp = 0, gpb_Content = [1]\<rparr>, \<lparr>gpb_Timestamp = 0, gpb_Content = []\<rparr>],
      tel_JsonIetfVal = []\<rparr>"

definition demo_cpu :: CpuInfo where
  "demo_cpu = \<lparr>cpi_Instant = 7, cpi_Avg = 0, cpi_Min = 0, cpi_Max = 0, cpi_Interval = 0, cpi_MinTime = 0,
     cpi_MaxTime = 0, cpi_AlarmStatus = 0\<rparr>"

definition demo_component :: ComponentInfo where
  "demo_component =
     \<lparr>ci_Name = ''cpu0'', ci_CommonState = None, ci_TempInfo = None, ci_MemInfo = None,
      ci_CpuInfo = Some demo_cpu, ci_PowerAdminState = None, ci_FanInfo = None, ci_PowerInfo = None,
      ci_StorageInfo = None, ci_OpticalInfo = None, ci_OpticalchanInfo = []\<rparr>"

definition demo_alarm :: CurrentAlarm where
  "demo_alarm =
     \<lparr>ca_FlowId = 7, ca_Timestamp = 9, ca_Code = 1, ca_OccurrenceTime = 0, ca_UpdateTime = 0,
      ca_DisappearedTime = 0, ca_OccurrenceMs = 0, ca_UpdateMs = 0, ca_DisappearedMs = 0,
      ca_AlarmClass = [], ca_AlarmType = [], ca_AlarmStatus = [], ca_Sort = 0, ca_Severity = [],
      ca_TpidType = 0, ca_TpidLength = 2, ca_Tpid = [1, 255], ca_ProtectGroupWorkStatus = 0,
      ca_ProtectType = 0, ca_Reason = 0, ca_ReturnMode = [], ca_ProtectTpidType = 0,
      ca_ProtectTpidLength = 0, ca_ProtectTpid = [], ca_SourceTpidType = 0, ca_SourceTpidLength = 0,
      ca_SourceTpid = [], ca_SwtichTpidType = 0, ca_PreviousTpidLength = 0, ca_CurrentTpidLength = 0,
      ca_PreviousTpid = [], ca_CurrentTpid = [], ca_PerfAlarmPeriod = [], ca_PerfAlarmType = [],
      ca_PerfAlarmValue = [], ca_Description = [], ca_Caption = []\<rparr>"

definition demo_notification :: Notification where
  "demo_notification =
     \<lparr>nt_FlowId = 0, nt_Timestamp = 0, nt_Code = 0, nt_OccurTime = 0, nt_OccurMs = 0,
      nt_Classification = [], nt_Sort = 0, nt_Severity = [], nt_TpidType = 0, nt_TpidLength = 0,
      nt_Tpid = [], nt_Description = [], nt_Caption = []\<rparr>"

text \<open>Decoders that read an empty content as an error, and any other one as the message given.\<close>

definition demo_decoders :: "Telemetry \<Rightarrow> decoders" where
  "demo_decoders msg =
     \<lparr>dec_Telemetry = (\<lambda>_. Inr msg),
      dec_ComponentInfo = (\<lambda>b. if b = [] then Inl ''empty'' else Inr demo_component),
      dec_InterfaceInfo = (\<lambda>_. Inl ''none''), dec_AlarmInfo = (\<lambda>_. Inl ''none''),
      dec_CurrentAlarm = (\<lambda>b. if b = [] then Inl ''empty'' else Inr demo_alarm)\<rparr>"

lemma demo_parse:
  "ParseTelemetryData (demo_decoders (demo_message ''oc-platform:components/component'')) b =
   Inr \<lparr>pr_SystemID = ''r1'', pr_SensorPath = ''oc-platform:components/component'',
        pr_Timestamp = msg_time 1500,
        pr_PlatformMetrics =
          components_entry (demo_message ''oc-platform:components/component'') demo_component,
        pr_InterfaceMetrics = [], pr_SubinterfaceMetrics = [], pr_AlarmReportMetrics = [],
        pr_NotificationReportMetrics = []\<rparr>"
  by (simp add: ParseTelemetryData_def demo_decoders_def demo_message_def DataType_ALARM_def
      find_route_def routes_def route_matches_def run_route_def set_platform_def parseComponentsData_def)

section \<open>Dispatch\<close>

text \<open>C26. A sensor path is handled by the most specific entry of the route table: the prefix of every
  other entry that would match is a prefix of the one that was chosen.\<close>

theorem most_specific_route:
  assumes "find_route path = Some r" and "\<not> re_exact r" and "r' \<in> set routes" and "\<not> re_exact r'"
    and "prefix (re_prefix r') path"
  shows "prefix (re_prefix r') (re_prefix r) \<and> prefix (re_prefix r) path"
proof -
  have "route_matches path r" using assms(1) by (auto simp: find_route_def find_Some_iff)
  then have "prefix (re_prefix r) path" using assms(2) by (simp add: route_matches_def)
  then show ?thesis using routes_longest [OF assms] by simp
qed

theorem most_specific_route_witness:
  "prefix ''oc-platform:components/component/state'' ''oc-platform:components/component/state/memory''"
proof -
  let ?p = "''oc-platform:components/component/state/memory''"
  let ?r = "\<lparr>re_prefix = ?p, re_handler = R_Memory, re_exact = False\<rparr>"
  let ?r' = "\<lparr>re_prefix = ''oc-platform:components/component/state'', re_handler = R_Component,
      re_exact = False\<rparr>"
  have "find_route ?p = Some ?r" by (simp add: find_route_def routes_def route_matches_def)
  moreover have "?r' \<in> set routes" by (simp add: routes_def)
  ultimately show ?thesis using most_specific_route [of ?p ?r ?r'] by simp
qed

text \<open>C28. A result and every metric of it carry the system of the message it was decoded from and the time of that
  message (its field MsgTimestamp), and a result holds metrics of one family only: a message of the
  alarm type yields alarms and notifications, any other one metrics of at most one of the three measured kinds.\<close>

theorem results_stamped:
  assumes "dec_Telemetry d data = Inr msg" and "ParseTelemetryData d data = Inr r"
  shows "pr_SystemID r = tel_SystemId msg \<and> pr_Timestamp r = msg_time (tel_MsgTimestamp msg) \<and>
         map pm_SystemID (pr_PlatformMetrics r) = map (\<lambda>_. tel_SystemId msg) (pr_PlatformMetrics r) \<and>
         map pm_Timestamp (pr_PlatformMetrics r) = map (\<lambda>_. msg_time (tel_MsgTimestamp msg)) (pr_PlatformMetrics r) \<and>
         map im_SystemID (pr_InterfaceMetrics r) = map (\<lambda>_. tel_SystemId msg) (pr_InterfaceMetrics r) \<and>
         map im_Timestamp (pr_InterfaceMetrics r) = map (\<lambda>_. msg_time (tel_MsgTimestamp msg)) (pr_InterfaceMetrics r) \<and>
         map sm_SystemID (pr_SubinterfaceMetrics r) = map (\<lambda>_. tel_SystemId msg) (pr_SubinterfaceMetrics r) \<and>
         map sm_Timestamp (pr_SubinterfaceMetrics r) = map (\<lambda>_. msg_time (tel_MsgTimestamp msg)) (pr_SubinterfaceMetrics r) \<and>
         map am_SystemID (pr_AlarmReportMetrics r) = map (\<lambda>_. tel_SystemId msg) (pr_AlarmReportMetrics r) \<and>
         map am_Timestamp (pr_AlarmReportMetrics r) = map (\<lambda>_. msg_time (tel_MsgTimestamp msg)) (pr_AlarmReportMetrics r) \<and>
         map nm_SystemID (pr_NotificationReportMetrics r) = map (\<lambda>_. tel_SystemId msg) (pr_NotificationReportMetrics r) \<and>
         map nm_Timestamp (pr_NotificationReportMetrics r) =
           map (\<lambda>_. msg_time (tel_MsgTimestamp msg)) (pr_NotificationReportMetrics r) \<and>
         (if tel_DataType msg = DataType_ALARM
          then pr_PlatformMetrics r = [] \<and> pr_InterfaceMetrics r = [] \<and> pr_SubinterfaceMetrics r = []
          else pr_AlarmReportMetrics r = [] \<and> pr_NotificationReportMetrics r = [] \<and>
            length (filter (\<lambda>b. b) [pr_PlatformMetrics r \<noteq> [], pr_InterfaceMetrics r \<noteq> [], pr_SubinterfaceMetrics r \<noteq> []]) \<le> 1)"
proof -
  let ?r0 = "\<lparr>pr_SystemID = tel_SystemId msg, pr_SensorPath = tel_SensorPath msg,
      pr_Timestamp = msg_time (tel_MsgTimestamp msg), pr_PlatformMetrics = [],
      pr_InterfaceMetrics = [], pr_SubinterfaceMetrics = [], pr_AlarmReportMetrics = [],
      pr_NotificationReportMetrics = []\<rparr>"
  show ?thesis
  proof (cases "tel_DataType msg = DataType_ALARM")
    case True
    obtain as ns where an: "parseAlarmData (dec_AlarmInfo d) (dec_CurrentAlarm d) msg = (as, ns)"
      by fastforce
    have "r = ?r0\<lparr>pr_AlarmReportMetrics := as, pr_NotificationReportMetrics := ns\<rparr>"
      using assms an True by (simp add: ParseTelemetryData_def Let_def)
    then show ?thesis using parseAlarmData_stamped [OF an] True by simp
  next
    case False
    show ?thesis
    proof (cases "find_route (tel_SensorPath msg)")
      case None
      then have "r = ?r0" using assms False by (simp add: ParseTelemetryData_def Let_def)
      then show ?thesis using False by simp
    next
      case (Some e)
      then have "run_route d (re_handler e) msg ?r0 = Inr r"
        using assms False by (simp add: ParseTelemetryData_def Let_def)
      from run_route_stamped [OF this] False show ?thesis
        by (auto simp: platform_stamped_def interface_stamped_def subinterface_stamped_def)
    qed
  qed
qed

theorem results_stamped_witness:
  "\<exists>m. components_entry (demo_message ''oc-platform:components/component'') demo_component = [m] \<and>
     pm_Timestamp m = msg_time 1500 \<and> pm_SystemID m = ''r1''"
proof -
  obtain m where m: "components_entry (demo_message ''oc-platform:components/component'') demo_component = [m]"
    by (simp add: components_entry_def Let_def)
  have "dec_Telemetry (demo_decoders (demo_message ''oc-platform:components/component'')) [] =
      Inr (demo_message ''oc-platform:components/component'')" by (simp add: demo_decoders_def)
  from results_stamped [OF this demo_parse] show ?thesis using m by (simp add: demo_message_def)
qed

section \<open>Entries that do not decode\<close>

text \<open>The two outcomes: the metrics of the entries that decode, or those of all entries unless one of them
  does not decode, in which case the first error is the outcome.\<close>

definition what_decodes :: "(bytes \<Rightarrow> string + 'i) \<Rightarrow> ('i \<Rightarrow> 'm list) \<Rightarrow> 'm handler" where
  "what_decodes unmarshal entry msg =
     (if tel_DataGpb msg = [] then Inl DataGpbEmpty
      else Inr (concat (map entry (decoded unmarshal (tel_DataGpb msg)))))"

definition all_or_error :: "(bytes \<Rightarrow> string + 'i) \<Rightarrow> ('i \<Rightarrow> 'm list) \<Rightarrow> 'm handler" where
  "all_or_error unmarshal entry msg =
     (if tel_DataGpb msg = [] then Inl DataGpbEmpty
      else case failures unmarshal (tel_DataGpb msg) of
             [] \<Rightarrow> Inr (concat (map entry (decoded unmarshal (tel_DataGpb msg))))
           | err # _ \<Rightarrow> Inl (InfoInvalid err))"

text \<open>C27. What an entry that does not decode means depends on the handler.  Of the sixteen handlers of the
  route table, five skip it and keep the rest of the message: those of the common state, the
  aggregate path, the fans, the memory and the interface counters.  The other eleven give up on the
  whole message with the error of the first such entry.  A message without entries is an error for all.\<close>

theorem undecodable_entries:
  "parseComponentState u msg = what_decodes u (component_state_entry msg) msg \<and>
   parseComponentsData u msg = what_decodes u (components_entry msg) msg \<and>
   parseComponentFanState u msg = what_decodes u (fan_entry msg) msg \<and>
   parseComponentMemoryState u msg = what_decodes u (memory_entry msg) msg \<and>
   parseInterfaceCounters v msg = what_decodes v (interface_counters_entry msg) msg \<and>
   parseComponentStorageState u msg = all_or_error u (storage_entry msg) msg \<and>
   parseComponentTemperatureState u msg = all_or_error u (temperature_entry msg) msg \<and>
   parseComponentPowerSupplyState u msg = all_or_error u (power_entry msg) msg \<and>
   parseComponentLinecardState u msg = all_or_error u (linecard_entry msg) msg \<and>
   parseComponentCPUState u msg = all_or_error u (cpu_entry msg) msg \<and>
   parseComponentTransceiverState u msg = all_or_error u (transceiver_entry msg) msg \<and>
   parseInterfaceState v msg = all_or_error v (interface_state_entry msg) msg \<and>
   parseInterfaceZteState v msg = all_or_error v (interface_zte_entry msg) msg \<and>
   parseSubinterfaceState v msg = all_or_error v (subinterface_state_entry msg) msg \<and>
   parseSubinterfaceZteState v msg = all_or_error v (subinterface_zte_entry msg) msg \<and>
   parseSubinterfaceCounters v msg = all_or_error v (subinterface_counters_entry msg) msg"
  by (simp_all add: platform_handlers interface_handlers subinterface_handlers entries_skip_eq entries_strict_eq
      what_decodes_def all_or_error_def split: list.split)

section \<open>Platform metrics\<close>

text \<open>C29. The aggregate path against the paths of single parts, for an entry that carries the part.  Temperature,
  fan and optical data are the same on both; CPU data are the same up to the alarm state, which the
  aggregate path leaves out when it is zero; memory data are the same up to the alarm state, which
  the aggregate path never leaves out, and the storage availability, which is that of the storage path; power
  data are the same but for the name and the state of the power supply, which the aggregate path never
  sets, and the state of the line card, which is that of the line card path.  The common state is that of its
  path, and empty, not absent, when the entry has none.  The other parts are absent when the entry has
  nothing for them.\<close>

theorem aggregate_parts:
  assumes "m \<in> set (components_entry msg i)"
  shows "pm_ComponentName m = ci_Name i \<and>
         (case component_state_entry msg i of
            [] \<Rightarrow> pm_CommonState m = Some CommonState_zero | s # _ \<Rightarrow> pm_CommonState m = pm_CommonState s) \<and>
         (case temperature_entry msg i of [] \<Rightarrow> pm_TempData m = None | s # _ \<Rightarrow> pm_TempData m = pm_TempData s) \<and>
         (case fan_entry msg i of [] \<Rightarrow> pm_FanData m = None | s # _ \<Rightarrow> pm_FanData m = pm_FanData s) \<and>
         (case transceiver_entry msg i of
            [] \<Rightarrow> pm_OpticalData m = None | s # _ \<Rightarrow> pm_OpticalData m = pm_OpticalData s) \<and>
         pm_CPUData m =
           (case cpu_entry msg i of
              [] \<Rightarrow> None
            | s # _ \<Rightarrow> map_option (\<lambda>c. if map_option cpi_AlarmStatus (ci_CpuInfo i) = Some 0
                then c\<lparr>cpu_CPUAlarmStatus := None\<rparr> else c) (pm_CPUData s)) \<and>
         map_option (mem_MemAlarmStatus_update (\<lambda>_. None)) (pm_MemData m) =
           (case (memory_entry msg i, storage_entry msg i) of
              ([], []) \<Rightarrow> None
            | ([], st # _) \<Rightarrow> pm_MemData st
            | (s # _, []) \<Rightarrow> map_option (mem_MemAlarmStatus_update (\<lambda>_. None)) (pm_MemData s)
            | (s # _, st # _) \<Rightarrow> map_option (\<lambda>d. d\<lparr>mem_MemAlarmStatus := None,
                mem_StorageAvailability := Option.bind (pm_MemData st) mem_StorageAvailability\<rparr>) (pm_MemData s)) \<and>
         (ci_MemInfo i \<noteq> None \<longrightarrow> Option.bind (pm_MemData m) mem_MemAlarmStatus =
            map_option (\<lambda>d. convertAlarmStatus (mi_AlarmStatus d)) (ci_MemInfo i)) \<and>
         pm_PowerData m =
           (case (power_entry msg i, linecard_entry msg i) of
              ([], []) \<Rightarrow> None
            | ([], l # _) \<Rightarrow> pm_PowerData l
            | (s # _, []) \<Rightarrow> map_option (\<lambda>d. d\<lparr>pwr_PowerName := None, pwr_PowerState := None\<rparr>) (pm_PowerData s)
            | (s # _, l # _) \<Rightarrow> map_option (\<lambda>d. d\<lparr>pwr_PowerName := None, pwr_PowerState := None,
                pwr_LinecardPowerAdminState := Option.bind (pm_PowerData l) pwr_LinecardPowerAdminState\<rparr>) (pm_PowerData s))"
proof -
  note parts = components_entry_parts [OF assms]
  have "pm_CPUData m =
           (case cpu_entry msg i of
              [] \<Rightarrow> None
            | s # _ \<Rightarrow> map_option (\<lambda>c. if map_option cpi_AlarmStatus (ci_CpuInfo i) = Some 0
                then c\<lparr>cpu_CPUAlarmStatus := None\<rparr> else c) (pm_CPUData s))"
    by (cases "ci_CpuInfo i") (simp_all add: parts(2) cpu_entry_def cpu_data_def cpu_data_component_def nanosToSeconds_def)
  moreover have "map_option (mem_MemAlarmStatus_update (\<lambda>_. None)) (pm_MemData m) =
           (case (memory_entry msg i, storage_entry msg i) of
              ([], []) \<Rightarrow> None
            | ([], st # _) \<Rightarrow> pm_MemData st
            | (s # _, []) \<Rightarrow> map_option (mem_MemAlarmStatus_update (\<lambda>_. None)) (pm_MemData s)
            | (s # _, st # _) \<Rightarrow> map_option (\<lambda>d. d\<lparr>mem_MemAlarmStatus := None,
                mem_StorageAvailability := Option.bind (pm_MemData st) mem_StorageAvailability\<rparr>) (pm_MemData s))"
    and "ci_MemInfo i \<noteq> None \<longrightarrow> Option.bind (pm_MemData m) mem_MemAlarmStatus =
            map_option (\<lambda>d. convertAlarmStatus (mi_AlarmStatus d)) (ci_MemInfo i)"
    by (cases "ci_MemInfo i"; cases "ci_StorageInfo i";
        simp add: parts(6) memory_entry_def storage_entry_def mem_data_def mem_data_component_def MemData_zero_def)+
  moreover have "pm_PowerData m =
           (case (power_entry msg i, linecard_entry msg i) of
              ([], []) \<Rightarrow> None
            | ([], l # _) \<Rightarrow> pm_PowerData l
            | (s # _, []) \<Rightarrow> map_option (\<lambda>d. d\<lparr>pwr_PowerName := None, pwr_PowerState := None\<rparr>) (pm_PowerData s)
            | (s # _, l # _) \<Rightarrow> map_option (\<lambda>d. d\<lparr>pwr_PowerName := None, pwr_PowerState := None,
                pwr_LinecardPowerAdminState := Option.bind (pm_PowerData l) pwr_LinecardPowerAdminState\<rparr>) (pm_PowerData s))"
    by (cases "ci_PowerInfo i"; cases "ci_PowerAdminState i";
        simp add: parts(7) power_entry_def linecard_entry_def power_data_def power_data_component_def PowerData_zero_def)
  ultimately show ?thesis
    using components_entry_ids [OF assms]
    by (simp add: parts(1,3-5) component_state_entry_def temperature_entry_def fan_entry_def transceiver_entry_def
        split: option.split)
qed

theorem aggregate_parts_witness:
  "\<exists>m s. components_entry (demo_message ''p'') demo_component = [m] \<and> cpu_entry (demo_message ''p'') demo_component = [s] \<and>
     pm_CPUData m = map_option (cpu_CPUAlarmStatus_update (\<lambda>_. None)) (pm_CPUData s) \<and> pm_FanData m = None"
proof -
  obtain m where m: "components_entry (demo_message ''p'') demo_component = [m]"
    by (simp add: components_entry_def Let_def)
  then have "m \<in> set (components_entry (demo_message ''p'') demo_component)" by simp
  from aggregate_parts [OF this] show ?thesis
    using m by (simp add: demo_component_def cpu_entry_def fan_entry_def demo_cpu_def)
qed

text \<open>The optical powers of a metric are never missing: a power that was not reported, and a reported
  power of zero, are both stored as -60; every other reported power is stored as it is.\<close>

lemma optical_power_default:
  "opt_OpticalInPower (optical_data oi) =
     Some (case oi_InPower oi of
             None \<Rightarrow> F_Num (- 60)
           | Some p \<Rightarrow> if f_is_zero (op_Instant p) then F_Num (- 60) else op_Instant p) \<and>
   opt_OpticalOutPower (optical_data oi) =
     Some (case oi_OutPower oi of
             None \<Rightarrow> F_Num (- 60)
           | Some p \<Rightarrow> if f_is_zero (op_Instant p) then F_Num (- 60) else op_Instant p)"
proof -
  have const: "\<And>(p :: 'a option) y. (case p of None \<Rightarrow> y | Some x \<Rightarrow> y) = y"
    by (simp split: option.split)
  show ?thesis
    unfolding optical_data_def Let_def
    by (simp add: option.case_distrib [of opt_OpticalInPower] option.case_distrib [of opt_OpticalOutPower]
        list.case_distrib [of opt_OpticalInPower] list.case_distrib [of opt_OpticalOutPower]
        option.case_eq_if opticalPowerPtr_def float64_of_float32_def split: option.split)
qed

section \<open>Alarms\<close>

text \<open>C30. On a path that names neither alarms nor notifications an entry that decodes as an alarm is
  taken for alarms: its notifications are never stored, and an entry in which no alarm is reported
  becomes an alarm of its own.\<close>

theorem fallback_hides_notifications:
  assumes "\<not> is_alarm_path msg" and "\<not> is_notification_path msg" and "ua (gpb_Content g) = Inr a"
    and "ui (gpb_Content g) = Inr info"
  shows "alarm_entry ui ua msg g =
         (case ai_AlarmReport info of
            [] \<Rightarrow> ([current_alarm_metric (tel_SystemId msg) (tel_MsgTimestamp msg) a], [])
          | as \<Rightarrow> (map (current_alarm_metric (tel_SystemId msg) (tel_MsgTimestamp msg)) as, []))"
  using assms
  by (auto simp: alarm_entry_def parseCurrentAlarmReportFromGpb_def Let_def split: list.split)

theorem fallback_hides_notifications_witness:
  "alarm_entry (\<lambda>_. Inr \<lparr>ai_AlarmReport = [], ai_NotificationReport = [demo_notification]\<rparr>) (\<lambda>_. Inr demo_alarm)
     (demo_message ''p'') \<lparr>gpb_Timestamp = 0, gpb_Content = [1]\<rparr> =
   ([current_alarm_metric ''r1'' 1500 demo_alarm], [])"
  using fallback_hides_notifications [of "demo_message ''p''" "\<lambda>_. Inr demo_alarm"
      "\<lparr>gpb_Timestamp = 0, gpb_Content = [1]\<rparr>" demo_alarm
      "\<lambda>_. Inr \<lparr>ai_AlarmReport = [], ai_NotificationReport = [demo_notification]\<rparr>"
      "\<lparr>ai_AlarmReport = [], ai_NotificationReport = [demo_notification]\<rparr>"]
  by (simp add: demo_message_def is_alarm_path_def is_notification_path_def)

section \<open>Texts and values\<close>

text \<open>C35. The texts and times the parser makes lose nothing: the hexadecimal text of a detection point gives its
  bytes back, an uptime text determines the seconds, the names of the subinterface metrics of an
  entry give back its port numbers, in order and on each of the three subinterface paths, and a timestamp in nanoseconds gives
  back its count.\<close>

theorem conversions_invertible:
  "map_option unhex (am_Tpid (current_alarm_metric sys t a)) = (if ca_Tpid a = [] then None else Some (ca_Tpid a)) \<and>
   (formatUptime s = formatUptime s' \<longleftrightarrow> s = s') \<and>
   map (\<lambda>m. undec (sm_SubinterfaceName m)) (subinterface_state_entry msg i) =
     map (\<lambda>p. unat (sui_SubPort p)) (ii_Subinterface i) \<and>
   map (\<lambda>m. undec (sm_SubinterfaceName m)) (subinterface_zte_entry msg i) =
     map (\<lambda>p. unat (sui_SubPort p)) (ii_Subinterface i) \<and>
   map (\<lambda>m. undec (sm_SubinterfaceName m)) (subinterface_counters_entry msg i) =
     map (\<lambda>p. unat (sui_SubPort p)) (ii_Subinterface i) \<and>
   nanos_of (nanosToTimestamp n) = uint n"
proof -
  have base: "sm_SubinterfaceName (subinterface_base msg i p) = dec (unat (sui_SubPort p))" for p
    by (simp add: subinterface_base_def)
  have set: "sm_SubinterfaceName (subinterface_state_metric a m) = sm_SubinterfaceName m"
    "sm_SubinterfaceName (subinterface_zte_metric b m) = sm_SubinterfaceName m"
    "sm_SubinterfaceName (subinterface_counters_metric c m) = sm_SubinterfaceName m" for a b c m
    by (simp_all add: subinterface_state_metric_def subinterface_zte_metric_def subinterface_counters_metric_def)
  have "map (\<lambda>m. undec (sm_SubinterfaceName m)) (subinterface_state_entry msg i) =
      map (\<lambda>p. unat (sui_SubPort p)) (ii_Subinterface i)"
    and "map (\<lambda>m. undec (sm_SubinterfaceName m)) (subinterface_zte_entry msg i) =
      map (\<lambda>p. unat (sui_SubPort p)) (ii_Subinterface i)"
    and "map (\<lambda>m. undec (sm_SubinterfaceName m)) (subinterface_counters_entry msg i) =
      map (\<lambda>p. unat (sui_SubPort p)) (ii_Subinterface i)"
    by (simp_all add: subinterface_state_entry_def subinterface_zte_entry_def subinterface_counters_entry_def
        Let_def base set undec_dec split: list.split)
  then show ?thesis using tpid_roundtrip by (simp add: formatUptime_eq FormatUptime_inject)
qed

end
