(* ===== verification/Database_Properties.thy ===== *)
theory Database_Properties
  imports Database_Laws
begin

text \<open>
  The properties of the database component: rows, columns and accessors agree, unsigned values wrap
  on their way into the table, an absent part is stored as NULLs, and an insert adds all its rows or
  none.
\<close>

section \<open>Rows, columns and accessors\<close>

lemma subinterface_accessor:
  assumes "5 \<le> k" and "k \<le> 64"
  shows "subinterface_row pf sm ! nat (k - 1) =
    as_stored pf (subinterface_columns ! nat (k - 1)) (getSubinterfaceFieldValue sm k)"
proof -
  have len: "length subinterface_tags = 64" by (simp add: subinterface_tags_def)
  have fields: "map snd (drop 4 subinterface_tags) = subinterface_fields"
    by (simp add: subinterface_tags_def subinterface_fields_def)
  let ?i = "nat (k - 5)"
  have i: "?i < 60" "nat (k - 1) = 4 + ?i" using assms by auto
  have "subinterface_fields ! ?i = snd (subinterface_tags ! (4 + ?i))"
    unfolding fields [symmetric] using i(1) by (simp add: len)
  then show ?thesis
    using assms i by (simp add: subinterface_aligned getSubinterfaceFieldValue_def len split_beta)
qed

text \<open>C31. The batch inserts and the three field accessors read the same fields.  The platform accessor, for a
  metric with all seven parts, gives at each of its indexes the cell that the row stores there (up to
  the dereferencing of pointers).  The subinterface accessor gives at each of its indexes the cell that
  the row stores there, and the interface accessor the cell stored in the column that the shipped table has at that
  index; for these two, texts of utilisations are stored as numbers.\<close>

theorem accessors_agree:
  "(all_parts m \<and> 4 \<le> k \<and> k \<le> 90 \<longrightarrow>
      (\<exists>c. getFieldValue m k = Ret c \<and> unpointer c = platform_row m ! nat (k - 1))) \<and>
   (4 \<le> k \<and> k \<le> 66 \<longrightarrow>
      column_cell interface_columns (interface_row pf im) (interface_schema ! nat (k - 1)) =
      Some (as_stored pf (interface_schema ! nat (k - 1)) (getInterfaceFieldValue im k))) \<and>
   (5 \<le> k \<and> k \<le> 64 \<longrightarrow>
      subinterface_row pf sm ! nat (k - 1) =
      as_stored pf (subinterface_columns ! nat (k - 1)) (getSubinterfaceFieldValue sm k))"
  using platform_accessor interface_accessor subinterface_accessor by blast

definition whole_platform :: PlatformMetric where
  "whole_platform = PlatformMetric_zero\<lparr>
     pm_CommonState := Some (CommonState_zero\<lparr>cs_UsedPower := Some 40\<rparr>), pm_CPUData := Some CPUData_zero,
     pm_MemData := Some MemData_zero, pm_TempData := Some TempData_zero, pm_FanData := Some FanData_zero,
     pm_PowerData := Some PowerData_zero, pm_OpticalData := Some OpticalData_zero\<rparr>"

theorem accessors_agree_witness:
  "\<exists>c. getFieldValue whole_platform 6 = Ret c \<and> unpointer c = VInt32 40 \<and>
     as_stored (\<lambda>_. None) ''admin_status''
       (getSubinterfaceFieldValue (SubinterfaceMetric_zero\<lparr>sm_AdminStatusStr := Some ''UP''\<rparr>) 6) = PString (Some ''UP'')"
proof -
  let ?sm = "SubinterfaceMetric_zero\<lparr>sm_AdminStatusStr := Some ''UP''\<rparr>"
  have "all_parts whole_platform" by (simp add: whole_platform_def all_parts_def)
  note agree = accessors_agree [of whole_platform 6 "\<lambda>_. None" undefined ?sm]
  from this \<open>all_parts whole_platform\<close> obtain c where c: "getFieldValue whole_platform 6 = Ret c"
    and "unpointer c = platform_row whole_platform ! 5" by auto
  then have "unpointer c = VInt32 40"
    by (simp add: whole_platform_def platform_row_def Let_def safeCommon_def db_safeUint32_def)
  moreover have "as_stored (\<lambda>_. None) ''admin_status'' (getSubinterfaceFieldValue ?sm 6) = PString (Some ''UP'')"
    using agree by (simp add: subinterface_columns_def subinterface_row_def)
  ultimately show ?thesis using c by blast
qed

text \<open>C32. Every statement sends as many cells as it names columns, no column twice, and each column gets the
  field that the model tags with its name.  Platform and interface rows have a column for each tag, in
  an order of their own; subinterface rows all tags in their order; alarm and notification rows all
  tags in their order except the timestamp of the report, which is never stored.  Pointers are
  dereferenced on the way, and texts of utilisations turned into numbers.\<close>

theorem columns_aligned:
  "length (platform_row pm) = length platform_columns \<and> distinct platform_columns \<and>
   set (map fst platform_tags) = set platform_columns \<and>
   map (\<lambda>(c, f). column_cell platform_columns (platform_row pm) c) platform_tags =
     map (\<lambda>(c, f). Some (unpointer (f pm))) platform_tags \<and>
   length (interface_row pf im) = length interface_columns \<and> distinct interface_columns \<and>
   set (map fst interface_tags) = set interface_columns \<and>
   map (\<lambda>(c, f). column_cell interface_columns (interface_row pf im) c) interface_tags =
     map (\<lambda>(c, f). Some (as_stored pf c (f im))) interface_tags \<and>
   distinct subinterface_columns \<and> subinterface_columns = map fst subinterface_tags \<and>
   subinterface_row pf sm = map (\<lambda>(c, f). as_stored pf c (f sm)) subinterface_tags \<and>
   distinct alarmReport_columns \<and>
   alarmReport_columns = filter (\<lambda>c. c \<noteq> ''alarm_timestamp'') (map fst alarmReport_tags) \<and>
   map unpointer (alarmReport_row am) =
     map (\<lambda>(c, f). unpointer (f am)) (filter (\<lambda>(c, f). c \<noteq> ''alarm_timestamp'') alarmReport_tags) \<and>
   distinct notificationReport_columns \<and>
   notificationReport_columns =
     filter (\<lambda>c. c \<noteq> ''notification_timestamp'') (map fst notificationReport_tags) \<and>
   map unpointer (notificationReport_row nm) =
     map (\<lambda>(c, f). unpointer (f nm))
       (filter (\<lambda>(c, f). c \<noteq> ''notification_timestamp'') notificationReport_tags)"
proof -
  have "map (\<lambda>(c, f). column_cell platform_columns (platform_row pm) c) platform_tags =
      map (\<lambda>(c, f). Some (unpointer (f pm))) platform_tags"
    by (intro map_cong refl) (auto simp: platform_tagged(1))
  moreover have "map (\<lambda>(c, f). column_cell interface_columns (interface_row pf im) c) interface_tags =
      map (\<lambda>(c, f). Some (as_stored pf c (f im))) interface_tags"
    by (intro map_cong refl) (auto simp: interface_tagged(1))
  ultimately show ?thesis
    by (intro conjI row_lengths columns_distinct platform_tagged(2) interface_tagged(2) subinterface_aligned
        alarm_aligned notification_aligned)
qed

text \<open>The part of a platform metric that an accessor index reads.\<close>

definition part_absent :: "int \<Rightarrow> PlatformMetric \<Rightarrow> bool" where
  "part_absent k m =
     (if k \<le> 15 then pm_CommonState m = None else if k \<le> 23 then pm_FanData m = None
      else if k \<le> 29 then pm_MemData m = None else if k \<le> 45 then pm_TempData m = None
      else if k \<le> 66 then pm_PowerData m = None else if k \<le> 74 then pm_CPUData m = None
      else pm_OpticalData m = None)"

lemma via_panic [simp]: "via p f = Panic \<longleftrightarrow> p = None"
  by (simp add: via_def split: option.split)

lemma safe_nil [simp]:
  "db_safeString None = CNil" "db_safeUint32 None = CNil" "db_safeUint64 None = CNil"
  "safeFloat64 None = CNil" "safeBool None = CNil" "safeTime None = CNil"
  by (simp_all add: db_safeString_def db_safeUint32_def db_safeUint64_def safeFloat64_def safeBool_def
      safeTime_def)

definition accessor_indexes :: "nat list" where
  "accessor_indexes =
     [4, 5, 6, 7, 8, 9, 10, 11, 12, 13, 14, 15, 16, 17, 18, 19, 20, 21, 22, 23, 24,
      25, 26, 27, 28, 29, 30, 31, 32, 33, 34, 35, 36, 37, 38, 39, 40, 41, 42, 43, 44, 45, 46, 47, 48, 49,
      50, 51, 52, 53, 54, 55, 56, 57, 58, 59, 60, 61, 62, 63, 64, 65, 66, 67, 68, 69, 70, 71, 72, 73, 74,
      75, 76, 77, 78, 79, 80, 81, 82, 83, 84, 85, 86, 87, 88, 89, 90]"

lemma accessor_indexes_upt: "accessor_indexes = [4..<91]"
  by code_simp

lemma length_indexes: "length accessor_indexes = 87"
  by (simp add: accessor_indexes_def)

lemma nth_indexes: "i < 87 \<Longrightarrow> accessor_indexes ! i = 4 + i"
  unfolding accessor_indexes_upt by (rule nth_upt) simp

lemma fields_panic:
  "map (\<lambda>f. f m = Panic) platform_fields = map (\<lambda>k. part_absent (int k) m) accessor_indexes"
  by (simp add: accessor_indexes_def platform_fields_defs part_absent_def)

lemma absent_nulls:
  assumes "part_absent k m" and "4 \<le> k" and "k \<le> 90"
  shows "platform_row m ! nat (k - 1) = CNil"
proof -
  have zeros: "pm_CommonState m = None \<Longrightarrow> safeCommon m = CommonState_zero"
    "pm_FanData m = None \<Longrightarrow> safeFan m = FanData_zero" "pm_MemData m = None \<Longrightarrow> safeMem m = MemData_zero"
    "pm_TempData m = None \<Longrightarrow> safeTemp m = TempData_zero"
    "pm_PowerData m = None \<Longrightarrow> safePower m = PowerData_zero" "pm_CPUData m = None \<Longrightarrow> safeCPU m = CPUData_zero"
    "pm_OpticalData m = None \<Longrightarrow> safeOptical m = OpticalData_zero"
    by (simp_all add: safeCommon_def safeFan_def safeMem_def safeTemp_def safePower_def safeCPU_def
        safeOptical_def)
  have "list_all (\<lambda>(k, c). part_absent (int k) m \<longrightarrow> c = CNil) (zip accessor_indexes (drop 3 (platform_row m)))"
    by (simp add: accessor_indexes_def platform_row_def Let_def part_absent_def zeros CommonState_zero_def FanData_zero_def
        MemData_zero_def TempData_zero_def PowerData_zero_def CPUData_zero_def OpticalData_zero_def)
  moreover have "(nat k, platform_row m ! nat (k - 1)) \<in> set (zip accessor_indexes (drop 3 (platform_row m)))"
  proof -
    let ?i = "nat (k - 4)" and ?row = "platform_row m"
    have i: "?i < 87" and k: "nat k = 4 + ?i" and k1: "nat (k - 1) = 3 + ?i" using assms(2,3) by auto
    have len: "length (drop 3 ?row) = 87" by (simp add: row_lengths platform_columns_def)
    have "?row ! (3 + ?i) = drop 3 ?row ! ?i"
      by (rule nth_drop [symmetric]) (simp add: row_lengths platform_columns_def)
    then have "(nat k, ?row ! nat (k - 1)) = zip accessor_indexes (drop 3 ?row) ! ?i"
      unfolding k1 k using i len by (simp add: nth_indexes length_indexes)
    moreover have "?i < length (zip accessor_indexes (drop 3 ?row))" using i len by (simp add: length_indexes)
    ultimately show ?thesis by (metis nth_mem)
  qed
  ultimately show ?thesis using assms by (auto simp: list_all_iff)
qed

text \<open>C33. A platform metric without one of its parts is stored with NULL in every column of that part,
  while reading a field of the part through the accessor crashes, and only then does it.\<close>

theorem absent_parts:
  assumes "4 \<le> k" and "k \<le> 90"
  shows "(getFieldValue m k = Panic \<longleftrightarrow> part_absent k m) \<and>
         (part_absent k m \<longrightarrow> platform_row m ! nat (k - 1) = CNil)"
proof -
  let ?i = "nat (k - 4)"
  have i: "?i < 87" and k: "nat k = 4 + ?i" using assms by auto
  have "(getFieldValue m k = Panic) = map (\<lambda>f. f m = Panic) platform_fields ! ?i"
    using assms i by (simp add: getFieldValue_def length_platform_fields)
  also have "\<dots> = map (\<lambda>k. part_absent (int k) m) accessor_indexes ! ?i" by (simp only: fields_panic)
  also have "\<dots> = part_absent (int (4 + ?i)) m"
    using i by (simp add: nth_indexes length_indexes)
  also have "\<dots> = part_absent k m" using assms k by simp
  finally show ?thesis using absent_nulls assms by simp
qed

theorem absent_parts_witness:
  "getFieldValue (whole_platform\<lparr>pm_FanData := None\<rparr>) 16 = Panic \<and>
   platform_row (whole_platform\<lparr>pm_FanData := None\<rparr>) ! 15 = CNil"
  using absent_parts [of 16 "whole_platform\<lparr>pm_FanData := None\<rparr>"]
  by (simp add: part_absent_def whole_platform_def)

section \<open>Unsigned values\<close>

lemma signed_take_bit_halves:
  fixes u :: int
  assumes "0 \<le> u" and "u < 2 ^ Suc n"
  shows "signed_take_bit n u = (if u < 2 ^ n then u else u - 2 ^ Suc n)"
proof (cases "u < 2 ^ n")
  case True
  then have "take_bit (Suc n) (u + 2 ^ n) = u + 2 ^ n"
    using assms(1) by (intro take_bit_int_eq_self) simp_all
  then show ?thesis using True by (simp add: signed_take_bit_eq_take_bit_shift)
next
  case False
  have "take_bit (Suc n) (u + 2 ^ n) = take_bit (Suc n) (u - 2 ^ n + 2 ^ Suc n)" by (simp add: add.commute)
  also have "\<dots> = take_bit (Suc n) (u - 2 ^ n)"
    by (simp only: take_bit_eq_mod mod_add_self2)
  also have "\<dots> = u - 2 ^ n"
    using False assms(2) by (intro take_bit_int_eq_self) simp_all
  finally show ?thesis using False by (simp add: signed_take_bit_eq_take_bit_shift)
qed

lemma sint_halves:
  fixes v :: uint32 and x :: uint64
  shows "sint v = (if uint v < 2 ^ 31 then uint v else uint v - 2 ^ 32)"
    and "sint x = (if uint x < 2 ^ 63 then uint x else uint x - 2 ^ 64)"
  using signed_take_bit_halves [of "uint v" 31] signed_take_bit_halves [of "uint x" 63]
    uint_lt2p [of v] uint_lt2p [of x]
  by (simp_all add: sint_uint)

text \<open>C34. The integers of a platform metric are unsigned and their columns signed: in each column that is
  tagged for an integer field, of 32 or of 64 bits, a value below half the range is stored as it is,
  and any other one as a negative number, too small by 2 to the power of the width.\<close>

theorem unsigned_wrap:
  assumes "(c, f) \<in> set platform_tags"
  shows "(f m = PUint32 (Some v) \<longrightarrow>
            (\<exists>x. column_cell platform_columns (platform_row m) c = Some (VInt32 x) \<and>
                 sint x = (if uint v < 2 ^ 31 then uint v else uint v - 2 ^ 32))) \<and>
         (f m = PUint64 (Some u) \<longrightarrow>
            (\<exists>x. column_cell platform_columns (platform_row m) c = Some (VInt64 x) \<and>
                 sint x = (if uint u < 2 ^ 63 then uint u else uint u - 2 ^ 64)))"
  using platform_tagged(1) [OF assms, of m] sint_halves(1) [of v] sint_halves(2) [of u]
  by (auto simp: db_safeUint32_def db_safeUint64_def)

theorem unsigned_wrap_witness:
  "\<exists>x. column_cell platform_columns
         (platform_row (whole_platform\<lparr>pm_MemData := Some (MemData_zero\<lparr>mem_MemFree := Some (2 ^ 63)\<rparr>)\<rparr>))
         ''mem_free'' = Some (VInt64 x) \<and> sint x = - (2 ^ 63)"
proof -
  let ?m = "whole_platform\<lparr>pm_MemData := Some (MemData_zero\<lparr>mem_MemFree := Some (2 ^ 63)\<rparr>)\<rparr>"
  have "(''mem_free'', \<lambda>m. PUint64 (Option.bind (pm_MemData m) mem_MemFree)) \<in> set platform_tags"
    by (simp add: platform_tags_def)
  from unsigned_wrap [OF this, of ?m undefined "2 ^ 63"] show ?thesis by simp
qed

section \<open>The shipped tables\<close>

text \<open>The statements write to a column that the shipped tables do not have, the timestamp, which is
  called time there; all their other columns are those of the tables.\<close>

lemma shipped_tables:
  "''timestamp'' \<notin> set platform_schema \<and> platform_columns = ''timestamp'' # drop 1 platform_schema \<and>
   ''timestamp'' \<notin> set interface_schema \<and>
   set interface_columns = insert ''timestamp'' (set (drop 1 interface_schema)) \<and>
   ''timestamp'' \<notin> set subinterface_schema \<and>
   subinterface_columns = ''timestamp'' # drop 1 subinterface_schema"
proof -
  have "set interface_columns = insert ''timestamp'' (set (drop 1 interface_schema))"
    by code_simp
  then show ?thesis using schema_time_column schema_other_columns by simp
qed

section \<open>Inserting\<close>

text \<open>C25. A batch insert adds the rows of its batch to the table of its kind and reports no error, or it
  reports an error and no table has changed; no other table ever changes.\<close>

theorem insert_all_or_nothing:
  assumes "pgx_contract pool tables"
  shows "tables (snd (BatchInsertPlatformMetrics pool ps w)) =
           (if fst (BatchInsertPlatformMetrics pool ps w) = None
            then (tables w)(platform_table := tables w platform_table + mset (map platform_row ps))
            else tables w) \<and>
         tables (snd (BatchInsertInterfaceMetrics pool pf is w)) =
           (if fst (BatchInsertInterfaceMetrics pool pf is w) = None
            then (tables w)(interface_table := tables w interface_table + mset (map (interface_row pf) is))
            else tables w) \<and>
         tables (snd (BatchInsertSubinterfaceMetrics pool pf ss w)) =
           (if fst (BatchInsertSubinterfaceMetrics pool pf ss w) = None
            then (tables w)(subinterface_table :=
                    tables w subinterface_table + mset (map (subinterface_row pf) ss))
            else tables w) \<and>
         tables (snd (BatchInsertAlarmReportMetrics pool as w)) =
           (if fst (BatchInsertAlarmReportMetrics pool as w) = None
            then (tables w)(alarmReport_table := tables w alarmReport_table + mset (map alarmReport_row as))
            else tables w) \<and>
         tables (snd (BatchInsertNotificationReportMetrics pool ns w)) =
           (if fst (BatchInsertNotificationReportMetrics pool ns w) = None
            then (tables w)(notificationReport_table :=
                    tables w notificationReport_table + mset (map notificationReport_row ns))
            else tables w)"
  using copy_rows_tables [OF assms, OF prod.collapse [symmetric]]
  by (simp add: insert_defs)

theorem insert_all_or_nothing_witness:
  "sw_tables (snd (BatchInsertPlatformMetrics script_pool [whole_platform]
     \<lparr>sw_outcomes = [Some ''connection lost''], sw_tables = (\<lambda>_. {#})\<rparr>)) platform_table = {#}"
  using insert_all_or_nothing [OF script_pool_contract, of "[whole_platform]"
      "\<lparr>sw_outcomes = [Some ''connection lost''], sw_tables = (\<lambda>_. {#})\<rparr>"]
  by (simp add: insert_defs copy_rows_def script_pool_def)

end
