(* ===== verification/Collector.thy ===== *)
theory Collector
  imports Telemetry_Parser Buffer_Laws
begin

text \<open>
  \<^verbatim>\<open>internal/collector/simple_collector.go\<close>: the gRPC service.  Its state is the connections by their
  identifier (an association list; a Go map), the counter of active connections, the buffer
  manager and what its shutdown channel says.  The stream of \<open>Publish\<close> is a list of events: what
  \<^verbatim>\<open>Recv\<close> gives, with the time and the outcome of the \<^verbatim>\<open>Send\<close> that answers it, and deadlines that
  expire in between.  Logging is left out; the two warnings that depend on the connections are
  functions of their own.
\<close>

section \<open>State\<close>

record ConnectionInfo =
  conn_RemoteAddr :: string
  conn_ConnectedAt :: gtime
  conn_LastDataTime :: gtime
  conn_DataCount :: int64
  conn_IsActive :: bool

record SimpleCollector =
  col_bufferManager :: FixedBufferManager
  col_serverConfig :: ServerConfig
  col_connections :: "(string \<times> ConnectionInfo) list"
  col_activeConnCount :: int64
  col_dataTimeout :: duration
  col_shutdown :: bool
  col_serving :: bool

definition NewSimpleCollector :: "FixedBufferManager \<Rightarrow> ServerConfig \<Rightarrow> SimpleCollector" where
  "NewSimpleCollector bm cfg =
     \<lparr>col_bufferManager = bm, col_serverConfig = cfg, col_connections = [], col_activeConnCount = 0,
      col_dataTimeout = 15 * minute_dur, col_shutdown = False, col_serving = False\<rparr>"

section \<open>Connections\<close>

text \<open>\<^verbatim>\<open>fmt.Sprintf("%s-%d", remoteAddr, time.Now().UnixNano())\<close>\<close>

definition connection_id :: "string \<Rightarrow> gtime \<Rightarrow> string" where
  "connection_id remoteAddr now = remoteAddr @ CHR ''-'' # dec_int (nanos_of now)"

text \<open>The clock is read three times; \<open>now\<close> gives the identifier, \<open>t1\<close> and \<open>t2\<close> the two fields.\<close>

definition registerConnection ::
  "string \<Rightarrow> gtime \<Rightarrow> gtime \<Rightarrow> gtime \<Rightarrow> SimpleCollector \<Rightarrow> string \<times> SimpleCollector"
where
  "registerConnection remoteAddr now t1 t2 c =
     (let connID = connection_id remoteAddr now
      in (connID,
          c\<lparr>col_connections := AList.update connID
               \<lparr>conn_RemoteAddr = remoteAddr, conn_ConnectedAt = t1, conn_LastDataTime = t2,
                conn_DataCount = 0, conn_IsActive = True\<rparr> (col_connections c),
            col_activeConnCount := col_activeConnCount c + 1\<rparr>))"

definition unregisterConnection :: "string \<Rightarrow> SimpleCollector \<Rightarrow> SimpleCollector" where
  "unregisterConnection connID c =
     (case map_of (col_connections c) connID of
        None \<Rightarrow> c
      | Some conn \<Rightarrow>
          c\<lparr>col_connections := AList.delete connID (col_connections c),
            col_activeConnCount := col_activeConnCount c - 1\<rparr>)"

definition updateConnectionActivity :: "string \<Rightarrow> gtime \<Rightarrow> SimpleCollector \<Rightarrow> SimpleCollector" where
  "updateConnectionActivity connID now c =
     (case map_of (col_connections c) connID of
        None \<Rightarrow> c
      | Some conn \<Rightarrow>
          c\<lparr>col_connections := AList.update connID
              (conn\<lparr>conn_LastDataTime := now, conn_DataCount := conn_DataCount conn + 1\<rparr>)
              (col_connections c)\<rparr>)"

record ConnSnapshot =
  snap_total :: int
  snap_active :: int
  snap_stale :: int
  snap_totalDataCount :: int64

fun snapshot_loop :: "gtime \<Rightarrow> duration \<Rightarrow> ConnectionInfo list \<Rightarrow> ConnSnapshot \<Rightarrow> ConnSnapshot" where
  "snapshot_loop now dataTimeout [] s = s"
| "snapshot_loop now dataTimeout (conn # conns) s =
     (let s = s\<lparr>snap_totalDataCount := snap_totalDataCount s + conn_DataCount conn\<rparr>;
          s = (if time_Sub now (conn_LastDataTime conn) \<le> dataTimeout
               then s\<lparr>snap_active := snap_active s + 1\<rparr> else s\<lparr>snap_stale := snap_stale s + 1\<rparr>)
      in snapshot_loop now dataTimeout conns s)"

definition computeConnectionSnapshot :: "gtime \<Rightarrow> SimpleCollector \<Rightarrow> ConnSnapshot" where
  "computeConnectionSnapshot now c =
     snapshot_loop now (col_dataTimeout c) (map snd (col_connections c))
       \<lparr>snap_total = int (length (col_connections c)), snap_active = 0, snap_stale = 0,
        snap_totalDataCount = 0\<rparr>"

record ConnStats =
  cst_total_connections :: int
  cst_active_connections :: int
  cst_stale_connections :: int
  cst_total_data_count :: int64
  cst_data_timeout :: duration

definition GetConnectionStats :: "gtime \<Rightarrow> SimpleCollector \<Rightarrow> ConnStats" where
  "GetConnectionStats now c =
     (let s = computeConnectionSnapshot now c
      in \<lparr>cst_total_connections = snap_total s, cst_active_connections = snap_active s,
          cst_stale_connections = snap_stale s, cst_total_data_count = snap_totalDataCount s,
          cst_data_timeout = col_dataTimeout c\<rparr>)"

text \<open>\<^verbatim>\<open>float64(part)/float64(whole) > 0.5\<close>\<close>

definition more_than_half :: "int \<Rightarrow> int \<Rightarrow> bool" where
  "more_than_half part whole \<longleftrightarrow>
     (case f64_round (of_int part / of_int whole) of F_Num r \<Rightarrow> r > 1 / 2 | _ \<Rightarrow> False)"

text \<open>Whether a health check logs that there are too many stale connections.\<close>

definition checkConnectionHealth :: "gtime \<Rightarrow> SimpleCollector \<Rightarrow> bool" where
  "checkConnectionHealth now c =
     (let s = computeConnectionSnapshot now c
      in snap_total s > 0 \<and> more_than_half (snap_stale s) (snap_total s))"

text \<open>
  The monitor goroutine: a check at every tick of its timer, until it sees the closed shutdown channel
  and reports its end (the second component).  A tick carries its time and the collector then.
\<close>

datatype monitor_event = MonitorTick gtime SimpleCollector | MonitorShutdown

fun startConnectionMonitor :: "monitor_event list \<Rightarrow> bool list \<times> bool" where
  "startConnectionMonitor [] = ([], False)"
| "startConnectionMonitor (MonitorShutdown # es) = ([], True)"
| "startConnectionMonitor (MonitorTick now c # es) =
     (let (warnings, ended) = startConnectionMonitor es
      in (checkConnectionHealth now c # warnings, ended))"

lemma monitor_ends: "snd (startConnectionMonitor es) \<longleftrightarrow> MonitorShutdown \<in> set es"
  by (induction es rule: startConnectionMonitor.induct) (simp_all add: split_beta)

text \<open>What a timeout does: it counts the silent connections, and logs; it changes nothing.\<close>

definition handleConnectionTimeout :: "gtime \<Rightarrow> SimpleCollector \<Rightarrow> bool" where
  "handleConnectionTimeout now c =
     (let timeoutCount = int (length (filter
            (\<lambda>conn. time_Sub now (conn_LastDataTime conn) > col_dataTimeout c)
            (map snd (col_connections c))));
          totalCount = int (length (col_connections c))
      in totalCount > 0 \<and> more_than_half timeoutCount totalCount)"

section \<open>Messages\<close>

text \<open>The payload of a request is one of two kinds, or absent.\<close>

datatype message_data = Data bytes | JsonData string

record PublishArgs =
  pa_ReqId :: int64
  pa_MessageData :: "message_data option"
  pa_Errors :: string

definition GetData :: "PublishArgs \<Rightarrow> bytes" where
  "GetData req = (case pa_MessageData req of Some (Data d) \<Rightarrow> d | _ \<Rightarrow> [])"

text \<open>The results of a parse are added to the buffers of their kinds; a JSON payload is ignored.\<close>

definition add_result :: "ParseResult \<Rightarrow> FixedBufferManager \<Rightarrow> FixedBufferManager" where
  "add_result result bm =
     (let bm = (if length (pr_PlatformMetrics result) > 0
                then AddPlatformMetrics (pr_PlatformMetrics result) bm else bm);
          bm = (if length (pr_InterfaceMetrics result) > 0
                then AddInterfaceMetrics (pr_InterfaceMetrics result) bm else bm);
          bm = (if length (pr_SubinterfaceMetrics result) > 0
                then AddSubinterfaceMetrics (pr_SubinterfaceMetrics result) bm else bm);
          bm = (if length (pr_AlarmReportMetrics result) > 0
                then AddAlarmReportMetrics (pr_AlarmReportMetrics result) bm else bm)
      in (if length (pr_NotificationReportMetrics result) > 0
          then AddNotificationReportMetrics (pr_NotificationReportMetrics result) bm else bm))"

definition processPublishArgs ::
  "decoders \<Rightarrow> PublishArgs \<Rightarrow> SimpleCollector \<Rightarrow> parse_error option \<times> SimpleCollector"
where
  "processPublishArgs d req c =
     (let data = GetData req
      in if length data > 0
         then (case ParseTelemetryData d data of
                 Inl err \<Rightarrow> (Some err, c)
               | Inr result \<Rightarrow>
                   (None, c\<lparr>col_bufferManager := add_result result (col_bufferManager c)\<rparr>))
         else (None, c))"

section \<open>The stream\<close>

text \<open>
  An event of a stream: \<^verbatim>\<open>Recv\<close> fails; a request arrives at a time, and sending an answer to it
  would end as given; the deadline of the receive timeout passes.
\<close>

datatype stream_event =
    RecvError string
  | Request PublishArgs gtime "string option"
  | Deadline

text \<open>
  What the stream leaves: the error it ended with (\<open>None\<close> while it is open), the answers sent, how
  often a timeout was noticed, and the collector.
\<close>

record stream_result =
  str_error :: "string option"
  str_responses :: "PublishArgs list"
  str_timeouts :: nat
  str_collector :: SimpleCollector

definition response :: "PublishArgs \<Rightarrow> PublishArgs" where
  "response req = \<lparr>pa_ReqId = pa_ReqId req, pa_MessageData = None, pa_Errors = []\<rparr>"

text \<open>
  The watching goroutine waits for the first context only: it notices one deadline, and the cancel
  after the first answer ends it.  \<open>watching\<close> says whether it still waits.
\<close>

fun publish_loop ::
  "decoders \<Rightarrow> string \<Rightarrow> stream_event list \<Rightarrow> bool \<Rightarrow> PublishArgs list \<Rightarrow> nat \<Rightarrow> SimpleCollector \<Rightarrow>
   stream_result"
where
  "publish_loop d connID [] watching rs n c =
     \<lparr>str_error = None, str_responses = rs, str_timeouts = n, str_collector = c\<rparr>"
| "publish_loop d connID (RecvError err # es) watching rs n c =
     \<lparr>str_error = Some err, str_responses = rs, str_timeouts = n, str_collector = c\<rparr>"
| "publish_loop d connID (Deadline # es) watching rs n c =
     publish_loop d connID es False rs (if watching then Suc n else n) c"
| "publish_loop d connID (Request req now sent # es) watching rs n c =
     (let c = updateConnectionActivity connID now c;
          (err, c) = processPublishArgs d req c
      in case err of
           Some _ \<Rightarrow> publish_loop d connID es watching rs n c
         | None \<Rightarrow>
             (case sent of
                Some e \<Rightarrow>
                  \<lparr>str_error = Some e, str_responses = rs, str_timeouts = n, str_collector = c\<rparr>
              | None \<Rightarrow> publish_loop d connID es False (rs @ [response req]) n c))"

text \<open>A whole call: register, serve, and unregister when the handler returns.\<close>

definition Publish ::
  "decoders \<Rightarrow> string \<Rightarrow> gtime \<Rightarrow> gtime \<Rightarrow> gtime \<Rightarrow> stream_event list \<Rightarrow> SimpleCollector \<Rightarrow> stream_result"
where
  "Publish d remoteAddr now t1 t2 es c =
     (let (connID, c) = registerConnection remoteAddr now t1 t2 c;
          r = publish_loop d connID es True [] 0 c
      in (case str_error r of
            None \<Rightarrow> r
          | Some _ \<Rightarrow> r\<lparr>str_collector := unregisterConnection connID (str_collector r)\<rparr>))"

section \<open>Starting and stopping\<close>

text \<open>The options of the gRPC server, and the start: it fails when the port cannot be listened on.\<close>

record ServerOptions =
  opt_KeepaliveTime :: duration
  opt_KeepaliveTimeout :: duration
  opt_MinTime :: duration
  opt_PermitWithoutStream :: bool
  opt_MaxRecvMsgSize :: int
  opt_MaxSendMsgSize :: int
  opt_MaxConcurrentStreams :: uint32

definition server_options :: "ServerConfig \<Rightarrow> ServerOptions" where
  "server_options cfg =
     \<lparr>opt_KeepaliveTime = srv_KeepaliveTime cfg, opt_KeepaliveTimeout = srv_KeepaliveTimeout cfg,
      opt_MinTime = 10 * second_dur, opt_PermitWithoutStream = True,
      opt_MaxRecvMsgSize = srv_MaxRecvMsgSize cfg, opt_MaxSendMsgSize = srv_MaxSendMsgSize cfg,
      opt_MaxConcurrentStreams = srv_MaxConcurrentStreams cfg\<rparr>"

definition collector_Start ::
  "int \<Rightarrow> (int \<Rightarrow> string option) \<Rightarrow> SimpleCollector \<Rightarrow> string + ServerOptions \<times> SimpleCollector"
where
  "collector_Start port listen c =
     (case listen port of
        Some err \<Rightarrow> Inl err
      | None \<Rightarrow> Inr (server_options (col_serverConfig c), c\<lparr>col_serving := True\<rparr>))"

text \<open>
  Closing a closed channel panics.  The buffer manager stops before the server does, which then
  waits for the streams that are still open.
\<close>

definition collector_Stop ::
  "'w DatabaseInterface \<Rightarrow> range_orders \<Rightarrow> kind list \<Rightarrow> gtime \<Rightarrow> gtime \<Rightarrow> SimpleCollector \<Rightarrow> 'w \<Rightarrow>
   (SimpleCollector \<times> 'w) flow option"
where
  "collector_Stop db ro ks start now c w =
     (if col_shutdown c then Some Panic
      else (case Stop db ro ks start now (col_bufferManager c) w of
              None \<Rightarrow> None
            | Some Panic \<Rightarrow> Some Panic
            | Some (Ret (err, bm, w')) \<Rightarrow>
                Some (Ret (c\<lparr>col_shutdown := True, col_bufferManager := bm, col_serving := False\<rparr>, w'))))"

section \<open>Lemmas\<close>

lemma snapshot_loop_counts:
  "snap_active (snapshot_loop now t conns s) + snap_stale (snapshot_loop now t conns s) =
     snap_active s + snap_stale s + int (length conns)"
  "snap_total (snapshot_loop now t conns s) = snap_total s"
  "snap_totalDataCount (snapshot_loop now t conns s) =
     snap_totalDataCount s + sum_list (map conn_DataCount conns)"
  "snap_stale (snapshot_loop now t conns s) =
     snap_stale s + int (length (filter (\<lambda>conn. t < time_Sub now (conn_LastDataTime conn)) conns))"
  by (induction conns arbitrary: s) (auto simp: Let_def not_le)

text \<open>The identifier of a connection determines its address and its nanosecond.\<close>

lemma dec_int_nonneg_no_minus: "0 \<le> i \<Longrightarrow> CHR ''-'' \<notin> set (dec_int i)"
  by (simp add: dec_int_def dec_no_sep)

lemma connection_id_inject:
  assumes "connection_id a t = connection_id b u" and "0 \<le> nanos_of t" and "0 \<le> nanos_of u"
  shows "a = b \<and> nanos_of t = nanos_of u"
  using append_sep_inject_last [OF assms(1) [unfolded connection_id_def]
      dec_int_nonneg_no_minus [OF assms(2)] dec_int_nonneg_no_minus [OF assms(3)]] by simp

text \<open>The counter is the number of connections, as long as identifiers are not reused.\<close>

definition conns_ok :: "SimpleCollector \<Rightarrow> bool" where
  "conns_ok c \<longleftrightarrow>
     distinct (map fst (col_connections c)) \<and>
     col_activeConnCount c = of_nat (length (col_connections c))"

lemma alist_update_length:
  "length (AList.update k v xs) = (if k \<in> fst ` set xs then length xs else Suc (length xs))"
  by (induction xs) auto

lemma alist_delete_length:
  "distinct (map fst xs) \<Longrightarrow>
   length (AList.delete k xs) = (if k \<in> fst ` set xs then length xs - 1 else length xs)"
proof -
  assume d: "distinct (map fst xs)"
  have "length (AList.delete k xs) = length (removeAll k (map fst xs))"
    using AList.delete_keys [of k xs] by (metis length_map)
  also have "\<dots> = length (remove1 k (map fst xs))"
    using d by (simp add: distinct_remove1_removeAll)
  finally show ?thesis by (simp add: length_remove1)
qed

lemma register_ok:
  assumes "conns_ok c" and "connection_id a now \<notin> fst ` set (col_connections c)"
  shows "conns_ok (snd (registerConnection a now t1 t2 c))"
  using assms
  by (simp add: registerConnection_def Let_def conns_ok_def alist_update_length distinct_update)

lemma update_activity_ok:
  assumes "conns_ok c"
  shows "conns_ok (updateConnectionActivity k now c)"
  using assms
  by (auto simp: updateConnectionActivity_def conns_ok_def alist_update_length distinct_update
      image_iff dest: map_of_SomeD split: option.split)

lemma unregister_ok:
  assumes "conns_ok c"
  shows "conns_ok (unregisterConnection k c)"
proof (cases "map_of (col_connections c) k")
  case None
  then show ?thesis using assms by (simp add: unregisterConnection_def)
next
  case (Some v)
  then have "k \<in> fst ` set (col_connections c)"
    using map_of_SomeD [OF Some] by force
  moreover from this obtain n where "length (col_connections c) = Suc n"
    by (cases "col_connections c") auto
  ultimately show ?thesis
    using assms Some
    by (simp add: unregisterConnection_def conns_ok_def alist_delete_length distinct_delete)
qed

lemma process_connections [simp]:
  "col_connections (snd (processPublishArgs d req c)) = col_connections c"
  "col_activeConnCount (snd (processPublishArgs d req c)) = col_activeConnCount c"
  by (simp_all add: processPublishArgs_def Let_def split: sum.split)

lemma process_ok: "conns_ok c \<Longrightarrow> conns_ok (snd (processPublishArgs d req c))"
  by (simp add: conns_ok_def)

lemma publish_loop_conns:
  "conns_ok c \<Longrightarrow> conns_ok (str_collector (publish_loop d k es watching rs n c))"
proof (induction d k es watching rs n c rule: publish_loop.induct)
  case (4 d k req now sent es watching rs n c)
  obtain err c2 where p: "processPublishArgs d req (updateConnectionActivity k now c) = (err, c2)"
    by fastforce
  have "conns_ok c2" using process_ok [OF update_activity_ok [OF 4(3)], of d req k now] p by simp
  then show ?case using 4(1) [OF refl p [symmetric] refl] 4(2) [OF refl p [symmetric] refl] p
    by (cases err; cases sent) (simp_all add: Let_def)
qed simp_all

text \<open>Adding a result keeps the invariant of the buffer manager.\<close>

lemma add_result_inv: "bm_inv bm \<Longrightarrow> bm_inv (add_result result bm)"
  by (simp add: add_result_def Let_def AddPlatformMetrics_inv AddInterfaceMetrics_inv
      AddSubinterfaceMetrics_inv AddAlarmReportMetrics_inv AddNotificationReportMetrics_inv)

lemma process_inv:
  "bm_inv (col_bufferManager c) \<Longrightarrow> bm_inv (col_bufferManager (snd (processPublishArgs d req c)))"
  by (simp add: processPublishArgs_def Let_def add_result_inv split: sum.split)

text \<open>At most one timeout is ever noticed on a stream.\<close>

lemma publish_timeouts:
  "str_timeouts (publish_loop d k es watching rs n c) \<le> n + (if watching then 1 else 0)"
proof (induction d k es watching rs n c rule: publish_loop.induct)
  case (3 d k es watching rs n c)
  then show ?case by (cases watching) auto
next
  case (4 d k req now sent es watching rs n c)
  obtain err c2 where p: "processPublishArgs d req (updateConnectionActivity k now c) = (err, c2)"
    by fastforce
  show ?case using 4(1) [OF refl p [symmetric] refl] 4(2) [OF refl p [symmetric] refl] p
    by (cases err; cases sent) (auto simp: Let_def)
qed simp_all

end
