(* ===== verification/Collector_System.thy ===== *)
theory Collector_System
  imports Collector
begin

text \<open>
  The gRPC service with many streams at once.  \<open>Collector\<close> runs one call of \<open>Publish\<close> on its own; here
  each open stream has a session, and a step of the service is one event of one of them: a router
  connects, or an event arrives on a stream and leaves it open or ends it.  \<open>publish_step\<close> is one turn of the
  loop of \<open>Publish\<close>; \<open>publish_loop_run\<close> shows that the loop is its repetition.

  Lemmas: the registered connections are the open sessions in every reachable state
  (\<open>service_ok\<close>), and what a stream is answered depends on its own events only (\<open>sessions_answered\<close>).
\<close>

section \<open>One event of a stream\<close>

text \<open>What a turn of the loop leaves: the error that ends it, the watching flag, the answer, the
  timeouts noticed, the collector.\<close>

record turn =
  turn_error :: "string option"
  turn_watching :: bool
  turn_responses :: "PublishArgs list"
  turn_timeouts :: nat
  turn_collector :: SimpleCollector

definition publish_step ::
  "decoders \<Rightarrow> string \<Rightarrow> stream_event \<Rightarrow> bool \<Rightarrow> PublishArgs list \<Rightarrow> nat \<Rightarrow> SimpleCollector \<Rightarrow> turn"
where
  "publish_step d connID e watching rs n c =
     (case e of
        RecvError err \<Rightarrow>
          \<lparr>turn_error = Some err, turn_watching = watching, turn_responses = rs, turn_timeouts = n,
           turn_collector = c\<rparr>
      | Deadline \<Rightarrow>
          \<lparr>turn_error = None, turn_watching = False, turn_responses = rs,
           turn_timeouts = (if watching then Suc n else n), turn_collector = c\<rparr>
      | Request req now sent \<Rightarrow>
          (let c = updateConnectionActivity connID now c;
               (err, c) = processPublishArgs d req c
           in case err of
                Some _ \<Rightarrow>
                  \<lparr>turn_error = None, turn_watching = watching, turn_responses = rs, turn_timeouts = n,
                   turn_collector = c\<rparr>
              | None \<Rightarrow>
                  (case sent of
                     Some e \<Rightarrow>
                       \<lparr>turn_error = Some e, turn_watching = watching, turn_responses = rs,
                        turn_timeouts = n, turn_collector = c\<rparr>
                   | None \<Rightarrow>
                       \<lparr>turn_error = None, turn_watching = False,
                        turn_responses = rs @ [response req], turn_timeouts = n, turn_collector = c\<rparr>)))"

fun publish_run ::
  "decoders \<Rightarrow> string \<Rightarrow> stream_event list \<Rightarrow> bool \<Rightarrow> PublishArgs list \<Rightarrow> nat \<Rightarrow> SimpleCollector \<Rightarrow>
   stream_result"
where
  "publish_run d connID [] watching rs n c =
     \<lparr>str_error = None, str_responses = rs, str_timeouts = n, str_collector = c\<rparr>"
| "publish_run d connID (e # es) watching rs n c =
     (let t = publish_step d connID e watching rs n c
      in case turn_error t of
           Some err \<Rightarrow>
             \<lparr>str_error = Some err, str_responses = turn_responses t, str_timeouts = turn_timeouts t,
              str_collector = turn_collector t\<rparr>
         | None \<Rightarrow>
             publish_run d connID es (turn_watching t) (turn_responses t) (turn_timeouts t)
               (turn_collector t))"

lemma publish_loop_run: "publish_loop d k es watching rs n c = publish_run d k es watching rs n c"
proof (induction d k es watching rs n c rule: publish_loop.induct)
  case (4 d k req now sent es watching rs n c)
  obtain err c2 where p: "processPublishArgs d req (updateConnectionActivity k now c) = (err, c2)"
    by fastforce
  show ?case using 4(1) [OF refl p [symmetric] refl] 4(2) [OF refl p [symmetric] refl] p
    by (cases err; cases sent) (simp_all add: publish_step_def Let_def)
qed (simp_all add: publish_step_def)

section \<open>The service\<close>

text \<open>
  A session: the events its stream has had, what it was answered, the flag and the count of the loop.
  The events of all streams in the order they were handled are the log of the service.
\<close>

record session =
  ses_events :: "stream_event list"
  ses_watching :: bool
  ses_responses :: "PublishArgs list"
  ses_timeouts :: nat

record service =
  svc_collector :: SimpleCollector
  svc_open :: "string \<Rightarrow> session option"
  svc_ended :: "session list"
  svc_log :: "stream_event list"

definition new_session :: session where
  "new_session = \<lparr>ses_events = [], ses_watching = True, ses_responses = [], ses_timeouts = 0\<rparr>"

text \<open>A turn of the loop in its session.\<close>

definition advance :: "stream_event \<Rightarrow> turn \<Rightarrow> session \<Rightarrow> session" where
  "advance e t ses =
     \<lparr>ses_events = ses_events ses @ [e], ses_watching = turn_watching t,
      ses_responses = turn_responses t, ses_timeouts = turn_timeouts t\<rparr>"

text \<open>
  A connection must bring an identifier that is not registered: two connections of one address in one
  nanosecond would share it.
\<close>

inductive svc_step :: "decoders \<Rightarrow> service \<Rightarrow> service \<Rightarrow> bool" for d :: decoders where
  connected: "connection_id a now \<notin> fst ` set (col_connections c) \<Longrightarrow>
    registerConnection a now t1 t2 c = (k, c') \<Longrightarrow>
    svc_step d \<lparr>svc_collector = c, svc_open = f, svc_ended = old, svc_log = hist\<rparr>
      \<lparr>svc_collector = c', svc_open = f(k \<mapsto> new_session), svc_ended = old, svc_log = hist\<rparr>"
| continued: "f k = Some ses \<Longrightarrow>
    publish_step d k e (ses_watching ses) (ses_responses ses) (ses_timeouts ses) c = t \<Longrightarrow>
    turn_error t = None \<Longrightarrow>
    svc_step d \<lparr>svc_collector = c, svc_open = f, svc_ended = old, svc_log = hist\<rparr>
      \<lparr>svc_collector = turn_collector t, svc_open = f(k \<mapsto> advance e t ses), svc_ended = old,
       svc_log = hist @ [e]\<rparr>"
| ended: "f k = Some ses \<Longrightarrow>
    publish_step d k e (ses_watching ses) (ses_responses ses) (ses_timeouts ses) c = t \<Longrightarrow>
    turn_error t = Some err \<Longrightarrow>
    svc_step d \<lparr>svc_collector = c, svc_open = f, svc_ended = old, svc_log = hist\<rparr>
      \<lparr>svc_collector = unregisterConnection k (turn_collector t), svc_open = f(k := None),
       svc_ended = advance e t ses # old, svc_log = hist @ [e]\<rparr>"

inductive_cases svc_stepE: "svc_step d s s'"

inductive svc_reach :: "decoders \<Rightarrow> service \<Rightarrow> service \<Rightarrow> bool" for d :: decoders and s :: service where
  svc_start: "svc_reach d s s"
| svc_more: "svc_reach d s s' \<Longrightarrow> svc_step d s' s'' \<Longrightarrow> svc_reach d s s''"

definition idle_service :: "SimpleCollector \<Rightarrow> service" where
  "idle_service c = \<lparr>svc_collector = c, svc_open = Map.empty, svc_ended = [], svc_log = []\<rparr>"

section \<open>Connections and sessions\<close>

definition conn_ids :: "SimpleCollector \<Rightarrow> string set" where
  "conn_ids c = fst ` set (col_connections c)"

lemma update_keys_set: "fst ` set (AList.update k v xs) = insert k (fst ` set xs)"
  using AList.dom_update [of k v xs] by simp

lemma delete_keys_set: "fst ` set (AList.delete k xs) = fst ` set xs - {k}"
proof -
  have "set (map fst (AList.delete k xs)) = set (map fst xs) - {k}"
    unfolding AList.delete_keys by simp
  then show ?thesis by simp
qed

lemma conn_ids_register:
  "registerConnection a now t1 t2 c = (k, c') \<Longrightarrow> k = connection_id a now \<and> conn_ids c' = insert k (conn_ids c)"
  by (drule sym) (simp add: registerConnection_def Let_def conn_ids_def update_keys_set)

lemma conn_ids_activity [simp]: "conn_ids (updateConnectionActivity k now c) = conn_ids c"
proof (cases "map_of (col_connections c) k")
  case (Some conn)
  then have "k \<in> fst ` set (col_connections c)" by (force dest: map_of_SomeD)
  then show ?thesis
    by (simp add: conn_ids_def updateConnectionActivity_def Some update_keys_set insert_absorb)
qed (simp add: updateConnectionActivity_def)

lemma conn_ids_unregister: "conn_ids (unregisterConnection k c) = conn_ids c - {k}"
  by (auto simp: conn_ids_def unregisterConnection_def delete_keys_set map_of_eq_None_iff split: option.split)

lemma conn_ids_process [simp]: "conn_ids (snd (processPublishArgs d req c)) = conn_ids c"
  by (simp add: conn_ids_def)

lemma publish_step_conns:
  "conn_ids (turn_collector (publish_step d k e b rs n c)) = conn_ids c"
  "conns_ok c \<Longrightarrow> conns_ok (turn_collector (publish_step d k e b rs n c))"
  using process_ok [OF update_activity_ok]
    conn_ids_process [of d _ "updateConnectionActivity k _ c"]
  by (cases e; auto simp: publish_step_def split_beta Let_def split: option.split)+

definition service_ok :: "service \<Rightarrow> bool" where
  "service_ok s \<longleftrightarrow> conns_ok (svc_collector s) \<and> dom (svc_open s) = conn_ids (svc_collector s)"

lemma service_ok_idle: "conns_ok c \<Longrightarrow> col_connections c = [] \<Longrightarrow> service_ok (idle_service c)"
  by (simp add: service_ok_def idle_service_def conn_ids_def)

lemma svc_step_ok:
  assumes "svc_step d s s'" and "service_ok s"
  shows "service_ok s'"
  using assms(1)
proof (cases rule: svc_step.cases)
  case (connected a now c t1 t2 k c' f old hist)
  then show ?thesis
    using assms(2) register_ok [of c a now t1 t2] conn_ids_register [OF connected(4)]
    by (auto simp: service_ok_def)
next
  case (continued f k ses e c t old hist)
  then show ?thesis
    using assms(2) publish_step_conns(1) [of d k e "ses_watching ses" "ses_responses ses" "ses_timeouts ses" c]
      publish_step_conns(2) [of c d k e "ses_watching ses" "ses_responses ses" "ses_timeouts ses"]
    by (auto simp: service_ok_def)
next
  case (ended f k ses e c t err old hist)
  then show ?thesis
    using assms(2) publish_step_conns(1) [of d k e "ses_watching ses" "ses_responses ses" "ses_timeouts ses" c]
      publish_step_conns(2) [of c d k e "ses_watching ses" "ses_responses ses" "ses_timeouts ses"]
      unregister_ok
    by (auto simp: service_ok_def conn_ids_unregister)
qed

lemma svc_reach_ok: "svc_reach d s s' \<Longrightarrow> service_ok s \<Longrightarrow> service_ok s'"
  by (induction rule: svc_reach.induct) (auto intro: svc_step_ok)

lemma conns_ok_count: "conns_ok c \<Longrightarrow> col_activeConnCount c = of_nat (card (conn_ids c))"
  using distinct_card [of "map fst (col_connections c)"] by (simp add: conns_ok_def conn_ids_def)

section \<open>Answers\<close>

text \<open>The requests of a stream that are processed without error before the stream ends.\<close>

fun answered :: "decoders \<Rightarrow> stream_event list \<Rightarrow> PublishArgs list" where
  "answered d [] = []"
| "answered d (RecvError err # es) = []"
| "answered d (Deadline # es) = answered d es"
| "answered d (Request req now sent # es) =
     (if GetData req \<noteq> [] \<and> (\<exists>err. ParseTelemetryData d (GetData req) = Inl err) then answered d es
      else if sent = None then req # answered d es else [])"

text \<open>Whether an event leaves a stream open, and the answer it gives.\<close>

definition leaves_open :: "decoders \<Rightarrow> stream_event \<Rightarrow> bool" where
  "leaves_open d e \<longleftrightarrow>
     (case e of RecvError _ \<Rightarrow> False | Deadline \<Rightarrow> True
      | Request req now sent \<Rightarrow>
          GetData req \<noteq> [] \<and> (\<exists>err. ParseTelemetryData d (GetData req) = Inl err) \<or> sent = None)"

lemma answered_append:
  "list_all (leaves_open d) es \<Longrightarrow> answered d (es @ es') = answered d es @ answered d es'"
  by (induction d es rule: answered.induct) (auto simp: leaves_open_def)

lemma process_fails:
  "fst (processPublishArgs d req c) \<noteq> None \<longleftrightarrow>
     GetData req \<noteq> [] \<and> (\<exists>err. ParseTelemetryData d (GetData req) = Inl err)"
  by (auto simp: processPublishArgs_def Let_def split: sum.split)

lemma publish_step_answer:
  "turn_responses (publish_step d k e b rs n c) = rs @ map response (answered d [e])"
  "turn_error (publish_step d k e b rs n c) = None \<longleftrightarrow> leaves_open d e"
proof -
  have f: "(case fst (processPublishArgs d req c) of None \<Rightarrow> x | Some _ \<Rightarrow> y) =
      (if GetData req \<noteq> [] \<and> (\<exists>err. ParseTelemetryData d (GetData req) = Inl err) then y else x)"
    for req c and x y :: turn
    using process_fails [of d req c] by (auto split: option.split)
  show "turn_responses (publish_step d k e b rs n c) = rs @ map response (answered d [e])"
    by (cases e) (auto simp: publish_step_def split_beta Let_def f split: option.split)
  show "turn_error (publish_step d k e b rs n c) = None \<longleftrightarrow> leaves_open d e"
    by (cases e) (auto simp: publish_step_def split_beta Let_def f leaves_open_def split: option.split)
qed

lemma publish_step_timeouts:
  "turn_timeouts (publish_step d k e b rs n c) + (if turn_watching (publish_step d k e b rs n c) then 1 else 0)
     \<le> n + (if b then 1 else 0)"
  by (cases e) (auto simp: publish_step_def split_beta Let_def split: option.split)

text \<open>
  A session in order: its events are among those of the log, its answers are those of its own events,
  and at most one timeout was noticed; an open one has had no event that ends it, an ended one had
  one such event, its last.
\<close>

definition session_ok :: "decoders \<Rightarrow> stream_event list \<Rightarrow> session \<Rightarrow> bool" where
  "session_ok d hist ses \<longleftrightarrow>
     subseq (ses_events ses) hist \<and> ses_responses ses = map response (answered d (ses_events ses)) \<and>
     ses_timeouts ses + (if ses_watching ses then 1 else 0) \<le> 1"

definition still_open :: "decoders \<Rightarrow> session \<Rightarrow> bool" where
  "still_open d ses \<longleftrightarrow> list_all (leaves_open d) (ses_events ses)"

definition finished :: "decoders \<Rightarrow> session \<Rightarrow> bool" where
  "finished d ses \<longleftrightarrow>
     ses_events ses \<noteq> [] \<and> list_all (leaves_open d) (butlast (ses_events ses)) \<and>
     \<not> leaves_open d (last (ses_events ses))"

definition sessions_ok :: "decoders \<Rightarrow> service \<Rightarrow> bool" where
  "sessions_ok d s \<longleftrightarrow>
     (\<forall>k ses. svc_open s k = Some ses \<longrightarrow> session_ok d (svc_log s) ses \<and> still_open d ses) \<and>
     list_all (\<lambda>ses. session_ok d (svc_log s) ses \<and> finished d ses) (svc_ended s)"

lemma session_ok_longer: "session_ok d hist ses \<Longrightarrow> session_ok d (hist @ [e]) ses"
  by (simp add: session_ok_def list_emb_prefix)

lemma advance_ok:
  assumes "session_ok d hist ses" and "still_open d ses"
    and t: "publish_step d k e (ses_watching ses) (ses_responses ses) (ses_timeouts ses) c = t"
  shows "session_ok d (hist @ [e]) (advance e t ses)"
    and "turn_error t = None \<Longrightarrow> still_open d (advance e t ses)"
    and "turn_error t = Some err \<Longrightarrow> finished d (advance e t ses)"
proof -
  note answer = publish_step_answer [of d k e "ses_watching ses" "ses_responses ses" "ses_timeouts ses" c]
  show "session_ok d (hist @ [e]) (advance e t ses)"
    using assms publish_step_timeouts [of d k e "ses_watching ses" "ses_responses ses" "ses_timeouts ses" c]
    by (auto simp: session_ok_def advance_def publish_step_answer(1) answered_append still_open_def)
  show "still_open d (advance e t ses)" if "turn_error t = None"
    using assms that answer(2) by (simp add: still_open_def advance_def)
  show "finished d (advance e t ses)" if "turn_error t = Some err"
    using assms that answer(2) by (simp add: still_open_def finished_def advance_def)
qed

lemma svc_step_sessions:
  assumes "svc_step d s s'" and "sessions_ok d s"
  shows "sessions_ok d s'"
  using assms(1)
proof (cases rule: svc_step.cases)
  case (connected a now c t1 t2 k c' f old hist)
  then show ?thesis
    using assms(2) by (auto simp: sessions_ok_def new_session_def session_ok_def still_open_def)
next
  case (continued f k ses e c t old hist)
  have ok: "session_ok d hist ses" "still_open d ses"
    using assms(2) continued(1,3) by (auto simp: sessions_ok_def)
  show ?thesis
    using assms(2) advance_ok(1,2) [OF ok continued(4)] continued(5) session_ok_longer
    unfolding sessions_ok_def continued(1,2) by (auto simp: list_all_iff)
next
  case (ended f k ses e c t err old hist)
  have ok: "session_ok d hist ses" "still_open d ses"
    using assms(2) ended(1,3) by (auto simp: sessions_ok_def)
  show ?thesis
    using assms(2) advance_ok(1,3) [OF ok ended(4)] ended(5) session_ok_longer
    unfolding sessions_ok_def ended(1,2) by (auto simp: list_all_iff)
qed

lemma sessions_answered: "svc_reach d s s' \<Longrightarrow> sessions_ok d s \<Longrightarrow> sessions_ok d s'"
  by (induction rule: svc_reach.induct) (auto intro: svc_step_sessions)

lemma sessions_ok_idle: "sessions_ok d (idle_service c)"
  by (simp add: sessions_ok_def idle_service_def)

section \<open>What reaches the buffers\<close>

text \<open>The parse results of an event, and of a log.\<close>

definition parsed :: "decoders \<Rightarrow> stream_event \<Rightarrow> ParseResult list" where
  "parsed d e =
     (case e of
        Request req now sent \<Rightarrow>
          (if GetData req = [] then []
           else (case ParseTelemetryData d (GetData req) of Inl _ \<Rightarrow> [] | Inr r \<Rightarrow> [r]))
      | _ \<Rightarrow> [])"

definition parsed_log :: "decoders \<Rightarrow> stream_event list \<Rightarrow> ParseResult list" where
  "parsed_log d es = concat (map (parsed d) es)"

lemma connections_keep_manager [simp]:
  "col_bufferManager (updateConnectionActivity k now c) = col_bufferManager c"
  "col_bufferManager (unregisterConnection k c) = col_bufferManager c"
  "col_bufferManager (snd (registerConnection a now t1 t2 c)) = col_bufferManager c"
  by (simp_all add: updateConnectionActivity_def unregisterConnection_def registerConnection_def Let_def
      split: option.split)

lemma process_manager:
  "col_bufferManager (snd (processPublishArgs d req c)) =
     fold add_result (parsed d (Request req now sent)) (col_bufferManager c)"
  by (simp add: processPublishArgs_def parsed_def Let_def split: sum.split)

lemma publish_step_manager:
  "col_bufferManager (turn_collector (publish_step d k e b rs n c)) =
     fold add_result (parsed d e) (col_bufferManager c)"
proof (cases e)
  case (Request req now sent)
  then show ?thesis
    using process_manager [of d req "updateConnectionActivity k now c" now sent]
    by (auto simp: publish_step_def split_beta Let_def split: option.split)
qed (simp_all add: publish_step_def parsed_def)

text \<open>However the streams interleave, the manager has received the results of the log in its order.\<close>

definition linear :: "decoders \<Rightarrow> FixedBufferManager \<Rightarrow> service \<Rightarrow> bool" where
  "linear d bm s \<longleftrightarrow>
     col_bufferManager (svc_collector s) = fold add_result (parsed_log d (svc_log s)) bm"

lemma svc_step_linear:
  assumes "svc_step d s s'" and "linear d bm s"
  shows "linear d bm s'"
  using assms(1)
proof (cases rule: svc_step.cases)
  case (connected a now c t1 t2 k c' f old hist)
  then have "col_bufferManager c' = col_bufferManager c"
    using connections_keep_manager(3) [of a now t1 t2 c] by simp
  then show ?thesis using assms(2) connected by (simp add: linear_def)
next
  case (continued f k ses e c t old hist)
  then show ?thesis
    using assms(2) publish_step_manager by (auto simp: linear_def parsed_log_def)
next
  case (ended f k ses e c t err old hist)
  then show ?thesis
    using assms(2) publish_step_manager by (auto simp: linear_def parsed_log_def)
qed

lemma svc_reach_linear: "svc_reach d s s' \<Longrightarrow> linear d bm s \<Longrightarrow> linear d bm s'"
  by (induction rule: svc_reach.induct) (auto intro: svc_step_linear)

lemma linear_idle: "linear d (col_bufferManager c) (idle_service c)"
  by (simp add: linear_def idle_service_def parsed_log_def)

end
