(* ===== verification/System_Model.thy ===== *)
theory System_Model
  imports Buffer_Liveness Collector_System
begin

text \<open>
  The service and the background of its manager together: at any moment a stream has an event, or a
  goroutine of the manager takes a step on the database.  The lemmas of the parts carry over: the
  sessions keep their order (\<open>system_sessions\<close>), the connections are the open sessions
  (\<open>system_service\<close>), and the books of each kind stay balanced against what the log says was received
  (\<open>system_ledger\<close>, in the locale \<open>received_kind\<close>).
\<close>

section \<open>Steps\<close>

definition manager_of :: "service \<Rightarrow> FixedBufferManager" where
  "manager_of s = col_bufferManager (svc_collector s)"

definition with_manager :: "FixedBufferManager \<Rightarrow> service \<Rightarrow> service" where
  "with_manager bm s = s\<lparr>svc_collector := (svc_collector s)\<lparr>col_bufferManager := bm\<rparr>\<rparr>"

lemma with_manager_simps [simp]:
  "manager_of (with_manager bm s) = bm" "svc_open (with_manager bm s) = svc_open s"
  "svc_ended (with_manager bm s) = svc_ended s" "svc_log (with_manager bm s) = svc_log s"
  "col_connections (svc_collector (with_manager bm s)) = col_connections (svc_collector s)"
  "col_activeConnCount (svc_collector (with_manager bm s)) = col_activeConnCount (svc_collector s)"
  by (simp_all add: manager_of_def with_manager_def)

lemma with_manager_ok [simp]:
  "sessions_ok d (with_manager bm s) = sessions_ok d s" "service_ok (with_manager bm s) = service_ok s"
  by (simp_all add: sessions_ok_def service_ok_def conns_ok_def conn_ids_def)

inductive sys_step ::
  "decoders \<Rightarrow> 'w DatabaseInterface \<Rightarrow> service \<times> 'w \<Rightarrow> service \<times> 'w \<Rightarrow> bool"
  for d :: decoders and db :: "'w DatabaseInterface"
where
  sys_served: "svc_step d s s' \<Longrightarrow> sys_step d db (s, w) (s', w)"
| sys_worked: "background db (manager_of s, w) (bm', w') \<Longrightarrow>
    sys_step d db (s, w) (with_manager bm' s, w')"

inductive_cases sys_stepE: "sys_step d db (s, w) z"

abbreviation sys_run ::
  "decoders \<Rightarrow> 'w DatabaseInterface \<Rightarrow> service \<times> 'w \<Rightarrow> service \<times> 'w \<Rightarrow> bool"
where
  "sys_run d db \<equiv> (sys_step d db)\<^sup>*\<^sup>*"

lemma background_sys:
  "background_run db (manager_of s, w) (bm', w') \<Longrightarrow> sys_run d db (s, w) (with_manager bm' s, w')"
proof (induction "(bm', w')" arbitrary: bm' w' rule: rtranclp_induct)
  case base
  have "with_manager (manager_of s) s = s" by (simp add: with_manager_def manager_of_def)
  then show ?case by simp
next
  case (step y)
  obtain bm1 w1 where y: "y = (bm1, w1)" by fastforce
  have "background db (manager_of (with_manager bm1 s), w1) (bm', w')" using step(2) by (simp add: y)
  then have "sys_step d db (with_manager bm1 s, w1) (with_manager bm' (with_manager bm1 s), w')"
    by (rule sys_worked)
  moreover have "with_manager bm' (with_manager bm1 s) = with_manager bm' s" by (simp add: with_manager_def)
  ultimately show ?case using step(3) [OF y] by (simp add: rtranclp.rtrancl_into_rtrancl)
qed

lemma sys_run_invar [consumes 1, case_names start served worked]:
  assumes "sys_run d db (s, w) (s', w')" and "P s w"
    and served: "\<And>s w s'. P s w \<Longrightarrow> svc_step d s s' \<Longrightarrow> P s' w"
    and worked: "\<And>s w bm' w'. P s w \<Longrightarrow> background db (manager_of s, w) (bm', w') \<Longrightarrow> P (with_manager bm' s) w'"
  shows "P s' w'"
  using assms(1)
proof (induction "(s', w')" arbitrary: s' w' rule: rtranclp_induct)
  case base
  then show ?case by (rule assms(2))
next
  case (step y)
  obtain s1 w1 where y: "y = (s1, w1)" by fastforce
  show ?case
    using step(2) step(3) [OF y] unfolding y
    by (cases rule: sys_step.cases) (auto intro: served worked)
qed

section \<open>What the service keeps\<close>

lemma system_service: "sys_run d db (s, w) (s', w') \<Longrightarrow> service_ok s \<Longrightarrow> service_ok s'"
proof (induction rule: sys_run_invar)
  case (served s w s')
  then show ?case using svc_step_ok by blast
qed simp_all

lemma system_sessions: "sys_run d db (s, w) (s', w') \<Longrightarrow> sessions_ok d s \<Longrightarrow> sessions_ok d s'"
proof (induction rule: sys_run_invar)
  case (served s w s')
  then show ?case using svc_step_sessions by blast
qed simp_all

section \<open>What reaches the manager\<close>

lemma svc_step_received:
  assumes "svc_step d s s'"
  shows "\<exists>es. svc_log s' = svc_log s @ es \<and> manager_of s' = fold add_result (parsed_log d es) (manager_of s)"
  using assms
proof (cases rule: svc_step.cases)
  case (connected a now c t1 t2 k c' f old hist)
  then have "col_bufferManager c' = col_bufferManager c"
    using connections_keep_manager(3) [of a now t1 t2 c] by simp
  then show ?thesis using connected by (intro exI [of _ "[]"]) (simp add: manager_of_def parsed_log_def)
next
  case (continued f k ses e c t old hist)
  then show ?thesis
    using publish_step_manager by (intro exI [of _ "[e]"]) (auto simp: manager_of_def parsed_log_def)
next
  case (ended f k ses e c t err old hist)
  then show ?thesis
    using publish_step_manager by (intro exI [of _ "[e]"]) (auto simp: manager_of_def parsed_log_def)
qed

lemma add_result_setup: "same_setup bm (add_result r bm)"
  using add_setup same_setup_trans same_setup_refl unfolding add_result_def Let_def by (smt (verit, best))

lemma add_result_running: "running_ok bm \<Longrightarrow> running_ok (add_result r bm)"
  using running_okI [OF add_result_inv add_result_setup] by (simp add: running_ok_def)

lemma fold_results_running: "running_ok bm \<Longrightarrow> running_ok (fold add_result rs bm)"
  by (induction rs arbitrary: bm) (simp_all add: add_result_running)

lemma fold_results_setup: "same_setup bm (fold add_result rs bm)"
  by (induction rs arbitrary: bm) (auto intro: same_setup_trans add_result_setup)

lemma sys_run_running:
  "sys_run d db (s, w) (s', w') \<Longrightarrow> running_ok (manager_of s) \<Longrightarrow> running_ok (manager_of s')"
proof (induction rule: sys_run_invar)
  case (served s w s')
  then show ?case using svc_step_received [of d s s'] fold_results_running by auto
next
  case (worked s w bm' w')
  then show ?case using bstep_running [OF background_bstep] by fastforce
qed

lemma add_result_Get:
  assumes "bm_inv bm"
  shows "sharded_Get (bm_platformBuffer (add_result r bm)) k =
      merged_at platform_key mergePlatformMetric k (pr_PlatformMetrics r) (sharded_Get (bm_platformBuffer bm) k)"
    and "sharded_Get (bm_interfaceBuffer (add_result r bm)) k =
      merged_at interface_key mergeInterfaceMetric k (pr_InterfaceMetrics r) (sharded_Get (bm_interfaceBuffer bm) k)"
    and "sharded_Get (bm_subinterfaceBuffer (add_result r bm)) k =
      merged_at subinterface_key mergeSubinterfaceMetric k (pr_SubinterfaceMetrics r) (sharded_Get (bm_subinterfaceBuffer bm) k)"
    and "sharded_Get (bm_alarmReportBuffer (add_result r bm)) k =
      merged_at alarm_key replace k (pr_AlarmReportMetrics r) (sharded_Get (bm_alarmReportBuffer bm) k)"
    and "sharded_Get (bm_notificationReportBuffer (add_result r bm)) k =
      merged_at notification_key replace k (pr_NotificationReportMetrics r) (sharded_Get (bm_notificationReportBuffer bm) k)"
  using assms
  by (simp_all add: add_result_def Let_def AddPlatformMetrics_inv AddInterfaceMetrics_inv
      AddSubinterfaceMetrics_inv AddAlarmReportMetrics_inv AddPlatformMetrics_Get AddInterfaceMetrics_Get
      AddSubinterfaceMetrics_Get AddAlarmReportMetrics_Get AddNotificationReportMetrics_Get)

lemma add_result_chan:
  "bm_platformWriteChan (add_result r bm) = bm_platformWriteChan bm"
  "bm_interfaceWriteChan (add_result r bm) = bm_interfaceWriteChan bm"
  "bm_subinterfaceWriteChan (add_result r bm) = bm_subinterfaceWriteChan bm"
  "bm_alarmReportWriteChan (add_result r bm) = bm_alarmReportWriteChan bm"
  "bm_notificationReportWriteChan (add_result r bm) = bm_notificationReportWriteChan bm"
  by (simp_all add: add_result_def Let_def)

lemma sys_run_config:
  "sys_run d db (s, w) (s', w') \<Longrightarrow> running_ok (manager_of s) \<Longrightarrow>
   bm_writerConfig (manager_of s') = bm_writerConfig (manager_of s)"
proof -
  assume run: "sys_run d db (s, w) (s', w')" and ok: "running_ok (manager_of s)"
  have "running_ok (manager_of s') \<and> bm_writerConfig (manager_of s') = bm_writerConfig (manager_of s)"
    using run
  proof (induction rule: sys_run_invar)
    case start
    then show ?case using ok by simp
  next
    case (served s1 w1 s2)
    then show ?case
      using svc_step_received [OF served(2)] fold_results_running fold_results_setup [of "manager_of s1"]
      by (auto simp: same_setup_def)
  next
    case (worked s1 w1 bm2 w2)
    then show ?case
      using bstep_running [OF background_bstep [OF worked(2)]] configured.background_Q [OF worked(2)] by simp
  qed
  then show ?thesis by simp
qed

section \<open>The books of a kind\<close>

text \<open>The metrics of a kind that a service has received, in the order of its log.\<close>

definition received :: "(ParseResult \<Rightarrow> 'v list) \<Rightarrow> decoders \<Rightarrow> service \<Rightarrow> 'v list" where
  "received sel d s = concat (map sel (parsed_log d (svc_log s)))"

lemma received_with_manager [simp]: "received sel d (with_manager bm s) = received sel d s"
  by (simp add: received_def)

locale received_kind = stored_kind K key merge buf chan ins
  for K :: kind and key :: "'v \<Rightarrow> string" and merge :: "'v \<Rightarrow> 'v \<Rightarrow> 'v"
    and buf :: "FixedBufferManager \<Rightarrow> 'v ShardedMap" and chan :: "FixedBufferManager \<Rightarrow> 'v list list"
    and ins :: "'w DatabaseInterface \<Rightarrow> 'v list \<Rightarrow> 'w \<Rightarrow> attempt \<times> 'w" +
  fixes sel :: "ParseResult \<Rightarrow> 'v list"
  assumes result: "bm_inv bm \<Longrightarrow>
      sharded_Get (buf (add_result r bm)) k = merged_at key merge k (sel r) (sharded_Get (buf bm) k)"
    and result_chan: "chan (add_result r bm) = chan bm"
begin

lemma results:
  assumes "bm_inv bm"
  shows "sharded_Get (buf (fold add_result rs bm)) =
           (\<lambda>k. merged_at key merge k (concat (map sel rs)) (sharded_Get (buf bm) k))"
    and "chan (fold add_result rs bm) = chan bm"
  using assms by (induction rs arbitrary: bm) (simp_all add: result result_chan add_result_inv merged_at_append)

lemma served_ledger:
  assumes "svc_step d s s'" and "running_ok (manager_of s)"
    and "ledger key merge enc t0 (received sel d s) (kind_store buf chan tbl K (manager_of s, w)) T Q L P"
  shows "\<exists>P'. ledger key merge enc t0 (received sel d s') (kind_store buf chan tbl K (manager_of s', w)) T Q L P'"
proof -
  obtain es where "svc_log s' = svc_log s @ es" and m: "manager_of s' = fold add_result (parsed_log d es) (manager_of s)"
    using svc_step_received [OF assms(1)] by blast
  then have "received sel d s' = received sel d s @ concat (map sel (parsed_log d es))"
    by (simp add: received_def parsed_log_def)
  moreover have "bm_inv (manager_of s)" using assms(2) by (simp add: running_ok_def)
  ultimately show ?thesis
    using ledger_add [OF assms(3), of "concat (map sel (parsed_log d es))"]
    by (auto simp: kind_store_def m results)
qed

lemma worked_ledger:
  assumes "tables_ok db e1 e2 e3 e4 e5 tbl" and "prompt_writer (ins db) enc (\<lambda>w. tbl w K)"
    and "running_ok (manager_of s)" and "may lossy db (manager_of s)"
    and "background db (manager_of s, w) (bm', w')"
    and "ledger key merge enc t0 (received sel d s) (kind_store buf chan tbl K (manager_of s, w)) T Q L P"
  shows "may lossy db bm' \<and> (\<exists>T' Q' L' P'.
           ledger key merge enc t0 (received sel d (with_manager bm' s)) (kind_store buf chan tbl K (bm', w')) T' Q' L' P' \<and>
           (\<not> lossy \<longrightarrow> L' = L))"
proof -
  have mv: "moves lossy enc db tbl (manager_of s, w) (bm', w')"
    using running_view.background_Q [OF moves_view [OF assms(1,2)] assms(5)] assms(3) by simp
  then have "may lossy db bm'" using assms(4) by (simp add: moves_def may_def)
  moreover have "(store_move lossy enc)\<^sup>*\<^sup>* (kind_store buf chan tbl K (manager_of s, w)) (kind_store buf chan tbl K (bm', w'))"
    using mv assms(4) by (simp add: moves_def)
  ultimately show ?thesis using ledger_moves [OF _ assms(6)] by (simp add: received_def)
qed

text \<open>Whatever the system does, the books of the kind balance; with a database that accepts everything,
  nothing is lost.\<close>

lemma system_ledger:
  assumes db: "tables_ok db e1 e2 e3 e4 e5 tbl" "prompt_writer (ins db) enc (\<lambda>w. tbl w K)"
    and run: "sys_run d db (s, w) (s', w')"
    and ok: "running_ok (manager_of s)" "may lossy db (manager_of s)"
    and book: "ledger key merge enc t0 (received sel d s) (kind_store buf chan tbl K (manager_of s, w)) T Q L P"
  shows "\<exists>T' Q' L' P'. ledger key merge enc t0 (received sel d s') (kind_store buf chan tbl K (manager_of s', w')) T' Q' L' P' \<and>
           (\<not> lossy \<longrightarrow> L' = L)"
proof -
  have "running_ok (manager_of s') \<and> may lossy db (manager_of s') \<and>
      (\<exists>T' Q' L' P'. ledger key merge enc t0 (received sel d s') (kind_store buf chan tbl K (manager_of s', w')) T' Q' L' P' \<and>
         (\<not> lossy \<longrightarrow> L' = L))"
    using run
  proof (induction rule: sys_run_invar)
    case start
    then show ?case using ok book by blast
  next
    case (served s w s')
    obtain T1 Q1 L1 P1 where b1: "ledger key merge enc t0 (received sel d s) (kind_store buf chan tbl K (manager_of s, w)) T1 Q1 L1 P1"
      and l1: "\<not> lossy \<longrightarrow> L1 = L" and ok1: "running_ok (manager_of s)" and may1: "may lossy db (manager_of s)"
      using served(1) by blast
    obtain es where m: "manager_of s' = fold add_result es (manager_of s)"
      using svc_step_received [OF served(2)] by blast
    have "running_ok (manager_of s')" using ok1 fold_results_running by (simp add: m)
    moreover have "may lossy db (manager_of s')"
      using may1 fold_results_setup [of "manager_of s" es] by (simp add: m may_def same_setup_def)
    moreover obtain P2 where "ledger key merge enc t0 (received sel d s')
        (kind_store buf chan tbl K (manager_of s', w)) T1 Q1 L1 P2"
      using served_ledger [OF served(2) ok1 b1] by blast
    ultimately show ?case
      using l1 by (intro conjI exI [of _ T1] exI [of _ Q1] exI [of _ L1] exI [of _ P2])
  next
    case (worked s w bm' w')
    have "running_ok bm'" using bstep_running [OF background_bstep [OF worked(2)]] worked(1) by simp
    obtain T1 Q1 L1 P1 where b1: "ledger key merge enc t0 (received sel d s) (kind_store buf chan tbl K (manager_of s, w)) T1 Q1 L1 P1"
      and l1: "\<not> lossy \<longrightarrow> L1 = L" and ok1: "running_ok (manager_of s)" and may1: "may lossy db (manager_of s)"
      using worked(1) by blast
    note step = worked_ledger [OF db ok1 may1 worked(2) b1]
    obtain T2 Q2 L2 P2 where b2: "ledger key merge enc t0 (received sel d (with_manager bm' s))
        (kind_store buf chan tbl K (bm', w')) T2 Q2 L2 P2" and l2: "\<not> lossy \<longrightarrow> L2 = L1"
      using step by blast
    have "\<not> lossy \<longrightarrow> L2 = L" using l1 l2 by simp
    with b2 \<open>running_ok bm'\<close> conjunct1 [OF step] show ?case
      by (intro conjI exI [of _ T2] exI [of _ Q2] exI [of _ L2] exI [of _ P2]) simp_all
  qed
  then show ?thesis by blast
qed

lemma system_books:
  assumes db: "tables_ok db e1 e2 e3 e4 e5 tbl" "prompt_writer (ins db) enc (\<lambda>w. tbl w K)"
    and run: "sys_run d db (idle_service c, w) (s', w')" and ok: "running_ok (col_bufferManager c)"
    and start: "kind_store buf chan tbl K (col_bufferManager c, w) = \<lparr>so_entries = Map.empty, so_queue = [], so_table = t0\<rparr>"
  shows "\<exists>T Q L P. ledger key merge enc t0 (received sel d s') (kind_store buf chan tbl K (manager_of s', w')) T Q L P \<and>
           ((\<forall>b w. fst (ins db b w) = Returned None) \<and> 0 < wr_RetryAttempts (bm_writerConfig (col_bufferManager c)) \<longrightarrow>
              L = {#})"
proof -
  let ?safe = "(\<forall>b w. fst (ins db b w) = Returned None) \<and> 0 < wr_RetryAttempts (bm_writerConfig (col_bufferManager c))"
  have idle: "manager_of (idle_service c) = col_bufferManager c" "received sel d (idle_service c) = []"
    by (simp_all add: manager_of_def idle_service_def received_def parsed_log_def)
  have can: "may (\<not> ?safe) db (manager_of (idle_service c))" unfolding may_def idle by blast
  have run_ok: "running_ok (manager_of (idle_service c))" using ok by (simp add: idle)
  have "ledger key merge enc t0 (received sel d (idle_service c))
      (kind_store buf chan tbl K (manager_of (idle_service c), w)) {#} {#} {#} []"
    by (simp add: idle start ledger_def)
  from system_ledger [OF db run run_ok can this] show ?thesis by (simp only: not_not)
qed

text \<open>If nothing can be lost and a run ends with the kind empty, everything received is in its table.\<close>

lemma system_stored:
  assumes db: "tables_ok db e1 e2 e3 e4 e5 tbl" "prompt_writer (ins db) enc (\<lambda>w. tbl w K)"
    and acc: "\<And>b w. fst (ins db b w) = Returned None"
    and run: "sys_run d db (idle_service c, w) (s', w')" and ok: "running_ok (col_bufferManager c)"
    and pos: "0 < wr_RetryAttempts (bm_writerConfig (col_bufferManager c))"
    and start: "kind_store buf chan tbl K (col_bufferManager c, w) = \<lparr>so_entries = Map.empty, so_queue = [], so_table = t0\<rparr>"
    and empty: "kind_store buf chan tbl K (manager_of s', w') = \<lparr>so_entries = Map.empty, so_queue = [], so_table = t\<rparr>"
  shows "stored_once key merge enc t0 (received sel d s') t"
proof -
  obtain T Q P where
      "ledger key merge enc t0 (received sel d s') (kind_store buf chan tbl K (manager_of s', w')) T Q {#} P"
    using system_books [OF db run ok start] acc pos by metis
  then show ?thesis using ledger_stored [of key merge enc t0 _ _ T Q P] by (fastforce simp: empty)
qed

end

text \<open>A result reaches the five buffers independently: each add runs on a well-formed manager and changes
  its own buffer only.\<close>

interpretation platform_received: received_kind KPlatform platform_key mergePlatformMetric
  bm_platformBuffer bm_platformWriteChan dbi_Platform pr_PlatformMetrics
  by unfold_locales (simp_all add: add_result_Get add_result_chan)

interpretation interface_received: received_kind KInterface interface_key mergeInterfaceMetric
  bm_interfaceBuffer bm_interfaceWriteChan dbi_Interface pr_InterfaceMetrics
  by unfold_locales (simp_all add: add_result_Get add_result_chan)

interpretation subinterface_received: received_kind KSubinterface subinterface_key mergeSubinterfaceMetric
  bm_subinterfaceBuffer bm_subinterfaceWriteChan dbi_Subinterface pr_SubinterfaceMetrics
  by unfold_locales (simp_all add: add_result_Get add_result_chan)

interpretation alarmReport_received: received_kind KAlarmReport alarm_key replace
  bm_alarmReportBuffer bm_alarmReportWriteChan dbi_AlarmReport pr_AlarmReportMetrics
  by unfold_locales (simp_all add: add_result_Get add_result_chan)

interpretation notificationReport_received: received_kind KNotificationReport notification_key replace
  bm_notificationReportBuffer bm_notificationReportWriteChan dbi_NotificationReport pr_NotificationReportMetrics
  by unfold_locales (simp_all add: add_result_Get add_result_chan)

section \<open>A first run\<close>

text \<open>A stream connects, and delivers one request.\<close>

lemma connect_step:
  assumes "col_connections c = []"
  shows "\<exists>k c'. svc_step d (idle_service c)
             \<lparr>svc_collector = c', svc_open = [k \<mapsto> new_session], svc_ended = [], svc_log = []\<rparr> \<and>
           col_bufferManager c' = col_bufferManager c"
proof -
  obtain k c' where reg: "registerConnection a now t1 t2 c = (k, c')" by fastforce
  have "connection_id a now \<notin> fst ` set (col_connections c)" by (simp add: assms)
  from svc_step.connected [OF this reg, of d Map.empty "[]" "[]"]
  have "svc_step d (idle_service c) \<lparr>svc_collector = c', svc_open = [k \<mapsto> new_session], svc_ended = [], svc_log = []\<rparr>"
    by (simp add: idle_service_def)
  moreover have "col_bufferManager c' = col_bufferManager c"
    using connections_keep_manager(3) [of a now t1 t2 c] reg by simp
  ultimately show ?thesis by blast
qed

lemma request_run:
  assumes "col_connections c = []"
  shows "\<exists>s. sys_run d db (idle_service c, w) (s, w) \<and> svc_log s = [Request req now None] \<and>
           (\<exists>k. dom (svc_open s) = {k}) \<and>
           manager_of s = fold add_result (parsed d (Request req now None)) (col_bufferManager c)"
proof -
  let ?e = "Request req now None"
  obtain k c1 where first: "svc_step d (idle_service c)
        \<lparr>svc_collector = c1, svc_open = [k \<mapsto> new_session], svc_ended = [], svc_log = []\<rparr>"
    and m: "col_bufferManager c1 = col_bufferManager c"
    using connect_step [OF assms] by blast
  define t where "t = publish_step d k ?e (ses_watching new_session) (ses_responses new_session)
      (ses_timeouts new_session) c1"
  have "turn_error t = None" by (simp add: t_def publish_step_answer(2) leaves_open_def)
  from svc_step.continued [OF _ t_def [symmetric] this, of "[k \<mapsto> new_session]" "[]" "[]"]
  have second: "svc_step d \<lparr>svc_collector = c1, svc_open = [k \<mapsto> new_session], svc_ended = [], svc_log = []\<rparr>
      \<lparr>svc_collector = turn_collector t, svc_open = [k \<mapsto> advance ?e t new_session], svc_ended = [], svc_log = [?e]\<rparr>"
    by simp
  have "sys_run d db (idle_service c, w)
      (\<lparr>svc_collector = turn_collector t, svc_open = [k \<mapsto> advance ?e t new_session], svc_ended = [], svc_log = [?e]\<rparr>, w)"
    by (rule converse_rtranclp_into_rtranclp [where r = "sys_step d db", OF sys_served [OF first]
          r_into_rtranclp [where r = "sys_step d db", OF sys_served [OF second]]])
  moreover have "col_bufferManager (turn_collector t) = fold add_result (parsed d ?e) (col_bufferManager c)"
    by (simp add: t_def publish_step_manager m)
  ultimately show ?thesis
    by (intro exI [of _ "\<lparr>svc_collector = turn_collector t, svc_open = [k \<mapsto> advance ?e t new_session],
      svc_ended = [], svc_log = [?e]\<rparr>"] conjI exI [of _ k]) (simp_all add: manager_of_def)
qed

end
