(* ===== verification/Monitoring_Model.thy ===== *)
theory Monitoring_Model
  imports Collector
begin

text \<open>
  The monitoring of \<^verbatim>\<open>main.go\<close> and \<^verbatim>\<open>internal/monitoring/prometheus.go\<close>: the gauges and counters of the
  Prometheus server as an association of values to names and labels, their update from the
  statistics of the other components, and the alert checks.  The HTTP server, the registry and the
  memory statistics of the runtime are libraries: the latter are an argument.

  Lemmas: a counter that is fed the increments of a growing total shows that total
  (\<open>counter_is_total\<close>), however often it is updated.
\<close>

section \<open>The Prometheus server\<close>

record PrometheusServer =
  ps_dbPoolConnections :: "string \<Rightarrow> gofloat"
  ps_recordsProcessed :: "string \<times> string \<Rightarrow> rat"
  ps_bufferSize :: "string \<Rightarrow> gofloat"
  ps_systemMemory :: "string \<Rightarrow> gofloat"
  ps_systemGoroutines :: gofloat
  ps_grpcConnections :: "string \<Rightarrow> gofloat"
  ps_zombieRatio :: gofloat

definition NewPrometheusServer :: PrometheusServer where
  "NewPrometheusServer =
     \<lparr>ps_dbPoolConnections = (\<lambda>_. F_Num 0), ps_recordsProcessed = (\<lambda>_. 0),
      ps_bufferSize = (\<lambda>_. F_Num 0), ps_systemMemory = (\<lambda>_. F_Num 0),
      ps_systemGoroutines = F_Num 0, ps_grpcConnections = (\<lambda>_. F_Num 0),
      ps_zombieRatio = F_Num 0\<rparr>"

definition UpdateBufferSize :: "string \<Rightarrow> gofloat \<Rightarrow> PrometheusServer \<Rightarrow> PrometheusServer" where
  "UpdateBufferSize bufferType sz ps =
     ps\<lparr>ps_bufferSize := (ps_bufferSize ps)(bufferType := sz)\<rparr>"

definition UpdateDBPoolConnections :: "string \<Rightarrow> gofloat \<Rightarrow> PrometheusServer \<Rightarrow> PrometheusServer" where
  "UpdateDBPoolConnections state cnt ps =
     ps\<lparr>ps_dbPoolConnections := (ps_dbPoolConnections ps)(state := cnt)\<rparr>"

definition UpdateSystemMetrics ::
  "gofloat \<Rightarrow> gofloat \<Rightarrow> gofloat \<Rightarrow> gofloat \<Rightarrow> gofloat \<Rightarrow> PrometheusServer \<Rightarrow> PrometheusServer"
where
  "UpdateSystemMetrics goroutines allocMem sysMem heapAlloc heapSys ps =
     ps\<lparr>ps_systemGoroutines := goroutines,
       ps_systemMemory := (ps_systemMemory ps)(''alloc'' := allocMem, ''sys'' := sysMem,
                             ''heap_alloc'' := heapAlloc, ''heap_sys'' := heapSys)\<rparr>"

text \<open>
  A counter of the registry adds up what it is given, whole numbers exactly; the values that reach it
  here are finite.
\<close>

definition counter_add :: "rat \<Rightarrow> gofloat \<Rightarrow> rat" where
  "counter_add total_value v = (case v of F_Num x \<Rightarrow> total_value + x | _ \<Rightarrow> total_value)"

definition UpdateProcessedRecords :: "string \<Rightarrow> gofloat \<Rightarrow> PrometheusServer \<Rightarrow> PrometheusServer" where
  "UpdateProcessedRecords recordType cnt ps =
     (let add = (\<lambda>label. ps\<lparr>ps_recordsProcessed :=
                   (ps_recordsProcessed ps)(label := counter_add (ps_recordsProcessed ps label) cnt)\<rparr>)
      in if recordType = ''total'' then add (''all'', ''success'')
         else if recordType = ''errors'' then add (''all'', ''error'')
         else ps)"

definition UpdateGRPCConnections :: "string \<Rightarrow> gofloat \<Rightarrow> PrometheusServer \<Rightarrow> PrometheusServer" where
  "UpdateGRPCConnections state cnt ps =
     ps\<lparr>ps_grpcConnections := (ps_grpcConnections ps)(state := cnt)\<rparr>"

definition UpdateZombieRatio :: "gofloat \<Rightarrow> PrometheusServer \<Rightarrow> PrometheusServer" where
  "UpdateZombieRatio percent ps = ps\<lparr>ps_zombieRatio := percent\<rparr>"

text \<open>
  Starting and stopping the HTTP server.  \<open>listen\<close> is how \<^verbatim>\<open>ListenAndServe\<close> ends: not at all, with
  \<^verbatim>\<open>ErrServerClosed\<close>, or with another error; the start returns nil and the goroutine it leaves logs that error (the
  second component).  A stop is the shutdown of the library with ten seconds to go.
\<close>

datatype listen_end = Serving | ServerClosed | ListenFailed string

definition PrometheusServer_Start :: "listen_end \<Rightarrow> string option \<times> string option" where
  "PrometheusServer_Start listen =
     (None, case listen of ListenFailed err \<Rightarrow> Some err | _ \<Rightarrow> None)"

definition PrometheusServer_Stop :: "(duration \<Rightarrow> string option) \<Rightarrow> string option" where
  "PrometheusServer_Stop shutdown = shutdown (10 * second_dur)"

text \<open>The error branch of the caller is never taken: a port in use is only logged.\<close>

lemma listen_failure_unreported:
  "fst (PrometheusServer_Start (ListenFailed err)) = None \<and> snd (PrometheusServer_Start (ListenFailed err)) = Some err"
  by (simp add: PrometheusServer_Start_def)

section \<open>Updating the metrics\<close>

record DBStats =
  dbs_MaxOpenConnections :: int
  dbs_OpenConnections :: int
  dbs_InUse :: int
  dbs_Idle :: int

record MemStats =
  ms_NumGoroutine :: int
  ms_Alloc :: uint64
  ms_Sys :: uint64
  ms_HeapAlloc :: uint64
  ms_HeapSys :: uint64

text \<open>The two global variables that remember the totals of the last update.\<close>

record prev_records =
  prevProcessedRecords :: int64
  prevErrorRecords :: int64

text \<open>Adding the growth of a total since the last update, when it is positive.\<close>

definition add_delta :: "string \<Rightarrow> int64 \<Rightarrow> int64 \<Rightarrow> PrometheusServer \<Rightarrow> PrometheusServer" where
  "add_delta recordType now prev ps =
     (let delta = now - prev
      in if 0 < sint delta then UpdateProcessedRecords recordType (float64_of_int (sint delta)) ps else ps)"

definition zombie_ratio :: "int \<Rightarrow> int \<Rightarrow> gofloat" where
  "zombie_ratio staleConn totalConn =
     (if totalConn > 0 then f64_round (of_int (staleConn * 100) / of_int totalConn) else F_Num 0)"

definition updatePrometheusMetrics ::
  "FixedBufferStats \<Rightarrow> DBStats \<Rightarrow> MemStats \<Rightarrow> ConnStats \<Rightarrow> prev_records \<Rightarrow> PrometheusServer \<Rightarrow>
   prev_records \<times> PrometheusServer"
where
  "updatePrometheusMetrics bufferStats dbStats m connStats prev ps =
     (let ps = UpdateBufferSize ''platform'' (float64_of_int (st_PlatformBufferSize bufferStats)) ps;
          ps = UpdateBufferSize ''interface'' (float64_of_int (st_InterfaceBufferSize bufferStats)) ps;
          ps = UpdateBufferSize ''subinterface'' (float64_of_int (st_SubinterfaceBufferSize bufferStats)) ps;
          ps = UpdateBufferSize ''alarm_report'' (float64_of_int (st_AlarmReportBufferSize bufferStats)) ps;
          ps = UpdateBufferSize ''notification_report''
                 (float64_of_int (st_NotificationReportBufferSize bufferStats)) ps;
          ps = UpdateDBPoolConnections ''open'' (float64_of_int (dbs_OpenConnections dbStats)) ps;
          ps = UpdateDBPoolConnections ''in_use'' (float64_of_int (dbs_InUse dbStats)) ps;
          ps = UpdateDBPoolConnections ''idle'' (float64_of_int (dbs_Idle dbStats)) ps;
          ps = UpdateSystemMetrics (float64_of_int (ms_NumGoroutine m)) (float64_of_uint64 (ms_Alloc m))
                 (float64_of_uint64 (ms_Sys m)) (float64_of_uint64 (ms_HeapAlloc m))
                 (float64_of_uint64 (ms_HeapSys m)) ps;
          ps = add_delta ''total'' (st_TotalRecordsProcessed bufferStats) (prevProcessedRecords prev) ps;
          ps = add_delta ''errors'' (st_TotalErrors bufferStats) (prevErrorRecords prev) ps;
          ps = UpdateGRPCConnections ''total'' (float64_of_int (cst_total_connections connStats)) ps;
          ps = UpdateGRPCConnections ''active'' (float64_of_int (cst_active_connections connStats)) ps;
          ps = UpdateGRPCConnections ''stale'' (float64_of_int (cst_stale_connections connStats)) ps;
          ps = UpdateZombieRatio
                 (zombie_ratio (cst_stale_connections connStats) (cst_total_connections connStats)) ps
      in (\<lparr>prevProcessedRecords = st_TotalRecordsProcessed bufferStats,
           prevErrorRecords = st_TotalErrors bufferStats\<rparr>, ps))"

section \<open>Alerts\<close>

datatype alert = DBConnectionAlert int | StaleConnectionAlert int

text \<open>
  The alerts a check logs.  The sum of the buffer sizes is computed and not used; the division of
  Go truncates.
\<close>

definition go_div :: "int \<Rightarrow> int \<Rightarrow> int" where
  "go_div a b = sgn a * sgn b * (\<bar>a\<bar> div \<bar>b\<bar>)"

definition checkAlertThresholds ::
  "AlertThresholdsConfig \<Rightarrow> FixedBufferStats \<Rightarrow> DBStats \<Rightarrow> ConnStats \<Rightarrow> alert list"
where
  "checkAlertThresholds thresholds bufferStats dbStats connStats =
     (let connectionUsagePercent = go_div (dbs_InUse dbStats * 100) (dbs_MaxOpenConnections dbStats);
          stalePercent = go_div (cst_stale_connections connStats * 100) (cst_total_connections connStats)
      in (if dbs_MaxOpenConnections dbStats > 0 \<and>
             connectionUsagePercent \<ge> al_DBConnectionUsagePercent thresholds
          then [DBConnectionAlert connectionUsagePercent] else [])
       @ (if cst_total_connections connStats > 0 \<and> stalePercent \<ge> 30
          then [StaleConnectionAlert stalePercent] else []))"

section \<open>The process\<close>

text \<open>The port of the command line wins over the one of the file; a performance setting of 0 is left.\<close>

definition server_port :: "int \<Rightarrow> Config \<Rightarrow> int" where
  "server_port port cfg = (if port \<noteq> 0 then port else srv_Port (cfg_Server cfg))"

record runtime_settings =
  rt_GOMAXPROCS :: int
  rt_GCPercent :: int

definition applyPerformanceConfig :: "PerformanceConfig \<Rightarrow> runtime_settings \<Rightarrow> runtime_settings" where
  "applyPerformanceConfig perfConfig r =
     (let r = (if perf_MaxProcs perfConfig > 0 then r\<lparr>rt_GOMAXPROCS := perf_MaxProcs perfConfig\<rparr> else r)
      in (if perf_GCPercent perfConfig > 0 then r\<lparr>rt_GCPercent := perf_GCPercent perfConfig\<rparr> else r))"

text \<open>\<^verbatim>\<open>time.NewTicker\<close> panics on an interval that is not positive.\<close>

definition startStatusReporter :: "duration \<Rightarrow> unit flow" where
  "startStatusReporter interval = (if interval \<le> 0 then Panic else Ret ())"

section \<open>Lemmas\<close>

lemma float64_of_int_exact: "\<bar>i\<bar> < 2 ^ 53 \<Longrightarrow> float64_of_int i = F_Num (of_int i)"
proof -
  assume i: "\<bar>i\<bar> < 2 ^ 53"
  have "\<bar>of_int i :: rat\<bar> < 2 ^ 53"
    using i by (metis of_int_abs of_int_less_iff of_int_numeral of_int_power)
  also have "(2::rat) ^ 53 < 2 ^ 1024" by simp
  finally show ?thesis
    unfolding float64_of_int_def by (intro f64_round_exact [where m = i and e = 0]) (use i in auto)
qed

lemma add_delta_total:
  assumes "0 \<le> sint prev" and "sint prev \<le> sint now" and "sint now - sint prev < 2 ^ 53"
  shows "ps_recordsProcessed (add_delta ''total'' now prev ps) =
         (ps_recordsProcessed ps)
           ((''all'', ''success'') :=
              ps_recordsProcessed ps (''all'', ''success'') + of_int (sint now - sint prev))"
proof -
  have "sint now < 2 ^ 63" using sint_lt [of now] by simp
  moreover have "sint (now - prev) = signed_take_bit 63 (sint now - sint prev)"
    by (simp add: sint_word_ariths)
  ultimately have diff: "sint (now - prev) = sint now - sint prev"
    using assms by (simp add: signed_take_bit_int_eq_self_iff)
  have same: "now = prev" if "sint prev = sint now"
    by (rule int64_sint_inject [OF that [symmetric]])
  show ?thesis
    using assms diff same
    by (auto simp: add_delta_def UpdateProcessedRecords_def counter_add_def float64_of_int_exact Let_def
        fun_eq_iff)
qed

lemma update_other_counters [simp]:
  "ps_recordsProcessed (UpdateBufferSize t x ps) = ps_recordsProcessed ps"
  "ps_recordsProcessed (UpdateDBPoolConnections t x ps) = ps_recordsProcessed ps"
  "ps_recordsProcessed (UpdateSystemMetrics a b c d e ps) = ps_recordsProcessed ps"
  "ps_recordsProcessed (UpdateGRPCConnections t x ps) = ps_recordsProcessed ps"
  "ps_recordsProcessed (UpdateZombieRatio x ps) = ps_recordsProcessed ps"
  "ps_recordsProcessed (add_delta ''errors'' n p ps) (''all'', ''success'') =
     ps_recordsProcessed ps (''all'', ''success'')"
  by (simp_all add: UpdateBufferSize_def UpdateDBPoolConnections_def UpdateSystemMetrics_def
      UpdateGRPCConnections_def UpdateZombieRatio_def add_delta_def UpdateProcessedRecords_def Let_def)

lemma updatePrometheus_processed:
  assumes "0 \<le> sint (prevProcessedRecords prev)"
    and "sint (prevProcessedRecords prev) \<le> sint (st_TotalRecordsProcessed s)"
    and "sint (st_TotalRecordsProcessed s) - sint (prevProcessedRecords prev) < 2 ^ 53"
  shows "ps_recordsProcessed (snd (updatePrometheusMetrics s d m c prev ps)) (''all'', ''success'') =
         ps_recordsProcessed ps (''all'', ''success'') +
         of_int (sint (st_TotalRecordsProcessed s) - sint (prevProcessedRecords prev))"
    and "prevProcessedRecords (fst (updatePrometheusMetrics s d m c prev ps)) = st_TotalRecordsProcessed s"
  using add_delta_total [OF assms]
  by (simp_all add: updatePrometheusMetrics_def Let_def)

text \<open>A run of updates: the statistics of each tick, with the other inputs.\<close>

fun monitor_loop ::
  "(FixedBufferStats \<times> DBStats \<times> MemStats \<times> ConnStats) list \<Rightarrow> prev_records \<Rightarrow> PrometheusServer \<Rightarrow>
   prev_records \<times> PrometheusServer"
where
  "monitor_loop [] prev ps = (prev, ps)"
| "monitor_loop ((s, d, m, c) # ticks) prev ps =
     (let (prev, ps) = updatePrometheusMetrics s d m c prev ps in monitor_loop ticks prev ps)"

text \<open>
  The total grows from tick to tick, by less than \<open>2 ^ 53\<close> records at a time: up to there a \<^verbatim>\<open>float64\<close>
  holds the increment exactly.
\<close>

fun growing :: "int \<Rightarrow> (FixedBufferStats \<times> 'a) list \<Rightarrow> bool" where
  "growing n [] \<longleftrightarrow> True"
| "growing n ((s, _) # ticks) \<longleftrightarrow>
     n \<le> sint (st_TotalRecordsProcessed s) \<and> sint (st_TotalRecordsProcessed s) - n < 2 ^ 53 \<and>
     growing (sint (st_TotalRecordsProcessed s)) ticks"

lemma counter_is_total:
  assumes "0 \<le> sint (prevProcessedRecords prev)" and "growing (sint (prevProcessedRecords prev)) ticks"
  shows "ps_recordsProcessed (snd (monitor_loop ticks prev ps)) (''all'', ''success'') -
           of_int (sint (prevProcessedRecords (fst (monitor_loop ticks prev ps)))) =
         ps_recordsProcessed ps (''all'', ''success'') - of_int (sint (prevProcessedRecords prev))"
  using assms
proof (induction ticks arbitrary: prev ps)
  case (Cons t ticks)
  obtain s d m c where t: "t = (s, d, m, c)" by (cases t)
  let ?u = "updatePrometheusMetrics s d m c prev ps"
  have le: "sint (prevProcessedRecords prev) \<le> sint (st_TotalRecordsProcessed s)"
    and few: "sint (st_TotalRecordsProcessed s) - sint (prevProcessedRecords prev) < 2 ^ 53"
    and g: "growing (sint (st_TotalRecordsProcessed s)) ticks"
    using Cons.prems(2) t by simp_all
  note u = updatePrometheus_processed [OF Cons.prems(1) le few, where d = d and m = m and c = c and ps = ps]
  have "0 \<le> sint (prevProcessedRecords (fst ?u))" and "growing (sint (prevProcessedRecords (fst ?u))) ticks"
    using u(2) le g Cons.prems(1) by simp_all
  from Cons.IH [OF this, of "snd ?u"] show ?case
    by (simp add: t split_beta Let_def u)
qed simp

end
