(* ===== verification/Service_Properties.thy ===== *)
theory Service_Properties
  imports System_Model Monitoring_Model
begin

text \<open>
  The properties of the service around the buffers: the connections of the collector, the answers
  on its streams, and the counter of processed records that the monitoring exports.
\<close>

section \<open>Connections\<close>

lemma activity_keys [simp]:
  "fst ` set (col_connections (updateConnectionActivity k now c)) = fst ` set (col_connections c)"
proof (cases "map_of (col_connections c) k")
  case (Some conn)
  then have "k \<in> fst ` set (col_connections c)" by (force dest: map_of_SomeD)
  then show ?thesis
    by (simp add: updateConnectionActivity_def Some update_keys_set insert_absorb)
qed (simp add: updateConnectionActivity_def)

lemma publish_loop_keys:
  "fst ` set (col_connections (str_collector (publish_loop d k es watching rs n c))) =
   fst ` set (col_connections c)"
proof (induction d k es watching rs n c rule: publish_loop.induct)
  case (4 d k req now sent es watching rs n c)
  obtain err c2 where p: "processPublishArgs d req (updateConnectionActivity k now c) = (err, c2)"
    by fastforce
  have "fst ` set (col_connections c2) = fst ` set (col_connections c)"
    using process_connections(1) [of d req "updateConnectionActivity k now c"] p by simp
  then show ?case using 4(1) [OF refl p [symmetric] refl] 4(2) [OF refl p [symmetric] refl] p
    by (cases err; cases sent) (simp_all add: Let_def)
qed simp_all

lemma unregister_keys:
  "fst ` set (col_connections (unregisterConnection k c)) = fst ` set (col_connections c) - {k}"
  by (auto simp: unregisterConnection_def delete_keys_set map_of_eq_None_iff split: option.split)

lemma snapshot_counts:
  "snap_active (computeConnectionSnapshot now c) + snap_stale (computeConnectionSnapshot now c) =
     snap_total (computeConnectionSnapshot now c)"
  "snap_total (computeConnectionSnapshot now c) = int (length (col_connections c))"
  unfolding computeConnectionSnapshot_def snapshot_loop_counts(1,2) by simp_all

text \<open>One call at a time: the counter of active connections is the number of registered ones, before, during and after
  every call of the service, as long as the identifier it makes is new: a call that has ended leaves the
  connections that were there, one that is still open leaves itself in addition; and each snapshot
  splits all connections into active and stale ones.\<close>

lemma connections_counted:
  assumes "conns_ok c" and "connection_id a now \<notin> fst ` set (col_connections c)"
  shows "conns_ok (str_collector (Publish d a now t1 t2 es c)) \<and>
         fst ` set (col_connections (str_collector (Publish d a now t1 t2 es c))) =
           (if str_error (Publish d a now t1 t2 es c) = None
            then insert (connection_id a now) (fst ` set (col_connections c))
            else fst ` set (col_connections c)) \<and>
         (let s = computeConnectionSnapshot t (str_collector (Publish d a now t1 t2 es c))
          in snap_active s + snap_stale s = snap_total s \<and>
             of_int (snap_total s) = col_activeConnCount (str_collector (Publish d a now t1 t2 es c)))"
proof -
  obtain k c1 where reg: "registerConnection a now t1 t2 c = (k, c1)" by fastforce
  have k: "k = connection_id a now" using reg by (simp add: registerConnection_def Let_def)
  have ok1: "conns_ok c1" using register_ok [OF assms, of t1 t2] reg by simp
  have keys1: "fst ` set (col_connections c1) = insert k (fst ` set (col_connections c))"
    using arg_cong [OF reg [symmetric], of "\<lambda>r. fst ` set (col_connections (snd r))"] k
    by (simp add: registerConnection_def Let_def update_keys_set)
  let ?l = "publish_loop d k es True [] 0 c1"
  have ok2: "conns_ok (str_collector ?l)" by (rule publish_loop_conns [OF ok1])
  note keys2 = publish_loop_keys [of d k es True "[]" 0 c1]
  have P: "Publish d a now t1 t2 es c =
      (case str_error ?l of None \<Rightarrow> ?l
       | Some _ \<Rightarrow> ?l\<lparr>str_collector := unregisterConnection k (str_collector ?l)\<rparr>)"
    by (simp add: Publish_def reg Let_def)
  have ok: "conns_ok (str_collector (Publish d a now t1 t2 es c))"
    using ok2 unregister_ok [OF ok2] by (simp add: P split: option.split)
  moreover have "fst ` set (col_connections (str_collector (Publish d a now t1 t2 es c))) =
      (if str_error (Publish d a now t1 t2 es c) = None
       then insert (connection_id a now) (fst ` set (col_connections c))
       else fst ` set (col_connections c))"
    using keys1 keys2 assms(2) by (auto simp: P k unregister_keys split: option.split)
  ultimately show ?thesis by (simp add: snapshot_counts conns_ok_def Let_def)
qed

definition idle_collector :: SimpleCollector where
  "idle_collector =
     NewSimpleCollector (NewFixedBufferManager (cfg_Buffer default_config) (cfg_DatabaseWriter default_config))
       (cfg_Server default_config)"

lemma new_collector: "conns_ok (NewSimpleCollector bm cfg)" "col_connections (NewSimpleCollector bm cfg) = []"
  by (simp_all add: NewSimpleCollector_def conns_ok_def)

lemma idle_connections: "col_connections idle_collector = []"
  by (simp add: idle_collector_def new_collector)

lemma service_counts:
  assumes "service_ok s"
  shows "col_activeConnCount (svc_collector s) = of_nat (card (dom (svc_open s)))"
    and "snap_total (computeConnectionSnapshot t (svc_collector s)) = int (card (dom (svc_open s)))"
proof -
  have c: "conns_ok (svc_collector s)" and dom: "dom (svc_open s) = conn_ids (svc_collector s)"
    using assms by (auto simp: service_ok_def)
  show "col_activeConnCount (svc_collector s) = of_nat (card (dom (svc_open s)))"
    using conns_ok_count [OF c] by (simp add: dom)
  have "card (conn_ids (svc_collector s)) = length (col_connections (svc_collector s))"
    using c distinct_card [of "map fst (col_connections (svc_collector s))"]
    by (simp add: conns_ok_def conn_ids_def)
  then show "snap_total (computeConnectionSnapshot t (svc_collector s)) = int (card (dom (svc_open s)))"
    by (simp add: dom snapshot_counts)
qed

text \<open>C37. Whatever streams connect, deliver, fail and end, and whatever the buffer manager does in between,
  the registered connections of a collector are the streams that are open: the counter of active
  connections is their number, and each snapshot splits them into active and stale ones.\<close>

theorem connections_are_sessions:
  assumes "sys_run d db (idle_service (NewSimpleCollector bm cfg), w) (s, w')"
  shows "fst ` set (col_connections (svc_collector s)) = dom (svc_open s) \<and>
         col_activeConnCount (svc_collector s) = of_nat (card (dom (svc_open s))) \<and>
         (let snap = computeConnectionSnapshot t (svc_collector s)
          in snap_active snap + snap_stale snap = int (card (dom (svc_open s))))"
proof -
  have "service_ok s"
    by (rule system_service [OF assms service_ok_idle [OF new_collector]])
  then show ?thesis
    using service_counts(1) [of s] service_counts(2) [of s t] snapshot_counts(1) [of t "svc_collector s"]
    by (simp add: service_ok_def conn_ids_def Let_def)
qed

theorem connections_are_sessions_witness:
  "\<forall>d (db :: nat DatabaseInterface). \<exists>s. sys_run d db (idle_service idle_collector, 0) (s, 0) \<and>
     (\<exists>k. dom (svc_open s) = {k}) \<and> col_activeConnCount (svc_collector s) = 1"
proof (intro allI)
  fix d and db :: "nat DatabaseInterface"
  obtain s where run: "sys_run d db (idle_service idle_collector, 0) (s, 0)" and k: "\<exists>k. dom (svc_open s) = {k}"
    using request_run [OF idle_connections, of d db 0] by blast
  have "col_activeConnCount (svc_collector s) = of_nat (card (dom (svc_open s)))"
    using connections_are_sessions [OF run [unfolded idle_collector_def]] by blast
  then show "\<exists>s. sys_run d db (idle_service idle_collector, 0) (s, 0) \<and>
      (\<exists>k. dom (svc_open s) = {k}) \<and> col_activeConnCount (svc_collector s) = 1"
    using run k by auto
qed

section \<open>Answers\<close>

lemma publish_loop_answers:
  "str_responses (publish_loop d k es watching rs n c) = rs @ map response (answered d es)"
proof (induction d k es watching rs n c rule: publish_loop.induct)
  case (4 d k req now sent es watching rs n c)
  obtain err c2 where p: "processPublishArgs d req (updateConnectionActivity k now c) = (err, c2)"
    by fastforce
  have f: "err \<noteq> None \<longleftrightarrow> GetData req \<noteq> [] \<and> (\<exists>err. ParseTelemetryData d (GetData req) = Inl err)"
    using process_fails [of d req "updateConnectionActivity k now c"] p by simp
  show ?case
  proof (cases err)
    case None
    then show ?thesis using 4(1) [OF refl p [symmetric] refl] p f
      by (cases sent; cases "GetData req = []") (simp_all add: Let_def)
  next
    case (Some e)
    then show ?thesis using 4(2) [OF refl p [symmetric] refl] p f by (simp add: Let_def)
  qed
qed simp_all

text \<open>One call at a time: on a stream every request that is parsed, or carries no data, is answered with its own number and no
  error text, in the order of arrival, until the stream ends; a request that cannot be parsed gets no answer
  and does not end the stream; and a silent client is noticed at most once, after which nothing of the
  connection or the buffers has changed.\<close>

lemma stream_answers:
  "str_responses (Publish d a now t1 t2 es c) = map response (answered d es) \<and>
   str_timeouts (Publish d a now t1 t2 es c) \<le> 1 \<and>
   Publish d a now t1 t2 (replicate k Deadline) c =
     (Publish d a now t1 t2 [] c)\<lparr>str_timeouts := min 1 k\<rparr>"
proof -
  obtain i c1 where reg: "registerConnection a now t1 t2 c = (i, c1)" by fastforce
  have silent: "publish_loop d i (replicate k Deadline) b [] n c1 =
      (publish_loop d i [] b [] n c1)\<lparr>str_timeouts := n + (if b then min 1 k else 0)\<rparr>" for k n b
    by (induction k arbitrary: n b) auto
  show ?thesis
    using publish_loop_answers [of d i es True "[]" 0 c1] publish_timeouts [of d i es True "[]" 0 c1]
    by (simp add: Publish_def reg silent Let_def split: option.split)
qed

text \<open>C38. Streams do not disturb each other: however their events interleave, with each other and with the
  buffer manager, the events of a stream keep their order in the log of the service, its answers are
  those of its own requests that parse or carry no data, in their order and with their numbers, and
  it is open until the first error of receiving or sending, which ends it and nothing else does; a silent
  client is noticed at most once and never disconnected.\<close>

theorem streams_independent:
  assumes "sys_run d db (idle_service c, w) (s, w')"
    and "svc_open s k = Some ses \<or> ses \<in> set (svc_ended s)"
  shows "subseq (ses_events ses) (svc_log s) \<and>
         ses_responses ses = map response (answered d (ses_events ses)) \<and> ses_timeouts ses \<le> 1 \<and>
         list_all (leaves_open d) (butlast (ses_events ses)) \<and>
         (svc_open s k = Some ses \<longrightarrow> list_all (leaves_open d) (ses_events ses)) \<and>
         (ses \<in> set (svc_ended s) \<longrightarrow> ses_events ses \<noteq> [] \<and> \<not> leaves_open d (last (ses_events ses)))"
proof -
  have ok: "sessions_ok d s" by (rule system_sessions [OF assms(1) sessions_ok_idle])
  have "session_ok d (svc_log s) ses" and
    "svc_open s k = Some ses \<longrightarrow> still_open d ses" and "ses \<in> set (svc_ended s) \<longrightarrow> finished d ses"
    using ok assms(2) by (auto simp: sessions_ok_def list_all_iff)
  moreover have "list_all (leaves_open d) (butlast es)" if "list_all (leaves_open d) es" for es
    using that in_set_butlastD by (fastforce simp: list_all_iff)
  ultimately show ?thesis
    using assms(2) by (auto simp: session_ok_def still_open_def finished_def split: if_splits)
qed

theorem streams_independent_witness:
  "\<forall>d (db :: nat DatabaseInterface). \<exists>s k ses. sys_run d db (idle_service idle_collector, 0) (s, 0) \<and>
     svc_open s k = Some ses \<and> ses_responses ses = map response (answered d (ses_events ses)) \<and>
     subseq (ses_events ses) (svc_log s) \<and> length (svc_log s) = 1"
proof (intro allI)
  fix d and db :: "nat DatabaseInterface"
  obtain s k where run: "sys_run d db (idle_service idle_collector, 0) (s, 0)" and k: "dom (svc_open s) = {k}"
    and hist: "length (svc_log s) = 1"
    using request_run [OF idle_connections, of d db 0] by (metis length_Cons list.size(3) One_nat_def)
  obtain ses where "svc_open s k = Some ses" using k by blast
  then show "\<exists>s k ses. sys_run d db (idle_service idle_collector, 0) (s, 0) \<and>
     svc_open s k = Some ses \<and> ses_responses ses = map response (answered d (ses_events ses)) \<and>
     subseq (ses_events ses) (svc_log s) \<and> length (svc_log s) = 1"
    using streams_independent [OF run] run hist by blast
qed

section \<open>Metrics\<close>

text \<open>C39. Over any run of the monitoring loop the exported counter of processed records grows by exactly
  what the total of the buffer manager has grown by between the first and the last tick, whatever
  the other statistics are: no growth is counted twice or missed.  The total must not shrink, and each growth must be
  below 2 to the 53, up to where a 64-bit float is exact.\<close>

theorem counter_tracks_total:
  assumes "0 \<le> sint (prevProcessedRecords prev)" and "growing (sint (prevProcessedRecords prev)) ticks"
  shows "ps_recordsProcessed (snd (monitor_loop ticks prev ps)) (''all'', ''success'') -
           of_int (sint (prevProcessedRecords (fst (monitor_loop ticks prev ps)))) =
         ps_recordsProcessed ps (''all'', ''success'') - of_int (sint (prevProcessedRecords prev))"
  by (rule counter_is_total [OF assms])

text \<open>The statistics of a manager that has processed a number of records.\<close>

definition processed_stats :: "int64 \<Rightarrow> FixedBufferStats" where
  "processed_stats n = FixedBufferStats_zero\<lparr>st_TotalRecordsProcessed := n\<rparr>"

theorem counter_tracks_total_witness:
  "\<forall>d m s. ps_recordsProcessed (snd (monitor_loop [(processed_stats 5, d, m, s), (processed_stats 12, d, m, s)]
      \<lparr>prevProcessedRecords = 0, prevErrorRecords = 0\<rparr> NewPrometheusServer)) (''all'', ''success'') = 12"
proof (intro allI)
  fix d :: DBStats and m :: MemStats and s :: ConnStats
  have "growing 0 [(processed_stats 5, d, m, s), (processed_stats 12, d, m, s)]"
    by (simp add: processed_stats_def)
  then show "ps_recordsProcessed (snd (monitor_loop [(processed_stats 5, d, m, s), (processed_stats 12, d, m, s)]
      \<lparr>prevProcessedRecords = 0, prevErrorRecords = 0\<rparr> NewPrometheusServer)) (''all'', ''success'') = 12"
    using counter_tracks_total [of "\<lparr>prevProcessedRecords = 0, prevErrorRecords = 0\<rparr>"
        "[(processed_stats 5, d, m, s), (processed_stats 12, d, m, s)]" NewPrometheusServer]
    by (simp add: updatePrometheusMetrics_def Let_def processed_stats_def NewPrometheusServer_def)
qed

end
