(* ===== verification/Process_Model.thy ===== *)
theory Process_Model
  imports Monitoring_Model Database_Rows Buffer_System
begin

text \<open>
  The process of \<^verbatim>\<open>main.go\<close> and the set-up of the database in \<^verbatim>\<open>internal/database/database.go\<close>: the
  connection string and the settings of the pool, the logger, the order in which \<^verbatim>\<open>main\<close> builds its
  components.  Its shutdown is in \<open>Shutdown_Model\<close>.  The pool library of \<^verbatim>\<open>pgx\<close> is the record
  \<open>pgx_lib\<close>, the outcome of the two file operations of the logger are arguments.

  Lemmas: a process that starts holds a fresh, well-formed buffer manager with the loaded
  configuration (\<open>main_start_manager\<close>); the second stop of a shutdown does nothing (\<open>second_stop\<close>).
\<close>

section \<open>Connecting to the database\<close>

definition hour_dur :: duration where "hour_dur = 60 * minute_dur"

text \<open>The fields of the pool configuration that are set here; a library extends the record.\<close>

record PoolConfig =
  pc_MaxConns :: int32
  pc_MinConns :: int32
  pc_MaxConnLifetime :: duration
  pc_MaxConnIdleTime :: duration

record ('w, 'p) pgx_lib =
  lib_ParseConfig :: "string \<Rightarrow> string + 'p PoolConfig_scheme"
  lib_NewWithConfig :: "'p PoolConfig_scheme \<Rightarrow> 'w \<Rightarrow> (string + 'w pgx_pool) \<times> 'w"
  lib_Ping :: "'w pgx_pool \<Rightarrow> 'w \<Rightarrow> string option \<times> 'w"

datatype setup_error = ParseDSNFailed string | CreatePoolFailed string | PingFailed string

definition database_dsn :: "DatabaseConfig \<Rightarrow> string" where
  "database_dsn cfg =
     ''host='' @ db_Host cfg @ '' port='' @ dec_int (db_Port cfg) @ '' user='' @ db_User cfg
     @ '' password='' @ db_Password cfg @ '' dbname='' @ db_Database cfg
     @ '' sslmode=disable search_path=telemetry,public''"

text \<open>\<^verbatim>\<open>int32(x)\<close> keeps the low 32 bits.\<close>

definition pool_settings :: "DatabaseConfig \<Rightarrow> 'p PoolConfig_scheme \<Rightarrow> 'p PoolConfig_scheme" where
  "pool_settings cfg pc =
     pc\<lparr>pc_MaxConns := (if db_MaxOpenConns cfg > 0 then word_of_int (db_MaxOpenConns cfg) else 200),
        pc_MinConns := (if db_MaxIdleConns cfg > 0 then word_of_int (db_MaxIdleConns cfg) else 25),
        pc_MaxConnLifetime := (if db_ConnMaxLifetime cfg > 0 then db_ConnMaxLifetime cfg else hour_dur),
        pc_MaxConnIdleTime :=
          (if db_ConnMaxIdleTime cfg > 0 then db_ConnMaxIdleTime cfg else 30 * minute_dur)\<rparr>"

definition NewDatabaseWithConfig ::
  "('w, 'p) pgx_lib \<Rightarrow> DatabaseConfig \<Rightarrow> 'w \<Rightarrow> (setup_error + 'w pgx_pool) \<times> 'w"
where
  "NewDatabaseWithConfig lib cfg w =
     (case lib_ParseConfig lib (database_dsn cfg) of
        Inl err \<Rightarrow> (Inl (ParseDSNFailed err), w)
      | Inr poolConfig \<Rightarrow>
          (case lib_NewWithConfig lib (pool_settings cfg poolConfig) w of
             (Inl err, w1) \<Rightarrow> (Inl (CreatePoolFailed err), w1)
           | (Inr pool, w1) \<Rightarrow>
               (case lib_Ping lib pool w1 of
                  (Some err, w2) \<Rightarrow> (Inl (PingFailed err), w2)
                | (None, w2) \<Rightarrow> (Inr pool, w2))))"

definition NewDatabase ::
  "('w, 'p) pgx_lib \<Rightarrow> string \<Rightarrow> int \<Rightarrow> string \<Rightarrow> string \<Rightarrow> string \<Rightarrow> 'w \<Rightarrow>
   (setup_error + 'w pgx_pool) \<times> 'w"
where
  "NewDatabase lib host port user password dbname w =
     NewDatabaseWithConfig lib
       \<lparr>db_Host = host, db_Port = port, db_User = user, db_Password = password, db_Database = dbname,
        db_Schema = [], db_SSLMode = [], db_MaxOpenConns = 200, db_MaxIdleConns = 25,
        db_ConnMaxLifetime = hour_dur, db_ConnMaxIdleTime = 30 * minute_dur\<rparr> w"

definition NewFixedConnection ::
  "('w, 'p) pgx_lib \<Rightarrow> string \<Rightarrow> int \<Rightarrow> string \<Rightarrow> string \<Rightarrow> string \<Rightarrow> 'w \<Rightarrow>
   (setup_error + 'w pgx_pool) \<times> 'w"
where
  "NewFixedConnection lib host port user password dbname w =
     NewDatabase lib host port user password dbname w"

text \<open>
  What the buffer manager sees of the database: the five batch inserts, each one run against the
  timeout of the write.
\<close>

definition database_interface ::
  "'w pgx_pool \<Rightarrow> (string \<Rightarrow> gofloat option) \<Rightarrow> ('w \<Rightarrow> bool \<times> 'w) \<Rightarrow> 'w DatabaseInterface"
where
  "database_interface pool parse_float timer =
     \<lparr>dbi_Platform = (\<lambda>b. race timer (BatchInsertPlatformMetrics pool b)),
      dbi_Interface = (\<lambda>b. race timer (BatchInsertInterfaceMetrics pool parse_float b)),
      dbi_Subinterface = (\<lambda>b. race timer (BatchInsertSubinterfaceMetrics pool parse_float b)),
      dbi_AlarmReport = (\<lambda>b. race timer (BatchInsertAlarmReportMetrics pool b)),
      dbi_NotificationReport = (\<lambda>b. race timer (BatchInsertNotificationReportMetrics pool b))\<rparr>"

text \<open>The counts of \<^verbatim>\<open>pgxpool.Stat\<close>, and the statistics made of them.\<close>

record PoolStat =
  stat_TotalConns :: int32
  stat_AcquiredConns :: int32
  stat_IdleConns :: int32

definition Database_GetStats :: "'p PoolConfig_scheme \<Rightarrow> PoolStat \<Rightarrow> DBStats" where
  "Database_GetStats cfg stat =
     \<lparr>dbs_MaxOpenConnections = sint (pc_MaxConns cfg), dbs_OpenConnections = sint (stat_TotalConns stat),
      dbs_InUse = sint (stat_AcquiredConns stat), dbs_Idle = sint (stat_IdleConns stat)\<rparr>"

definition Database_Close :: "('w \<Rightarrow> 'w) option \<Rightarrow> 'w \<Rightarrow> 'w" where
  "Database_Close pool_Close w = (case pool_Close of None \<Rightarrow> w | Some close \<Rightarrow> close w)"

section \<open>The logger\<close>

datatype log_level = DebugLevel | InfoLevel
datatype log_format = JSONFormat | TextFormat
datatype log_output = Stdout | LogFile string

record logger_settings =
  lg_Level :: log_level
  lg_Format :: log_format
  lg_Output :: log_output

text \<open>\<open>mkdir_ok\<close> and \<open>open_ok\<close> say whether the directory of a path can be made and the file opened.\<close>

definition initializeLogger ::
  "LoggingConfig \<Rightarrow> bool \<Rightarrow> (string \<Rightarrow> bool) \<Rightarrow> (string \<Rightarrow> bool) \<Rightarrow> logger_settings"
where
  "initializeLogger logConfig debugMode mkdir_ok open_ok =
     \<lparr>lg_Level = (if debugMode then DebugLevel else InfoLevel),
      lg_Format = (if log_Format logConfig = ''json'' then JSONFormat else TextFormat),
      lg_Output =
        (if log_Output logConfig = ''file'' \<and> log_FilePath logConfig \<noteq> []
         then (if \<not> mkdir_ok (log_FilePath logConfig) then Stdout
               else if \<not> open_ok (log_FilePath logConfig) then Stdout
               else LogFile (log_FilePath logConfig))
         else Stdout)\<rparr>"

section \<open>Monitoring\<close>

text \<open>
  One tick of the update loop: the statistics, the metrics when there is a server for them, the
  alerts.
\<close>

definition monitoring_tick ::
  "MonitoringConfig \<Rightarrow> FixedBufferManager \<Rightarrow> DBStats \<Rightarrow> MemStats \<Rightarrow> ConnStats \<Rightarrow>
   prev_records \<times> PrometheusServer option \<Rightarrow> alert list \<times> prev_records \<times> PrometheusServer option"
where
  "monitoring_tick monConfig bm dbStats m connStats s =
     (let bufferStats = GetStats bm;
          (prev, server) = s;
          (prev, server) =
            (case server of
               None \<Rightarrow> (prev, None)
             | Some ps \<Rightarrow>
                 (let (prev, ps) = updatePrometheusMetrics bufferStats dbStats m connStats prev ps
                  in (prev, Some ps)))
      in (checkAlertThresholds (mon_AlertThresholds monConfig) bufferStats dbStats connStats,
          prev, server))"

text \<open>The goroutine of the update loop panics when it makes its ticker of an interval that is not positive.\<close>

definition startMonitoringService :: "MonitoringConfig \<Rightarrow> PrometheusServer option flow" where
  "startMonitoringService monConfig =
     (if mon_MetricsInterval monConfig \<le> 0 then Panic
      else Ret (if mon_PrometheusEnabled monConfig then Some NewPrometheusServer else None))"

section \<open>The process\<close>

record 'w process =
  proc_config :: Config
  proc_runtime :: runtime_settings
  proc_logger :: logger_settings
  proc_pool :: "'w pgx_pool"
  proc_collector :: SimpleCollector
  proc_prometheus :: "PrometheusServer option"
  proc_port :: int

datatype start_error = ConfigFailed config_error | DatabaseFailed setup_error

text \<open>
  The command line, the file and what the system says of the log file are the surroundings of a
  start.  A failure before the components exist ends the process; a panic of one of its goroutines
  does too.  A collector that cannot listen is only logged: the process runs on without a server.
\<close>

record surroundings =
  env_file :: config_file
  env_debug :: bool
  env_port :: int
  env_runtime :: runtime_settings
  env_listen :: "int \<Rightarrow> string option"
  env_mkdir_ok :: "string \<Rightarrow> bool"
  env_open_ok :: "string \<Rightarrow> bool"

definition main_start ::
  "(bytes \<Rightarrow> Config \<Rightarrow> string + Config) \<Rightarrow> ('w, 'p) pgx_lib \<Rightarrow> surroundings \<Rightarrow> 'w \<Rightarrow>
   (start_error + 'w process) flow \<times> 'w"
where
  "main_start yaml_Unmarshal lib env w =
     (case LoadConfig yaml_Unmarshal (env_file env) of
        Inl err \<Rightarrow> (Ret (Inl (ConfigFailed err)), w)
      | Inr cfg \<Rightarrow>
          let rt = applyPerformanceConfig (cfg_Performance cfg) (env_runtime env);
              lg = initializeLogger (cfg_Logging cfg) (env_debug env) (env_mkdir_ok env) (env_open_ok env)
          in (case NewDatabaseWithConfig lib (cfg_Database cfg) w of
                (Inl err, w') \<Rightarrow> (Ret (Inl (DatabaseFailed err)), w')
              | (Inr pool, w') \<Rightarrow>
                  let bufferManager = NewFixedBufferManager (cfg_Buffer cfg) (cfg_DatabaseWriter cfg);
                      telemetryCollector = NewSimpleCollector bufferManager (cfg_Server cfg);
                      monitoring = (if mon_Enabled (cfg_Monitoring cfg)
                                    then startMonitoringService (cfg_Monitoring cfg) else Ret None)
                  in (case monitoring of
                        Panic \<Rightarrow> (Panic, w')
                      | Ret server \<Rightarrow>
                          (case startStatusReporter (mon_MetricsInterval (cfg_Monitoring cfg)) of
                             Panic \<Rightarrow> (Panic, w')
                           | Ret _ \<Rightarrow>
                               let port = server_port (env_port env) cfg;
                                   c = (case collector_Start port (env_listen env) telemetryCollector of
                                          Inl err \<Rightarrow> telemetryCollector
                                        | Inr (opts, c) \<Rightarrow> c)
                               in (Ret (Inr \<lparr>proc_config = cfg, proc_runtime = rt, proc_logger = lg,
                                            proc_pool = pool, proc_collector = c,
                                            proc_prometheus = server, proc_port = port\<rparr>),
                                   w')))))"

section \<open>Lemmas\<close>

lemma main_start_manager:
  assumes "main_start yaml lib env w = (Ret (Inr p), w')"
  shows "LoadConfig yaml (env_file env) = Inr (proc_config p)"
    and "col_bufferManager (proc_collector p) =
         NewFixedBufferManager (cfg_Buffer (proc_config p)) (cfg_DatabaseWriter (proc_config p))"
    and "0 < mon_MetricsInterval (cfg_Monitoring (proc_config p))"
  using assms
  by (auto simp: main_start_def Let_def NewSimpleCollector_def startStatusReporter_def collector_Start_def
      split: sum.splits prod.splits flow.splits if_splits option.splits)

text \<open>Nothing of an add depends on, or clears, the closed stop channel.\<close>

lemma add_stopped [simp]:
  "bm_stopped (AddPlatformMetrics metrics0 bm) = bm_stopped bm"
  "bm_stopped (AddInterfaceMetrics metrics1 bm) = bm_stopped bm"
  "bm_stopped (AddSubinterfaceMetrics metrics2 bm) = bm_stopped bm"
  "bm_stopped (AddAlarmReportMetrics metrics3 bm) = bm_stopped bm"
  "bm_stopped (AddNotificationReportMetrics metrics4 bm) = bm_stopped bm"
  by (simp_all add: add_defs split_beta Let_def)

lemma add_result_stopped [simp]: "bm_stopped (add_result result bm) = bm_stopped bm"
  by (simp add: add_result_def Let_def)

lemma flush_kind_stopped:
  "flush_kind db ro k bm w = Some (Ret (err, bm', w')) \<Longrightarrow> bm_stopped bm' = bm_stopped bm"
  by (cases k) (auto simp: flush_kind_def flush_defs split_beta Let_def split: option.splits flow.splits)

lemma run_flushes_stopped:
  "run_flushes db ro ks errs bm w = Some (Ret (errs', bm', w')) \<Longrightarrow> bm_stopped bm' = bm_stopped bm"
proof (induction ks arbitrary: errs bm w)
  case (Cons k ks)
  obtain err bm1 w1 where f: "flush_kind db ro k bm w = Some (Ret (err, bm1, w1))"
    using Cons.prems by (auto split: option.splits flow.splits)
  moreover obtain errs1 where "run_flushes db ro ks errs1 bm1 w1 = Some (Ret (errs', bm', w'))"
    using Cons.prems f by (cases err) auto
  ultimately show ?case using Cons.IH flush_kind_stopped by metis
qed simp

lemma Stop_stopped: "Stop db ro ks start now bm w = Some (Ret (err, bm', w')) \<Longrightarrow> bm_stopped bm'"
  by (auto simp: Stop_def FlushAll_def Let_def split: if_splits option.splits flow.splits
      dest!: run_flushes_stopped)

lemma second_stop:
  "bm_stopped bm \<Longrightarrow> Stop db ro ks start now bm w = Some (Ret (None, bm, w))"
  by (simp add: Stop_def)

lemma collector_Stop_stopped:
  "collector_Stop db ro ks start now c w = Some (Ret (c', w')) \<Longrightarrow> bm_stopped (col_bufferManager c')"
  by (auto simp: collector_Stop_def split: if_splits option.splits flow.splits dest!: Stop_stopped)

end
