(* ===== verification/Run_Properties.thy ===== *)
theory Run_Properties
  imports Buffer_Properties Database_Laws Process_Model System_Model
begin

text \<open>
  The properties of whole runs of the manager with its database: the refinement of the abstract store
  of each kind, and what a running manager can always reach.  The database is the one of
  \<open>database_interface\<close> over a pool that keeps \<open>pgx_contract\<close>.
\<close>

section \<open>The five tables\<close>

definition table_of :: "kind \<Rightarrow> string list" where
  "table_of k =
     (case k of
        KPlatform \<Rightarrow> platform_table | KInterface \<Rightarrow> interface_table | KSubinterface \<Rightarrow> subinterface_table
      | KAlarmReport \<Rightarrow> alarmReport_table | KNotificationReport \<Rightarrow> notificationReport_table)"

definition tables_by_kind :: "('w \<Rightarrow> string list \<Rightarrow> cell list multiset) \<Rightarrow> 'w \<Rightarrow> kind \<Rightarrow> cell list multiset" where
  "tables_by_kind tables w k = tables w (table_of k)"

lemma table_of_eq: "table_of j = table_of k \<longleftrightarrow> j = k"
  by (cases j; cases k) (simp_all add: table_of_def platform_table_def interface_table_def
      subinterface_table_def alarmReport_table_def notificationReport_table_def)

text \<open>An insert that adds a batch to its table or fails, and a timer that never fires.\<close>

lemma raced_writes_table:
  assumes ins: "\<And>b w. tables (snd (ins b w)) =
      (if fst (ins b w) = None then (tables w)(table_of k := tables w (table_of k) + mset (map row b))
       else tables w)"
    and tm: "timer_ok timer tables" and never: "\<And>w. \<not> fst (timer w)"
  shows "writes_table (\<lambda>b. race timer (ins b)) row (tables_by_kind tables) k"
proof -
  have "tables (snd (ins b w)) (table_of k) =
      tables w (table_of k) + (if fst (ins b w) = None then mset (map row b) else {#})" for b w
    by (simp add: ins)
  then have "prompt_writer (\<lambda>b. race timer (ins b)) row (\<lambda>w. tables w (table_of k))"
    by (rule raced_prompt_writer [OF _ tm never])
  moreover have "tables (snd (race timer (ins b) w)) (table_of j) = tables w (table_of j)" if "j \<noteq> k" for b w j
    using tm that by (simp add: race_def split_beta Let_def ins timer_ok_def table_of_eq)
  ultimately show ?thesis by (simp add: writes_table_def tables_by_kind_def)
qed

lemma database_tables_ok:
  assumes pool: "pgx_contract pool tables" and tm: "timer_ok timer tables" and never: "\<And>w. \<not> fst (timer w)"
  shows "tables_ok (database_interface pool pf timer) platform_row (interface_row pf) (subinterface_row pf)
           alarmReport_row notificationReport_row (tables_by_kind tables)"
  unfolding tables_ok_def database_interface_def DatabaseInterface.simps
  using copy_rows_tables [OF pool, OF prod.collapse [symmetric]]
  by (intro conjI raced_writes_table [OF _ tm never]) (simp_all add: insert_defs table_of_def)

lemma database_writers:
  assumes "pgx_contract pool tables" and "timer_ok timer tables" and "\<And>w. \<not> fst (timer w)"
  shows "prompt_writer (dbi_Platform (database_interface pool pf timer)) platform_row
      (\<lambda>w. tables_by_kind tables w KPlatform)"
    and "prompt_writer (dbi_Interface (database_interface pool pf timer)) (interface_row pf)
      (\<lambda>w. tables_by_kind tables w KInterface)"
    and "prompt_writer (dbi_Subinterface (database_interface pool pf timer)) (subinterface_row pf)
      (\<lambda>w. tables_by_kind tables w KSubinterface)"
    and "prompt_writer (dbi_AlarmReport (database_interface pool pf timer)) alarmReport_row
      (\<lambda>w. tables_by_kind tables w KAlarmReport)"
    and "prompt_writer (dbi_NotificationReport (database_interface pool pf timer)) notificationReport_row
      (\<lambda>w. tables_by_kind tables w KNotificationReport)"
  using database_tables_ok [OF assms, of pf] writes_table_own by (auto simp: tables_ok_def)

section \<open>Refinement\<close>

text \<open>The store of each kind: its buffer, its channel and its table.\<close>

abbreviation "platform_store tables \<equiv>
  kind_store bm_platformBuffer bm_platformWriteChan (tables_by_kind tables) KPlatform"

abbreviation "interface_store tables \<equiv>
  kind_store bm_interfaceBuffer bm_interfaceWriteChan (tables_by_kind tables) KInterface"

abbreviation "subinterface_store tables \<equiv>
  kind_store bm_subinterfaceBuffer bm_subinterfaceWriteChan (tables_by_kind tables) KSubinterface"

abbreviation "alarmReport_store tables \<equiv>
  kind_store bm_alarmReportBuffer bm_alarmReportWriteChan (tables_by_kind tables) KAlarmReport"

abbreviation "notificationReport_store tables \<equiv>
  kind_store bm_notificationReportBuffer bm_notificationReportWriteChan (tables_by_kind tables) KNotificationReport"

text \<open>C3. Every run of the manager, whatever adds, flushes, ticks, writes and stops interleave, is for each of
  the five kinds a run of the abstract store, which has entries by key, a queue of batches and a table
  and knows no shards, key buffers, goroutines or retries: an add merges by key, a flush moves the
  entries to the queue and, only when that is full, to the table or away, and a writer moves a batch
  from the queue to the table or drops it.  The run starts in a well-formed state with a positive batch
  size, and no insert times out; the database may refuse any of them.\<close>

theorem manager_refines_store:
  assumes "pgx_contract pool tables" and "timer_ok timer tables" and "\<forall>w. \<not> fst (timer w)"
    and "running_ok (fst s)" and "breach (database_interface pool pf timer) s s'"
  shows "(store_step platform_key mergePlatformMetric platform_row)\<^sup>*\<^sup>* (platform_store tables s) (platform_store tables s') \<and>
         (store_step interface_key mergeInterfaceMetric (interface_row pf))\<^sup>*\<^sup>* (interface_store tables s) (interface_store tables s') \<and>
         (store_step subinterface_key mergeSubinterfaceMetric (subinterface_row pf))\<^sup>*\<^sup>* (subinterface_store tables s) (subinterface_store tables s') \<and>
         (store_step alarm_key replace alarmReport_row)\<^sup>*\<^sup>* (alarmReport_store tables s) (alarmReport_store tables s') \<and>
         (store_step notification_key replace notificationReport_row)\<^sup>*\<^sup>* (notificationReport_store tables s) (notificationReport_store tables s')"
proof -
  note db = database_tables_ok [OF assms(1,2) spec [OF assms(3)], of pf]
  note run = assms(5,4)
  note own = database_writers [OF assms(1,2) spec [OF assms(3)], of pf]
  show ?thesis
    by (intro conjI manager_view.breach_Q [OF platform_stored.view [OF db own(1)] run]
        manager_view.breach_Q [OF interface_stored.view [OF db own(2)] run]
        manager_view.breach_Q [OF subinterface_stored.view [OF db own(3)] run]
        manager_view.breach_Q [OF alarmReport_stored.view [OF db own(4)] run]
        manager_view.breach_Q [OF notificationReport_stored.view [OF db own(5)] run])
qed

theorem manager_refines_store_witness:
  "(store_step platform_key mergePlatformMetric platform_row)\<^sup>*\<^sup>*
     \<lparr>so_entries = Map.empty, so_queue = [], so_table = {#}\<rparr>
     \<lparr>so_entries = [platform_key (some_platform ''fan'') \<mapsto> some_platform ''fan''], so_queue = [], so_table = {#}\<rparr>"
proof -
  let ?w = "\<lparr>sw_outcomes = [], sw_tables = (\<lambda>_. {#})\<rparr>"
  have "breach (database_interface script_pool (\<lambda>_. None) no_timeout) (fresh_manager, ?w) (loaded_manager, ?w)"
    unfolding loaded_manager_def by (rule breach.one_more [OF breach.at_start bstep.platform_added])
  then have "(store_step platform_key mergePlatformMetric platform_row)\<^sup>*\<^sup>*
      (platform_store sw_tables (fresh_manager, ?w)) (platform_store sw_tables (loaded_manager, ?w))"
    using manager_refines_store [OF script_pool_contract no_timeout_ok] by (simp add: running_ok_def no_timeout_def)
  moreover have "sharded_Get (bm_platformBuffer fresh_manager) = Map.empty"
    by (simp add: fun_eq_iff sharded.look_new)
  ultimately show ?thesis by (simp add: kind_store_def loaded_Get tables_by_kind_def)
qed

section \<open>Everything arrives\<close>

definition pool_accepts :: "'w pgx_pool \<Rightarrow> bool" where
  "pool_accepts pool \<longleftrightarrow>
     (\<forall>w. fst (pool_Acquire pool w) = None) \<and> (\<forall>t cs rows w. fst (pool_CopyFrom pool t cs rows w) = None)"

lemma accepting_database:
  assumes "pool_accepts pool" and "\<And>w. \<not> fst (timer w)"
  shows "accepting (database_interface pool pf timer)"
  using assms
  by (auto simp: accepting_def database_interface_def race_def insert_defs copy_rows_def pool_accepts_def
      split: prod.splits option.splits) (metis fst_conv option.distinct(1))+

text \<open>C15. A running manager can always bring in everything it holds: from every well-formed state with its timer
  and a writer of each kind running, a positive batch size, at least one attempt per write, and a database
  that accepts each batch without a timeout, some sequence of background steps ends with all five buffers
  and channels empty and with exactly the rows of the tables, the queued batches and the buffered
  metrics in the tables.\<close>

theorem everything_stored:
  assumes "running_ok bm" and "bm_flushTimer bm" and "\<forall>k. 0 < bm_writers bm k"
    and "0 < wr_RetryAttempts (bm_writerConfig bm)"
    and "pgx_contract pool tables" and "pool_accepts pool" and "timer_ok timer tables" and "\<forall>w. \<not> fst (timer w)"
  shows "\<exists>bm' w'. background_run (database_interface pool pf timer) (bm, w) (bm', w') \<and>
    (\<forall>k. chan_len k bm' = 0 \<and> kind_len k bm' = 0) \<and>
    tables w' platform_table = tables w platform_table + mset (map platform_row (concat (bm_platformWriteChan bm))) +
      image_mset platform_row (map_values (sharded_Get (bm_platformBuffer bm))) \<and>
    tables w' interface_table = tables w interface_table + mset (map (interface_row pf) (concat (bm_interfaceWriteChan bm))) +
      image_mset (interface_row pf) (map_values (sharded_Get (bm_interfaceBuffer bm))) \<and>
    tables w' subinterface_table = tables w subinterface_table + mset (map (subinterface_row pf) (concat (bm_subinterfaceWriteChan bm))) +
      image_mset (subinterface_row pf) (map_values (sharded_Get (bm_subinterfaceBuffer bm))) \<and>
    tables w' alarmReport_table = tables w alarmReport_table + mset (map alarmReport_row (concat (bm_alarmReportWriteChan bm))) +
      image_mset alarmReport_row (map_values (sharded_Get (bm_alarmReportBuffer bm))) \<and>
    tables w' notificationReport_table = tables w notificationReport_table + mset (map notificationReport_row (concat (bm_notificationReportWriteChan bm))) +
      image_mset notificationReport_row (map_values (sharded_Get (bm_notificationReportBuffer bm)))"
proof -
  note db = database_tables_ok [OF assms(5,7) spec [OF assms(8)], of pf]
  note acc = accepting_database [OF assms(6) spec [OF assms(8)], of pf]
  show ?thesis
    using reaches_tables [OF assms(1-4) db acc, of w]
    by (simp add: so_total_def kind_store_def tables_by_kind_def table_of_def) blast
qed

text \<open>A pool that accepts every batch.\<close>

definition memory_pool :: "(string list \<Rightarrow> cell list multiset) pgx_pool" where
  "memory_pool =
     \<lparr>pool_Acquire = (\<lambda>w. (None, w)),
      pool_CopyFrom = (\<lambda>t cs rows w. (None, w(t := w t + mset rows))),
      pool_Release = (\<lambda>w. w)\<rparr>"

lemma memory_pool_ok: "pgx_contract memory_pool (\<lambda>w. w)" "pool_accepts memory_pool"
  by (simp_all add: pgx_contract_def pool_accepts_def memory_pool_def)

lemma fresh_runs: "running_ok fresh_manager" "bm_flushTimer fresh_manager" "0 < bm_writers fresh_manager k"
  by (simp add: running_ok_def)
    (simp_all add: fresh_manager_def NewFixedBufferManager_def startParallelWriters_def startFlushTimer_def
      default_config_def)

lemma loaded_runs: "running_ok loaded_manager" "bm_flushTimer loaded_manager" "0 < bm_writers loaded_manager k"
  using fresh_runs
  by (simp add: running_ok_def)
    (simp_all add: loaded_manager_def AddPlatformMetrics_def split_beta Let_def fresh_runs)

theorem everything_stored_witness:
  "\<exists>bm' w'. background_run (database_interface memory_pool (\<lambda>_. None) no_timeout) (loaded_manager, \<lambda>_. {#}) (bm', w') \<and>
     chan_len KPlatform bm' = 0 \<and> kind_len KPlatform bm' = 0 \<and>
     w' platform_table = {#platform_row (some_platform ''fan'')#}"
proof -
  have "\<forall>w. \<not> fst (no_timeout w)" by (simp add: no_timeout_def)
  moreover have "0 < wr_RetryAttempts (bm_writerConfig loaded_manager)" by simp
  ultimately show ?thesis
    using everything_stored [OF loaded_runs(1,2) _ _ memory_pool_ok no_timeout_ok, of "\<lambda>_. None" "\<lambda>_. {#}"]
      loaded_runs(3)
    by (simp add: loaded_values) blast
qed

section \<open>The books of the system\<close>

lemma new_stores:
  "platform_store tables (NewFixedBufferManager cfg wcfg, w) =
     \<lparr>so_entries = Map.empty, so_queue = [], so_table = tables w platform_table\<rparr>"
  "interface_store tables (NewFixedBufferManager cfg wcfg, w) =
     \<lparr>so_entries = Map.empty, so_queue = [], so_table = tables w interface_table\<rparr>"
  "subinterface_store tables (NewFixedBufferManager cfg wcfg, w) =
     \<lparr>so_entries = Map.empty, so_queue = [], so_table = tables w subinterface_table\<rparr>"
  "alarmReport_store tables (NewFixedBufferManager cfg wcfg, w) =
     \<lparr>so_entries = Map.empty, so_queue = [], so_table = tables w alarmReport_table\<rparr>"
  "notificationReport_store tables (NewFixedBufferManager cfg wcfg, w) =
     \<lparr>so_entries = Map.empty, so_queue = [], so_table = tables w notificationReport_table\<rparr>"
  by (simp_all add: kind_store_def NewFixedBufferManager_def startParallelWriters_def startFlushTimer_def
      typed_maps fun_eq_iff sharded.look_new tables_by_kind_def table_of_def)

text \<open>A manager that holds nothing.\<close>

definition holds_nothing :: "FixedBufferManager \<Rightarrow> bool" where
  "holds_nothing bm \<longleftrightarrow> (\<forall>k. chan_len k bm = 0 \<and> kind_len k bm = 0)"

lemma emptied_stores:
  assumes "running_ok bm" and "holds_nothing bm"
  shows "platform_store tables (bm, w) =
      \<lparr>so_entries = Map.empty, so_queue = [], so_table = tables w platform_table\<rparr>"
    and "interface_store tables (bm, w) =
      \<lparr>so_entries = Map.empty, so_queue = [], so_table = tables w interface_table\<rparr>"
    and "subinterface_store tables (bm, w) =
      \<lparr>so_entries = Map.empty, so_queue = [], so_table = tables w subinterface_table\<rparr>"
    and "alarmReport_store tables (bm, w) =
      \<lparr>so_entries = Map.empty, so_queue = [], so_table = tables w alarmReport_table\<rparr>"
    and "notificationReport_store tables (bm, w) =
      \<lparr>so_entries = Map.empty, so_queue = [], so_table = tables w notificationReport_table\<rparr>"
  using assms
  by (simp_all add: empty_stores holds_nothing_def tables_by_kind_def table_of_def)

text \<open>From where a timer and writers run, background steps empty the manager.\<close>

lemma brings_in:
  assumes "sys_run d (database_interface pool pf timer) (idle_service c, w) (s, w1)"
    and "running_ok (col_bufferManager c)" and "0 < wr_RetryAttempts (bm_writerConfig (col_bufferManager c))"
    and "pgx_contract pool tables" and "pool_accepts pool" and "timer_ok timer tables" and "\<forall>w. \<not> fst (timer w)"
    and "bm_flushTimer (manager_of s)" and "\<forall>k. 0 < bm_writers (manager_of s) k"
  shows "\<exists>bm' w2. sys_run d (database_interface pool pf timer) (s, w1) (with_manager bm' s, w2) \<and>
           running_ok bm' \<and> holds_nothing bm'"
proof -
  let ?db = "database_interface pool pf timer"
  note db = database_tables_ok [OF assms(4,6) spec [OF assms(7)], of pf]
  have acc: "accepting ?db" by (rule accepting_database [OF assms(5)]) (use assms(7) in simp)
  have idle: "manager_of (idle_service c) = col_bufferManager c" by (simp add: manager_of_def idle_service_def)
  have ok: "running_ok (manager_of s)" using sys_run_running [OF assms(1)] assms(2) by (simp add: idle)
  have "0 < wr_RetryAttempts (bm_writerConfig (manager_of s))"
    using sys_run_config [OF assms(1)] assms(2,3) by (simp add: idle)
  then obtain bm' w2 where bg: "background_run ?db (manager_of s, w1) (bm', w2)"
    and "holds_nothing bm'"
    using reaches_tables [OF ok assms(8,9) _ db acc, of w1] by (auto simp: holds_nothing_def)
  moreover have "running_ok bm'" using background_run_running [OF bg] ok by simp
  ultimately show ?thesis using background_sys [OF bg] by blast
qed

text \<open>A run that ends with an empty manager has stored everything.\<close>

lemma all_in_tables:
  assumes run: "sys_run d (database_interface pool pf timer) (idle_service c, w) (s, w')"
    and new: "col_bufferManager c = NewFixedBufferManager cfg wcfg"
    and ok: "running_ok (col_bufferManager c)" and pos: "0 < wr_RetryAttempts (bm_writerConfig (col_bufferManager c))"
    and pool: "pgx_contract pool tables" "pool_accepts pool" and tm: "timer_ok timer tables" "\<forall>w. \<not> fst (timer w)"
    and ends: "running_ok (manager_of s)" "holds_nothing (manager_of s)"
  shows "stored_once platform_key mergePlatformMetric platform_row (tables w platform_table)
           (received pr_PlatformMetrics d s) (tables w' platform_table)"
    and "stored_once interface_key mergeInterfaceMetric (interface_row pf) (tables w interface_table)
           (received pr_InterfaceMetrics d s) (tables w' interface_table)"
    and "stored_once subinterface_key mergeSubinterfaceMetric (subinterface_row pf) (tables w subinterface_table)
           (received pr_SubinterfaceMetrics d s) (tables w' subinterface_table)"
    and "stored_once alarm_key replace alarmReport_row (tables w alarmReport_table)
           (received pr_AlarmReportMetrics d s) (tables w' alarmReport_table)"
    and "stored_once notification_key replace notificationReport_row (tables w notificationReport_table)
           (received pr_NotificationReportMetrics d s) (tables w' notificationReport_table)"
proof -
  let ?db = "database_interface pool pf timer"
  note db = database_tables_ok [OF pool(1) tm(1) spec [OF tm(2)], of pf]
  note own = database_writers [OF pool(1) tm(1) spec [OF tm(2)], of pf]
  have "accepting ?db" by (rule accepting_database [OF pool(2)]) (use tm(2) in simp)
  then have acc: "fst (dbi_Platform ?db b0 u) = Returned None"
    "fst (dbi_Interface ?db b1 u) = Returned None"
    "fst (dbi_Subinterface ?db b2 u) = Returned None"
    "fst (dbi_AlarmReport ?db b3 u) = Returned None"
    "fst (dbi_NotificationReport ?db b4 u) = Returned None" for b0 b1 b2 b3 b4 u
    by (simp_all add: accepting_def)
  show "stored_once platform_key mergePlatformMetric platform_row (tables w platform_table)
      (received pr_PlatformMetrics d s) (tables w' platform_table)"
    by (rule platform_received.system_stored [OF db own(1) acc(1) run ok pos])
      (simp_all only: new new_stores emptied_stores [OF ends])
  show "stored_once interface_key mergeInterfaceMetric (interface_row pf) (tables w interface_table)
      (received pr_InterfaceMetrics d s) (tables w' interface_table)"
    by (rule interface_received.system_stored [OF db own(2) acc(2) run ok pos])
      (simp_all only: new new_stores emptied_stores [OF ends])
  show "stored_once subinterface_key mergeSubinterfaceMetric (subinterface_row pf) (tables w subinterface_table)
      (received pr_SubinterfaceMetrics d s) (tables w' subinterface_table)"
    by (rule subinterface_received.system_stored [OF db own(3) acc(3) run ok pos])
      (simp_all only: new new_stores emptied_stores [OF ends])
  show "stored_once alarm_key replace alarmReport_row (tables w alarmReport_table)
      (received pr_AlarmReportMetrics d s) (tables w' alarmReport_table)"
    by (rule alarmReport_received.system_stored [OF db own(4) acc(4) run ok pos])
      (simp_all only: new new_stores emptied_stores [OF ends])
  show "stored_once notification_key replace notificationReport_row (tables w notificationReport_table)
      (received pr_NotificationReportMetrics d s) (tables w' notificationReport_table)"
    by (rule notificationReport_received.system_stored [OF db own(5) acc(5) run ok pos])
      (simp_all only: new new_stores emptied_stores [OF ends])
qed

end
