(* ===== verification/Shutdown_Model.thy ===== *)
theory Shutdown_Model
  imports Run_Properties
begin

text \<open>
  The shutdown of \<^verbatim>\<open>main.go\<close> with everything that goes on meanwhile.  \<open>main_step\<close> has the four phases of the
  main goroutine: it waits for a signal, the collector waits for its streams (\<^verbatim>\<open>GracefulStop\<close>), the
  buffer manager has been stopped again and the process sleeps, and it has exited.  Until it exits,
  the goroutines of the manager take their steps (the flushes that adds have started, the timer, the
  writers), and until the streams have ended, these deliver what they deliver.

  Lemmas: in a manager that has stopped, whose timer has ended and that no flush is running for, adds
  below the threshold leave their metrics in the buffers (\<open>run_late_state\<close>).
\<close>

section \<open>The phases\<close>

datatype phase = Awaiting | Draining | Halting "flush_error option" | Exited "flush_error option"

text \<open>
  A call of \<open>Stop\<close> is one step, as in \<open>Buffer_System\<close>.  The collector stops the manager first and then waits
  until its streams have ended: no new ones are accepted.  A background step that closes the stop channel is no
  step of a goroutine, hence the condition of \<open>main_worked\<close>.
\<close>

inductive main_step ::
  "decoders \<Rightarrow> 'w DatabaseInterface \<Rightarrow> phase \<times> service \<times> 'w \<Rightarrow> phase \<times> service \<times> 'w \<Rightarrow> bool"
  for d :: decoders and db :: "'w DatabaseInterface"
where
  main_served: "svc_step d s s' \<Longrightarrow> main_step d db (Awaiting, s, w) (Awaiting, s', w)"
| main_worked: "background db (manager_of s, w) (bm', w') \<Longrightarrow> bm_stopped bm' = bm_stopped (manager_of s) \<Longrightarrow>
    (\<forall>err. p \<noteq> Exited err) \<Longrightarrow> main_step d db (p, s, w) (p, with_manager bm' s, w')"
| main_signal: "orders_ok ro \<Longrightarrow> mset ks = mset all_kinds \<Longrightarrow>
    collector_Stop db ro ks start now (svc_collector s) w = Some (Ret (c', w')) \<Longrightarrow>
    main_step d db (Awaiting, s, w) (Draining, s\<lparr>svc_collector := c'\<rparr>, w')"
| main_late: "svc_step d s s' \<Longrightarrow> dom (svc_open s') \<subseteq> dom (svc_open s) \<Longrightarrow>
    main_step d db (Draining, s, w) (Draining, s', w)"
| main_stopped: "svc_open s = Map.empty \<Longrightarrow> orders_ok ro \<Longrightarrow> mset ks = mset all_kinds \<Longrightarrow>
    Stop db ro ks start now (manager_of s) w = Some (Ret (err, bm', w')) \<Longrightarrow>
    main_step d db (Draining, s, w) (Halting err, with_manager bm' s, w')"
| main_exit: "main_step d db (Halting err, s, w) (Exited err, s, w)"

inductive_cases main_stepE: "main_step d db (p, s, w) z"

abbreviation main_run ::
  "decoders \<Rightarrow> 'w DatabaseInterface \<Rightarrow> phase \<times> service \<times> 'w \<Rightarrow> phase \<times> service \<times> 'w \<Rightarrow> bool"
where
  "main_run d db \<equiv> (main_step d db)\<^sup>*\<^sup>*"

lemma main_run_invar [consumes 1, case_names start step]:
  assumes "main_run d db (p, s, w) (p', s', w')" and "P p s w"
    and "\<And>p s w p' s' w'. P p s w \<Longrightarrow> main_step d db (p, s, w) (p', s', w') \<Longrightarrow> P p' s' w'"
  shows "P p' s' w'"
  using assms(1)
proof (induction "(p', s', w')" arbitrary: p' s' w' rule: rtranclp_induct)
  case base
  then show ?case by (rule assms(2))
next
  case (step y)
  obtain p1 s1 w1 where y: "y = (p1, s1, w1)" by (cases y)
  show ?case by (rule assms(3) [OF step(3) [OF y] step(2) [unfolded y]])
qed

section \<open>After the first stop\<close>

lemma add_timer [simp]:
  "bm_flushTimer (AddPlatformMetrics metrics0 bm) = bm_flushTimer bm"
  "bm_flushTimer (AddInterfaceMetrics metrics1 bm) = bm_flushTimer bm"
  "bm_flushTimer (AddSubinterfaceMetrics metrics2 bm) = bm_flushTimer bm"
  "bm_flushTimer (AddAlarmReportMetrics metrics3 bm) = bm_flushTimer bm"
  "bm_flushTimer (AddNotificationReportMetrics metrics4 bm) = bm_flushTimer bm"
  by (simp_all add: add_defs split_beta Let_def)

lemma fold_results_flags [simp]:
  "bm_stopped (fold add_result rs bm) = bm_stopped bm"
  "bm_flushTimer (fold add_result rs bm) = bm_flushTimer bm"
proof -
  have "bm_flushTimer (add_result r b) = bm_flushTimer b" for r b by (simp add: add_result_def Let_def)
  then show "bm_stopped (fold add_result rs bm) = bm_stopped bm" "bm_flushTimer (fold add_result rs bm) = bm_flushTimer bm"
    by (induction rs arbitrary: bm) simp_all
qed

lemma svc_step_stopped: "svc_step d s s' \<Longrightarrow> bm_stopped (manager_of s') = bm_stopped (manager_of s)"
  using svc_step_received by fastforce

lemma stop_again:
  "Stop db ro ks start now bm w = Some (Ret (err, bm', w')) \<Longrightarrow> bm_stopped bm \<Longrightarrow> err = None \<and> bm' = bm \<and> w' = w"
  by (simp add: Stop_def)

lemma main_step_stopped:
  assumes "main_step d db (p, s, w) (p', s', w')" and "p \<noteq> Awaiting \<longrightarrow> bm_stopped (manager_of s)"
    and "\<forall>err. p = Halting err \<or> p = Exited err \<longrightarrow> err = None"
  shows "(p' \<noteq> Awaiting \<longrightarrow> bm_stopped (manager_of s')) \<and> (\<forall>err. p' = Halting err \<or> p' = Exited err \<longrightarrow> err = None)"
  using assms(1)
proof (cases rule: main_step.cases)
  case (main_signal ro ks start now c')
  then show ?thesis using collector_Stop_stopped by (fastforce simp: manager_of_def)
next
  case (main_stopped ro ks start now err bm')
  then have "bm_stopped (manager_of s)" using assms(2) by simp
  then show ?thesis using main_stopped second_stop [of "manager_of s" db ro ks start now w] by simp
qed (use assms svc_step_stopped in auto)

text \<open>Whatever happens during a shutdown, the manager is stopped from the first stop on and the second
  one reports no error.\<close>

lemma main_run_stopped:
  assumes "main_run d db (p, s, w) (p', s', w')" and "p \<noteq> Awaiting \<longrightarrow> bm_stopped (manager_of s)"
    and "\<forall>err. p = Halting err \<or> p = Exited err \<longrightarrow> err = None"
  shows "(p' \<noteq> Awaiting \<longrightarrow> bm_stopped (manager_of s')) \<and> (\<forall>err. p' = Halting err \<or> p' = Exited err \<longrightarrow> err = None)"
  using assms(1)
proof (induction rule: main_run_invar)
  case start
  then show ?case using assms(2,3) by simp
next
  case (step p s w p' s' w')
  show ?case by (rule main_step_stopped [OF step(2)]) (use step(1) in blast)+
qed

lemma collector_Stop_manager:
  "collector_Stop db ro ks start now c w = Some (Ret (c', w')) \<Longrightarrow>
   \<exists>err. Stop db ro ks start now (col_bufferManager c) w = Some (Ret (err, col_bufferManager c', w'))"
  by (auto simp: collector_Stop_def split: if_splits option.splits flow.splits)

lemma main_step_running:
  assumes "main_step d db (p, s, w) (p', s', w')" and "running_ok (manager_of s)"
  shows "running_ok (manager_of s')"
  using assms(1)
proof (cases rule: main_step.cases)
  case (main_worked bm')
  then show ?thesis using bstep_running [OF background_bstep] assms(2) by fastforce
next
  case (main_signal ro ks start now c')
  obtain err where "Stop db ro ks start now (manager_of s) w = Some (Ret (err, manager_of s', w'))"
    using collector_Stop_manager [OF main_signal(6)] main_signal(3) by (auto simp: manager_of_def)
  from bstep_running [OF bstep.stopped [OF main_signal(4) this]] show ?thesis using assms(2) by simp
next
  case (main_stopped ro ks start now err bm')
  then show ?thesis using bstep_running [OF bstep.stopped [OF main_stopped(5,7)]] assms(2) by simp
qed (use assms(2) svc_step_received fold_results_running in fastforce)+

lemma main_run_running:
  "main_run d db (p, s, w) (p', s', w') \<Longrightarrow> running_ok (manager_of s) \<Longrightarrow> running_ok (manager_of s')"
  by (induction rule: main_run_invar) (auto intro: main_step_running)

section \<open>Adds below the threshold\<close>

lemma len_merged:
  assumes "sharded_inv m" and "sharded_inv m'"
    and "\<And>k. sharded_Get m' k = merged_at key merge k ms (sharded_Get m k)"
  shows "sharded_Len m' \<le> sharded_Len m + length ms"
proof -
  have "merged_at key merge k ms e = e" if "k \<notin> key ` set ms" for k e
    using that by (induction ms arbitrary: e) auto
  then have "dom (sharded_Get m') \<subseteq> dom (sharded_Get m) \<union> key ` set ms"
    using assms(3) by (metis (no_types, lifting) UnCI domIff subsetI)
  then have "card (dom (sharded_Get m')) \<le> card (dom (sharded_Get m) \<union> key ` set ms)"
    by (intro card_mono) (simp_all add: sharded.finite_look [OF assms(1)])
  also have "\<dots> \<le> card (dom (sharded_Get m)) + card (key ` set ms)" by (rule card_Un_le)
  also have "card (key ` set ms) \<le> length ms"
    using card_image_le [of "set ms" key] card_length [of ms] by simp
  finally show ?thesis using assms(1,2) by (simp add: sharded.len_look)
qed

text \<open>Adds of \<open>n k\<close> metrics of each kind \<open>k\<close> that start no flush as long as the threshold is not reached.\<close>

definition quiet_add :: "(kind \<Rightarrow> nat) \<Rightarrow> FixedBufferManager \<Rightarrow> FixedBufferManager \<Rightarrow> bool" where
  "quiet_add n bm bm' \<longleftrightarrow>
     bm_inv bm' \<and> bm_config bm' = bm_config bm \<and> (\<forall>k. kind_len k bm' \<le> kind_len k bm + n k) \<and>
     ((\<forall>k. int (kind_len k bm + n k) < buf_FlushThreshold (bm_config bm)) \<longrightarrow> bm_spawned bm' = bm_spawned bm)"

definition only :: "kind \<Rightarrow> nat \<Rightarrow> kind \<Rightarrow> nat" where
  "only k n j = (if j = k then n else 0)"

lemma quiet_addI:
  assumes "bm_inv bm'" and "bm_config bm' = bm_config bm" and "\<And>j. j \<noteq> k \<Longrightarrow> kind_len j bm' = kind_len j bm"
    and "kind_len k bm' \<le> kind_len k bm + n"
    and "bm_spawned bm' = (if buf_FlushThreshold (bm_config bm) \<le> int (kind_len k bm')
       then bm_spawned bm @ [k] else bm_spawned bm)"
  shows "quiet_add (only k n) bm bm'"
proof -
  have "bm_spawned bm' = bm_spawned bm" if "int (kind_len k bm + n) < buf_FlushThreshold (bm_config bm)"
    using assms(4,5) that by auto
  moreover have "kind_len j bm' \<le> kind_len j bm + only k n j" for j
    using assms(3,4) by (cases "j = k") (simp_all add: only_def)
  ultimately show ?thesis using assms(1,2) by (auto simp: quiet_add_def only_def dest: spec [of _ k])
qed

lemma quiet_add_trans:
  assumes "quiet_add n a b" and "quiet_add m b c"
  shows "quiet_add (\<lambda>k. n k + m k) a c"
proof -
  have len: "kind_len k b \<le> kind_len k a + n k" "kind_len k c \<le> kind_len k b + m k" for k
    using assms by (simp_all add: quiet_add_def)
  have "bm_spawned c = bm_spawned a" if below: "\<forall>k. int (kind_len k a + (n k + m k)) < buf_FlushThreshold (bm_config a)"
  proof -
    have "int (kind_len k a + n k) < buf_FlushThreshold (bm_config a)"
      and "int (kind_len k b + m k) < buf_FlushThreshold (bm_config a)" for k
      using spec [OF below, of k] len(1) [of k] by linarith+
    then show ?thesis using assms by (simp add: quiet_add_def)
  qed
  moreover have "kind_len k c \<le> kind_len k a + (n k + m k)" for k using len [of k] by simp
  ultimately show ?thesis using assms by (simp add: quiet_add_def)
qed

lemma other_len:
  "j \<noteq> KPlatform \<Longrightarrow> kind_len j (AddPlatformMetrics ps bm) = kind_len j bm"
  "j \<noteq> KInterface \<Longrightarrow> kind_len j (AddInterfaceMetrics is bm) = kind_len j bm"
  "j \<noteq> KSubinterface \<Longrightarrow> kind_len j (AddSubinterfaceMetrics ss bm) = kind_len j bm"
  "j \<noteq> KAlarmReport \<Longrightarrow> kind_len j (AddAlarmReportMetrics as bm) = kind_len j bm"
  "j \<noteq> KNotificationReport \<Longrightarrow> kind_len j (AddNotificationReportMetrics ns bm) = kind_len j bm"
  by (cases j; simp add: kind_len_def)+

lemma own_len:
  assumes "bm_inv bm"
  shows "kind_len KPlatform (AddPlatformMetrics ps bm) \<le> kind_len KPlatform bm + length ps"
    and "kind_len KInterface (AddInterfaceMetrics is bm) \<le> kind_len KInterface bm + length is"
    and "kind_len KSubinterface (AddSubinterfaceMetrics ss bm) \<le> kind_len KSubinterface bm + length ss"
    and "kind_len KAlarmReport (AddAlarmReportMetrics as bm) \<le> kind_len KAlarmReport bm + length as"
    and "kind_len KNotificationReport (AddNotificationReportMetrics ns bm) \<le>
      kind_len KNotificationReport bm + length ns"
proof -
  note invs = AddPlatformMetrics_inv [OF assms] AddInterfaceMetrics_inv [OF assms]
    AddSubinterfaceMetrics_inv [OF assms] AddAlarmReportMetrics_inv [OF assms] AddNotificationReportMetrics_inv [OF assms]
  have parts: "sharded_inv (bm_platformBuffer b)" "sharded_inv (bm_interfaceBuffer b)" "sharded_inv (bm_subinterfaceBuffer b)"
    "sharded_inv (bm_alarmReportBuffer b)" "sharded_inv (bm_notificationReportBuffer b)" if "bm_inv b" for b
    using that by (auto simp: bm_inv_def)
  note old = parts [OF assms]
  show "kind_len KPlatform (AddPlatformMetrics ps bm) \<le> kind_len KPlatform bm + length ps"
    using len_merged [OF old(1) parts(1) [OF invs(1)] AddPlatformMetrics_Get [OF assms]] by (simp add: kind_len_def typed_maps)
  show "kind_len KInterface (AddInterfaceMetrics is bm) \<le> kind_len KInterface bm + length is"
    using len_merged [OF old(2) parts(2) [OF invs(2)] AddInterfaceMetrics_Get [OF assms]] by (simp add: kind_len_def typed_maps)
  show "kind_len KSubinterface (AddSubinterfaceMetrics ss bm) \<le> kind_len KSubinterface bm + length ss"
    using len_merged [OF old(3) parts(3) [OF invs(3)] AddSubinterfaceMetrics_Get [OF assms]] by (simp add: kind_len_def typed_maps)
  show "kind_len KAlarmReport (AddAlarmReportMetrics as bm) \<le> kind_len KAlarmReport bm + length as"
    using len_merged [OF old(4) parts(4) [OF invs(4)] AddAlarmReportMetrics_Get [OF assms]] by (simp add: kind_len_def typed_maps)
  show "kind_len KNotificationReport (AddNotificationReportMetrics ns bm) \<le>
      kind_len KNotificationReport bm + length ns"
    using len_merged [OF old(5) parts(5) [OF invs(5)] AddNotificationReportMetrics_Get [OF assms]] by (simp add: kind_len_def typed_maps)
qed

text \<open>The flush that an add starts.\<close>

lemma add_spawned:
  "bm_spawned (AddPlatformMetrics ps bm) =
     (if buf_FlushThreshold (bm_config bm) \<le> int (kind_len KPlatform (AddPlatformMetrics ps bm))
      then bm_spawned bm @ [KPlatform] else bm_spawned bm)"
  "bm_spawned (AddInterfaceMetrics is bm) =
     (if buf_FlushThreshold (bm_config bm) \<le> int (kind_len KInterface (AddInterfaceMetrics is bm))
      then bm_spawned bm @ [KInterface] else bm_spawned bm)"
  "bm_spawned (AddSubinterfaceMetrics ss bm) =
     (if buf_FlushThreshold (bm_config bm) \<le> int (kind_len KSubinterface (AddSubinterfaceMetrics ss bm))
      then bm_spawned bm @ [KSubinterface] else bm_spawned bm)"
  "bm_spawned (AddAlarmReportMetrics as bm) =
     (if buf_FlushThreshold (bm_config bm) \<le> int (kind_len KAlarmReport (AddAlarmReportMetrics as bm))
      then bm_spawned bm @ [KAlarmReport] else bm_spawned bm)"
  "bm_spawned (AddNotificationReportMetrics ns bm) =
     (if buf_FlushThreshold (bm_config bm) \<le> int (kind_len KNotificationReport (AddNotificationReportMetrics ns bm))
      then bm_spawned bm @ [KNotificationReport] else bm_spawned bm)"
  by (simp_all add: add_defs kind_len_def split_beta Let_def)

lemma adds_quiet:
  assumes "bm_inv bm"
  shows "quiet_add (only KPlatform (length ps)) bm (AddPlatformMetrics ps bm)"
    and "quiet_add (only KInterface (length is)) bm (AddInterfaceMetrics is bm)"
    and "quiet_add (only KSubinterface (length ss)) bm (AddSubinterfaceMetrics ss bm)"
    and "quiet_add (only KAlarmReport (length as)) bm (AddAlarmReportMetrics as bm)"
    and "quiet_add (only KNotificationReport (length ns)) bm (AddNotificationReportMetrics ns bm)"
proof -
  note cfg = add_setup [unfolded same_setup_def, THEN conjunct1]
  show "quiet_add (only KPlatform (length ps)) bm (AddPlatformMetrics ps bm)"
    by (rule quiet_addI [OF AddPlatformMetrics_inv [OF assms] cfg(1) other_len(1) own_len(1) [OF assms] add_spawned(1)])
  show "quiet_add (only KInterface (length is)) bm (AddInterfaceMetrics is bm)"
    by (rule quiet_addI [OF AddInterfaceMetrics_inv [OF assms] cfg(2) other_len(2) own_len(2) [OF assms] add_spawned(2)])
  show "quiet_add (only KSubinterface (length ss)) bm (AddSubinterfaceMetrics ss bm)"
    by (rule quiet_addI [OF AddSubinterfaceMetrics_inv [OF assms] cfg(3) other_len(3) own_len(3) [OF assms] add_spawned(3)])
  show "quiet_add (only KAlarmReport (length as)) bm (AddAlarmReportMetrics as bm)"
    by (rule quiet_addI [OF AddAlarmReportMetrics_inv [OF assms] cfg(4) other_len(4) own_len(4) [OF assms] add_spawned(4)])
  show "quiet_add (only KNotificationReport (length ns)) bm (AddNotificationReportMetrics ns bm)"
    by (rule quiet_addI [OF AddNotificationReportMetrics_inv [OF assms] cfg(5) other_len(5) own_len(5) [OF assms] add_spawned(5)])
qed

text \<open>The metrics of each kind in a parse result, and in several.\<close>

definition result_count :: "ParseResult \<Rightarrow> kind \<Rightarrow> nat" where
  "result_count r k =
     (case k of
        KPlatform \<Rightarrow> length (pr_PlatformMetrics r) | KInterface \<Rightarrow> length (pr_InterfaceMetrics r)
      | KSubinterface \<Rightarrow> length (pr_SubinterfaceMetrics r) | KAlarmReport \<Rightarrow> length (pr_AlarmReportMetrics r)
      | KNotificationReport \<Rightarrow> length (pr_NotificationReportMetrics r))"

definition late_count :: "ParseResult list \<Rightarrow> kind \<Rightarrow> nat" where
  "late_count rs k = sum_list (map (\<lambda>r. result_count r k) rs)"

lemma late_count_append [simp]: "late_count (rs @ rs') k = late_count rs k + late_count rs' k"
  by (simp add: late_count_def)

lemma quiet_maybe:
  "bm_inv bm \<Longrightarrow> (bm_inv bm \<Longrightarrow> quiet_add (only k (length xs)) bm bm') \<Longrightarrow>
   quiet_add (only k (length xs)) bm (if length xs > 0 then bm' else bm)"
  by (auto simp: quiet_add_def)

lemma quiet_add_inv: "quiet_add n bm bm' \<Longrightarrow> bm_inv bm'"
  by (simp add: quiet_add_def)

lemma add_result_quiet:
  assumes "bm_inv bm"
  shows "quiet_add (result_count r) bm (add_result r bm)"
proof -
  define b1 where "b1 = (if length (pr_PlatformMetrics r) > 0 then AddPlatformMetrics (pr_PlatformMetrics r) bm else bm)"
  define b2 where "b2 = (if length (pr_InterfaceMetrics r) > 0 then AddInterfaceMetrics (pr_InterfaceMetrics r) b1 else b1)"
  define b3 where
    "b3 = (if length (pr_SubinterfaceMetrics r) > 0 then AddSubinterfaceMetrics (pr_SubinterfaceMetrics r) b2 else b2)"
  define b4 where
    "b4 = (if length (pr_AlarmReportMetrics r) > 0 then AddAlarmReportMetrics (pr_AlarmReportMetrics r) b3 else b3)"
  have q1: "quiet_add (only KPlatform (length (pr_PlatformMetrics r))) bm b1"
    unfolding b1_def by (rule quiet_maybe [OF assms adds_quiet(1)])
  have q2: "quiet_add (only KInterface (length (pr_InterfaceMetrics r))) b1 b2"
    unfolding b2_def by (rule quiet_maybe [OF quiet_add_inv [OF q1] adds_quiet(2)])
  have q3: "quiet_add (only KSubinterface (length (pr_SubinterfaceMetrics r))) b2 b3"
    unfolding b3_def by (rule quiet_maybe [OF quiet_add_inv [OF q2] adds_quiet(3)])
  have q4: "quiet_add (only KAlarmReport (length (pr_AlarmReportMetrics r))) b3 b4"
    unfolding b4_def by (rule quiet_maybe [OF quiet_add_inv [OF q3] adds_quiet(4)])
  have "quiet_add (only KNotificationReport (length (pr_NotificationReportMetrics r))) b4 (add_result r bm)"
    unfolding add_result_def Let_def b1_def [symmetric] b2_def [symmetric] b3_def [symmetric] b4_def [symmetric]
    by (rule quiet_maybe [OF quiet_add_inv [OF q4] adds_quiet(5)])
  note all = quiet_add_trans [OF quiet_add_trans [OF quiet_add_trans [OF quiet_add_trans [OF q1 q2] q3] q4] this]
  have "(\<lambda>k. only KPlatform (length (pr_PlatformMetrics r)) k + only KInterface (length (pr_InterfaceMetrics r)) k +
      only KSubinterface (length (pr_SubinterfaceMetrics r)) k + only KAlarmReport (length (pr_AlarmReportMetrics r)) k +
      only KNotificationReport (length (pr_NotificationReportMetrics r)) k) = result_count r"
    by (simp add: fun_eq_iff result_count_def only_def split: kind.split)
  then show ?thesis using all by simp
qed

lemma fold_results_quiet: "bm_inv bm \<Longrightarrow> quiet_add (late_count rs) bm (fold add_result rs bm)"
proof (induction rs arbitrary: bm)
  case (Cons r rs)
  note q = add_result_quiet [OF Cons.prems, of r]
  from quiet_add_trans [OF q Cons.IH [OF quiet_add_inv [OF q]]] show ?case by (simp add: late_count_def)
qed (simp add: quiet_add_def)

section \<open>Writers of a manager that is quiet\<close>

text \<open>An insert adds no rows but those of its batch, in time or late, once or not at all.\<close>

definition adds_only ::
  "('v list \<Rightarrow> 'w \<Rightarrow> attempt \<times> 'w) \<Rightarrow> ('v \<Rightarrow> 'r) \<Rightarrow> ('w \<Rightarrow> kind \<Rightarrow> 'r multiset) \<Rightarrow> kind \<Rightarrow> bool"
where
  "adds_only ins row tbl k \<longleftrightarrow>
     (\<forall>b w j. set_mset (tbl (snd (ins b w)) j) \<subseteq> set_mset (tbl w j) \<union> (if j = k then row ` set b else {}))"

lemma attempts_add_only:
  assumes "adds_only ins row tbl k"
  shows "set_mset (tbl (snd (write_attempts (ins b) n e w)) j) \<subseteq>
    set_mset (tbl w j) \<union> (if j = k then row ` set b else {})"
proof (induction n arbitrary: e w)
  case (Suc n)
  obtain a w1 where i: "ins b w = (a, w1)" by fastforce
  have "set_mset (tbl w1 j) \<subseteq> set_mset (tbl w j) \<union> (if j = k then row ` set b else {})"
    using assms i unfolding adds_only_def by (metis snd_conv)
  then show ?case using Suc.IH [of _ w1] by (auto simp: i split: attempt.split option.split) blast+
qed simp

text \<open>The batches that are still queued were queued before, and the new rows of the table are theirs.\<close>

definition unsent :: "('v \<Rightarrow> 'r) \<Rightarrow> ('v, 'r) store \<Rightarrow> ('v, 'r) store \<Rightarrow> bool" where
  "unsent row S S' \<longleftrightarrow>
     suffix (so_queue S') (so_queue S) \<and>
     set_mset (so_table S') \<subseteq> set_mset (so_table S) \<union> row ` set (concat (so_queue S))"

lemma unsent_refl [simp]: "so_queue S' = so_queue S \<Longrightarrow> so_table S' = so_table S \<Longrightarrow> unsent row S S'"
  by (simp add: unsent_def)

lemma unsent_trans:
  assumes "unsent row a b" and "unsent row b c"
  shows "unsent row a c"
proof -
  have "set (concat (so_queue b)) \<subseteq> set (concat (so_queue a))"
    using assms(1) by (auto simp: unsent_def suffix_def)
  then have "row ` set (concat (so_queue b)) \<subseteq> row ` set (concat (so_queue a))" by (rule image_mono)
  moreover have "suffix (so_queue c) (so_queue a)"
    using assms suffix_order.trans unfolding unsent_def by blast
  ultimately show ?thesis using assms unfolding unsent_def by blast
qed

lemma turn_unsent:
  assumes "adds_only ins row tbl k" and "writer_turn cfg (ins) ch w = Some (e, n, ch', w')"
  shows "suffix ch' ch" and "set_mset (tbl w' j) \<subseteq> set_mset (tbl w j) \<union> (if j = k then row ` set (concat ch) else {})"
proof -
  obtain b where ch: "ch = b # ch'" and w': "w' = snd (write_attempts (ins b) (nat (wr_RetryAttempts cfg)) NoError w)"
  proof (cases ch)
    case (Cons b ch1)
    then show ?thesis
      using assms(2) that [of b]
      by (cases "write_attempts (ins b) (nat (wr_RetryAttempts cfg)) NoError w")
        (simp add: writer_turn_def writeWithRetry_def split: option.splits)
  qed (use assms(2) in \<open>simp add: writer_turn_def\<close>)
  show "suffix ch' ch" by (simp add: ch suffix_ConsI)
  show "set_mset (tbl w' j) \<subseteq> set_mset (tbl w j) \<union> (if j = k then row ` set (concat ch) else {})"
    unfolding w' by (rule order_trans [OF attempts_add_only [OF assms(1)]]) (auto simp: ch)
qed

text \<open>The writers of the database component, whatever the timer does.\<close>

lemma raced_adds_only:
  assumes ins: "\<And>b w. tables (snd (ins b w)) =
      (if fst (ins b w) = None then (tables w)(table_of k := tables w (table_of k) + mset (map row b))
       else tables w)"
    and tm: "timer_ok timer tables"
  shows "adds_only (\<lambda>b. race timer (ins b)) row (tables_by_kind tables) k"
  using tm
  by (auto simp: adds_only_def race_def split_beta Let_def ins timer_ok_def table_of_eq tables_by_kind_def
      split: if_splits)

lemma database_adds_only:
  assumes "pgx_contract pool tables" and "timer_ok timer tables"
  shows "adds_only (dbi_Platform (database_interface pool pf timer)) platform_row (tables_by_kind tables) KPlatform"
    and "adds_only (dbi_Interface (database_interface pool pf timer)) (interface_row pf) (tables_by_kind tables) KInterface"
    and "adds_only (dbi_Subinterface (database_interface pool pf timer)) (subinterface_row pf) (tables_by_kind tables)
      KSubinterface"
    and "adds_only (dbi_AlarmReport (database_interface pool pf timer)) alarmReport_row (tables_by_kind tables) KAlarmReport"
    and "adds_only (dbi_NotificationReport (database_interface pool pf timer)) notificationReport_row
      (tables_by_kind tables) KNotificationReport"
  unfolding database_interface_def DatabaseInterface.simps
  using copy_rows_tables [OF assms(1), OF prod.collapse [symmetric]]
  by (auto intro!: raced_adds_only [OF _ assms(2)] simp: insert_defs table_of_def)

text \<open>What the writers leave alone.\<close>

definition same_buffers :: "FixedBufferManager \<Rightarrow> FixedBufferManager \<Rightarrow> bool" where
  "same_buffers bm bm' \<longleftrightarrow>
     bm_platformBuffer bm' = bm_platformBuffer bm \<and> bm_interfaceBuffer bm' = bm_interfaceBuffer bm \<and>
     bm_subinterfaceBuffer bm' = bm_subinterfaceBuffer bm \<and> bm_alarmReportBuffer bm' = bm_alarmReportBuffer bm \<and>
     bm_notificationReportBuffer bm' = bm_notificationReportBuffer bm \<and> bm_config bm' = bm_config bm \<and>
     bm_spawned bm' = bm_spawned bm \<and> bm_stopped bm' = bm_stopped bm \<and> (bm_flushTimer bm' \<longrightarrow> bm_flushTimer bm)"

lemma same_buffers_refl [simp]: "same_buffers bm bm"
  by (simp add: same_buffers_def)

lemma write_same_buffers: "write_kind db k bm w = Some (bm', w') \<Longrightarrow> same_buffers bm bm'"
  by (cases k) (auto simp: write_kind_def platformWriter_def interfaceWriter_def subinterfaceWriter_def
      alarmReportWriter_def notificationReportWriter_def same_buffers_def split: option.splits)

text \<open>The five stores.\<close>

definition all_unsent ::
  "(string \<Rightarrow> gofloat option) \<Rightarrow> ('w \<Rightarrow> string list \<Rightarrow> cell list multiset) \<Rightarrow>
   FixedBufferManager \<times> 'w \<Rightarrow> FixedBufferManager \<times> 'w \<Rightarrow> bool"
where
  "all_unsent pf tables s s' \<longleftrightarrow>
     unsent platform_row (platform_store tables s) (platform_store tables s') \<and>
     unsent (interface_row pf) (interface_store tables s) (interface_store tables s') \<and>
     unsent (subinterface_row pf) (subinterface_store tables s) (subinterface_store tables s') \<and>
     unsent alarmReport_row (alarmReport_store tables s) (alarmReport_store tables s') \<and>
     unsent notificationReport_row (notificationReport_store tables s) (notificationReport_store tables s')"

lemma all_unsent_trans: "all_unsent pf tables a b \<Longrightarrow> all_unsent pf tables b c \<Longrightarrow> all_unsent pf tables a c"
  unfolding all_unsent_def by (blast intro: unsent_trans)

lemma all_unsent_chans:
  assumes "bm_platformWriteChan bm' = bm_platformWriteChan bm" and "bm_interfaceWriteChan bm' = bm_interfaceWriteChan bm"
    and "bm_subinterfaceWriteChan bm' = bm_subinterfaceWriteChan bm"
    and "bm_alarmReportWriteChan bm' = bm_alarmReportWriteChan bm"
    and "bm_notificationReportWriteChan bm' = bm_notificationReportWriteChan bm"
  shows "all_unsent pf tables (bm, w) (bm', w)"
  using assms by (simp add: all_unsent_def kind_store_def)

lemma unsent_own:
  assumes "adds_only ins row tbl k" and "writer_turn cfg ins ch w = Some (e, n, ch', w')"
  shows "unsent row \<lparr>so_entries = x, so_queue = ch, so_table = tbl w k\<rparr> \<lparr>so_entries = x, so_queue = ch', so_table = tbl w' k\<rparr>"
  using turn_unsent(1) [OF assms] turn_unsent(2) [OF assms, of k] by (simp add: unsent_def)

lemma unsent_other:
  assumes "adds_only ins row tbl k" and "writer_turn cfg ins ch w = Some (e, n, ch', w')" and "j \<noteq> k"
  shows "unsent row' \<lparr>so_entries = x, so_queue = q, so_table = tbl w j\<rparr> \<lparr>so_entries = x, so_queue = q, so_table = tbl w' j\<rparr>"
  using turn_unsent(2) [OF assms(1,2), of j] assms(3) by (auto simp: unsent_def)

lemma write_unsent:
  assumes "pgx_contract pool tables" and "timer_ok timer tables"
    and "write_kind (database_interface pool pf timer) k bm w = Some (bm', w')"
  shows "all_unsent pf tables (bm, w) (bm', w')"
proof -
  note own = database_adds_only [OF assms(1,2), of pf]
  show ?thesis
  proof (cases k)
    case KPlatform
    then obtain e n ch where turn: "writer_turn (bm_writerConfig bm) (dbi_Platform (database_interface pool pf timer))
          (bm_platformWriteChan bm) w = Some (e, n, ch, w')"
      and "bm' = bm\<lparr>bm_platformWriteChan := ch, bm_stats := count_write e n (bm_stats bm)\<rparr>"
      using assms(3) by (auto simp: write_kind_def platformWriter_def split: option.splits)
    then show ?thesis
      by (simp add: all_unsent_def kind_store_def unsent_own [OF own(1) turn] unsent_other [OF own(1) turn])
  next
    case KInterface
    then obtain e n ch where turn: "writer_turn (bm_writerConfig bm) (dbi_Interface (database_interface pool pf timer))
          (bm_interfaceWriteChan bm) w = Some (e, n, ch, w')"
      and "bm' = bm\<lparr>bm_interfaceWriteChan := ch, bm_stats := count_write e n (bm_stats bm)\<rparr>"
      using assms(3) by (auto simp: write_kind_def interfaceWriter_def split: option.splits)
    then show ?thesis
      by (simp add: all_unsent_def kind_store_def unsent_own [OF own(2) turn] unsent_other [OF own(2) turn])
  next
    case KSubinterface
    then obtain e n ch where turn: "writer_turn (bm_writerConfig bm) (dbi_Subinterface (database_interface pool pf timer))
          (bm_subinterfaceWriteChan bm) w = Some (e, n, ch, w')"
      and "bm' = bm\<lparr>bm_subinterfaceWriteChan := ch, bm_stats := count_write e n (bm_stats bm)\<rparr>"
      using assms(3) by (auto simp: write_kind_def subinterfaceWriter_def split: option.splits)
    then show ?thesis
      by (simp add: all_unsent_def kind_store_def unsent_own [OF own(3) turn] unsent_other [OF own(3) turn])
  next
    case KAlarmReport
    then obtain e n ch where turn: "writer_turn (bm_writerConfig bm) (dbi_AlarmReport (database_interface pool pf timer))
          (bm_alarmReportWriteChan bm) w = Some (e, n, ch, w')"
      and "bm' = bm\<lparr>bm_alarmReportWriteChan := ch, bm_stats := count_write e n (bm_stats bm)\<rparr>"
      using assms(3) by (auto simp: write_kind_def alarmReportWriter_def split: option.splits)
    then show ?thesis
      by (simp add: all_unsent_def kind_store_def unsent_own [OF own(4) turn] unsent_other [OF own(4) turn])
  next
    case KNotificationReport
    then obtain e n ch where turn: "writer_turn (bm_writerConfig bm) (dbi_NotificationReport (database_interface pool pf timer))
          (bm_notificationReportWriteChan bm) w = Some (e, n, ch, w')"
      and "bm' = bm\<lparr>bm_notificationReportWriteChan := ch, bm_stats := count_write e n (bm_stats bm)\<rparr>"
      using assms(3) by (auto simp: write_kind_def notificationReportWriter_def split: option.splits)
    then show ?thesis
      by (simp add: all_unsent_def kind_store_def unsent_own [OF own(5) turn] unsent_other [OF own(5) turn])
  qed
qed

section \<open>What is left behind\<close>

text \<open>A stopped manager without a flush timer and without flushes under way.\<close>

definition quiet :: "FixedBufferManager \<Rightarrow> bool" where
  "quiet bm \<longleftrightarrow> bm_stopped bm \<and> \<not> bm_flushTimer bm \<and> bm_spawned bm = []"

lemma quiet_background:
  assumes "background (database_interface pool pf timer) (bm, w) (bm', w')" and "quiet bm"
    and "pgx_contract pool tables" and "timer_ok timer tables"
  shows "same_buffers bm bm' \<and> all_unsent pf tables (bm, w) (bm', w')"
  using assms(1)
proof (cases rule: background.cases)
  case (bg_written k)
  then show ?thesis
    using write_same_buffers [OF bg_written(2)] write_unsent [OF assms(3,4) bg_written(2)] by simp
next
  case (bg_stopped ro ks start now ferr)
  then have "bm' = bm \<and> w' = w" using stop_again [OF bg_stopped(2)] assms(2) by (simp add: quiet_def)
  then show ?thesis by (simp add: all_unsent_chans)
qed (use assms(2) in \<open>auto simp: quiet_def same_buffers_def all_unsent_chans\<close>)

lemma same_buffers_quiet: "same_buffers bm bm' \<Longrightarrow> quiet bm \<Longrightarrow> quiet bm'"
  by (auto simp: same_buffers_def quiet_def)

text \<open>The buffers hold what they held with the results merged in.\<close>

definition holds_late :: "FixedBufferManager \<Rightarrow> ParseResult list \<Rightarrow> FixedBufferManager \<Rightarrow> bool" where
  "holds_late bm0 rs bm \<longleftrightarrow>
     sharded_Get (bm_platformBuffer bm) = (\<lambda>k. merged_at platform_key mergePlatformMetric k
       (concat (map pr_PlatformMetrics rs)) (sharded_Get (bm_platformBuffer bm0) k)) \<and>
     sharded_Get (bm_interfaceBuffer bm) = (\<lambda>k. merged_at interface_key mergeInterfaceMetric k
       (concat (map pr_InterfaceMetrics rs)) (sharded_Get (bm_interfaceBuffer bm0) k)) \<and>
     sharded_Get (bm_subinterfaceBuffer bm) = (\<lambda>k. merged_at subinterface_key mergeSubinterfaceMetric k
       (concat (map pr_SubinterfaceMetrics rs)) (sharded_Get (bm_subinterfaceBuffer bm0) k)) \<and>
     sharded_Get (bm_alarmReportBuffer bm) = (\<lambda>k. merged_at alarm_key replace k
       (concat (map pr_AlarmReportMetrics rs)) (sharded_Get (bm_alarmReportBuffer bm0) k)) \<and>
     sharded_Get (bm_notificationReportBuffer bm) = (\<lambda>k. merged_at notification_key replace k
       (concat (map pr_NotificationReportMetrics rs)) (sharded_Get (bm_notificationReportBuffer bm0) k))"

lemma holds_late_start: "holds_late bm [] bm"
  by (simp add: holds_late_def)

lemma holds_late_fold:
  "bm_inv bm \<Longrightarrow> holds_late bm0 rs bm \<Longrightarrow> holds_late bm0 (rs @ rs') (fold add_result rs' bm)"
  by (simp add: holds_late_def merged_at_append platform_received.results interface_received.results
      subinterface_received.results alarmReport_received.results notificationReport_received.results)

lemma holds_late_same: "same_buffers bm bm' \<Longrightarrow> holds_late bm0 rs bm \<Longrightarrow> holds_late bm0 rs bm'"
  by (simp add: holds_late_def same_buffers_def)

lemma fold_results_unsent: "bm_inv bm \<Longrightarrow> all_unsent pf tables (bm, w) (fold add_result rs bm, w)"
  by (rule all_unsent_chans) (simp_all add: platform_received.results interface_received.results
      subinterface_received.results alarmReport_received.results notificationReport_received.results)

text \<open>The results that arrived late keep every kind below the threshold.\<close>

definition below :: "FixedBufferManager \<Rightarrow> ParseResult list \<Rightarrow> bool" where
  "below bm rs \<longleftrightarrow> (\<forall>k. int (kind_len k bm + late_count rs k) < buf_FlushThreshold (bm_config bm))"

lemma below_append: "below bm (rs @ rs') \<Longrightarrow> below bm rs"
  unfolding below_def late_count_append by (meson add_mono le_add1 le_less_trans of_nat_mono order_refl)

definition late_state ::
  "(string \<Rightarrow> gofloat option) \<Rightarrow> ('w \<Rightarrow> string list \<Rightarrow> cell list multiset) \<Rightarrow>
   FixedBufferManager \<times> 'w \<Rightarrow> ParseResult list \<Rightarrow> FixedBufferManager \<times> 'w \<Rightarrow> bool"
where
  "late_state pf tables s0 rs s \<longleftrightarrow>
     bm_inv (fst s) \<and> quiet (fst s) \<and> bm_config (fst s) = bm_config (fst s0) \<and>
     (\<forall>k. kind_len k (fst s) \<le> kind_len k (fst s0) + late_count rs k) \<and>
     holds_late (fst s0) rs (fst s) \<and> all_unsent pf tables s0 s"

lemma late_state_add:
  assumes "late_state pf tables s0 rs (bm, w)" and "below (fst s0) (rs @ rs')"
  shows "late_state pf tables s0 (rs @ rs') (fold add_result rs' bm, w)"
proof -
  have inv: "bm_inv bm" and len: "\<And>k. kind_len k bm \<le> kind_len k (fst s0) + late_count rs k"
    and cfg: "bm_config bm = bm_config (fst s0)"
    using assms(1) by (simp_all add: late_state_def)
  have "int (kind_len k bm + late_count rs' k) < buf_FlushThreshold (bm_config bm)" for k
    using assms(2) len [of k] by (auto simp: below_def cfg dest!: spec [of _ k])
  then have q: "quiet_add (late_count rs') bm (fold add_result rs' bm)"
    and sp: "bm_spawned (fold add_result rs' bm) = bm_spawned bm"
    using fold_results_quiet [OF inv, of rs'] by (simp_all add: quiet_add_def)
  have "kind_len k (fold add_result rs' bm) \<le> kind_len k (fst s0) + (late_count rs k + late_count rs' k)" for k
    using q len [of k] by (auto simp: quiet_add_def dest!: spec [of _ k])
  then show ?thesis
    using assms(1) q sp holds_late_fold [OF inv]
      all_unsent_trans [of pf tables s0 "(bm, w)", OF _ fold_results_unsent [OF inv]]
    by (simp add: late_state_def quiet_def quiet_add_def)
qed

lemma late_state_work:
  assumes "late_state pf tables s0 rs (bm, w)"
    and "background (database_interface pool pf timer) (bm, w) (bm', w')"
    and "pgx_contract pool tables" and "timer_ok timer tables" and "0 < wr_MaxBatchSize (bm_writerConfig bm)"
  shows "late_state pf tables s0 rs (bm', w')"
proof -
  have q: "quiet bm" and inv: "bm_inv bm" using assms(1) by (simp_all add: late_state_def)
  have same: "same_buffers bm bm'" and un: "all_unsent pf tables (bm, w) (bm', w')"
    using quiet_background [OF assms(2) q assms(3,4)] by simp_all
  have "running_ok bm" using inv assms(5) by (simp add: running_ok_def)
  then have "bm_inv bm'"
    using bstep_running [OF background_bstep [OF assms(2)]] by (simp add: running_ok_def)
  moreover have "kind_len k bm' = kind_len k bm" for k
    using same by (simp add: kind_len_def same_buffers_def split: kind.split)
  moreover have "bm_config bm' = bm_config bm" using same by (simp add: same_buffers_def)
  ultimately show ?thesis
    using assms(1) same_buffers_quiet [OF same q] holds_late_same [OF same] all_unsent_trans [OF _ un]
    by (simp add: late_state_def)
qed

text \<open>The run: from the moment at which the stopped manager has become quiet.\<close>

lemma run_late_state:
  assumes run: "main_run d (database_interface pool pf timer) (p, s, w) (p', s', w')" and p: "p \<noteq> Awaiting"
    and ok: "running_ok (manager_of s)" and q: "quiet (manager_of s)"
    and err: "\<forall>e. p = Halting e \<or> p = Exited e \<longrightarrow> e = None"
    and db: "pgx_contract pool tables" "timer_ok timer tables"
  shows "\<exists>es. svc_log s' = svc_log s @ es \<and>
    (below (manager_of s) (parsed_log d es) \<longrightarrow>
       late_state pf tables (manager_of s, w) (parsed_log d es) (manager_of s', w'))"
proof -
  let ?Q = "\<lambda>p' s' w'. p' \<noteq> Awaiting \<and> running_ok (manager_of s') \<and> bm_stopped (manager_of s') \<and>
    (\<exists>es. svc_log s' = svc_log s @ es \<and> (below (manager_of s) (parsed_log d es) \<longrightarrow>
       late_state pf tables (manager_of s, w) (parsed_log d es) (manager_of s', w')))"
  have "?Q p' s' w'"
    using run
  proof (induction rule: main_run_invar)
    case start
    have "late_state pf tables (manager_of s, w) [] (manager_of s, w)"
      using ok q by (simp add: late_state_def running_ok_def holds_late_start all_unsent_chans late_count_def)
    then show ?case using p ok q by (intro conjI exI [of _ "[]"]) (simp_all add: quiet_def parsed_log_def)
  next
    case (step p1 s1 w1 p2 s2 w2)
    then have ok1: "running_ok (manager_of s1)" and st1: "bm_stopped (manager_of s1)" and p1: "p1 \<noteq> Awaiting"
      by simp_all
    obtain es where log: "svc_log s1 = svc_log s @ es" and late: "below (manager_of s) (parsed_log d es) \<Longrightarrow>
        late_state pf tables (manager_of s, w) (parsed_log d es) (manager_of s1, w1)"
      using step(1) by blast
    have ok2: "running_ok (manager_of s2)" by (rule main_step_running [OF step(2) ok1])
    from step(2) show ?case
    proof (cases rule: main_step.cases)
      case (main_worked bm')
      have "late_state pf tables (manager_of s, w) (parsed_log d es) (bm', w2)"
        if "below (manager_of s) (parsed_log d es)"
        using late_state_work [OF late [OF that] main_worked(3) db] ok1 by (simp add: running_ok_def)
      then show ?thesis using main_worked ok2 st1 p1 log by auto
    next
      case main_late
      obtain es' where log': "svc_log s2 = svc_log s1 @ es'"
        and m: "manager_of s2 = fold add_result (parsed_log d es') (manager_of s1)"
        using svc_step_received [OF main_late(4)] by blast
      have app: "parsed_log d (es @ es') = parsed_log d es @ parsed_log d es'" by (simp add: parsed_log_def)
      have "late_state pf tables (manager_of s, w) (parsed_log d (es @ es')) (manager_of s2, w2)"
        if "below (manager_of s) (parsed_log d (es @ es'))"
        using late_state_add [OF late] that below_append main_late(3) by (simp add: app m)
      then show ?thesis using main_late ok2 st1 log log' m by (intro conjI exI [of _ "es @ es'"]) simp_all
    next
      case (main_stopped ro ks start now e bm')
      have "bm' = manager_of s1" "w2 = w1" using stop_again [OF main_stopped(7) st1] by simp_all
      then show ?thesis using main_stopped ok2 st1 log late by (intro conjI exI [of _ es]) simp_all
    next
      case main_exit
      then show ?thesis using step(1) by blast
    qed (use p1 in simp_all)
  qed
  then show ?thesis by blast
qed

text \<open>
  What a store has become between two moments of a shutdown: the entries are those of before with the
  late metrics merged in; nothing has been queued, and the table has no new rows but of batches that were queued.
\<close>

definition left_behind ::
  "('v \<Rightarrow> string) \<Rightarrow> ('v \<Rightarrow> 'v \<Rightarrow> 'v) \<Rightarrow> ('v \<Rightarrow> 'r) \<Rightarrow> 'v list \<Rightarrow> ('v, 'r) store \<Rightarrow> ('v, 'r) store \<Rightarrow> bool"
where
  "left_behind key merge row late S S' \<longleftrightarrow>
     so_entries S' = (\<lambda>k. merged_at key merge k late (so_entries S k)) \<and> suffix (so_queue S') (so_queue S) \<and>
     set_mset (so_table S') \<subseteq> set_mset (so_table S) \<union> row ` set (concat (so_queue S))"

lemma late_state_left_behind:
  assumes "late_state pf tables s rs s'"
  shows "left_behind platform_key mergePlatformMetric platform_row (concat (map pr_PlatformMetrics rs))
      (platform_store tables s) (platform_store tables s')"
    and "left_behind interface_key mergeInterfaceMetric (interface_row pf) (concat (map pr_InterfaceMetrics rs))
      (interface_store tables s) (interface_store tables s')"
    and "left_behind subinterface_key mergeSubinterfaceMetric (subinterface_row pf)
      (concat (map pr_SubinterfaceMetrics rs)) (subinterface_store tables s) (subinterface_store tables s')"
    and "left_behind alarm_key replace alarmReport_row (concat (map pr_AlarmReportMetrics rs))
      (alarmReport_store tables s) (alarmReport_store tables s')"
    and "left_behind notification_key replace notificationReport_row (concat (map pr_NotificationReportMetrics rs))
      (notificationReport_store tables s) (notificationReport_store tables s')"
proof -
  have "holds_late (fst s) rs (fst s')" and "all_unsent pf tables s s'" using assms by (simp_all add: late_state_def)
  then show "left_behind platform_key mergePlatformMetric platform_row (concat (map pr_PlatformMetrics rs))
      (platform_store tables s) (platform_store tables s')"
    and "left_behind interface_key mergeInterfaceMetric (interface_row pf) (concat (map pr_InterfaceMetrics rs))
      (interface_store tables s) (interface_store tables s')"
    and "left_behind subinterface_key mergeSubinterfaceMetric (subinterface_row pf)
      (concat (map pr_SubinterfaceMetrics rs)) (subinterface_store tables s) (subinterface_store tables s')"
    and "left_behind alarm_key replace alarmReport_row (concat (map pr_AlarmReportMetrics rs))
      (alarmReport_store tables s) (alarmReport_store tables s')"
    and "left_behind notification_key replace notificationReport_row (concat (map pr_NotificationReportMetrics rs))
      (notificationReport_store tables s) (notificationReport_store tables s')"
    by (simp_all add: left_behind_def holds_late_def all_unsent_def unsent_def kind_store_def)
qed

section \<open>Steps of an example\<close>

text \<open>A flush of nothing does nothing to the world.\<close>

lemma flush_nothing:
  assumes ok: "running_ok bm" and ro: "orders_ok ro" and none: "kind_len k bm = 0"
  shows "\<exists>bm'. flush_kind db ro k bm w = Some (Ret (None, bm', w)) \<and>
    bm_platformWriteChan bm' = bm_platformWriteChan bm \<and> bm_spawned bm' = bm_spawned bm"
proof -
  have size: "0 < wr_MaxBatchSize (bm_writerConfig bm)" and inv: "sharded_inv (bm_platformBuffer bm)"
      "sharded_inv (bm_interfaceBuffer bm)" "sharded_inv (bm_subinterfaceBuffer bm)" "sharded_inv (bm_alarmReportBuffer bm)"
      "sharded_inv (bm_notificationReportBuffer bm)"
    using ok by (auto simp: running_ok_def bm_inv_def)
  note empty = sharded.drain_len [OF inv(1)] sharded.drain_len [OF inv(2)] sharded.drain_len [OF inv(3)]
    sharded.drain_len [OF inv(4)] sharded.drain_len [OF inv(5)]
  show ?thesis
    using none ro empty
    by (cases k) (auto simp: flush_kind_def flush_eqs [OF size ro] kind_len_def typed_maps orders_ok_def Let_def)
qed

lemma run_flushes_nothing:
  "running_ok bm \<Longrightarrow> orders_ok ro \<Longrightarrow> \<forall>k. kind_len k bm = 0 \<Longrightarrow>
   \<exists>bm'. run_flushes db ro ks errs bm w = Some (Ret (errs, bm', w)) \<and> (\<forall>k. kind_len k bm' = 0) \<and>
     bm_platformWriteChan bm' = bm_platformWriteChan bm \<and> bm_spawned bm' = bm_spawned bm"
proof (induction ks arbitrary: bm)
  case (Cons k ks)
  have "\<exists>b. flush_kind db ro k bm w = Some (Ret (None, b, w)) \<and>
      bm_platformWriteChan b = bm_platformWriteChan bm \<and> bm_spawned b = bm_spawned bm"
    by (rule flush_nothing [OF Cons.prems(1,2) spec [OF Cons.prems(3)]])
  then obtain bm1 where f: "flush_kind db ro k bm w = Some (Ret (None, bm1, w))"
    and same: "bm_platformWriteChan bm1 = bm_platformWriteChan bm" "bm_spawned bm1 = bm_spawned bm"
    by blast
  have size: "0 < wr_MaxBatchSize (bm_writerConfig bm)" "bm_inv bm" using Cons.prems(1) by (simp_all add: running_ok_def)
  have "running_ok bm1"
    using running_okI [OF flush_kind_inv [OF size(2) Cons.prems(2) size(1) f] flush_setup [OF f] Cons.prems(1)] .
  moreover have "\<forall>j. kind_len j bm1 = 0"
    using flush_kind_len [OF size(1) Cons.prems(2), of db k w] f Cons.prems(3) by auto
  ultimately show ?case using Cons.IH [of bm1] Cons.prems(2) f same by simp
qed simp

text \<open>The first stop of an empty manager, and the end of its timer.\<close>

lemma stop_nothing:
  assumes "running_ok bm" and "orders_ok ro" and "\<forall>k. kind_len k bm = 0"
  shows "\<exists>bm'. Stop db ro ks start now bm w = Some (Ret (None, bm', w)) \<and> (\<forall>k. kind_len k bm' = 0) \<and>
    bm_platformWriteChan bm' = bm_platformWriteChan bm \<and> bm_spawned bm' = bm_spawned bm \<and> bm_config bm' = bm_config bm"
proof (cases "bm_stopped bm")
  case True
  then show ?thesis using assms(3) by (simp add: Stop_def)
next
  case False
  let ?bm = "bm\<lparr>bm_stopped := True\<rparr>"
  have len: "kind_len k (b\<lparr>bm_stats := st\<rparr>) = kind_len k b" "kind_len k (b\<lparr>bm_stopped := x\<rparr>) = kind_len k b" for k b st x
    by (cases k; simp add: kind_len_def)+
  have "running_ok ?bm" using assms(1) by (simp add: running_ok_def)
  then obtain bm1 where r: "run_flushes db ro ks [] ?bm w = Some (Ret ([], bm1, w))" and "\<forall>k. kind_len k bm1 = 0"
      "bm_platformWriteChan bm1 = bm_platformWriteChan bm" "bm_spawned bm1 = bm_spawned bm"
    using run_flushes_nothing [of ?bm ro db ks "[]" w] assms(2,3) by (auto simp: len)
  then show ?thesis
    using False run_flushes_setup [OF r] by (simp add: Stop_def FlushAll_def Let_def len same_setup_def)
qed

lemma shutdown_of_nothing:
  assumes "running_ok (manager_of s)" and "\<forall>k. kind_len k (manager_of s) = 0"
    and "\<not> col_shutdown (svc_collector s)" and "bm_spawned (manager_of s) = []"
  shows "\<exists>s'. main_run d db (Awaiting, s, w) (Draining, s', w) \<and> svc_open s' = svc_open s \<and> svc_log s' = svc_log s \<and>
    quiet (manager_of s') \<and> (\<forall>k. kind_len k (manager_of s') = 0) \<and>
    bm_platformWriteChan (manager_of s') = bm_platformWriteChan (manager_of s) \<and>
    bm_config (manager_of s') = bm_config (manager_of s)"
proof -
  obtain bm1 where st: "Stop db plain_orders all_kinds zero_time zero_time (manager_of s) w = Some (Ret (None, bm1, w))"
    and bm1: "\<forall>k. kind_len k bm1 = 0" "bm_platformWriteChan bm1 = bm_platformWriteChan (manager_of s)"
      "bm_spawned bm1 = []" "bm_config bm1 = bm_config (manager_of s)"
    using stop_nothing [OF assms(1) _ assms(2), of plain_orders db all_kinds zero_time zero_time w] assms(4)
    by auto
  let ?c = "(svc_collector s)\<lparr>col_shutdown := True, col_bufferManager := bm1, col_serving := False\<rparr>"
  let ?s1 = "s\<lparr>svc_collector := ?c\<rparr>" and ?bm2 = "bm1\<lparr>bm_flushTimer := False\<rparr>"
  have stopped: "bm_stopped bm1" by (rule Stop_stopped [OF st])
  have "collector_Stop db plain_orders all_kinds zero_time zero_time (svc_collector s) w = Some (Ret (?c, w))"
    using st assms(3) by (simp add: collector_Stop_def manager_of_def)
  from main_signal [OF orders_ok_plain HOL.refl this]
  have one: "main_step d db (Awaiting, s, w) (Draining, ?s1, w)" .
  have "background db (manager_of ?s1, w) (?bm2, w)" using stopped by (simp add: manager_of_def background.bg_timer_ended)
  then have two: "main_step d db (Draining, ?s1, w) (Draining, with_manager ?bm2 ?s1, w)"
    by (rule main_worked) (simp_all add: manager_of_def)
  have len: "kind_len k (b\<lparr>bm_flushTimer := x\<rparr>) = kind_len k b" for k b x
    by (cases k; simp add: kind_len_def)
  have "quiet ?bm2" using stopped bm1 by (simp add: quiet_def)
  then show ?thesis
    using converse_rtranclp_into_rtranclp [where r = "main_step d db", OF one
        r_into_rtranclp [where r = "main_step d db", OF two]] bm1
    by (intro exI [of _ "with_manager ?bm2 ?s1"]) (simp add: len)
qed

lemma svc_connect:
  assumes "col_connections c = []"
  shows "\<exists>k c'. svc_step d (idle_service c)
             \<lparr>svc_collector = c', svc_open = [k \<mapsto> new_session], svc_ended = [], svc_log = []\<rparr> \<and>
           col_bufferManager c' = col_bufferManager c \<and> col_shutdown c' = col_shutdown c"
proof -
  obtain k c' where reg: "registerConnection a now t1 t2 c = (k, c')" by fastforce
  have "connection_id a now \<notin> fst ` set (col_connections c)" by (simp add: assms)
  from svc_step.connected [OF this reg, of d Map.empty "[]" "[]"]
  have "svc_step d (idle_service c) \<lparr>svc_collector = c', svc_open = [k \<mapsto> new_session], svc_ended = [], svc_log = []\<rparr>"
    by (simp add: idle_service_def)
  moreover have "col_bufferManager c' = col_bufferManager c \<and> col_shutdown c' = col_shutdown c"
    using reg by (auto simp: registerConnection_def Let_def)
  ultimately show ?thesis by blast
qed

lemma svc_request:
  assumes "svc_open s = [k \<mapsto> ses]"
  shows "\<exists>s' ses'. svc_step d s s' \<and> svc_open s' = [k \<mapsto> ses'] \<and> svc_log s' = svc_log s @ [Request req now None]"
proof -
  let ?e = "Request req now None"
  obtain c old hist where s: "s = \<lparr>svc_collector = c, svc_open = [k \<mapsto> ses], svc_ended = old, svc_log = hist\<rparr>"
    using assms by (cases s) simp
  define t where "t = publish_step d k ?e (ses_watching ses) (ses_responses ses) (ses_timeouts ses) c"
  have "turn_error t = None" by (simp add: t_def publish_step_answer(2) leaves_open_def)
  from svc_step.continued [OF _ t_def [symmetric] this, of "[k \<mapsto> ses]" old hist] show ?thesis
    unfolding s by fastforce
qed

lemma svc_hang_up:
  assumes "svc_open s = [k \<mapsto> ses]"
  shows "\<exists>s'. svc_step d s s' \<and> svc_open s' = Map.empty \<and> svc_log s' = svc_log s @ [RecvError err]"
proof -
  obtain c old hist where s: "s = \<lparr>svc_collector = c, svc_open = [k \<mapsto> ses], svc_ended = old, svc_log = hist\<rparr>"
    using assms by (cases s) simp
  define t where "t = publish_step d k (RecvError err) (ses_watching ses) (ses_responses ses) (ses_timeouts ses) c"
  have "turn_error t = Some err" by (simp add: t_def publish_step_def)
  from svc_step.ended [OF _ t_def [symmetric] this, of "[k \<mapsto> ses]" old hist] show ?thesis
    unfolding s by fastforce
qed

text \<open>The streams have ended: the second stop and the exit.\<close>

lemma main_halt:
  assumes "svc_open s = Map.empty" and "bm_stopped (manager_of s)"
  shows "main_run d db (Draining, s, w) (Exited None, s, w)"
proof -
  have same: "with_manager (manager_of s) s = s" by (simp add: with_manager_def manager_of_def)
  from main_stopped [OF assms(1) orders_ok_plain HOL.refl second_stop [OF assms(2)]]
  have "main_step d db (Draining, s, w) (Halting None, s, w)" by (simp add: same)
  then show ?thesis
    using converse_rtranclp_into_rtranclp [where r = "main_step d db"]
      r_into_rtranclp [where r = "main_step d db", OF main_exit] by metis
qed

end
