(* ===== verification/File_Logger.thy ===== *)
theory File_Logger
  imports Process_Model
begin

text \<open>
  The logger of \<^verbatim>\<open>internal/logger/logger.go\<close>, which no other file calls: it writes to a rotated file, and
  in debug mode a hook writes each entry to the console too.  The outcome of making the log directory and
  the text of an entry are arguments.
\<close>

record RotatedFile =
  rf_Filename :: string
  rf_MaxSize :: int
  rf_MaxBackups :: int
  rf_MaxAge :: int
  rf_Compress :: bool

record FileLogger =
  fl_Level :: log_level
  fl_Format :: log_format
  fl_Output :: RotatedFile
  fl_ConsoleHook :: bool

text \<open>A directory that cannot be made is a warning, and the logger is built all the same.\<close>

definition NewLogger :: "bool \<Rightarrow> string option \<Rightarrow> FileLogger \<times> string option" where
  "NewLogger debug mkdir_error =
     (\<lparr>fl_Level = (if debug then DebugLevel else InfoLevel), fl_Format = TextFormat,
       fl_Output = \<lparr>rf_Filename = ''logs/telemetry.log'', rf_MaxSize = 100, rf_MaxBackups = 3,
                    rf_MaxAge = 30, rf_Compress = True\<rparr>,
       fl_ConsoleHook = debug\<rparr>,
      mkdir_error)"

text \<open>The hook writes the text of an entry to the standard output, or returns the error of making it.\<close>

definition ConsoleHook_Fire :: "string + string \<Rightarrow> string \<Rightarrow> string option \<times> string" where
  "ConsoleHook_Fire entry_String stdout =
     (case entry_String of Inl err \<Rightarrow> (Some err, stdout) | Inr line \<Rightarrow> (None, stdout @ line))"

definition ConsoleHook_Levels :: "'level list \<Rightarrow> 'level list" where
  "ConsoleHook_Levels AllLevels = AllLevels"

text \<open>Unlike the logger of \<^verbatim>\<open>main\<close>, this one never falls back to the console when its directory is missing.\<close>

lemma loggers_differ:
  "fl_Output (fst (NewLogger debug (Some err))) = fl_Output (fst (NewLogger debug None))"
  "\<not> mkdir_ok (log_FilePath cfg) \<Longrightarrow> lg_Output (initializeLogger cfg debug mkdir_ok open_ok) = Stdout"
  by (simp_all add: NewLogger_def initializeLogger_def)

end
