(* ===== verification/Spec2Isabelle.thy ===== *)
theory Spec2Isabelle
  imports Buffer_Properties Aggregation_Properties Parser_Properties Database_Properties
    Service_Properties Shutdown_Model Model_Helpers File_Logger
begin

text \<open>
  A model of ztelem, a collector of router telemetry written in Go (the paths below are under
  \<^verbatim>\<open>src/\<close>).  Routers open gRPC streams and send protobuf messages; the collector parses each message
  into metrics of five kinds (platform, interface, subinterface, alarm, notification), the buffer
  manager merges metrics of one key until a flush, writers copy batches into PostgreSQL, and a
  monitoring loop exports counters.  Data flows

    \<^verbatim>\<open>Publish -> processPublishArgs -> ParseTelemetryData -> Add..Metrics -> Flush..Metrics\<close>
    \<^verbatim>\<open>       -> writer goroutines -> BatchInsert..Metrics -> CopyFrom\<close>

  \<^bold>\<open>Conventions.\<close>  A Go struct is a record whose fields have the names of the source behind a short
  prefix, a pointer an \<open>option\<close>, an integer of a width a word (\<open>Go_Prelude\<close>), \<^verbatim>\<open>int\<close> an \<open>int\<close>, a string or byte
  slice a list, a time an instant with nanoseconds (\<open>Go_Time\<close>), a float a rational number, an infinity
  or NaN with rounding to 53 bits (\<open>Go_Float\<close>).  An error is a value of a sum or option type, a crash is \<open>Panic\<close> of
  \<open>'a flow\<close>, a call that does not return is the \<open>None\<close> of an outer option.  A method is a function of the state it
  reads and changes.  Logging and sleeping are left out; the clock, the order in which Go ranges over a
  map, the decoders of protobuf, YAML and numbers, and the connection pool are arguments.

  \<^bold>\<open>Which theory models what.\<close>
  \<^item> \<open>Go_Prelude\<close>, \<open>Go_Time\<close>, \<open>Go_Float\<close>: what the source uses of the language and its standard library, with the
    shared lemmas on decimal texts, words and association lists.
  \<^item> \<open>Platform_Models\<close>, \<open>Interface_Models\<close>, \<open>Alarm_Models\<close>, \<open>Model_Helpers\<close>: \<^verbatim>\<open>internal/models/models.go\<close>.
  \<^item> \<open>Platform_Messages\<close>, \<open>Interface_Messages\<close>, \<open>Alarm_Messages\<close>: the fields of the generated message structures
    (\<^verbatim>\<open>proto/\<close>) that the parser reads.
  \<^item> \<open>Parser_Helpers\<close>, \<open>Platform_Parser\<close>, \<open>Interface_Parser\<close>, \<open>Alarm_Parser\<close>, \<open>Telemetry_Parser\<close>: \<^verbatim>\<open>internal/parser/\<close>.
    A handler is one function for a message and one for an entry; the loops over entries are
    \<open>entries_skip\<close> and \<open>entries_strict\<close>, after whether a bad entry is skipped or ends the message; \<open>routes\<close> is the
    route table in its order.
  \<^item> \<open>Buffer_Interface\<close>: what the manager asks of a buffer, a kind of metric and both together, as the locales
    \<open>keyed_buffer\<close>, \<open>metric_kind\<close>, \<open>timed_kind\<close> and \<open>aggregating_buffer\<close>.
  \<^item> \<open>Sharded_Map\<close>, \<open>Typed_Maps\<close>: \<^verbatim>\<open>internal/buffer/sharded_map.go\<close>, one generic map with FNV-1a and sixteen
    shards, and its five instances; they interpret \<open>keyed_buffer\<close>.
  \<^item> \<open>Buffer_Keys\<close>, \<open>Buffer_Merge\<close>, \<open>Buffer_Writer\<close>, \<open>Buffer_Manager\<close>: \<^verbatim>\<open>internal/buffer/buffer_manager.go\<close>: recycled key
    buffers, the merges, writing with retries and the loop of a flush (over a \<open>batch_writer\<close> or
    \<open>prompt_writer\<close>, the locales of what a database promises), the manager and its methods.
  \<^item> \<open>Buffer_Laws\<close>, \<open>Buffer_System\<close>, \<open>Buffer_Concurrency\<close>: what the methods keep; the running manager as the step
    relation \<open>bstep\<close> (adds, timer, flushes, writers, stop, in any order) and its reachability \<open>breach\<close>; adds and drains
    of one buffer by concurrent goroutines as the step relation \<open>cstep\<close>.
  \<^item> \<open>Abstract_Store\<close>: the specification of the buffers, with no code in it: entries by key, a queue and a table.
    \<open>Buffer_Refinement\<close> makes the case analysis over the steps of the manager once (locales \<open>flush_view\<close>,
    \<open>running_view\<close>, \<open>manager_view\<close>), \<open>Buffer_Store\<close> shows the simulation for a kind (\<open>stored_kind\<close>, interpreted
    for all five), \<open>Buffer_Liveness\<close> how the channels are worked off.
  \<^item> \<open>Config_Model\<close>: \<^verbatim>\<open>internal/config/config.go\<close>.
  \<^item> \<open>Database_Rows\<close>, \<open>Database_Laws\<close>: \<^verbatim>\<open>internal/database/\<close>: rows, columns, inserts, accessors, and their laws
    under the contract of the pool, which discharges \<open>batch_writer\<close>.
  \<^item> \<open>Collector\<close>: \<^verbatim>\<open>internal/collector/simple_collector.go\<close>, with a stream and the monitor of
    connections as lists of events; \<open>Collector_System\<close>: any number of streams, their events interleaved.
  \<^item> \<open>System_Model\<close>: the service, its manager and the database world together: stream events and background steps
    in any order (\<open>sys_run\<close>), with the locale \<open>received_kind\<close>, interpreted for all five kinds.
  \<^item> \<open>Monitoring_Model\<close>: \<^verbatim>\<open>internal/monitoring/prometheus.go\<close> and the monitoring part of \<^verbatim>\<open>main.go\<close>.
  \<^item> \<open>Process_Model\<close>: connecting to the database, and the start of \<^verbatim>\<open>main.go\<close>.
  \<^item> \<open>Shutdown_Model\<close>: the main goroutine from the signal to the exit, with the streams, writers, timer and flushes that go
    on meanwhile, as the step relation \<open>main_step\<close> over phases.
  \<^item> \<open>File_Logger\<close>: \<^verbatim>\<open>internal/logger/logger.go\<close>, which no other file calls.

  \<^bold>\<open>What is shown.\<close>
  \<^item> \<open>Buffer_Properties\<close>: what an add, a flush, a write and any run of the manager do: merging by key,
    conservation of metrics, termination, the loss at an error.
  \<^item> \<open>Run_Properties\<close>: as long as no insert times out, every run of the manager refines the abstract store of each
    kind; while timer and writers run and the database accepts what it gets in time, it can always
    reach a state with empty buffers and channels and all it held in the tables.
  \<^item> \<open>Aggregation_Properties\<close>: sharded maps refine maps, interleaved goroutines lose nothing, what keys
    identify, what a merge keeps, which batches are stranded.
  \<^item> \<open>Parser_Properties\<close>: dispatch to the most specific route, stamps, undecodable entries, the parts of the
    aggregate path, conversions.
  \<^item> \<open>Database_Properties\<close>: rows, columns, tags and accessors agree; NULLs; wrap-around; inserts are atomic.
  \<^item> \<open>Service_Properties\<close>: connections are the open sessions, streams do not disturb each other, counters are exact.
  \<^item> This theory: the start, the books of a whole run without timeouts (every metric received is merged, queued, stored or
    counted as lost), a message on its way to the table, bad batch sizes, and what a shutdown leaves behind.

  \<^bold>\<open>Bounds and termination.\<close>  The loop of a flush is a \<open>partial_function\<close>: it is equal to a fold over
  \<open>chunks\<close> for a positive batch size, crashes for a negative one and does not return for zero, so no fuel is
  chosen.  A write makes as many attempts as configured.  A write channel holds \<open>chan_cap\<close> = 100 batches, as in the source.  Counters of the
  manager are 64-bit words and wrap; the exported counter adds increments below 2 to the 53, which a
  64-bit float holds exactly.

  \<^bold>\<open>What is assumed of libraries.\<close>  \<open>pgx_contract\<close>: a COPY adds all its rows to its table or fails and adds none, and
  nothing else changes a table.  \<open>timer_ok\<close>: a timeout changes no table.  \<open>orders_ok\<close>: ranging over a map visits
  each entry once.  \<open>script_pool\<close> keeps the first, \<open>no_timeout\<close> the second, \<open>plain_orders\<close> the third.

  \<^bold>\<open>Not modelled.\<close>  Generated protobuf and gRPC code, the HTTP server library under the metrics, log texts, the
  printed configuration summary and object pools of the parser (a message is reset before it is decoded): they
  only call libraries or keep no state of the program.  Locks are modelled by the atomicity of the critical
  sections they protect.
\<close>

section \<open>Inputs for the witnesses\<close>

text \<open>A pool library without faults, a start without a configuration file, a request.\<close>

definition demo_lib :: "'w pgx_pool \<Rightarrow> ('w, unit) pgx_lib" where
  "demo_lib pool =
     \<lparr>lib_ParseConfig = (\<lambda>_. Inr \<lparr>pc_MaxConns = 4, pc_MinConns = 0, pc_MaxConnLifetime = 0,
                                   pc_MaxConnIdleTime = 0\<rparr>),
      lib_NewWithConfig = (\<lambda>_ w. (Inr pool, w)), lib_Ping = (\<lambda>_ w. (None, w))\<rparr>"

definition demo_env :: surroundings where
  "demo_env =
     \<lparr>env_file = StatFails, env_debug = False, env_port = 0,
      env_runtime = \<lparr>rt_GOMAXPROCS = 4, rt_GCPercent = 100\<rparr>, env_listen = (\<lambda>_. None),
      env_mkdir_ok = (\<lambda>_. True), env_open_ok = (\<lambda>_. True)\<rparr>"

definition demo_yaml :: "bytes \<Rightarrow> Config \<Rightarrow> string + Config" where
  "demo_yaml data cfg = Inr cfg"

definition empty_tables :: script_world where
  "empty_tables = \<lparr>sw_outcomes = [], sw_tables = (\<lambda>_. {#})\<rparr>"

definition demo_path :: string where "demo_path = ''oc-platform:components/component''"

definition demo_request :: PublishArgs where
  "demo_request = \<lparr>pa_ReqId = 1, pa_MessageData = Some (Data [1]), pa_Errors = []\<rparr>"

lemma demo_start:
  "\<exists>p. main_start demo_yaml (demo_lib pool) demo_env w = (Ret (Inr p), w) \<and>
       proc_pool p = pool \<and> proc_config p = default_config"
  by (simp add: main_start_def demo_env_def demo_lib_def LoadConfig_def NewDatabaseWithConfig_def
      startStatusReporter_def Let_def collector_Start_def default_config_def second_dur_def)

section \<open>Starting\<close>

lemma main_start_failed:
  "main_start yaml lib env w = (Ret (Inl (ConfigFailed err)), w') \<Longrightarrow>
     LoadConfig yaml (env_file env) = Inl err \<and> w' = w"
  "main_start yaml lib env w = (Ret (Inl (DatabaseFailed serr)), w') \<Longrightarrow>
     \<exists>cfg. LoadConfig yaml (env_file env) = Inr cfg \<and>
       NewDatabaseWithConfig lib (cfg_Database cfg) w = (Inl serr, w')"
  by (auto simp: main_start_def Let_def split: sum.splits prod.splits flow.splits)

lemma main_start_conns:
  "main_start yaml lib env w = (Ret (Inr p), w') \<Longrightarrow> conns_ok (proc_collector p)"
  by (auto simp: main_start_def Let_def NewSimpleCollector_def conns_ok_def collector_Start_def
      split: sum.splits prod.splits flow.splits if_splits option.splits)

lemma main_start_connections:
  "main_start yaml lib env w = (Ret (Inr p), w') \<Longrightarrow> col_connections (proc_collector p) = []"
  by (auto simp: main_start_def Let_def NewSimpleCollector_def collector_Start_def
      split: sum.splits prod.splits flow.splits if_splits option.splits)

lemma new_manager_empty: "kind_len k (NewFixedBufferManager cfg wcfg) = 0"
  by (cases k) (simp_all add: kind_len_def NewFixedBufferManager_def startParallelWriters_def
      startFlushTimer_def typed_maps sharded.len_look sharded.look_new)

lemma new_manager_running:
  "running_ok (NewFixedBufferManager cfg wcfg) \<longleftrightarrow> 0 < wr_MaxBatchSize wcfg"
  using running_ok_new [of wcfg cfg]
  by (auto simp: running_ok_def) (simp add: NewFixedBufferManager_def startParallelWriters_def startFlushTimer_def)

text \<open>C40. A process that starts has read its configuration, has a positive metrics interval, no connection
  and an empty buffer manager set up with that configuration, and that manager can run when the
  configured batch size is positive; and a start whose configuration cannot be read ends without touching
  the world.\<close>

theorem start_ready:
  assumes "main_start yaml lib env w = (Ret r, w')"
  shows "case r of
           Inl (ConfigFailed err) \<Rightarrow> LoadConfig yaml (env_file env) = Inl err \<and> w' = w
         | Inl (DatabaseFailed err) \<Rightarrow>
             (\<exists>cfg. LoadConfig yaml (env_file env) = Inr cfg \<and>
                NewDatabaseWithConfig lib (cfg_Database cfg) w = (Inl err, w'))
         | Inr p \<Rightarrow>
             LoadConfig yaml (env_file env) = Inr (proc_config p) \<and>
             0 < mon_MetricsInterval (cfg_Monitoring (proc_config p)) \<and>
             conns_ok (proc_collector p) \<and>
             (running_ok (col_bufferManager (proc_collector p)) \<longleftrightarrow>
                0 < wr_MaxBatchSize (cfg_DatabaseWriter (proc_config p))) \<and>
             (\<forall>k. kind_len k (col_bufferManager (proc_collector p)) = 0)"
proof (cases r)
  case (Inl e)
  then show ?thesis using assms by (cases e) (auto dest: main_start_failed)
next
  case (Inr p)
  then have start: "main_start yaml lib env w = (Ret (Inr p), w')" using assms by simp
  show ?thesis
    using main_start_manager [OF start] main_start_conns [OF start]
    by (simp add: Inr new_manager_empty new_manager_running)
qed

theorem start_ready_witness:
  "\<exists>p. main_start demo_yaml (demo_lib script_pool) demo_env empty_tables = (Ret (Inr p), empty_tables) \<and>
       running_ok (col_bufferManager (proc_collector p))"
proof -
  obtain p where p: "main_start demo_yaml (demo_lib script_pool) demo_env empty_tables = (Ret (Inr p), empty_tables)"
    and cfg: "proc_config p = default_config"
    using demo_start [where pool = script_pool and w = empty_tables] by blast
  show ?thesis using start_ready [OF p] p cfg by simp
qed

lemma settings_ignored:
  "database_dsn (cfg\<lparr>db_SSLMode := mode, db_Schema := schema\<rparr>) = database_dsn cfg"
  "pool_settings (cfg\<lparr>db_SSLMode := mode, db_Schema := schema\<rparr>) pc = pool_settings cfg pc"
  by (simp_all add: database_dsn_def pool_settings_def)

text \<open>The connection is opened with the string that \<^verbatim>\<open>GetDSN\<close> makes of the configuration with its SSL
  mode and schema replaced: what is configured for the two is never used.  The limits of the pool are the configured
  ones where they are positive and fit the 32 bits of the pool, and fixed defaults where they are not positive.\<close>

lemma connection_settings:
  fixes lib :: "('w, 'p) pgx_lib"
  shows "database_dsn cfg = GetDSN (cfg\<lparr>db_SSLMode := ''disable'', db_Schema := ''telemetry,public''\<rparr>) \<and>
   NewDatabaseWithConfig lib (cfg\<lparr>db_SSLMode := mode, db_Schema := schema\<rparr>) w =
     NewDatabaseWithConfig lib cfg w \<and>
   sint (pc_MaxConns (pool_settings cfg pc)) =
     (if db_MaxOpenConns cfg \<le> 0 then 200 else signed_take_bit 31 (db_MaxOpenConns cfg)) \<and>
   sint (pc_MinConns (pool_settings cfg pc)) =
     (if db_MaxIdleConns cfg \<le> 0 then 25 else signed_take_bit 31 (db_MaxIdleConns cfg))"
proof (intro conjI)
  show "database_dsn cfg = GetDSN (cfg\<lparr>db_SSLMode := ''disable'', db_Schema := ''telemetry,public''\<rparr>)"
    by (simp add: database_dsn_def GetDSN_def)
  show "NewDatabaseWithConfig lib (cfg\<lparr>db_SSLMode := mode, db_Schema := schema\<rparr>) w =
      NewDatabaseWithConfig lib cfg w"
    by (simp only: NewDatabaseWithConfig_def settings_ignored)
qed (simp_all add: pool_settings_def sint_sbintrunc')

section \<open>From a message to the table\<close>

lemma merged_distinct:
  "distinct (map key ms) \<Longrightarrow> merged_at key merge k ms None = map_of (map (\<lambda>m. (key m, m)) ms) k"
proof (induction ms)
  case (Cons m ms)
  show ?case
  proof (cases "key m = k")
    case True
    have "key m \<notin> key ` set ms" using Cons.prems by simp
    then have "\<forall>x \<in> set ms. key x \<noteq> k" using True by (metis imageI)
    then show ?thesis using True by (simp add: merged_at_other)
  next
    case False
    then show ?thesis using Cons by simp
  qed
qed simp

text \<open>A batch of distinct keys is buffered as it is.\<close>

lemma add_distinct_values:
  assumes "bm_inv bm" and "sharded_Get (bm_platformBuffer bm) = Map.empty"
    and "distinct (map platform_key ms)"
  shows "map_values (sharded_Get (bm_platformBuffer (AddPlatformMetrics ms bm))) = mset ms"
proof -
  have "sharded_Get (bm_platformBuffer (AddPlatformMetrics ms bm)) =
      map_of (map (\<lambda>m. (platform_key m, m)) ms)"
    by (rule ext) (simp add: AddPlatformMetrics_Get [OF assms(1)] assms(2) merged_distinct [OF assms(3)])
  moreover have "distinct (map fst (map (\<lambda>m. (platform_key m, m)) ms))"
    using assms(3) by (simp add: comp_def)
  ultimately show ?thesis
    using map_values_map_of [of "map (\<lambda>m. (platform_key m, m)) ms"] by (simp only:) (simp add: comp_def)
qed

text \<open>An add of nothing changes no buffer.\<close>

lemma add_no_metrics [simp]: "bm_platformBuffer (AddPlatformMetrics [] bm) = bm_platformBuffer bm"
  by (simp add: add_defs split_beta Let_def)

lemma add_same_writer [simp]:
  "bm_writerConfig (AddPlatformMetrics ps bm) = bm_writerConfig bm"
  "bm_writerConfig (AddInterfaceMetrics is bm) = bm_writerConfig bm"
  "bm_writerConfig (AddSubinterfaceMetrics ss bm) = bm_writerConfig bm"
  "bm_writerConfig (AddAlarmReportMetrics as bm) = bm_writerConfig bm"
  "bm_writerConfig (AddNotificationReportMetrics ns bm) = bm_writerConfig bm"
  using add_setup by (simp_all add: same_setup_def)

lemma add_result_platform:
  "bm_platformBuffer (add_result r bm) = bm_platformBuffer (AddPlatformMetrics (pr_PlatformMetrics r) bm)"
  "bm_platformWriteChan (add_result r bm) = bm_platformWriteChan bm"
  "bm_writerConfig (add_result r bm) = bm_writerConfig bm"
  by (simp_all add: add_result_def Let_def)

lemma database_writer:
  assumes "pgx_contract pool tables" and "timer_ok timer tables" and "\<And>w. \<not> fst (timer w)"
  shows "prompt_writer (dbi_Platform (database_interface pool pf timer)) platform_row
           (\<lambda>w. tables w platform_table)"
  unfolding database_interface_def DatabaseInterface.simps
  by (rule raced_prompt_writer [OF insert_tables(1) [OF assms(1)] assms(2,3)])

text \<open>One message: in a process that has just started, a message that decodes to platform
  metrics of distinct keys is accepted, and when the buffer is then flushed without error into a
  database that answers in time, the table and the write queue together have gained exactly one row
  for each metric the parser made, and nothing else.\<close>

lemma message_stored:
  assumes "main_start yaml lib env w0 = (Ret (Inr p), w)"
    and "0 < wr_MaxBatchSize (cfg_DatabaseWriter (proc_config p))"
    and "pgx_contract (proc_pool p) tables" and "timer_ok timer tables" and "\<forall>w. \<not> fst (timer w)"
    and "orders_ok ro"
    and "GetData req \<noteq> []" and "ParseTelemetryData d (GetData req) = Inr result"
    and "distinct (map platform_key (pr_PlatformMetrics result))"
    and "processPublishArgs d req (proc_collector p) = (err, c)"
    and "FlushPlatformMetrics (database_interface (proc_pool p) pf timer) ro (col_bufferManager c) w =
         Some (Ret (None, bm, w'))"
  shows "err = None \<and>
         tables w' platform_table + mset (map platform_row (concat (bm_platformWriteChan bm))) =
         tables w platform_table + mset (map platform_row (pr_PlatformMetrics result))"
proof -
  let ?bm = "col_bufferManager (proc_collector p)"
  have fresh: "?bm = NewFixedBufferManager (cfg_Buffer (proc_config p)) (cfg_DatabaseWriter (proc_config p))"
    by (rule main_start_manager(2) [OF assms(1)])
  have inv: "bm_inv ?bm" and get: "sharded_Get (bm_platformBuffer ?bm) = Map.empty"
    and ch: "bm_platformWriteChan ?bm = []" and size: "0 < wr_MaxBatchSize (bm_writerConfig ?bm)"
    using assms(2)
    by (simp_all add: fresh bm_inv_new)
      (simp_all add: NewFixedBufferManager_def startParallelWriters_def startFlushTimer_def typed_maps
        fun_eq_iff sharded.look_new)
  have c: "col_bufferManager c = add_result result ?bm" and err: "err = None"
    using assms(7,8,10) by (auto simp: processPublishArgs_def Let_def)
  have vals: "map_values (sharded_Get (bm_platformBuffer (col_bufferManager c))) =
      mset (pr_PlatformMetrics result)"
    unfolding c add_result_platform by (rule add_distinct_values [OF inv get assms(9)])
  have "bm_inv (col_bufferManager c)" using add_result_inv [OF inv] by (simp add: c)
  then show ?thesis
    using FlushPlatformMetrics_exact [OF _ assms(6) _ database_writer assms(11)] assms(3-5) size
    by (simp add: vals err) (simp add: c add_result_platform ch)
qed

section \<open>The whole system\<close>

text \<open>C2. In every state that a new collector and its manager can reach, whatever streams, flushes, ticks, writes
  and stops interleave, the books of all five kinds balance: each received metric is in exactly one
  group of its key, and each group is one row of the table, one queued metric, one lost batch entry or
  one buffered entry, which is the merge of the group in order.  This supposes a positive batch size and
  that no insert times out: an insert that is completed after its timeout is tried again and leaves
  several rows for one group.  If, moreover, the database accepts every batch and a write is attempted
  at least once, nothing is lost.\<close>

theorem books_balance:
  assumes "pgx_contract pool tables" and "timer_ok timer tables" and "\<forall>w. \<not> fst (timer w)"
    and "0 < wr_MaxBatchSize wcfg"
    and "sys_run d (database_interface pool pf timer)
           (idle_service (NewSimpleCollector (NewFixedBufferManager cfg wcfg) scfg), w) (s, w')"
  shows "(\<exists>T Q L P. ledger platform_key mergePlatformMetric platform_row (tables w platform_table)
            (received pr_PlatformMetrics d s) (platform_store tables (manager_of s, w')) T Q L P \<and>
            (pool_accepts pool \<and> 0 < wr_RetryAttempts wcfg \<longrightarrow> L = {#})) \<and>
         (\<exists>T Q L P. ledger interface_key mergeInterfaceMetric (interface_row pf) (tables w interface_table)
            (received pr_InterfaceMetrics d s) (interface_store tables (manager_of s, w')) T Q L P \<and>
            (pool_accepts pool \<and> 0 < wr_RetryAttempts wcfg \<longrightarrow> L = {#})) \<and>
         (\<exists>T Q L P. ledger subinterface_key mergeSubinterfaceMetric (subinterface_row pf) (tables w subinterface_table)
            (received pr_SubinterfaceMetrics d s) (subinterface_store tables (manager_of s, w')) T Q L P \<and>
            (pool_accepts pool \<and> 0 < wr_RetryAttempts wcfg \<longrightarrow> L = {#})) \<and>
         (\<exists>T Q L P. ledger alarm_key replace alarmReport_row (tables w alarmReport_table)
            (received pr_AlarmReportMetrics d s) (alarmReport_store tables (manager_of s, w')) T Q L P \<and>
            (pool_accepts pool \<and> 0 < wr_RetryAttempts wcfg \<longrightarrow> L = {#})) \<and>
         (\<exists>T Q L P. ledger notification_key replace notificationReport_row (tables w notificationReport_table)
            (received pr_NotificationReportMetrics d s) (notificationReport_store tables (manager_of s, w')) T Q L P \<and>
            (pool_accepts pool \<and> 0 < wr_RetryAttempts wcfg \<longrightarrow> L = {#}))"
proof -
  note db = database_tables_ok [OF assms(1,2) spec [OF assms(3)], of pf]
  note own = database_writers [OF assms(1,2) spec [OF assms(3)], of pf]
  let ?c = "NewSimpleCollector (NewFixedBufferManager cfg wcfg) scfg"
  have m: "col_bufferManager ?c = NewFixedBufferManager cfg wcfg" by (simp add: NewSimpleCollector_def)
  have w: "bm_writerConfig (col_bufferManager ?c) = wcfg"
    by (simp add: m) (simp add: NewFixedBufferManager_def startParallelWriters_def startFlushTimer_def)
  have ok: "running_ok (col_bufferManager ?c)" using running_ok_new [OF assms(4)] by (simp add: m)
  have acc: "accepting (database_interface pool pf timer)" if "pool_accepts pool"
    by (rule accepting_database [OF that spec [OF assms(3)]])
  show ?thesis
    using platform_received.system_books [OF db own(1) assms(5) ok, unfolded m, OF new_stores(1)]
      interface_received.system_books [OF db own(2) assms(5) ok, unfolded m, OF new_stores(2)]
      subinterface_received.system_books [OF db own(3) assms(5) ok, unfolded m, OF new_stores(3)]
      alarmReport_received.system_books [OF db own(4) assms(5) ok, unfolded m, OF new_stores(4)]
      notificationReport_received.system_books [OF db own(5) assms(5) ok, unfolded m, OF new_stores(5)]
      acc w unfolding m accepting_def by (intro conjI) metis+
qed

lemma results_running:
  "bm_flushTimer (fold add_result rs bm) = bm_flushTimer bm" "bm_writers (fold add_result rs bm) = bm_writers bm"
proof -
  show "bm_flushTimer (fold add_result rs bm) = bm_flushTimer bm" by simp
  show "bm_writers (fold add_result rs bm) = bm_writers bm"
    using fold_results_setup [of bm rs] by (simp add: same_setup_def)
qed

text \<open>A process with the parser and the decoders of the demonstration, and a request it has served.\<close>

lemma demo_received:
  assumes "col_connections c = []"
  shows "\<exists>s m. sys_run (demo_decoders (demo_message demo_path)) db (idle_service c, w) (s, w) \<and>
           received pr_PlatformMetrics (demo_decoders (demo_message demo_path)) s = [m] \<and>
           (\<exists>rs. manager_of s = fold add_result rs (col_bufferManager c))"
proof -
  let ?d = "demo_decoders (demo_message demo_path)"
  obtain r where r: "ParseTelemetryData ?d (GetData demo_request) = Inr r"
    and ms: "pr_PlatformMetrics r = components_entry (demo_message demo_path) demo_component"
    using demo_parse by (simp add: demo_path_def)
  obtain m where m: "pr_PlatformMetrics r = [m]" unfolding ms by (simp add: components_entry_def Let_def)
  obtain s where "sys_run ?d db (idle_service c, w) (s, w)" and l: "svc_log s = [Request demo_request zero_time None]"
    and "manager_of s = fold add_result (parsed ?d (Request demo_request zero_time None)) (col_bufferManager c)"
    using request_run [OF assms, of ?d db w demo_request zero_time] by blast
  moreover have "GetData demo_request \<noteq> []" by (simp add: GetData_def demo_request_def)
  then have "received pr_PlatformMetrics ?d s = [m]"
    by (simp add: received_def l parsed_log_def parsed_def r m)
  ultimately show ?thesis by blast
qed

theorem books_balance_witness:
  "\<exists>s m T Q P. received pr_PlatformMetrics (demo_decoders (demo_message demo_path)) s = [m] \<and>
     ledger platform_key mergePlatformMetric platform_row {#} [m]
       (platform_store (\<lambda>w. w) (manager_of s, \<lambda>_. {#})) T Q {#} P"
proof -
  let ?d = "demo_decoders (demo_message demo_path)"
  let ?db = "database_interface memory_pool (\<lambda>_. None) no_timeout"
  obtain s m where run: "sys_run ?d ?db (idle_service (NewSimpleCollector (NewFixedBufferManager
        (cfg_Buffer default_config) (cfg_DatabaseWriter default_config)) (cfg_Server default_config)), \<lambda>_. {#}) (s, \<lambda>_. {#})"
    and m: "received pr_PlatformMetrics ?d s = [m]"
    using demo_received [OF new_collector(2), where db = ?db and w = "\<lambda>_. {#}"] by blast
  have never: "\<forall>w :: string list \<Rightarrow> cell list multiset. \<not> fst (no_timeout w)" by (simp add: no_timeout_def)
  have size: "0 < wr_MaxBatchSize (cfg_DatabaseWriter default_config)" by simp
  show ?thesis
    using conjunct1 [OF books_balance [OF memory_pool_ok(1) no_timeout_ok never size run]] m memory_pool_ok(2)
    by (metis fresh_simps(7) zero_less_numeral)
qed

text \<open>C1. From the wire to the tables: a process that has started and serves any number of streams, while its
  timer and writers run, can from every state it reaches bring in all it has received: without further
  requests it comes to a state in which each received metric of each kind is in exactly one row of the
  table of its kind, the row of the merge of all metrics of its group, which have its key; and platform
  metrics of distinct keys have one row each.  The conditions: the configured batch size and number of
  attempts are positive, the timer of the manager and at least one writer of each kind still run, and
  the database accepts every batch and no insert times out.  A database that refuses batches or is too
  slow loses or doubles metrics.\<close>

theorem end_to_end:
  assumes "main_start yaml lib env w0 = (Ret (Inr p), w)"
    and "0 < wr_MaxBatchSize (cfg_DatabaseWriter (proc_config p))"
    and "0 < wr_RetryAttempts (cfg_DatabaseWriter (proc_config p))"
    and "pgx_contract (proc_pool p) tables" and "pool_accepts (proc_pool p)"
    and "timer_ok timer tables" and "\<forall>w. \<not> fst (timer w)"
    and "sys_run d (database_interface (proc_pool p) pf timer) (idle_service (proc_collector p), w) (s, w1)"
    and "bm_flushTimer (manager_of s)" and "\<forall>k. 0 < bm_writers (manager_of s) k"
  shows "\<exists>s' w2. sys_run d (database_interface (proc_pool p) pf timer) (s, w1) (s', w2) \<and> svc_log s' = svc_log s \<and>
    stored_once platform_key mergePlatformMetric platform_row (tables w platform_table)
      (received pr_PlatformMetrics d s) (tables w2 platform_table) \<and>
    stored_once interface_key mergeInterfaceMetric (interface_row pf) (tables w interface_table)
      (received pr_InterfaceMetrics d s) (tables w2 interface_table) \<and>
    stored_once subinterface_key mergeSubinterfaceMetric (subinterface_row pf) (tables w subinterface_table)
      (received pr_SubinterfaceMetrics d s) (tables w2 subinterface_table) \<and>
    stored_once alarm_key replace alarmReport_row (tables w alarmReport_table)
      (received pr_AlarmReportMetrics d s) (tables w2 alarmReport_table) \<and>
    stored_once notification_key replace notificationReport_row (tables w notificationReport_table)
      (received pr_NotificationReportMetrics d s) (tables w2 notificationReport_table) \<and>
    (distinct (map platform_key (received pr_PlatformMetrics d s)) \<longrightarrow>
       tables w2 platform_table =
         tables w platform_table + mset (map platform_row (received pr_PlatformMetrics d s)))"
proof -
  let ?c = "proc_collector p"
  note new = main_start_manager(2) [OF assms(1)]
  have ok: "running_ok (col_bufferManager ?c)" using running_ok_new [OF assms(2)] by (simp add: new)
  have pos: "0 < wr_RetryAttempts (bm_writerConfig (col_bufferManager ?c))"
    using assms(3) by (simp add: new) (simp add: NewFixedBufferManager_def startParallelWriters_def startFlushTimer_def)
  obtain bm' w2 where more: "sys_run d (database_interface (proc_pool p) pf timer) (s, w1) (with_manager bm' s, w2)"
    and "running_ok bm'" and "holds_nothing bm'"
    using brings_in [OF assms(8) ok pos assms(4-7,9,10)] by blast
  then have ends: "running_ok (manager_of (with_manager bm' s))" "holds_nothing (manager_of (with_manager bm' s))"
    by simp_all
  note stored = all_in_tables [OF rtranclp_trans [OF assms(8) more] new ok pos assms(4-7) ends, unfolded received_with_manager]
  show ?thesis
    using stored_once_distinct [OF stored(1)]
    by (intro exI [of _ "with_manager bm' s"] exI [of _ w2] conjI more stored impI) simp_all
qed

theorem end_to_end_witness:
  "\<exists>p s w2. main_start demo_yaml (demo_lib memory_pool) demo_env (\<lambda>_. {#}) = (Ret (Inr p), \<lambda>_. {#}) \<and>
     sys_run (demo_decoders (demo_message demo_path)) (database_interface memory_pool (\<lambda>_. None) no_timeout)
       (idle_service (proc_collector p), \<lambda>_. {#}) (s, w2) \<and>
     size (w2 platform_table) = 1"
proof -
  let ?d = "demo_decoders (demo_message demo_path)"
  let ?db = "database_interface memory_pool (\<lambda>_. None) no_timeout"
  obtain p where p: "main_start demo_yaml (demo_lib memory_pool) demo_env (\<lambda>_. {#}) = (Ret (Inr p), \<lambda>_. {#})"
    and pool: "proc_pool p = memory_pool" and cfg: "proc_config p = default_config"
    using demo_start [where pool = memory_pool and w = "\<lambda>_. {#}"] by blast
  have fresh: "col_bufferManager (proc_collector p) = fresh_manager"
    using main_start_manager(2) [OF p] cfg by (simp add: fresh_manager_def)
  obtain s m rs where run: "sys_run ?d ?db (idle_service (proc_collector p), \<lambda>_. {#}) (s, \<lambda>_. {#})"
    and m: "received pr_PlatformMetrics ?d s = [m]" and bm: "manager_of s = fold add_result rs fresh_manager"
    using demo_received [OF main_start_connections [OF p], of ?db "\<lambda>_. {#}"] fresh by auto
  have alive: "bm_flushTimer (manager_of s)" "\<forall>k. 0 < bm_writers (manager_of s) k"
    using fresh_runs(2,3) results_running [of rs fresh_manager] by (simp_all add: bm)
  have n: "0 < wr_MaxBatchSize (cfg_DatabaseWriter (proc_config p))"
    "0 < wr_RetryAttempts (cfg_DatabaseWriter (proc_config p))" by (simp_all add: cfg)
  have never: "\<forall>w :: string list \<Rightarrow> cell list multiset. \<not> fst (no_timeout w)" by (simp add: no_timeout_def)
  obtain s' w2 where more: "sys_run ?d ?db (s, \<lambda>_. {#}) (s', w2)"
    and row: "w2 platform_table = {#} + mset (map platform_row [m])"
    using end_to_end [OF p n, of "\<lambda>w. w", unfolded pool, OF memory_pool_ok no_timeout_ok never run alive] m by auto
  show ?thesis
    using p rtranclp_trans [OF run more] row by (intro exI conjI) auto
qed

section \<open>Flushing with a bad batch size\<close>

text \<open>C23. The batch size is not checked: with a negative one a flush of a buffer that holds a metric crashes
  on a slice out of range, and with size zero it never returns, because the insert of an empty batch
  succeeds and the loop does not advance.  Here a write is attempted at least once and does not time out.\<close>

theorem flush_bad_size:
  assumes "bm_inv bm" and "orders_ok ro" and "0 < ShardedPlatformMap_Len (bm_platformBuffer bm)"
    and "0 < wr_RetryAttempts (bm_writerConfig bm)" and "\<forall>w. \<not> fst (timer w)"
  shows "(wr_MaxBatchSize (bm_writerConfig bm) < 0 \<longrightarrow> FlushPlatformMetrics db ro bm w = Some Panic) \<and>
         (wr_MaxBatchSize (bm_writerConfig bm) = 0 \<longrightarrow>
            FlushPlatformMetrics (database_interface pool pf timer) ro bm w = None)"
proof (intro conjI impI)
  show "FlushPlatformMetrics db ro bm w = Some Panic" if "wr_MaxBatchSize (bm_writerConfig bm) < 0"
    by (rule flush_negative_size [OF assms(1,2) that assms(3)])
  assume zero: "wr_MaxBatchSize (bm_writerConfig bm) = 0"
  let ?ins = "\<lambda>b. race timer (BatchInsertPlatformMetrics pool b)"
  let ?ms = "fst (sharded_SwapAll (ro_Platform ro) (bm_platformBuffer bm))"
  have "fst (?ins [] w) = Returned None" for w
    using assms(5) by (simp add: race_def insert_defs split_beta Let_def)
  moreover have ms: "?ms \<noteq> []"
    using sharded.drain_len [of "bm_platformBuffer bm" "ro_Platform ro"] assms(1-3)
    by (auto simp: typed_maps bm_inv_def orders_ok_def)
  ultimately have "flush_loop (bm_writerConfig bm) ?ins ?ms 0 ch w = None" for ch w
    by (intro flush_loop_zero [OF zero assms(4)]) simp_all
  then show "FlushPlatformMetrics (database_interface pool pf timer) ro bm w = None"
    using ms by (simp add: FlushPlatformMetrics_def flush_metrics_def database_interface_def typed_maps
        split_beta Let_def)
qed

text \<open>The loaded manager with another batch size.\<close>

definition resized_manager :: "int \<Rightarrow> FixedBufferManager" where
  "resized_manager n =
     loaded_manager\<lparr>bm_writerConfig := (cfg_DatabaseWriter default_config)\<lparr>wr_MaxBatchSize := n\<rparr>\<rparr>"

theorem flush_bad_size_witness:
  "FlushPlatformMetrics memory_db plain_orders (resized_manager (- 1)) {#} = Some Panic \<and>
   FlushPlatformMetrics (database_interface script_pool (\<lambda>_. None) no_timeout) plain_orders
     (resized_manager 0) empty_tables = None"
proof -
  have inv: "bm_inv (resized_manager n)" for n
    using loaded_inv by (simp add: resized_manager_def bm_inv_def)
  have len: "0 < ShardedPlatformMap_Len (bm_platformBuffer (resized_manager n))" for n
    by (simp add: resized_manager_def loaded_Len)
  have cfg: "wr_MaxBatchSize (bm_writerConfig (resized_manager n)) = n"
    "wr_RetryAttempts (bm_writerConfig (resized_manager n)) = 3" for n
    by (simp_all add: resized_manager_def)
  show ?thesis
    using flush_bad_size [OF inv orders_ok_plain len, of "- 1" no_timeout memory_db "{#}"]
      flush_bad_size [OF inv orders_ok_plain len, of 0 no_timeout undefined empty_tables script_pool "\<lambda>_. None"]
    by (simp add: cfg no_timeout_def)
qed

section \<open>Stopping\<close>

text \<open>C24. What open streams deliver while the server shuts down is lost when it comes after the flush timer and the
  flushes under way have ended and leaves every kind below the flush threshold.  The buffer manager is
  stopped before the server waits for its streams; from then until the process exits, whatever streams, writers
  and goroutines do in whatever order, and whether or not inserts succeed or time out, the late metrics of
  all five kinds stay in the buffers: nothing is queued, no table gets a row that is not of a batch queued before, and the
  second stop, by the main function, reports no error.\<close>

theorem shutdown_loses_late:
  assumes "main_run d (database_interface pool pf timer) (Awaiting, s0, w0) (Draining, s, w)"
    and "main_run d (database_interface pool pf timer) (Draining, s, w) (Exited err, s', w')"
    and "running_ok (manager_of s0)" and "\<not> bm_flushTimer (manager_of s)" and "bm_spawned (manager_of s) = []"
    and "pgx_contract pool tables" and "timer_ok timer tables"
    and "svc_log s' = svc_log s @ es"
    and "\<forall>k. int (kind_len k (manager_of s) + late_count (parsed_log d es) k) <
           buf_FlushThreshold (bm_config (manager_of s))"
  shows "err = None \<and>
    left_behind platform_key mergePlatformMetric platform_row (concat (map pr_PlatformMetrics (parsed_log d es)))
      (platform_store tables (manager_of s, w)) (platform_store tables (manager_of s', w')) \<and>
    left_behind interface_key mergeInterfaceMetric (interface_row pf) (concat (map pr_InterfaceMetrics (parsed_log d es)))
      (interface_store tables (manager_of s, w)) (interface_store tables (manager_of s', w')) \<and>
    left_behind subinterface_key mergeSubinterfaceMetric (subinterface_row pf)
      (concat (map pr_SubinterfaceMetrics (parsed_log d es)))
      (subinterface_store tables (manager_of s, w)) (subinterface_store tables (manager_of s', w')) \<and>
    left_behind alarm_key replace alarmReport_row (concat (map pr_AlarmReportMetrics (parsed_log d es)))
      (alarmReport_store tables (manager_of s, w)) (alarmReport_store tables (manager_of s', w')) \<and>
    left_behind notification_key replace notificationReport_row
      (concat (map pr_NotificationReportMetrics (parsed_log d es)))
      (notificationReport_store tables (manager_of s, w)) (notificationReport_store tables (manager_of s', w'))"
proof -
  have stopped: "bm_stopped (manager_of s)" using main_run_stopped [OF assms(1)] by simp
  then have "err = None" using main_run_stopped [OF assms(2)] by simp
  have "quiet (manager_of s)" using stopped assms(4,5) by (simp add: quiet_def)
  then obtain es' where "svc_log s' = svc_log s @ es'" and late: "below (manager_of s) (parsed_log d es') \<longrightarrow>
      late_state pf tables (manager_of s, w) (parsed_log d es') (manager_of s', w')"
    using run_late_state [OF assms(2) _ main_run_running [OF assms(1,3)] _ _ assms(6,7)] by auto
  then have "late_state pf tables (manager_of s, w) (parsed_log d es) (manager_of s', w')"
    using assms(8,9) by (simp add: below_def)
  then show ?thesis using \<open>err = None\<close> by (intro conjI late_state_left_behind)
qed

text \<open>A router that connects to a fresh process, reports one component after the signal and hangs up.\<close>

lemma demo_shutdown:
  fixes w :: 'w
  defines "d \<equiv> demo_decoders (demo_message demo_path)" and "c \<equiv> NewSimpleCollector fresh_manager (cfg_Server default_config)"
  assumes "e = Request demo_request zero_time None" and "h = RecvError ''EOF''"
  shows "\<exists>s s'. main_run d db (Awaiting, idle_service c, w) (Draining, s, w) \<and>
    main_run d db (Draining, s, w) (Exited None, s', w) \<and> quiet (manager_of s) \<and>
    (\<forall>k. kind_len k (manager_of s) = 0) \<and> bm_platformWriteChan (manager_of s) = [] \<and>
    bm_config (manager_of s) = cfg_Buffer default_config \<and> svc_log s = [] \<and> svc_log s' = [e, h]"
proof -
  obtain k c1 where conn: "svc_step d (idle_service c)
        \<lparr>svc_collector = c1, svc_open = [k \<mapsto> new_session], svc_ended = [], svc_log = []\<rparr>" (is "svc_step d _ ?s1")
    and "col_bufferManager c1 = col_bufferManager c" and up: "\<not> col_shutdown c1"
    using svc_connect [of c d] by (auto simp: c_def NewSimpleCollector_def)
  then have m: "manager_of ?s1 = fresh_manager" by (simp add: manager_of_def c_def NewSimpleCollector_def)
  have none: "kind_len j fresh_manager = 0" for j by (simp add: fresh_manager_def new_manager_empty)
  have "running_ok (manager_of ?s1)" "bm_spawned (manager_of ?s1) = []"
    by (simp_all add: m fresh_runs) (simp add: fresh_manager_def NewFixedBufferManager_def startParallelWriters_def
        startFlushTimer_def)
  then obtain s where drain: "main_run d db (Awaiting, ?s1, w) (Draining, s, w)" and opn: "svc_open s = [k \<mapsto> new_session]"
    and log: "svc_log s = []" and q: "quiet (manager_of s)" and facts: "\<forall>k. kind_len k (manager_of s) = 0"
      "bm_platformWriteChan (manager_of s) = []" "bm_config (manager_of s) = cfg_Buffer default_config"
    using shutdown_of_nothing [of ?s1 d db w] none up by (auto simp: m)
  obtain s2 ses where late: "svc_step d s s2" "svc_open s2 = [k \<mapsto> ses]" "svc_log s2 = [e]"
    using svc_request [OF opn, of d demo_request zero_time] log assms(3) by auto
  obtain s3 where hang: "svc_step d s2 s3" "svc_open s3 = Map.empty" "svc_log s3 = [e, h]"
    using svc_hang_up [OF late(2), of d "''EOF''"] late(3) assms(4) by auto
  have "bm_stopped (manager_of s3)"
    using q svc_step_stopped [OF late(1)] svc_step_stopped [OF hang(1)] by (simp add: quiet_def)
  note halt = main_halt [OF hang(2) this, of d db w]
  have "main_step d db (Draining, s, w) (Draining, s2, w)" by (rule main_late [OF late(1)]) (simp add: late(2) opn)
  moreover have "main_step d db (Draining, s2, w) (Draining, s3, w)" by (rule main_late [OF hang(1)]) (simp add: hang(2))
  ultimately have "main_run d db (Draining, s, w) (Exited None, s3, w)"
    using halt converse_rtranclp_into_rtranclp [where r = "main_step d db"] by metis
  moreover have "main_run d db (Awaiting, idle_service c, w) (Draining, s, w)"
    by (rule converse_rtranclp_into_rtranclp [where r = "main_step d db", OF main_served [OF conn] drain])
  ultimately show ?thesis using q facts log hang(3) by blast
qed

theorem shutdown_loses_late_witness:
  "\<exists>s s' m. main_run (demo_decoders (demo_message demo_path)) (database_interface memory_pool (\<lambda>_. None) no_timeout)
       (Awaiting, idle_service (NewSimpleCollector fresh_manager (cfg_Server default_config)), \<lambda>_. {#}) (s, s', \<lambda>_. {#}) \<and>
     s = Exited None \<and> received pr_PlatformMetrics (demo_decoders (demo_message demo_path)) s' = [m] \<and>
     sharded_Get (bm_platformBuffer (manager_of s')) (platform_key m) = Some m"
proof -
  let ?d = "demo_decoders (demo_message demo_path)"
  let ?db = "database_interface memory_pool (\<lambda>_. None) no_timeout"
  let ?c = "NewSimpleCollector fresh_manager (cfg_Server default_config)"
  let ?es = "[Request demo_request zero_time None, RecvError ''EOF'']"
  let ?w = "\<lambda>_. {#} :: cell list multiset"
  obtain s s' where one: "main_run ?d ?db (Awaiting, idle_service ?c, ?w) (Draining, s, ?w)"
    and two: "main_run ?d ?db (Draining, s, ?w) (Exited None, s', ?w)" and q: "quiet (manager_of s)"
    and facts: "\<forall>k. kind_len k (manager_of s) = 0" "bm_config (manager_of s) = cfg_Buffer default_config"
      "svc_log s = []" "svc_log s' = ?es"
    using demo_shutdown [OF HOL.refl HOL.refl, of ?db ?w] by blast
  obtain r where r: "ParseTelemetryData ?d (GetData demo_request) = Inr r"
    and ms: "pr_PlatformMetrics r = components_entry (demo_message demo_path) demo_component"
    and rest: "pr_InterfaceMetrics r = []" "pr_SubinterfaceMetrics r = []" "pr_AlarmReportMetrics r = []"
      "pr_NotificationReportMetrics r = []"
    using demo_parse by (simp add: demo_path_def)
  obtain m where m: "pr_PlatformMetrics r = [m]" unfolding ms by (simp add: components_entry_def Let_def)
  have "GetData demo_request \<noteq> []" by (simp add: GetData_def demo_request_def)
  then have log: "parsed_log ?d ?es = [r]" by (simp add: parsed_log_def parsed_def r)
  have below: "\<forall>k. int (kind_len k (manager_of s) + late_count (parsed_log ?d ?es) k) <
      buf_FlushThreshold (bm_config (manager_of s))"
    unfolding log facts
    by (auto simp: facts late_count_def result_count_def m rest default_config_def split: kind.split)
  have ok: "running_ok (manager_of (idle_service ?c))"
    by (simp add: manager_of_def idle_service_def NewSimpleCollector_def fresh_runs)
  have run: "\<not> bm_flushTimer (manager_of s)" "bm_spawned (manager_of s) = []" "svc_log s' = svc_log s @ ?es"
    using q facts by (simp_all add: quiet_def)
  have "left_behind platform_key mergePlatformMetric platform_row [m] (platform_store (\<lambda>w. w) (manager_of s, ?w))
      (platform_store (\<lambda>w. w) (manager_of s', ?w))"
    using shutdown_loses_late [OF one two ok run(1,2) memory_pool_ok(1) no_timeout_ok run(3) below] by (simp add: log m)
  moreover have "sharded_Get (bm_platformBuffer (manager_of s)) (platform_key m) = None"
    using spec [OF facts(1), of KPlatform] no_entries [OF platform_stored.inv [OF main_run_running [OF one ok]]]
    by (simp add: kind_len_def typed_maps)
  ultimately have "sharded_Get (bm_platformBuffer (manager_of s')) (platform_key m) = Some m"
    by (simp add: left_behind_def kind_store_def)
  moreover have "received pr_PlatformMetrics ?d s' = [m]" by (simp add: received_def facts log m)
  ultimately show ?thesis using rtranclp_trans [where r = "main_step ?d ?db", OF one two] by blast
qed

end
